(* ===== verification/Prelude.thy ===== *)
theory Prelude
  imports Main "HOL-Library.Char_ord" "HOL-Library.List_Lexorder"
begin

text \<open>
  Shared vocabulary of the development: Go strings and the few functions of Go's
  standard library the operator calls on them, generic facts on lists, and the
  collections the component theories register their simplification rules in.

  A Go string is a sequence of bytes, so it is Isabelle's \<open>string\<close> (a list of
  8-bit characters) and \<open><\<close> on it is Go's bytewise comparison (theories
  \<open>Char_ord\<close> and \<open>List_Lexorder\<close>).
\<close>

named_theorems resolve_simps "defaulting rules: the value of each field of the resolved intent"
named_theorems builder_defs "definitions of the container builders"
named_theorems manifest_defs "definitions of the object builders"

subsection \<open>Conversions of \<open>fmt\<close> and \<open>strconv\<close>\<close>

fun nat_digits :: "nat \<Rightarrow> string" where
  "nat_digits n =
     (if n < 10 then [char_of (48 + n)]
      else nat_digits (n div 10) @ [char_of (48 + n mod 10)])"

declare nat_digits.simps [simp del]

lemma digit_chars [simp]:
  "char_of (48 :: nat) = CHR ''0''" "char_of (49 :: nat) = CHR ''1''" "char_of (50 :: nat) = CHR ''2''"
  "char_of (51 :: nat) = CHR ''3''" "char_of (52 :: nat) = CHR ''4''" "char_of (53 :: nat) = CHR ''5''"
  "char_of (54 :: nat) = CHR ''6''" "char_of (55 :: nat) = CHR ''7''" "char_of (56 :: nat) = CHR ''8''"
  "char_of (57 :: nat) = CHR ''9''"
  using char_of_char [of "CHR ''0''", where 'a = nat] char_of_char [of "CHR ''1''", where 'a = nat]
    char_of_char [of "CHR ''2''", where 'a = nat] char_of_char [of "CHR ''3''", where 'a = nat]
    char_of_char [of "CHR ''4''", where 'a = nat] char_of_char [of "CHR ''5''", where 'a = nat]
    char_of_char [of "CHR ''6''", where 'a = nat] char_of_char [of "CHR ''7''", where 'a = nat]
    char_of_char [of "CHR ''8''", where 'a = nat] char_of_char [of "CHR ''9''", where 'a = nat]
  by simp_all

definition fmt_d :: "int \<Rightarrow> string" where
  "fmt_d i = (if i < 0 then CHR ''-'' # nat_digits (nat (- i)) else nat_digits (nat i))"

definition FormatBool :: "bool \<Rightarrow> string" where
  "FormatBool b = (if b then ''true'' else ''false'')"

text \<open>
  Reading a decimal back gives the number, so two different numbers never have the
  same text.
\<close>

definition digits_val :: "string \<Rightarrow> nat" where
  "digits_val s = foldl (\<lambda>n c. 10 * n + (of_char c - 48)) 0 s"

lemma digit_char_val: "k < 10 \<Longrightarrow> of_char (char_of (48 + k) :: char) = 48 + (k :: nat)"
  by (simp add: of_char_of take_bit_nat_def)

lemma digits_val_nat_digits [simp]: "digits_val (nat_digits n) = n"
proof (induction n rule: nat_digits.induct)
  case (1 n)
  show ?case
  proof (cases "n < 10")
    case True
    then show ?thesis
      by (simp add: nat_digits.simps [of n] digits_val_def digit_char_val)
  next
    case False
    have "digits_val (nat_digits n)
        = 10 * digits_val (nat_digits (n div 10)) + (of_char (char_of (48 + n mod 10) :: char) - 48)"
      using False by (simp add: nat_digits.simps [of n] digits_val_def)
    also have "\<dots> = 10 * (n div 10) + n mod 10"
      using 1 False digit_char_val [of "n mod 10"] by simp
    finally show ?thesis by simp
  qed
qed

lemma nat_digits_inject [simp]: "nat_digits m = nat_digits n \<longleftrightarrow> m = n"
  by (metis digits_val_nat_digits)

lemma nat_digits_set: "c \<in> set (nat_digits n) \<Longrightarrow> c \<in> {CHR ''0'' .. CHR ''9''}"
proof (induction n rule: nat_digits.induct)
  case (1 n)
  have digit: "char_of (48 + k) \<in> {CHR ''0'' .. CHR ''9''}" if "k < 10" for k :: nat
    using that digit_char_val [OF that] by (simp add: less_eq_char_def)
  show ?case
    using 1 digit [of n] digit [of "n mod 10"]
    by (cases "n < 10") (auto simp: nat_digits.simps [of n])
qed

lemma nat_digits_not_Nil [simp]: "nat_digits n \<noteq> []"
  by (subst nat_digits.simps) simp

lemma fmt_d_inject: "fmt_d i = fmt_d j \<longleftrightarrow> i = j"
proof -
  have minus: "nat_digits n \<noteq> CHR ''-'' # s" for n s
  proof
    assume "nat_digits n = CHR ''-'' # s"
    then have "CHR ''-'' \<in> {CHR ''0'' .. CHR ''9''}"
      by (intro nat_digits_set [of _ n]) simp
    then show False by (simp add: less_eq_char_def)
  qed
  show ?thesis
    using minus [of "nat i"] minus [of "nat j"] by (auto simp: fmt_d_def dest: sym)
qed

subsection \<open>Text with line breaks and quotes\<close>

text \<open>Go's raw string literals of several lines, one line per list element.\<close>

definition nl :: string where
  "nl = [CHR 0x0A]"

definition dq :: "string \<Rightarrow> string" where
  "dq s = [CHR 0x22] @ s @ [CHR 0x22]"

definition sq :: "string \<Rightarrow> string" where
  "sq s = [CHR 0x27] @ s @ [CHR 0x27]"

definition unlines :: "string list \<Rightarrow> string" where
  "unlines ls = concat (map (\<lambda>l. l @ nl) ls)"

subsection \<open>Functions of \<open>strings\<close>\<close>

text \<open>
  The bytes of \<open>strings.ToUpper\<close> and \<open>strings.ToLower\<close>: the ASCII letters change
  case. The operator uppercases plugin names, which the CRD restricts to
  \<open>[a-z0-9]+\<close>, and lowercases an error text only to search it for an ASCII word.
\<close>

definition upper_char :: "char \<Rightarrow> char" where
  "upper_char c = (if CHR ''a'' \<le> c \<and> c \<le> CHR ''z'' then char_of (of_char c - (32 :: nat)) else c)"

definition lower_char :: "char \<Rightarrow> char" where
  "lower_char c = (if CHR ''A'' \<le> c \<and> c \<le> CHR ''Z'' then char_of (of_char c + (32 :: nat)) else c)"

definition ToUpper :: "string \<Rightarrow> string" where
  "ToUpper s = map upper_char s"

definition ToLower :: "string \<Rightarrow> string" where
  "ToLower s = map lower_char s"

definition lower_alnum :: "char \<Rightarrow> bool" where
  "lower_alnum c \<longleftrightarrow> (CHR ''a'' \<le> c \<and> c \<le> CHR ''z'') \<or> (CHR ''0'' \<le> c \<and> c \<le> CHR ''9'')"

lemma lower_alnum_code:
  "lower_alnum c \<longleftrightarrow> (let n = of_char c :: nat in 97 \<le> n \<and> n \<le> 122 \<or> 48 \<le> n \<and> n \<le> 57)"
  by (simp add: lower_alnum_def less_eq_char_def Let_def)

lemma upper_char_inj: "inj_on upper_char {c. lower_alnum c}"
proof (rule inj_onI)
  fix c d
  assume "c \<in> {c. lower_alnum c}" "d \<in> {c. lower_alnum c}" and eq: "upper_char c = upper_char d"
  then have range: "lower_alnum c" "lower_alnum d" by simp_all
  have val: "of_char (upper_char e)
      = (if 97 \<le> (of_char e :: nat) \<and> (of_char e :: nat) \<le> 122 then of_char e - 32 else (of_char e :: nat))" for e
    by (auto simp: upper_char_def less_eq_char_def intro!: mod_less) 
  have "of_char (upper_char c) = (of_char (upper_char d) :: nat)" using eq by simp
  then have "of_char c = (of_char d :: nat)"
    using range by (auto simp: val lower_alnum_code Let_def eq_diff_iff split: if_splits)
  then show "c = d" by simp
qed

lemma ToUpper_inject:
  assumes "list_all lower_alnum s" "list_all lower_alnum t"
  shows "ToUpper s = ToUpper t \<longleftrightarrow> s = t"
  using assms inj_on_map_eq_map [OF inj_on_subset [OF upper_char_inj], of s t]
  by (auto simp: ToUpper_def list_all_iff)

fun HasPrefix :: "string \<Rightarrow> string \<Rightarrow> bool" where
  "HasPrefix s [] = True"
| "HasPrefix [] (c # cs) = False"
| "HasPrefix (b # bs) (c # cs) = (b = c \<and> HasPrefix bs cs)"

fun Contains :: "string \<Rightarrow> string \<Rightarrow> bool" where
  "Contains [] sub = (sub = [])"
| "Contains (c # cs) sub = (HasPrefix (c # cs) sub \<or> Contains cs sub)"

lemma HasPrefix_iff: "HasPrefix s p \<longleftrightarrow> (\<exists>t. s = p @ t)"
  by (induction s p rule: HasPrefix.induct) auto

lemma Contains_iff: "Contains s sub \<longleftrightarrow> (\<exists>a b. s = a @ sub @ b)"
proof (induction s)
  case Nil
  then show ?case by simp
next
  case (Cons c cs)
  show ?case
    by (simp add: Cons HasPrefix_iff) (metis append_Cons append_Nil list.exhaust list.inject)
qed

text \<open>
  \<open>strings.TrimSpace\<close> removes the white space \<open>unicode.IsSpace\<close> knows from both
  ends: the six ASCII characters, and the UTF-8 encodings of U+0085, U+00A0, U+1680,
  U+2000 to U+200A, U+2028, U+2029, U+202F, U+205F and U+3000.
\<close>

definition space_encodings :: "string list" where
  "space_encodings = map (map char_of)
     ([[9], [10], [11], [12], [13], [32], [194, 133], [194, 160], [225, 154, 128],
       [226, 128, 168], [226, 128, 169], [226, 128, 175], [226, 129, 159], [227, 128, 128]]
      @ map (\<lambda>k. [226, 128, k]) [128 ..< 139 :: nat])"

text \<open>The number of bytes of the white space character a string starts (ends) with.\<close>

definition space_width :: "string \<Rightarrow> nat" where
  "space_width s = (case find (HasPrefix s) space_encodings of None \<Rightarrow> 0 | Some e \<Rightarrow> length e)"

definition trailing_width :: "string \<Rightarrow> nat" where
  "trailing_width s =
     (case find (\<lambda>e. HasPrefix (rev s) (rev e)) space_encodings of None \<Rightarrow> 0 | Some e \<Rightarrow> length e)"

lemma HasPrefix_length: "HasPrefix s p \<Longrightarrow> length p \<le> length s"
  by (auto simp: HasPrefix_iff)

lemma space_width_le: "space_width s \<le> length s"
  by (auto simp: space_width_def find_Some_iff split: option.split dest: HasPrefix_length)

lemma trailing_width_le: "trailing_width s \<le> length s"
  by (auto simp: trailing_width_def find_Some_iff split: option.split dest!: HasPrefix_length)

function TrimLeftSpace :: "string \<Rightarrow> string" where
  "TrimLeftSpace s = (if space_width s = 0 then s else TrimLeftSpace (drop (space_width s) s))"
  by pat_completeness auto
termination
proof (relation "measure length")
  fix s
  assume "space_width s \<noteq> 0"
  then show "(drop (space_width s) s, s) \<in> measure length"
    using space_width_le [of s] by simp
qed simp

function TrimRightSpace :: "string \<Rightarrow> string" where
  "TrimRightSpace s =
     (if trailing_width s = 0 then s else TrimRightSpace (take (length s - trailing_width s) s))"
  by pat_completeness auto
termination
proof (relation "measure length")
  fix s
  assume "trailing_width s \<noteq> 0"
  then show "(take (length s - trailing_width s) s, s) \<in> measure length"
    using trailing_width_le [of s] by simp
qed simp

declare TrimLeftSpace.simps [simp del] TrimRightSpace.simps [simp del]

definition TrimSpace :: "string \<Rightarrow> string" where
  "TrimSpace s = TrimRightSpace (TrimLeftSpace s)"

definition printable_ascii :: "char \<Rightarrow> bool" where
  "printable_ascii c \<longleftrightarrow> (33 :: nat) \<le> of_char c \<and> of_char c \<le> (126 :: nat)"

lemma space_encodings_head:
  "list_all (\<lambda>e. e \<noteq> [] \<and> \<not> printable_ascii (hd e) \<and> \<not> printable_ascii (last e)) space_encodings"
  by (code_simp)

lemma space_width_printable:
  assumes "s \<noteq> []" "printable_ascii (hd s)"
  shows "space_width s = 0"
proof -
  have "\<not> HasPrefix s e" if "e \<in> set space_encodings" for e
  proof
    assume "HasPrefix s e"
    moreover have "e \<noteq> []" "\<not> printable_ascii (hd e)"
      using that space_encodings_head by (simp_all add: list_all_iff)
    ultimately show False using assms by (auto simp: HasPrefix_iff)
  qed
  then show ?thesis by (simp add: space_width_def find_None_iff [THEN iffD2])
qed

lemma trailing_width_printable:
  assumes "s \<noteq> []" "printable_ascii (last s)"
  shows "trailing_width s = 0"
proof -
  have "\<not> HasPrefix (rev s) (rev e)" if "e \<in> set space_encodings" for e
  proof
    assume "HasPrefix (rev s) (rev e)"
    moreover have "e \<noteq> []" "\<not> printable_ascii (last e)"
      using that space_encodings_head by (simp_all add: list_all_iff)
    ultimately show False
      using assms by (auto simp: HasPrefix_iff rev_swap last_append)
  qed
  then show ?thesis by (simp add: trailing_width_def find_None_iff [THEN iffD2])
qed

lemma TrimSpace_Nil [simp]: "TrimSpace [] = []"
  using space_width_le [of "[]"] trailing_width_le [of "[]"]
  by (simp add: TrimSpace_def TrimLeftSpace.simps [of "[]"] TrimRightSpace.simps [of "[]"])

lemma TrimSpace_printable:
  assumes "s \<noteq> []" "printable_ascii (hd s)" "printable_ascii (last s)"
  shows "TrimSpace s = s"
  using assms
  by (simp add: TrimSpace_def TrimLeftSpace.simps [of s] TrimRightSpace.simps [of s]
      space_width_printable trailing_width_printable)

end
