(* ===== verification/Kube_Types.thy ===== *)
theory Kube_Types
  imports Prelude
begin

text \<open>
  The Kubernetes API structures the operator builds and reads, with the fields its
  code sets or inspects and Go's zero values for the others. A Go map with string
  keys is an association list (lookup by \<open>map_of\<close>); a pointer that may be nil is an
  \<open>option\<close>; a \<open>resource.Quantity\<close> is its canonical text, which the operator only
  passes on, apart from the calls to \<open>IsZero\<close> and \<open>MustParse\<close>, which are parameters
  of the definitions that make them (theory \<open>Resolve\<close>).
\<close>

type_synonym strmap = "(string \<times> string) list"
type_synonym quantity = string
type_synonym bytes = string
type_synonym byte_map = "(string \<times> bytes) list"

subsection \<open>Metadata\<close>

record type_meta =
  tm_kind :: string
  tm_apiVersion :: string

record owner_ref =
  or_kind :: string
  or_name :: string
  or_uid :: string
  or_controller :: bool

record object_meta =
  m_name :: string
  m_namespace :: string
  m_labels :: strmap
  m_annotations :: strmap
  m_ownerRefs :: "owner_ref list"
  m_uid :: string

definition zero_meta :: object_meta where
  "zero_meta = \<lparr>m_name = [], m_namespace = [], m_labels = [], m_annotations = [],
     m_ownerRefs = [], m_uid = []\<rparr>"

declare zero_meta_def [simp]

subsection \<open>Containers and pods\<close>

datatype int_or_string = IntVal int | StrVal string

datatype probe_handler =
    TCPSocket int_or_string
  | HTTPGet string int_or_string
  | Exec "string list"

record probe =
  pr_handler :: probe_handler
  pr_initialDelaySeconds :: int
  pr_periodSeconds :: int

record secret_key_selector =
  sks_name :: string
  sks_key :: string

record env_var =
  ev_name :: string
  ev_value :: string
  ev_valueFrom :: "secret_key_selector option"

definition EnvVar :: "string \<Rightarrow> string \<Rightarrow> env_var" where
  "EnvVar n v = \<lparr>ev_name = n, ev_value = v, ev_valueFrom = None\<rparr>"

record container_port =
  cp_name :: string
  cp_containerPort :: int

record volume_mount =
  vm_name :: string
  vm_mountPath :: string
  vm_readOnly :: bool

datatype security_context = EmptySecurityContext

record resource_requirements =
  rr_limits :: "(string \<times> quantity) list"
  rr_requests :: "(string \<times> quantity) list"

definition zero_resources :: resource_requirements where
  "zero_resources = \<lparr>rr_limits = [], rr_requests = []\<rparr>"

record container =
  c_name :: string
  c_image :: string
  c_imagePullPolicy :: string
  c_securityContext :: "security_context option"
  c_command :: "string list"
  c_args :: "string list"
  c_env :: "env_var list"
  c_ports :: "container_port list"
  c_readinessProbe :: "probe option"
  c_livenessProbe :: "probe option"
  c_volumeMounts :: "volume_mount list"
  c_resources :: resource_requirements

definition zero_container :: container where
  "zero_container = \<lparr>c_name = [], c_image = [], c_imagePullPolicy = [], c_securityContext = None,
     c_command = [], c_args = [], c_env = [], c_ports = [], c_readinessProbe = None,
     c_livenessProbe = None, c_volumeMounts = [], c_resources = zero_resources\<rparr>"

declare zero_container_def [simp]

record key_to_path =
  kp_key :: string
  kp_path :: string

datatype volume_source =
    PVCSource string
  | EmptyDirSource
  | ConfigMapSource string "key_to_path list"
  | SecretSource string "key_to_path list"

record volume =
  v_name :: string
  v_source :: volume_source

record pod_spec =
  ps_serviceAccountName :: string
  ps_securityContext :: "security_context option"
  ps_imagePullSecrets :: "string list"
  ps_initContainers :: "container list"
  ps_containers :: "container list"
  ps_volumes :: "volume list"

record pod_template =
  pt_meta :: object_meta
  pt_spec :: pod_spec

text \<open>The status of a pod's container, as far as the image-pull diagnostics read it.\<close>

record container_state_waiting =
  w_reason :: string
  w_message :: string

record container_status =
  cs_name :: string
  cs_image :: string
  cs_waiting :: "container_state_waiting option"

record pod =
  pod_meta :: object_meta
  pod_spec :: pod_spec
  pod_initContainerStatuses :: "container_status list"
  pod_containerStatuses :: "container_status list"

subsection \<open>Workloads\<close>

record pvc_spec =
  pvcs_accessModes :: "string list"
  pvcs_requests :: "(string \<times> quantity) list"
  pvcs_storageClassName :: "string option"

record persistent_volume_claim =
  pvc_type :: type_meta
  pvc_meta :: object_meta
  pvc_spec :: pvc_spec

record deployment =
  dep_type :: type_meta
  dep_meta :: object_meta
  dep_replicas :: "int option"
  dep_strategy :: string
  dep_selector :: "strmap option"
  dep_template :: pod_template
  dep_readyReplicas :: int

record stateful_set =
  sts_type :: type_meta
  sts_meta :: object_meta
  sts_replicas :: "int option"
  sts_serviceName :: string
  sts_selector :: "strmap option"
  sts_template :: pod_template
  sts_volumeClaimTemplates :: "persistent_volume_claim list"
  sts_readyReplicas :: int

subsection \<open>Configuration, networking\<close>

record service_account =
  sa_type :: type_meta
  sa_meta :: object_meta

record config_map =
  cm_type :: type_meta
  cm_meta :: object_meta
  cm_data :: strmap

record secret =
  sec_typeMeta :: type_meta
  sec_meta :: object_meta
  sec_type :: string
  sec_data :: byte_map
  sec_stringData :: strmap

record service_port =
  sp_name :: string
  sp_port :: int
  sp_targetPort :: int_or_string
  sp_protocol :: string

record service =
  svc_typeMeta :: type_meta
  svc_meta :: object_meta
  svc_type :: string
  svc_selector :: strmap
  svc_ports :: "service_port list"

record np_port =
  npp_protocol :: string
  npp_port :: int_or_string

record np_ingress_rule =
  npr_from :: "strmap list"
  npr_ports :: "np_port list"

record network_policy =
  np_type :: type_meta
  np_meta :: object_meta
  np_podSelector :: strmap
  np_policyTypes :: "string list"
  np_ingress :: "np_ingress_rule list"

record http_ingress_path =
  hp_path :: string
  hp_pathType :: string
  hp_service :: string
  hp_port :: int

record ingress_tls =
  it_hosts :: "string list"
  it_secretName :: string

record ingress =
  ing_type :: type_meta
  ing_meta :: object_meta
  ing_className :: "string option"
  ing_host :: string
  ing_paths :: "http_ingress_path list"
  ing_tls :: "ingress_tls list"

subsection \<open>Unstructured objects\<close>

text \<open>
  An \<open>unstructured.Unstructured\<close> holds a JSON value; OpenShift Routes, whose Go
  types the operator does not import, are handled in this form.
\<close>

datatype json =
    JString string
  | JInt int
  | JArray "json list"
  | JObject "(string \<times> json) list"

datatype client_object =
    OServiceAccount service_account
  | OPVC persistent_volume_claim
  | OConfigMap config_map
  | OSecret secret
  | OStatefulSet stateful_set
  | ODeployment deployment
  | OService service
  | ONetworkPolicy network_policy
  | OIngress ingress
  | ORoute json

subsection \<open>Label selection\<close>

text \<open>A selector given by \<open>matchLabels\<close> selects the label sets that contain it.\<close>

definition selects :: "strmap \<Rightarrow> strmap \<Rightarrow> bool" where
  "selects sel ls \<longleftrightarrow> list_all (\<lambda>(k, v). map_of ls k = Some v) sel"

lemma selects_refl: "distinct (map fst sel) \<Longrightarrow> selects sel sel"
  by (auto simp: selects_def list_all_iff)

end
