(* ===== verification/Apme_Types.thy ===== *)
theory Apme_Types
  imports Kube_Types
begin

text \<open>
  The \<open>Apme\<close> custom resource (\<open>api/v1alpha1/apme_types.go\<close>): one record per struct,
  the fields in the order of the source. \<open>DatabaseMode\<close> and \<open>Topology\<close> are string
  types with named constants, as in the source.
\<close>

type_synonym DatabaseMode = string
type_synonym Topology = string

definition DefaultVersion :: string where
  "DefaultVersion = ''2026.8.10''"

definition DefaultRegistry :: string where
  "DefaultRegistry = ''quay.io/ansible''"

definition DefaultAbbenayImage :: string where
  "DefaultAbbenayImage = ''ghcr.io/redhat-developer/abbenay:v2026.8.7''"

definition DefaultPostgresImage :: string where
  "DefaultPostgresImage = ''quay.io/sclorg/postgresql-16-c9s:latest''"

definition FieldManager :: string where
  "FieldManager = ''apme-operator''"

definition DatabaseManaged :: DatabaseMode where
  "DatabaseManaged = ''Managed''"

definition DatabaseExternal :: DatabaseMode where
  "DatabaseExternal = ''External''"

definition TopologySimple :: Topology where
  "TopologySimple = ''Simple''"

record ImageSpec =
  img_Registry :: string
  img_PullPolicy :: string
  img_PullSecrets :: "string list"

record ComponentsSpec =
  cmp_Gitleaks :: "bool option"
  cmp_CollectionHealth :: "bool option"
  cmp_DepAudit :: "bool option"
  cmp_UI :: "bool option"

record PluginSpec =
  pl_Name :: string
  pl_Image :: string
  pl_Port :: int
  pl_ConfigMapRef :: string

record SecretKeyRef =
  skr_Name :: string
  skr_Key :: string

record PVCSpec =
  pv_Size :: quantity
  pv_StorageClass :: string

record PostgresSpec =
  pg_Image :: string
  pg_Storage :: PVCSpec
  pg_Resources :: resource_requirements
  pg_TLSSecretName :: string

record DatabaseSpec =
  db_ConnectionSecretRef :: SecretKeyRef
  db_Postgres :: PostgresSpec

record StorageSpec =
  st_Sessions :: PVCSpec
  st_ProxyCache :: PVCSpec

record RouteTLSSpec =
  rt_Termination :: string
  rt_InsecureEdgeTerminationPolicy :: string

record RouteSpec =
  ro_Enabled :: "bool option"
  ro_Host :: string
  ro_TLS :: RouteTLSSpec

record IngressSpec =
  in_Enabled :: bool
  in_ClassName :: string
  in_Host :: string
  in_Annotations :: strmap
  in_TLSSecretName :: string

record ExposureSpec =
  ex_Route :: RouteSpec
  ex_Ingress :: IngressSpec

record AbbenayPersistenceSpec =
  ap_Enabled :: "bool option"
  ap_Size :: quantity
  ap_StorageClass :: string

record AbbenaySpec =
  ab_Enabled :: bool
  ab_Image :: string
  ab_TokenSecretRef :: SecretKeyRef
  ab_ConfigMapRef :: string
  ab_Persistence :: AbbenayPersistenceSpec

record NetworkPolicySpec =
  npol_Enabled :: "bool option"

record ConfigMapKeyRef =
  cmk_Name :: string
  cmk_Key :: string

record GalaxyProxyTLSSpec =
  gt_Verify :: "bool option"
  gt_CABundleConfigMapRef :: "ConfigMapKeyRef option"

record ApmeSpec =
  spec_Version :: string
  spec_Image :: ImageSpec
  spec_Replicas :: int
  spec_Components :: ComponentsSpec
  spec_Plugins :: "PluginSpec list"
  spec_Database :: DatabaseSpec
  spec_Storage :: StorageSpec
  spec_GalaxyProxyTLS :: GalaxyProxyTLSSpec
  spec_Exposure :: ExposureSpec
  spec_Abbenay :: AbbenaySpec
  spec_Resources :: resource_requirements
  spec_NetworkPolicy :: NetworkPolicySpec

record Condition =
  cond_Type :: string
  cond_Status :: string
  cond_Reason :: string
  cond_Message :: string
  cond_LastTransitionTime :: int
  cond_ObservedGeneration :: int

record ApmeStatus =
  status_Conditions :: "Condition list"
  status_URL :: string
  status_ObservedGeneration :: int
  status_Topology :: Topology
  status_Database :: DatabaseMode

record Apme =
  apme_meta :: object_meta
  apme_Generation :: int
  apme_Spec :: ApmeSpec
  apme_Status :: ApmeStatus

subsection \<open>Admission\<close>

text \<open>
  What the CRD's validation markers let through, for the plugins: at most 32, each
  with a nonempty name of lower-case letters and digits, at most 32 long, a port that
  is unset or in 50100 to 50199, names unique and set ports unique.
\<close>

definition valid_plugin_name :: "string \<Rightarrow> bool" where
  "valid_plugin_name n \<longleftrightarrow> n \<noteq> [] \<and> length n \<le> 32 \<and> list_all lower_alnum n"

definition valid_plugins :: "PluginSpec list \<Rightarrow> bool" where
  "valid_plugins ps \<longleftrightarrow>
     length ps \<le> 32
     \<and> list_all (\<lambda>p. valid_plugin_name (pl_Name p)) ps
     \<and> list_all (\<lambda>p. pl_Port p = 0 \<or> 50100 \<le> pl_Port p \<and> pl_Port p \<le> 50199) ps
     \<and> distinct (map pl_Name ps)
     \<and> distinct (filter (\<lambda>q. q \<noteq> 0) (map pl_Port ps))"

lemma valid_plugins_names: "valid_plugins ps \<Longrightarrow> distinct (map pl_Name ps)"
  by (simp add: valid_plugins_def)

subsection \<open>An instance with no field set\<close>

definition zero_pvc_spec :: PVCSpec where
  "zero_pvc_spec = \<lparr>pv_Size = ''0'', pv_StorageClass = []\<rparr>"

definition zero_spec :: ApmeSpec where
  "zero_spec = \<lparr>
     spec_Version = [],
     spec_Image = \<lparr>img_Registry = [], img_PullPolicy = [], img_PullSecrets = []\<rparr>,
     spec_Replicas = 0,
     spec_Components = \<lparr>cmp_Gitleaks = None, cmp_CollectionHealth = None, cmp_DepAudit = None, cmp_UI = None\<rparr>,
     spec_Plugins = [],
     spec_Database = \<lparr>db_ConnectionSecretRef = \<lparr>skr_Name = [], skr_Key = []\<rparr>,
       db_Postgres = \<lparr>pg_Image = [], pg_Storage = zero_pvc_spec, pg_Resources = zero_resources,
         pg_TLSSecretName = []\<rparr>\<rparr>,
     spec_Storage = \<lparr>st_Sessions = zero_pvc_spec, st_ProxyCache = zero_pvc_spec\<rparr>,
     spec_GalaxyProxyTLS = \<lparr>gt_Verify = None, gt_CABundleConfigMapRef = None\<rparr>,
     spec_Exposure = \<lparr>
       ex_Route = \<lparr>ro_Enabled = None, ro_Host = [],
         ro_TLS = \<lparr>rt_Termination = [], rt_InsecureEdgeTerminationPolicy = []\<rparr>\<rparr>,
       ex_Ingress = \<lparr>in_Enabled = False, in_ClassName = [], in_Host = [], in_Annotations = [],
         in_TLSSecretName = []\<rparr>\<rparr>,
     spec_Abbenay = \<lparr>ab_Enabled = False, ab_Image = [], ab_TokenSecretRef = \<lparr>skr_Name = [], skr_Key = []\<rparr>,
       ab_ConfigMapRef = [],
       ab_Persistence = \<lparr>ap_Enabled = None, ap_Size = ''0'', ap_StorageClass = []\<rparr>\<rparr>,
     spec_Resources = zero_resources,
     spec_NetworkPolicy = \<lparr>npol_Enabled = None\<rparr>\<rparr>"

definition zero_apme :: "string \<Rightarrow> string \<Rightarrow> Apme" where
  "zero_apme name ns = \<lparr>
     apme_meta = zero_meta\<lparr>m_name := name, m_namespace := ns\<rparr>,
     apme_Generation = 0,
     apme_Spec = zero_spec,
     apme_Status = \<lparr>status_Conditions = [], status_URL = [], status_ObservedGeneration = 0,
       status_Topology = [], status_Database = []\<rparr>\<rparr>"

end
