(* ===== verification/Sort_Slice.thy ===== *)
theory Sort_Slice
  imports Prelude "HOL-Library.Multiset"
begin

text \<open>
  Go's \<open>sort.Slice(x, less)\<close>. It promises a permutation of the slice in which no
  element is less than one before it; it is not stable, so equal elements may come in
  any order. The locale \<open>slice_sort\<close> states that contract; \<open>sort_Slice\<close> is the
  insertion sort the library runs on slices of up to 12 elements, and meets it.
\<close>

subsection \<open>Insertion sort\<close>

text \<open>
  The inner loop \<open>for j := i; j > a \<and> less(j, j-1); j--\<close> moves the new element left
  past the elements it is less than. The sorted part is kept reversed, so the loop
  walks a list from its head.
\<close>

fun insert_left :: "('a \<Rightarrow> 'a \<Rightarrow> bool) \<Rightarrow> 'a \<Rightarrow> 'a list \<Rightarrow> 'a list" where
  "insert_left lt x [] = [x]"
| "insert_left lt x (y # ys) = (if lt x y then y # insert_left lt x ys else x # y # ys)"

fun insertion_loop :: "('a \<Rightarrow> 'a \<Rightarrow> bool) \<Rightarrow> 'a list \<Rightarrow> 'a list \<Rightarrow> 'a list" where
  "insertion_loop lt acc [] = rev acc"
| "insertion_loop lt acc (x # xs) = insertion_loop lt (insert_left lt x acc) xs"

definition sort_Slice :: "('a \<Rightarrow> 'a \<Rightarrow> bool) \<Rightarrow> 'a list \<Rightarrow> 'a list" where
  "sort_Slice lt xs = insertion_loop lt [] xs"

lemma mset_insert_left: "mset (insert_left lt x ys) = add_mset x (mset ys)"
  by (induction ys) auto

lemma mset_insertion_loop: "mset (insertion_loop lt acc xs) = mset acc + mset xs"
  by (induction lt acc xs rule: insertion_loop.induct) (auto simp: mset_insert_left)

lemma set_insert_left: "set (insert_left lt x ys) = insert x (set ys)"
  by (induction ys) auto

text \<open>Both lemmas are about a comparison of keys, the only kind the operator uses.\<close>

lemma sorted_insert_left:
  fixes key :: "'a \<Rightarrow> 'k :: linorder"
  shows "sorted_wrt (\<lambda>a b. key b \<le> key a) ys \<Longrightarrow>
    sorted_wrt (\<lambda>a b. key b \<le> key a) (insert_left (\<lambda>a b. key a < key b) x ys)"
  by (induction ys) (auto simp: set_insert_left)

lemma sorted_insertion_loop:
  fixes key :: "'a \<Rightarrow> 'k :: linorder"
  shows "sorted_wrt (\<lambda>a b. key b \<le> key a) acc \<Longrightarrow>
    sorted (map key (insertion_loop (\<lambda>a b. key a < key b) acc xs))"
proof (induction xs arbitrary: acc)
  case Nil
  then show ?case by (simp add: sorted_wrt_rev sorted_wrt_map)
next
  case (Cons x xs)
  then show ?case by (simp add: sorted_insert_left)
qed

subsection \<open>The contract\<close>

locale slice_sort =
  fixes key :: "'a \<Rightarrow> 'k :: linorder"
    and srt :: "('a \<Rightarrow> 'a \<Rightarrow> bool) \<Rightarrow> 'a list \<Rightarrow> 'a list"
  assumes perm: "mset (srt (\<lambda>a b. key a < key b) xs) = mset xs"
    and ordered: "sorted (map key (srt (\<lambda>a b. key a < key b) xs))"
begin

lemma sorted_set: "set (srt (\<lambda>a b. key a < key b) xs) = set xs"
  using perm by (metis set_mset_mset)

lemma sorted_length: "length (srt (\<lambda>a b. key a < key b) xs) = length xs"
  using perm by (metis size_mset)

lemma sorted_distinct: "distinct (srt (\<lambda>a b. key a < key b) xs) = distinct xs"
  using perm by (metis mset_eq_imp_distinct_iff)

lemma sorted_keys_distinct:
  "distinct (map key (srt (\<lambda>a b. key a < key b) xs)) = distinct (map key xs)"
  using perm by (metis mset_eq_imp_distinct_iff mset_map)

text \<open>Where the keys are distinct the result is the only sorted permutation.\<close>

lemma determined:
  assumes "distinct (map key xs)"
    and "mset ys = mset xs" and "sorted (map key ys)"
  shows "srt (\<lambda>a b. key a < key b) xs = ys"
proof -
  let ?s = "srt (\<lambda>a b. key a < key b) xs"
  have "distinct (map key ys)"
    using assms(1,2) by (metis mset_eq_imp_distinct_iff mset_map)
  moreover have "set ys = set xs" using assms(2) by (metis set_mset_mset)
  ultimately have "map key ?s = map key ys"
    using assms(1,3) ordered sorted_keys_distinct [of xs]
    by (intro sorted_distinct_set_unique) (auto simp: sorted_set)
  moreover have "inj_on key (set ?s \<union> set ys)"
    using assms(1) \<open>set ys = set xs\<close> by (simp add: sorted_set distinct_map)
  ultimately show ?thesis by (rule map_inj_on)
qed

lemma permutation_invariant:
  assumes "distinct (map key xs)" and "mset ys = mset xs"
  shows "srt (\<lambda>a b. key a < key b) ys = srt (\<lambda>a b. key a < key b) xs"
proof -
  have "srt (\<lambda>a b. key a < key b) xs = srt (\<lambda>a b. key a < key b) ys"
    by (rule determined) (use assms perm ordered in auto)
  then show ?thesis by simp
qed

end

interpretation insertion: slice_sort key sort_Slice
  for key :: "'a \<Rightarrow> 'k :: linorder"
  by unfold_locales
    (simp_all add: sort_Slice_def mset_insertion_loop sorted_insertion_loop)

text \<open>HOL's stable \<open>sort_key\<close> is another sort that keeps the contract.\<close>

lemma sort_key_determined:
  assumes "sorted (map key ys)" and "mset ys = mset xs" and "distinct (map key xs)"
  shows "ys = sort_key key xs"
  using insertion.determined [OF assms(3,2,1)] insertion.determined [OF assms(3), of "sort_key key xs"]
  by simp

lemma sort_Slice_sort_key:
  "distinct (map key xs) \<Longrightarrow> sort_Slice (\<lambda>a b. key a < key b) xs = sort_key key xs"
  by (rule sort_key_determined [OF insertion.ordered insertion.perm])

text \<open>Any two sorts that keep the contract agree on slices with distinct keys.\<close>

lemma slice_sort_agree:
  assumes "slice_sort key s" and "distinct (map key xs)"
  shows "s (\<lambda>a b. key a < key b) xs = sort_Slice (\<lambda>a b. key a < key b) xs"
  by (rule slice_sort.determined [OF assms insertion.perm insertion.ordered])

end
