(* ===== verification/Resolve.thy ===== *)
theory Resolve
  imports Apme_Types Sort_Slice
begin

text \<open>
  \<open>internal/resolve/desired.go\<close>: from an \<open>Apme\<close> resource to the fully defaulted intent
  \<open>Desired\<close> of one instance, with the assignment of ports to third-party plugins.
  The process environment and the two operations of \<open>resource.Quantity\<close> the code calls
  are the argument \<open>E\<close>.
\<close>

record ResolvedPlugin =
  rp_Name :: string
  rp_Image :: string
  rp_Port :: int
  rp_ConfigMapName :: string

record Desired =
  d_Name :: string
  d_Namespace :: string
  d_Version :: string
  d_Registry :: string
  d_PullPolicy :: string
  d_PullSecrets :: "string list"
  d_Replicas :: int
  d_Gitleaks :: bool
  d_CollectionHealth :: bool
  d_DepAudit :: bool
  d_UI :: bool
  d_Plugins :: "ResolvedPlugin list"
  d_ProxyAdminTokenName :: string
  d_ProxyAdminTokenKey :: string
  d_GalaxyTLSVerify :: "bool option"
  d_GalaxyCAConfigMap :: string
  d_GalaxyCAKey :: string
  d_Abbenay :: bool
  d_AbbenayImage :: string
  d_AbbenayTokenName :: string
  d_AbbenayTokenKey :: string
  d_GenerateAbbenayToken :: bool
  d_AbbenayConfigMap :: string
  d_AbbenayPersist :: bool
  d_AbbenayPVCSize :: quantity
  d_AbbenayStorageClass :: string
  d_DatabaseMode :: DatabaseMode
  d_DatabaseSecretName :: string
  d_DatabaseSecretKey :: string
  d_GeneratePostgres :: bool
  d_PostgresImage :: string
  d_PostgresSize :: quantity
  d_PostgresStorageClass :: string
  d_PostgresResources :: resource_requirements
  d_PostgresTLSSecretName :: string
  d_GeneratePostgresTLS :: bool
  d_SessionsSize :: quantity
  d_SessionsStorageClass :: string
  d_ProxyCacheSize :: quantity
  d_ProxyCacheStorageClass :: string
  d_RouteEnabled :: bool
  d_RouteHost :: string
  d_RouteTermination :: string
  d_RouteInsecureEdgeTerminationPolicy :: string
  d_IngressEnabled :: bool
  d_IngressClassName :: string
  d_IngressHost :: string
  d_IngressAnnotations :: strmap
  d_IngressTLSSecretName :: string
  d_NetworkPolicy :: bool
  d_Resources :: resource_requirements
  d_ProxyEnv :: "env_var list"

record resolve_env =
  q_IsZero :: "quantity \<Rightarrow> bool"
  q_MustParse :: "string \<Rightarrow> quantity"
  os_Getenv :: "string \<Rightarrow> string"

subsection \<open>Plugin ports\<close>

definition pluginPortMin :: int where
  "pluginPortMin = 50100"

definition pluginPortMax :: int where
  "pluginPortMax = 50199"

text \<open>
  The inner loop: advance \<open>next\<close> to the first port that is neither taken nor past the
  range; past the range the loop stops too. \<open>next\<close> never exceeds 50201, so the
  \<open>int32\<close> of the source does not wrap.
\<close>

function nextFreePort :: "int set \<Rightarrow> int \<Rightarrow> int" where
  "nextFreePort used next =
     (if next \<notin> used \<and> next \<le> pluginPortMax then next
      else if next + 1 > pluginPortMax then next + 1
      else nextFreePort used (next + 1))"
  by pat_completeness auto
termination
  by (relation "measure (\<lambda>(used, next). nat (pluginPortMax + 1 - next))") auto

declare nextFreePort.simps [simp del]

text \<open>
  The outer loop over \<open>needAssign\<close>, with the slice \<open>out\<close> updated in place and the set
  \<open>used\<close>; running out of ports leaves the remaining entries at port 0.
\<close>

fun assignPorts :: "nat list \<Rightarrow> ResolvedPlugin list \<Rightarrow> int set \<Rightarrow> int \<Rightarrow> ResolvedPlugin list" where
  "assignPorts [] out used next = out"
| "assignPorts (i # is) out used next =
     (let next = nextFreePort used next in
      if next > pluginPortMax then out
      else assignPorts is (out[i := (out ! i)\<lparr>rp_Port := next\<rparr>]) (insert next used) (next + 1))"

definition resolvedOf :: "PluginSpec \<Rightarrow> ResolvedPlugin" where
  "resolvedOf p = \<lparr>rp_Name = pl_Name p, rp_Image = pl_Image p, rp_Port = pl_Port p,
     rp_ConfigMapName = pl_ConfigMapRef p\<rparr>"

text \<open>
  \<open>resolvePlugins\<close> over the two calls of \<open>sort.Slice\<close>: of the indices that need a port,
  and of the result, both by plugin name.
\<close>

definition resolvePlugins_with ::
  "((nat \<Rightarrow> nat \<Rightarrow> bool) \<Rightarrow> nat list \<Rightarrow> nat list)
   \<Rightarrow> ((ResolvedPlugin \<Rightarrow> ResolvedPlugin \<Rightarrow> bool) \<Rightarrow> ResolvedPlugin list \<Rightarrow> ResolvedPlugin list)
   \<Rightarrow> PluginSpec list \<Rightarrow> ResolvedPlugin list" where
  "resolvePlugins_with sort_idx sort_out ps =
     (if ps = [] then []
      else
        let out = map resolvedOf ps;
            used = set (filter (\<lambda>q. q \<noteq> 0) (map pl_Port ps));
            needAssign = filter (\<lambda>i. pl_Port (ps ! i) = 0) [0 ..< length ps];
            needAssign = sort_idx (\<lambda>a b. rp_Name (out ! a) < rp_Name (out ! b)) needAssign;
            out = assignPorts needAssign out used pluginPortMin
        in sort_out (\<lambda>a b. rp_Name a < rp_Name b) out)"

definition resolvePlugins :: "PluginSpec list \<Rightarrow> ResolvedPlugin list" where
  "resolvePlugins = resolvePlugins_with sort_Slice sort_Slice"

subsection \<open>Defaults\<close>

definition defaultTrue :: "bool option \<Rightarrow> bool" where
  "defaultTrue p = (case p of None \<Rightarrow> True | Some b \<Rightarrow> b)"

definition qtyOr :: "resolve_env \<Rightarrow> quantity \<Rightarrow> string \<Rightarrow> quantity" where
  "qtyOr E q dflt = (if q_IsZero E q then q_MustParse E dflt else q)"

text \<open>The step \<open>if d.F == "" { d.F = dflt }\<close> on a string field.\<close>

definition orDefault :: "string \<Rightarrow> string \<Rightarrow> string" where
  "orDefault s dflt = (if s = [] then dflt else s)"

definition proxyVars :: "string list" where
  "proxyVars = [''HTTP_PROXY'', ''HTTPS_PROXY'', ''NO_PROXY'', ''http_proxy'', ''https_proxy'', ''no_proxy'']"

definition clusterProxyEnv :: "resolve_env \<Rightarrow> env_var list" where
  "clusterProxyEnv E =
     concat (map (\<lambda>k. let v = os_Getenv E k in if TrimSpace v \<noteq> [] then [EnvVar k v] else []) proxyVars)"

subsection \<open>From\<close>

text \<open>The composite literal \<open>From\<close> starts with; the fields it omits are Go's zero values.\<close>

definition From_literal :: "Apme \<Rightarrow> Desired" where
  "From_literal cr =
    (let sp = apme_Spec cr; nm = m_name (apme_meta cr) in
     \<lparr>d_Name = nm,
      d_Namespace = m_namespace (apme_meta cr),
      d_Version = spec_Version sp,
      d_Registry = img_Registry (spec_Image sp),
      d_PullPolicy = img_PullPolicy (spec_Image sp),
      d_PullSecrets = img_PullSecrets (spec_Image sp),
      d_Replicas = spec_Replicas sp,
      d_Gitleaks = defaultTrue (cmp_Gitleaks (spec_Components sp)),
      d_CollectionHealth = defaultTrue (cmp_CollectionHealth (spec_Components sp)),
      d_DepAudit = defaultTrue (cmp_DepAudit (spec_Components sp)),
      d_UI = defaultTrue (cmp_UI (spec_Components sp)),
      d_Plugins = [],
      d_ProxyAdminTokenName = nm @ ''-proxy-admin'',
      d_ProxyAdminTokenKey = ''token'',
      d_GalaxyTLSVerify = gt_Verify (spec_GalaxyProxyTLS sp),
      d_GalaxyCAConfigMap = [],
      d_GalaxyCAKey = [],
      d_Abbenay = ab_Enabled (spec_Abbenay sp),
      d_AbbenayImage = ab_Image (spec_Abbenay sp),
      d_AbbenayTokenName = skr_Name (ab_TokenSecretRef (spec_Abbenay sp)),
      d_AbbenayTokenKey = skr_Key (ab_TokenSecretRef (spec_Abbenay sp)),
      d_GenerateAbbenayToken = False,
      d_AbbenayConfigMap = ab_ConfigMapRef (spec_Abbenay sp),
      d_AbbenayPersist = False,
      d_AbbenayPVCSize = ''0'',
      d_AbbenayStorageClass = [],
      d_DatabaseMode = [],
      d_DatabaseSecretName = [],
      d_DatabaseSecretKey = [],
      d_GeneratePostgres = False,
      d_PostgresImage = [],
      d_PostgresSize = ''0'',
      d_PostgresStorageClass = [],
      d_PostgresResources = zero_resources,
      d_PostgresTLSSecretName = [],
      d_GeneratePostgresTLS = False,
      d_SessionsSize = ''0'',
      d_SessionsStorageClass = [],
      d_ProxyCacheSize = ''0'',
      d_ProxyCacheStorageClass = [],
      d_RouteEnabled = False,
      d_RouteHost = ro_Host (ex_Route (spec_Exposure sp)),
      d_RouteTermination = [],
      d_RouteInsecureEdgeTerminationPolicy = [],
      d_IngressEnabled = in_Enabled (ex_Ingress (spec_Exposure sp)),
      d_IngressClassName = in_ClassName (ex_Ingress (spec_Exposure sp)),
      d_IngressHost = in_Host (ex_Ingress (spec_Exposure sp)),
      d_IngressAnnotations = in_Annotations (ex_Ingress (spec_Exposure sp)),
      d_IngressTLSSecretName = in_TLSSecretName (ex_Ingress (spec_Exposure sp)),
      d_NetworkPolicy = defaultTrue (npol_Enabled (spec_NetworkPolicy sp)),
      d_Resources = spec_Resources sp,
      d_ProxyEnv = []\<rparr>)"

text \<open>Version, Galaxy CA reference, registry, pull policy, replicas.\<close>

definition From_image :: "Apme \<Rightarrow> Desired \<Rightarrow> Desired" where
  "From_image cr d =
    (let d = d\<lparr>d_Version := orDefault (d_Version d) DefaultVersion\<rparr>;
         d = (case gt_CABundleConfigMapRef (spec_GalaxyProxyTLS (apme_Spec cr)) of
                None \<Rightarrow> d
              | Some ref \<Rightarrow> d\<lparr>d_GalaxyCAConfigMap := cmk_Name ref, d_GalaxyCAKey := cmk_Key ref\<rparr>);
         d = d\<lparr>d_GalaxyCAKey := orDefault (d_GalaxyCAKey d) ''ca-bundle.crt''\<rparr>;
         d = d\<lparr>d_Registry := orDefault (d_Registry d) DefaultRegistry\<rparr>;
         d = d\<lparr>d_PullPolicy := orDefault (d_PullPolicy d) ''IfNotPresent''\<rparr>
     in d\<lparr>d_Replicas := (if d_Replicas d = 0 then 1 else d_Replicas d)\<rparr>)"

text \<open>Route and storage.\<close>

definition From_exposure :: "resolve_env \<Rightarrow> Apme \<Rightarrow> Desired \<Rightarrow> Desired" where
  "From_exposure E cr d =
    (let rt = ex_Route (spec_Exposure (apme_Spec cr)); st = spec_Storage (apme_Spec cr) in
     d\<lparr>d_RouteEnabled := defaultTrue (ro_Enabled rt),
       d_RouteTermination := orDefault (rt_Termination (ro_TLS rt)) ''edge'',
       d_RouteInsecureEdgeTerminationPolicy :=
         orDefault (rt_InsecureEdgeTerminationPolicy (ro_TLS rt)) ''Redirect'',
       d_SessionsSize := qtyOr E (pv_Size (st_Sessions st)) ''10Gi'',
       d_SessionsStorageClass := pv_StorageClass (st_Sessions st),
       d_ProxyCacheSize := qtyOr E (pv_Size (st_ProxyCache st)) ''10Gi'',
       d_ProxyCacheStorageClass := pv_StorageClass (st_ProxyCache st)\<rparr>)"

definition From_database :: "resolve_env \<Rightarrow> Apme \<Rightarrow> Desired \<Rightarrow> Desired" where
  "From_database E cr d =
    (let db = spec_Database (apme_Spec cr); pg = db_Postgres db; nm = m_name (apme_meta cr) in
     if skr_Name (db_ConnectionSecretRef db) \<noteq> [] then
       d\<lparr>d_DatabaseMode := DatabaseExternal,
         d_DatabaseSecretName := skr_Name (db_ConnectionSecretRef db),
         d_DatabaseSecretKey := orDefault (skr_Key (db_ConnectionSecretRef db)) ''database-url''\<rparr>
     else
       d\<lparr>d_DatabaseMode := DatabaseManaged,
         d_GeneratePostgres := True,
         d_DatabaseSecretName := nm @ ''-postgres'',
         d_DatabaseSecretKey := ''database-url'',
         d_PostgresImage := orDefault (pg_Image pg) DefaultPostgresImage,
         d_PostgresSize := qtyOr E (pv_Size (pg_Storage pg)) ''10Gi'',
         d_PostgresStorageClass := pv_StorageClass (pg_Storage pg),
         d_PostgresResources := pg_Resources pg,
         d_PostgresTLSSecretName :=
           (if pg_TLSSecretName pg = [] then nm @ ''-postgres-tls'' else pg_TLSSecretName pg),
         d_GeneratePostgresTLS := (if pg_TLSSecretName pg = [] then True else d_GeneratePostgresTLS d)\<rparr>)"

definition From_abbenay :: "resolve_env \<Rightarrow> Apme \<Rightarrow> Desired \<Rightarrow> Desired" where
  "From_abbenay E cr d =
    (let ap = ab_Persistence (spec_Abbenay (apme_Spec cr)); nm = m_name (apme_meta cr) in
     if d_Abbenay d then
       d\<lparr>d_AbbenayImage := orDefault (d_AbbenayImage d) DefaultAbbenayImage,
         d_AbbenayTokenKey := orDefault (d_AbbenayTokenKey d) ''token'',
         d_GenerateAbbenayToken := (if d_AbbenayTokenName d = [] then True else d_GenerateAbbenayToken d),
         d_AbbenayTokenName := (if d_AbbenayTokenName d = [] then nm @ ''-abbenay'' else d_AbbenayTokenName d),
         d_AbbenayPersist := defaultTrue (ap_Enabled ap),
         d_AbbenayPVCSize := qtyOr E (ap_Size ap) ''1Gi'',
         d_AbbenayStorageClass := ap_StorageClass ap\<rparr>
     else d)"

definition From :: "resolve_env \<Rightarrow> Apme \<Rightarrow> Desired" where
  "From E cr =
    (let d = From_literal cr;
         d = From_image cr d;
         d = From_exposure E cr d;
         d = From_database E cr d;
         d = From_abbenay E cr d
     in d\<lparr>d_Plugins := resolvePlugins (spec_Plugins (apme_Spec cr)),
          d_ProxyEnv := clusterProxyEnv E\<rparr>)"

text \<open>\<open>Image\<close> is registry/apme-component:version.\<close>

definition Image :: "Desired \<Rightarrow> string \<Rightarrow> string" where
  "Image d component = d_Registry d @ ''/apme-'' @ component @ '':'' @ d_Version d"

end
