(* ===== verification/Plugin_Ports.thy ===== *)
theory Plugin_Ports
  imports Resolve
begin

text \<open>
  Correctness of the plugin port assignment of theory \<open>Resolve\<close>: the loops over an
  in-place updated slice compute the assignment \<open>resolvePlugins_spec\<close>, in which the
  plugins without a port, taken by name, receive the free ports of the range in
  ascending order. From it follow that ports are in range and unique, that explicit
  ports win, and that neither the order of the list nor the sorting algorithm matters.
\<close>

subsection \<open>The free ports\<close>

definition freeFrom :: "int set \<Rightarrow> int \<Rightarrow> int list" where
  "freeFrom used next = filter (\<lambda>q. q \<notin> used) [next .. pluginPortMax]"

lemma freeFrom_rec:
  "freeFrom used next =
     (if pluginPortMax < next then []
      else if next \<in> used then freeFrom used (next + 1)
      else next # freeFrom used (next + 1))"
  by (simp add: freeFrom_def upto_rec1)

lemma freeFrom_past: "pluginPortMax < next \<Longrightarrow> freeFrom used next = []"
  by (simp add: freeFrom_def)

lemma freeFrom_insert_less: "q < next \<Longrightarrow> freeFrom (insert q used) next = freeFrom used next"
  by (auto simp: freeFrom_def intro!: filter_cong)

lemma nextFreePort_freeFrom:
  "case freeFrom used next of
     [] \<Rightarrow> nextFreePort used next > pluginPortMax
   | q # qs \<Rightarrow> nextFreePort used next = q \<and> q \<le> pluginPortMax \<and> freeFrom used (q + 1) = qs"
proof (induction used "next" rule: nextFreePort.induct)
  case (1 used "next")
  show ?case
  proof (cases "next \<notin> used \<and> next \<le> pluginPortMax")
    case True
    then show ?thesis
      by (simp add: freeFrom_rec [of used "next"] nextFreePort.simps [of used "next"])
  next
    case free: False
    show ?thesis
    proof (cases "next + 1 > pluginPortMax")
      case True
      with free have "freeFrom used next = []"
        by (auto simp: freeFrom_rec [of used "next"] freeFrom_past)
      with True free show ?thesis by (simp add: nextFreePort.simps [of used "next"])
    next
      case False
      with free have "freeFrom used next = freeFrom used (next + 1)"
        by (simp add: freeFrom_rec [of used "next"])
      moreover have "nextFreePort used next = nextFreePort used (next + 1)"
        using False free by (simp only: nextFreePort.simps [of used "next"] if_False)
      ultimately show ?thesis using "1.IH" [OF free False] by (simp split: list.splits)
    qed
  qed
qed

lemma freeFrom_sorted: "sorted (freeFrom used next)"
  and freeFrom_distinct: "distinct (freeFrom used next)"
  by (auto simp: freeFrom_def intro: sorted_filter [where f = id, simplified])

lemma freeFrom_set:
  "set (freeFrom used next) = {q. next \<le> q \<and> q \<le> pluginPortMax \<and> q \<notin> used}"
  by (auto simp: freeFrom_def)

text \<open>Taking \<open>k\<close> ports out of the range leaves at least \<open>100 - k\<close>.\<close>

lemma freeFrom_length:
  assumes "finite used"
  shows "100 - card used \<le> length (freeFrom used pluginPortMin)"
proof -
  have "length (freeFrom used pluginPortMin) = card ({pluginPortMin .. pluginPortMax} - used)"
    using distinct_card [OF freeFrom_distinct [of used pluginPortMin], symmetric]
    by (simp add: freeFrom_set) (rule arg_cong [where f = card], auto)
  moreover have "card {pluginPortMin .. pluginPortMax} - card used
      \<le> card ({pluginPortMin .. pluginPortMax} - used)"
    using assms by (rule diff_card_le_card_Diff)
  ultimately show ?thesis by (simp add: pluginPortMin_def pluginPortMax_def)
qed

subsection \<open>The loop over the slice\<close>

definition setPort :: "nat \<Rightarrow> int \<Rightarrow> ResolvedPlugin list \<Rightarrow> ResolvedPlugin list" where
  "setPort i q out = out[i := (out ! i)\<lparr>rp_Port := q\<rparr>]"

lemma assignPorts_zip:
  "assignPorts is out used next = fold (\<lambda>(i, q). setPort i q) (zip is (freeFrom used next)) out"
proof (induction "is" arbitrary: out used "next")
  case Nil
  then show ?case by simp
next
  case (Cons i "is")
  have step: "case freeFrom used next of
     [] \<Rightarrow> nextFreePort used next > pluginPortMax
   | q # qs \<Rightarrow> nextFreePort used next = q \<and> q \<le> pluginPortMax \<and> freeFrom used (q + 1) = qs"
    by (rule nextFreePort_freeFrom)
  show ?case
  proof (cases "freeFrom used next")
    case Nil
    with step show ?thesis by (simp add: Let_def)
  next
    case (Cons q qs)
    with step have "nextFreePort used next = q" "q \<le> pluginPortMax" "freeFrom used (q + 1) = qs"
      by simp_all
    then show ?thesis
      by (simp add: Cons Cons.IH Let_def setPort_def freeFrom_insert_less)
  qed
qed

lemma setPort_nth:
  "j < length out \<Longrightarrow> setPort i q out ! j = (if j = i then (out ! i)\<lparr>rp_Port := q\<rparr> else out ! j)"
  by (simp add: setPort_def nth_list_update)

lemma fold_setPort_length [simp]: "length (fold (\<lambda>(i, q). setPort i q) ps out) = length out"
  by (induction ps arbitrary: out) (auto simp: setPort_def)

lemma fold_setPort_nth:
  assumes "distinct (map fst ps)" and "j < length out"
  shows "fold (\<lambda>(i, q). setPort i q) ps out ! j
    = (case map_of ps j of None \<Rightarrow> out ! j | Some q \<Rightarrow> (out ! j)\<lparr>rp_Port := q\<rparr>)"
  using assms
proof (induction ps arbitrary: out)
  case Nil
  then show ?case by simp
next
  case (Cons x ps)
  obtain i q where x: "x = (i, q)" by (cases x)
  have "length (setPort i q out) = length out" by (simp add: setPort_def)
  then have "fold (\<lambda>(i, q). setPort i q) ps (setPort i q out) ! j
    = (case map_of ps j of None \<Rightarrow> setPort i q out ! j | Some r \<Rightarrow> (setPort i q out ! j)\<lparr>rp_Port := r\<rparr>)"
    using Cons by simp
  moreover have "map_of ps i = None" using Cons.prems(1) x by (simp add: map_of_eq_None_iff)
  ultimately show ?case
    using Cons.prems(2) by (auto simp: x setPort_nth split: option.split)
qed

subsection \<open>The specification\<close>

definition autoPlugins :: "PluginSpec list \<Rightarrow> PluginSpec list" where
  "autoPlugins ps = sort_key pl_Name (filter (\<lambda>p. pl_Port p = 0) ps)"

definition usedPorts :: "PluginSpec list \<Rightarrow> int set" where
  "usedPorts ps = set (filter (\<lambda>q. q \<noteq> 0) (map pl_Port ps))"

definition assignedPort :: "PluginSpec list \<Rightarrow> PluginSpec \<Rightarrow> int" where
  "assignedPort ps p =
     (if pl_Port p \<noteq> 0 then pl_Port p
      else case map_of (zip (map pl_Name (autoPlugins ps)) (freeFrom (usedPorts ps) pluginPortMin)) (pl_Name p)
           of None \<Rightarrow> 0 | Some q \<Rightarrow> q)"

definition resolvePlugins_spec :: "PluginSpec list \<Rightarrow> ResolvedPlugin list" where
  "resolvePlugins_spec ps =
     sort_key rp_Name (map (\<lambda>p. (resolvedOf p)\<lparr>rp_Port := assignedPort ps p\<rparr>) ps)"


lemma autoPlugins_set: "set (autoPlugins ps) = {p \<in> set ps. pl_Port p = 0}"
  by (auto simp: autoPlugins_def)

lemma autoPlugins_length: "length (autoPlugins ps) + card (usedPorts ps) \<le> length ps"
proof -
  have "card (usedPorts ps) \<le> length (filter (\<lambda>p. pl_Port p \<noteq> 0) ps)"
  proof -
    have "usedPorts ps = pl_Port ` set (filter (\<lambda>p. pl_Port p \<noteq> 0) ps)"
      by (auto simp: usedPorts_def)
    then show ?thesis
      using card_image_le [OF finite_set] card_length le_trans by metis
  qed
  moreover have "length (autoPlugins ps) = length (filter (\<lambda>p. pl_Port p = 0) ps)"
    by (simp add: autoPlugins_def)
  ultimately show ?thesis using sum_length_filter_compl [of "\<lambda>p. pl_Port p = 0" ps] by simp
qed

text \<open>With at most 100 plugins there is a free port for each of them.\<close>

lemma enough_ports:
  assumes "length ps \<le> 100"
  shows "length (autoPlugins ps) \<le> length (freeFrom (usedPorts ps) pluginPortMin)"
  using freeFrom_length [of "usedPorts ps"] autoPlugins_length [of ps] assms
  by (simp add: usedPorts_def)

subsection \<open>The code computes the specification\<close>

text \<open>The indices needing a port, sorted by name, point at \<open>autoPlugins\<close>.\<close>

definition portIndices :: "PluginSpec list \<Rightarrow> nat list" where
  "portIndices ps = filter (\<lambda>i. pl_Port (ps ! i) = 0) [0 ..< length ps]"

lemma map_nth_portIndices: "map ((!) ps) (portIndices ps) = filter (\<lambda>p. pl_Port p = 0) ps"
proof -
  have "filter (\<lambda>p. pl_Port p = 0) (map ((!) ps) [0 ..< length ps]) = map ((!) ps) (portIndices ps)"
    by (simp add: portIndices_def filter_map o_def)
  then show ?thesis by (simp add: map_nth)
qed

lemma resolvedOf_simps [simp]:
  "rp_Name (resolvedOf p) = pl_Name p" "rp_Port (resolvedOf p) = pl_Port p"
  "rp_Image (resolvedOf p) = pl_Image p" "rp_ConfigMapName (resolvedOf p) = pl_ConfigMapRef p"
  by (simp_all add: resolvedOf_def)

lemma portIndices_sorted:
  assumes sort: "slice_sort (\<lambda>i. rp_Name (map resolvedOf ps ! i)) s" and dist: "distinct (map pl_Name ps)"
  defines "is \<equiv> s (\<lambda>a b. rp_Name (map resolvedOf ps ! a) < rp_Name (map resolvedOf ps ! b)) (portIndices ps)"
  shows "mset is = mset (portIndices ps)" and "map ((!) ps) is = autoPlugins ps"
proof -
  show m: "mset is = mset (portIndices ps)"
    unfolding is_def by (rule slice_sort.perm [OF sort])
  have bound: "i < length ps" if "i \<in> set is" for i
    using that mset_eq_setD [OF m] by (auto simp: portIndices_def)
  have keys: "map (\<lambda>i. rp_Name (map resolvedOf ps ! i)) is = map pl_Name (map ((!) ps) is)"
    using bound by simp
  have "sorted (map (\<lambda>i. rp_Name (map resolvedOf ps ! i)) is)"
    unfolding is_def by (rule slice_sort.ordered [OF sort])
  then have sorted: "sorted (map pl_Name (map ((!) ps) is))" by (simp only: keys)
  have perm: "mset (map ((!) ps) is) = mset (filter (\<lambda>p. pl_Port p = 0) ps)"
    by (metis m map_nth_portIndices mset_map)
  have filtered: "distinct (map pl_Name (filter (\<lambda>p. pl_Port p = 0) ps))"
    using dist by (simp add: distinct_map_filter)
  show "map ((!) ps) is = autoPlugins ps"
    unfolding autoPlugins_def
    by (rule sort_key_determined [OF sorted perm filtered])
qed

lemma map_of_zip_map_inj:
  "inj_on f (insert i (set is)) \<Longrightarrow> map_of (zip (map f is) qs) (f i) = map_of (zip is qs) i"
proof (induction "is" arbitrary: qs)
  case Nil
  then show ?case by simp
next
  case (Cons j "is")
  then have "inj_on f (insert i (set is))" by (auto intro: inj_on_subset)
  with Cons show ?case by (cases qs) (auto simp: inj_on_def)
qed

lemma map_of_zip_notin: "j \<notin> set is \<Longrightarrow> map_of (zip is qs) j = None"
proof (induction "is" arbitrary: qs)
  case Nil
  then show ?case by simp
next
  case (Cons i "is")
  then show ?case by (cases qs) auto
qed

lemma distinct_fst_zip: "distinct is \<Longrightarrow> distinct (map fst (zip is qs))"
  by (simp add: map_fst_zip_take)

lemma assignPorts_nth:
  assumes sort: "slice_sort (\<lambda>i. rp_Name (map resolvedOf ps ! i)) s" and dist: "distinct (map pl_Name ps)"
    and j: "j < length ps"
  defines "is \<equiv> s (\<lambda>a b. rp_Name (map resolvedOf ps ! a) < rp_Name (map resolvedOf ps ! b)) (portIndices ps)"
  shows "assignPorts is (map resolvedOf ps) (usedPorts ps) pluginPortMin ! j
    = (resolvedOf (ps ! j))\<lparr>rp_Port := assignedPort ps (ps ! j)\<rparr>"
proof -
  let ?free = "freeFrom (usedPorts ps) pluginPortMin"
  note idx = portIndices_sorted [OF sort dist, folded is_def]
  have "distinct is"
    using mset_eq_imp_distinct_iff [OF idx(1)] by (simp add: portIndices_def)
  have members: "set is = {i. i < length ps \<and> pl_Port (ps ! i) = 0}"
    using mset_eq_setD [OF idx(1)] by (auto simp: portIndices_def)
  have "assignPorts is (map resolvedOf ps) (usedPorts ps) pluginPortMin ! j
      = (case map_of (zip is ?free) j of None \<Rightarrow> map resolvedOf ps ! j
         | Some q \<Rightarrow> (map resolvedOf ps ! j)\<lparr>rp_Port := q\<rparr>)"
    unfolding assignPorts_zip using j by (intro fold_setPort_nth distinct_fst_zip) (auto intro: \<open>distinct is\<close>)
  also have "\<dots> = (resolvedOf (ps ! j))\<lparr>rp_Port := assignedPort ps (ps ! j)\<rparr>"
  proof (cases "pl_Port (ps ! j) = 0")
    case False
    then have "map_of (zip is ?free) j = None"
      by (intro map_of_zip_notin) (simp add: members)
    with False j show ?thesis by (simp add: assignedPort_def resolvedOf_def)
  next
    case True
    have "inj_on (\<lambda>i. pl_Name (ps ! i)) (insert j (set is))"
      using dist j members by (auto simp: inj_on_def distinct_conv_nth)
    then have "map_of (zip (map (\<lambda>i. pl_Name (ps ! i)) is) ?free) (pl_Name (ps ! j)) = map_of (zip is ?free) j"
      by (rule map_of_zip_map_inj)
    moreover have "map (\<lambda>i. pl_Name (ps ! i)) is = map pl_Name (autoPlugins ps)"
      by (simp add: idx(2) [symmetric])
    ultimately show ?thesis
      using True j by (simp add: assignedPort_def resolvedOf_def split: option.split)
  qed
  finally show ?thesis .
qed

lemma assignPorts_length: "length (assignPorts is out used next) = length out"
  by (simp add: assignPorts_zip)

text \<open>C6: Whatever sorting algorithm \<open>sort.Slice\<close> uses, as long as it keeps its documented
  contract, \<open>resolvePlugins\<close> computes the specification when the plugin names are
  distinct, as the CRD demands: every plugin keeps its name, image and ConfigMap, an
  explicit port wins, the others get the free ports in order of name, and the result is
  sorted by name.\<close>

theorem resolvePlugins_with_spec:
  assumes "slice_sort (\<lambda>i. rp_Name (map resolvedOf ps ! i)) sort_idx"
    and "slice_sort rp_Name sort_out"
    and "distinct (map pl_Name ps)"
  shows "resolvePlugins_with sort_idx sort_out ps = resolvePlugins_spec ps"
proof (cases "ps = []")
  case True
  then show ?thesis by (simp add: resolvePlugins_with_def resolvePlugins_spec_def)
next
  case False
  let ?is = "sort_idx (\<lambda>a b. rp_Name (map resolvedOf ps ! a) < rp_Name (map resolvedOf ps ! b)) (portIndices ps)"
  let ?out = "map (\<lambda>p. (resolvedOf p)\<lparr>rp_Port := assignedPort ps p\<rparr>) ps"
  have "assignPorts ?is (map resolvedOf ps) (usedPorts ps) pluginPortMin = ?out"
    using assignPorts_nth [OF assms(1,3)]
    by (intro nth_equalityI) (simp_all add: assignPorts_length)
  then have "resolvePlugins_with sort_idx sort_out ps = sort_out (\<lambda>a b. rp_Name a < rp_Name b) ?out"
    using False by (simp add: resolvePlugins_with_def Let_def portIndices_def usedPorts_def)
  also have "\<dots> = sort_key rp_Name ?out"
  proof -
    have "distinct (map rp_Name ?out)" using assms(3) by (simp add: o_def)
    then show ?thesis by (simp add: slice_sort_agree [OF assms(2)] sort_Slice_sort_key)
  qed
  finally show ?thesis by (simp add: resolvePlugins_spec_def)
qed

lemma resolvePlugins_spec_eq: "distinct (map pl_Name ps) \<Longrightarrow> resolvePlugins ps = resolvePlugins_spec ps"
  by (simp add: resolvePlugins_def resolvePlugins_with_spec insertion.slice_sort_axioms)


definition example_plugins :: "PluginSpec list" where
  "example_plugins =
     [\<lparr>pl_Name = ''secscan'', pl_Image = ''example/secscan:0.1'', pl_Port = 0, pl_ConfigMapRef = []\<rparr>,
      \<lparr>pl_Name = ''orgpolicy'', pl_Image = ''example/orgpolicy:1'', pl_Port = 50100, pl_ConfigMapRef = ''org''\<rparr>,
      \<lparr>pl_Name = ''alpha'', pl_Image = ''example/alpha:1'', pl_Port = 0, pl_ConfigMapRef = []\<rparr>]"

lemma example_plugins_valid: "valid_plugins example_plugins"
  by code_simp

theorem resolvePlugins_with_spec_witness:
  "distinct (map pl_Name example_plugins)
   \<and> resolvePlugins_with sort_Slice sort_Slice example_plugins = resolvePlugins_spec example_plugins
   \<and> map (\<lambda>r. (rp_Name r, rp_Port r)) (resolvePlugins_spec example_plugins)
     = [(''alpha'', 50101), (''orgpolicy'', 50100), (''secscan'', 50102)]"
proof -
  have dist: "distinct (map pl_Name example_plugins)"
    using example_plugins_valid by (rule valid_plugins_names)
  have "map (\<lambda>r. (rp_Name r, rp_Port r)) (resolvePlugins_spec example_plugins)
     = [(''alpha'', 50101), (''orgpolicy'', 50100), (''secscan'', 50102)]"
    by code_simp
  then show ?thesis
    using dist resolvePlugins_with_spec
      [OF insertion.slice_sort_axioms insertion.slice_sort_axioms dist] by simp
qed

subsection \<open>Consequences\<close>

lemma resolvePlugins_mset:
  assumes "distinct (map pl_Name ps)"
  shows "mset (resolvePlugins ps) = mset (map (\<lambda>p. (resolvedOf p)\<lparr>rp_Port := assignedPort ps p\<rparr>) ps)"
  by (simp add: resolvePlugins_spec_eq [OF assms] resolvePlugins_spec_def)

lemma resolvePlugins_set:
  "distinct (map pl_Name ps) \<Longrightarrow>
   set (resolvePlugins ps) = (\<lambda>p. (resolvedOf p)\<lparr>rp_Port := assignedPort ps p\<rparr>) ` set ps"
  using resolvePlugins_mset [of ps] by (metis list.set_map set_mset_mset)

lemma autoPlugins_names:
  assumes "distinct (map pl_Name ps)"
  shows "distinct (map pl_Name (autoPlugins ps))" and "sorted (map pl_Name (autoPlugins ps))"
proof -
  have "mset (map pl_Name (autoPlugins ps)) = mset (map pl_Name (filter (\<lambda>p. pl_Port p = 0) ps))"
    by (simp add: autoPlugins_def)
  then show "distinct (map pl_Name (autoPlugins ps))"
    using distinct_map_filter [OF assms] by (metis mset_eq_imp_distinct_iff)
  show "sorted (map pl_Name (autoPlugins ps))" by (simp add: autoPlugins_def)
qed

text \<open>The \<open>k\<close>-th plugin by name without a port gets the \<open>k\<close>-th free port.\<close>

lemma assignedPort_auto_nth:
  assumes dist: "distinct (map pl_Name ps)" and len: "length ps \<le> 100" and k: "k < length (autoPlugins ps)"
  shows "assignedPort ps (autoPlugins ps ! k) = freeFrom (usedPorts ps) pluginPortMin ! k"
proof -
  let ?auto = "autoPlugins ps" and ?free = "freeFrom (usedPorts ps) pluginPortMin"
  have "k < length ?free" using enough_ports [OF len] k by simp
  then have "(map pl_Name ?auto ! k, ?free ! k) \<in> set (zip (map pl_Name ?auto) ?free)"
    unfolding in_set_zip using k by (intro exI [of _ k]) simp
  then have "map_of (zip (map pl_Name ?auto) ?free) (map pl_Name ?auto ! k) = Some (?free ! k)"
    by (intro map_of_is_SomeI distinct_fst_zip autoPlugins_names(1) [OF dist])
  moreover have "pl_Port (?auto ! k) = 0"
    using nth_mem [OF k] by (simp add: autoPlugins_set)
  ultimately show ?thesis using k by (simp add: assignedPort_def)
qed

lemma assignedPort_auto:
  assumes "distinct (map pl_Name ps)" "length ps \<le> 100" "p \<in> set ps" "pl_Port p = 0"
  obtains k where "k < length (autoPlugins ps)" "k < length (freeFrom (usedPorts ps) pluginPortMin)"
    "autoPlugins ps ! k = p" "assignedPort ps p = freeFrom (usedPorts ps) pluginPortMin ! k"
proof -
  have "p \<in> set (autoPlugins ps)" using assms(3,4) by (simp add: autoPlugins_set)
  then obtain k where "k < length (autoPlugins ps)" "autoPlugins ps ! k = p"
    by (auto simp: in_set_conv_nth)
  then show thesis
    using assignedPort_auto_nth [OF assms(1,2)] enough_ports [OF assms(2)] that by fastforce
qed

lemma assignedPort_auto_free:
  assumes "distinct (map pl_Name ps)" "length ps \<le> 100" "p \<in> set ps" "pl_Port p = 0"
  shows "assignedPort ps p \<in> set (freeFrom (usedPorts ps) pluginPortMin)"
  using assignedPort_auto [OF assms] by (metis nth_mem)

lemma assignedPort_inj:
  assumes valid: "valid_plugins ps"
  shows "inj_on (assignedPort ps) (set ps)"
proof (rule inj_onI)
  fix p q
  assume p: "p \<in> set ps" and q: "q \<in> set ps" and eq: "assignedPort ps p = assignedPort ps q"
  note dist = valid_plugins_names [OF valid]
  have len: "length ps \<le> 100" using valid by (simp add: valid_plugins_def)
  have used: "assignedPort ps r \<in> usedPorts ps \<longleftrightarrow> pl_Port r \<noteq> 0" if "r \<in> set ps" for r
    using that assignedPort_auto_free [OF dist len that]
    by (auto simp: assignedPort_def usedPorts_def freeFrom_set)
  show "p = q"
  proof (cases "pl_Port p = 0")
    case True
    with used p q eq have "pl_Port q = 0" by metis
    then show ?thesis
      using True eq assignedPort_auto [OF dist len p] assignedPort_auto [OF dist len q]
      by (metis nth_eq_iff_index_eq freeFrom_distinct)
  next
    case False
    with used p q eq have "pl_Port q \<noteq> 0" by metis
    with False eq have "pl_Port p = pl_Port q" by (simp add: assignedPort_def)
    moreover have "inj_on pl_Port {r \<in> set ps. pl_Port r \<noteq> 0}"
    proof -
      have "distinct (map pl_Port (filter (\<lambda>r. pl_Port r \<noteq> 0) ps))"
        using valid by (simp add: valid_plugins_def filter_map o_def)
      then show ?thesis by (simp add: distinct_map)
    qed
    ultimately show ?thesis
      using False \<open>pl_Port q \<noteq> 0\<close> p q by (auto dest: inj_onD)
  qed
qed


lemma resolvePlugins_names:
  assumes "distinct (map pl_Name ps)"
  shows "mset (map rp_Name (resolvePlugins ps)) = mset (map pl_Name ps)"
    and "sorted (map rp_Name (resolvePlugins ps))"
    and "distinct (map rp_Name (resolvePlugins ps))"
proof -
  show m: "mset (map rp_Name (resolvePlugins ps)) = mset (map pl_Name ps)"
    using resolvePlugins_mset [OF assms]
    by (simp add: mset_map [of rp_Name "resolvePlugins ps"] multiset.map_comp o_def)
  show "sorted (map rp_Name (resolvePlugins ps))"
    by (simp add: resolvePlugins_spec_eq [OF assms] resolvePlugins_spec_def)
  show "distinct (map rp_Name (resolvePlugins ps))"
    using assms mset_eq_imp_distinct_iff [OF m] by simp
qed

lemma plugin_ports_ok:
  assumes "valid_plugins ps"
  shows "distinct (map rp_Port (resolvePlugins ps))"
    and "\<forall>r \<in> set (resolvePlugins ps). 50100 \<le> rp_Port r \<and> rp_Port r \<le> 50199"
proof -
  note dist = valid_plugins_names [OF assms]
  have len: "length ps \<le> 100" using assms by (simp add: valid_plugins_def)
  have "mset (map rp_Port (resolvePlugins ps)) = mset (map (assignedPort ps) ps)"
    using resolvePlugins_mset [OF dist]
    by (simp add: mset_map [of rp_Port "resolvePlugins ps"] multiset.map_comp o_def)
  moreover have "distinct (map (assignedPort ps) ps)"
    using assignedPort_inj [OF assms] dist by (auto simp: distinct_map)
  ultimately show "distinct (map rp_Port (resolvePlugins ps))"
    by (metis mset_eq_imp_distinct_iff)
  have range: "50100 \<le> assignedPort ps p \<and> assignedPort ps p \<le> 50199" if "p \<in> set ps" for p
  proof (cases "pl_Port p = 0")
    case True
    with assignedPort_auto_free [OF dist len that] show ?thesis
      by (simp add: freeFrom_set pluginPortMin_def pluginPortMax_def)
  next
    case False
    with assms that show ?thesis
      by (auto simp: assignedPort_def valid_plugins_def list_all_iff)
  qed
  show "\<forall>r \<in> set (resolvePlugins ps). 50100 \<le> rp_Port r \<and> rp_Port r \<le> 50199"
    using range by (auto simp: resolvePlugins_set [OF dist])
qed

text \<open>C23: For every plugin list the CRD admits, the ports \<open>resolvePlugins\<close> returns are pairwise
  distinct and lie in 50100 to 50199: no plugin is left at port 0, so the "should not
  happen" branch of the code never happens.\<close>

theorem plugin_ports_valid:
  assumes "valid_plugins ps"
  shows "distinct (map rp_Port (resolvePlugins ps))
    \<and> list_all (\<lambda>r. 50100 \<le> rp_Port r \<and> rp_Port r \<le> 50199) (resolvePlugins ps)"
  using plugin_ports_ok [OF assms] by (simp add: list_all_iff)

theorem plugin_ports_valid_witness:
  "valid_plugins example_plugins
   \<and> distinct (map rp_Port (resolvePlugins example_plugins))
   \<and> list_all (\<lambda>r. 50100 \<le> rp_Port r \<and> rp_Port r \<le> 50199) (resolvePlugins example_plugins)"
  using example_plugins_valid plugin_ports_valid [OF example_plugins_valid] by simp

text \<open>C24: The result does not depend on the order in which the resource lists its plugins: any
  permutation of a list with distinct names resolves to the same list, so reordering
  \<open>spec.plugins\<close> never moves a port.\<close>

theorem resolvePlugins_permutation:
  assumes "mset qs = mset ps" and "distinct (map pl_Name ps)"
  shows "resolvePlugins qs = resolvePlugins ps"
proof -
  have dist: "distinct (map pl_Name qs)"
    using assms by (metis mset_eq_imp_distinct_iff mset_map)
  have sets: "set qs = set ps" using assms(1) by (rule mset_eq_setD)
  have auto: "autoPlugins qs = autoPlugins ps"
  proof -
    have "mset (filter (\<lambda>p. pl_Port p = 0) qs) = mset (filter (\<lambda>p. pl_Port p = 0) ps)"
      using assms(1) by simp
    then show ?thesis
      unfolding autoPlugins_def using distinct_map_filter [OF assms(2)]
      by (intro sort_key_determined) simp_all
  qed
  have "usedPorts qs = usedPorts ps" by (auto simp: usedPorts_def sets)
  with auto have port: "assignedPort qs = assignedPort ps" by (simp add: fun_eq_iff assignedPort_def)
  have "mset (resolvePlugins qs) = mset (resolvePlugins ps)"
    by (simp only: resolvePlugins_mset [OF dist] resolvePlugins_mset [OF assms(2)] port mset_map assms(1))
  then have "resolvePlugins qs = sort_key rp_Name (resolvePlugins ps)"
    by (intro sort_key_determined resolvePlugins_names [OF dist] resolvePlugins_names [OF assms(2)])
  also have "\<dots> = resolvePlugins ps"
    using resolvePlugins_names(2) [OF assms(2)] by (rule sort_key_id_if_sorted)
  finally show ?thesis .
qed

theorem resolvePlugins_permutation_witness:
  "mset (rev example_plugins) = mset example_plugins
   \<and> rev example_plugins \<noteq> example_plugins
   \<and> resolvePlugins (rev example_plugins) = resolvePlugins example_plugins"
  using resolvePlugins_permutation [of "rev example_plugins" example_plugins]
    valid_plugins_names [OF example_plugins_valid]
  by (simp add: example_plugins_def)

text \<open>A plugin without an explicit port receives the lowest port that is still free when its
  turn comes by name: every smaller port of the range is either some plugin's explicit
  port or was assigned to a plugin that sorts before it.\<close>

lemma plugin_lowest_free_port:
  assumes "valid_plugins ps" and "p \<in> set ps" and "pl_Port p = 0"
    and "50100 \<le> q" and "q < assignedPort ps p"
  shows "(\<exists>r \<in> set ps. pl_Port r = q) \<or>
    (\<exists>r \<in> set ps. pl_Port r = 0 \<and> pl_Name r < pl_Name p \<and> assignedPort ps r = q)"
proof (cases "q \<in> usedPorts ps")
  case True
  then show ?thesis by (auto simp: usedPorts_def)
next
  case False
  let ?auto = "autoPlugins ps" and ?free = "freeFrom (usedPorts ps) pluginPortMin"
  note dist = valid_plugins_names [OF assms(1)]
  have len: "length ps \<le> 100" using assms(1) by (simp add: valid_plugins_def)
  obtain k where k: "k < length ?auto" "k < length ?free" "?auto ! k = p" "assignedPort ps p = ?free ! k"
    using assignedPort_auto [OF dist len assms(2,3)] .
  have "?free ! k \<le> pluginPortMax" using nth_mem [OF k(2)] by (simp add: freeFrom_set)
  then have "q \<in> set ?free"
    using False assms(4,5) k(4) by (simp add: freeFrom_set pluginPortMin_def)
  then obtain j where j: "j < length ?free" "?free ! j = q" by (auto simp: in_set_conv_nth)
  then have "j < k"
    using assms(5) k sorted_nth_mono [OF freeFrom_sorted, of k j] by (metis linorder_not_le)
  then have "assignedPort ps (?auto ! j) = q" and mem: "?auto ! j \<in> set ?auto"
    using assignedPort_auto_nth [OF dist len] j k by simp_all
  moreover have "pl_Name (?auto ! j) < pl_Name (?auto ! k)"
  proof -
    have "pl_Name (?auto ! j) \<le> pl_Name (?auto ! k)"
      using sorted_nth_mono [OF autoPlugins_names(2) [OF dist], of j k] \<open>j < k\<close> k by simp
    moreover have "pl_Name (?auto ! j) \<noteq> pl_Name (?auto ! k)"
      using nth_eq_iff_index_eq [OF autoPlugins_names(1) [OF dist], of j k] \<open>j < k\<close> k by simp
    ultimately show ?thesis by simp
  qed
  ultimately show ?thesis using k mem by (auto simp: autoPlugins_set)
qed

end
