(* ===== verification/Resolve_Facts.thy ===== *)
theory Resolve_Facts
  imports Plugin_Ports
begin

text \<open>
  What \<open>From\<close> promises to the rest of the operator: the value of each field
  (\<open>resolve_simps\<close>) and the invariant \<open>resolved\<close>, which says that no string the
  manifests need is left empty and that the mode flags agree with each other.
\<close>

subsection \<open>What each stage of \<open>From\<close> leaves alone\<close>

lemma From_image_frame [simp]:
  "d_Name (From_image cr d) = d_Name d"
  "d_Namespace (From_image cr d) = d_Namespace d"
  "d_PullSecrets (From_image cr d) = d_PullSecrets d"
  "d_Gitleaks (From_image cr d) = d_Gitleaks d"
  "d_CollectionHealth (From_image cr d) = d_CollectionHealth d"
  "d_DepAudit (From_image cr d) = d_DepAudit d"
  "d_UI (From_image cr d) = d_UI d"
  "d_Plugins (From_image cr d) = d_Plugins d"
  "d_ProxyAdminTokenName (From_image cr d) = d_ProxyAdminTokenName d"
  "d_ProxyAdminTokenKey (From_image cr d) = d_ProxyAdminTokenKey d"
  "d_GalaxyTLSVerify (From_image cr d) = d_GalaxyTLSVerify d"
  "d_Abbenay (From_image cr d) = d_Abbenay d"
  "d_AbbenayImage (From_image cr d) = d_AbbenayImage d"
  "d_AbbenayTokenName (From_image cr d) = d_AbbenayTokenName d"
  "d_AbbenayTokenKey (From_image cr d) = d_AbbenayTokenKey d"
  "d_GenerateAbbenayToken (From_image cr d) = d_GenerateAbbenayToken d"
  "d_AbbenayConfigMap (From_image cr d) = d_AbbenayConfigMap d"
  "d_AbbenayPersist (From_image cr d) = d_AbbenayPersist d"
  "d_AbbenayPVCSize (From_image cr d) = d_AbbenayPVCSize d"
  "d_AbbenayStorageClass (From_image cr d) = d_AbbenayStorageClass d"
  "d_DatabaseMode (From_image cr d) = d_DatabaseMode d"
  "d_DatabaseSecretName (From_image cr d) = d_DatabaseSecretName d"
  "d_DatabaseSecretKey (From_image cr d) = d_DatabaseSecretKey d"
  "d_GeneratePostgres (From_image cr d) = d_GeneratePostgres d"
  "d_PostgresImage (From_image cr d) = d_PostgresImage d"
  "d_PostgresSize (From_image cr d) = d_PostgresSize d"
  "d_PostgresStorageClass (From_image cr d) = d_PostgresStorageClass d"
  "d_PostgresResources (From_image cr d) = d_PostgresResources d"
  "d_PostgresTLSSecretName (From_image cr d) = d_PostgresTLSSecretName d"
  "d_GeneratePostgresTLS (From_image cr d) = d_GeneratePostgresTLS d"
  "d_SessionsSize (From_image cr d) = d_SessionsSize d"
  "d_SessionsStorageClass (From_image cr d) = d_SessionsStorageClass d"
  "d_ProxyCacheSize (From_image cr d) = d_ProxyCacheSize d"
  "d_ProxyCacheStorageClass (From_image cr d) = d_ProxyCacheStorageClass d"
  "d_RouteEnabled (From_image cr d) = d_RouteEnabled d"
  "d_RouteHost (From_image cr d) = d_RouteHost d"
  "d_RouteTermination (From_image cr d) = d_RouteTermination d"
  "d_RouteInsecureEdgeTerminationPolicy (From_image cr d) = d_RouteInsecureEdgeTerminationPolicy d"
  "d_IngressEnabled (From_image cr d) = d_IngressEnabled d"
  "d_IngressClassName (From_image cr d) = d_IngressClassName d"
  "d_IngressHost (From_image cr d) = d_IngressHost d"
  "d_IngressAnnotations (From_image cr d) = d_IngressAnnotations d"
  "d_IngressTLSSecretName (From_image cr d) = d_IngressTLSSecretName d"
  "d_NetworkPolicy (From_image cr d) = d_NetworkPolicy d"
  "d_Resources (From_image cr d) = d_Resources d"
  "d_ProxyEnv (From_image cr d) = d_ProxyEnv d"
  by (simp_all add: From_image_def Let_def split: option.split)

lemma From_exposure_frame [simp]:
  "d_Name (From_exposure E cr d) = d_Name d"
  "d_Namespace (From_exposure E cr d) = d_Namespace d"
  "d_Version (From_exposure E cr d) = d_Version d"
  "d_Registry (From_exposure E cr d) = d_Registry d"
  "d_PullPolicy (From_exposure E cr d) = d_PullPolicy d"
  "d_PullSecrets (From_exposure E cr d) = d_PullSecrets d"
  "d_Replicas (From_exposure E cr d) = d_Replicas d"
  "d_Gitleaks (From_exposure E cr d) = d_Gitleaks d"
  "d_CollectionHealth (From_exposure E cr d) = d_CollectionHealth d"
  "d_DepAudit (From_exposure E cr d) = d_DepAudit d"
  "d_UI (From_exposure E cr d) = d_UI d"
  "d_Plugins (From_exposure E cr d) = d_Plugins d"
  "d_ProxyAdminTokenName (From_exposure E cr d) = d_ProxyAdminTokenName d"
  "d_ProxyAdminTokenKey (From_exposure E cr d) = d_ProxyAdminTokenKey d"
  "d_GalaxyTLSVerify (From_exposure E cr d) = d_GalaxyTLSVerify d"
  "d_GalaxyCAConfigMap (From_exposure E cr d) = d_GalaxyCAConfigMap d"
  "d_GalaxyCAKey (From_exposure E cr d) = d_GalaxyCAKey d"
  "d_Abbenay (From_exposure E cr d) = d_Abbenay d"
  "d_AbbenayImage (From_exposure E cr d) = d_AbbenayImage d"
  "d_AbbenayTokenName (From_exposure E cr d) = d_AbbenayTokenName d"
  "d_AbbenayTokenKey (From_exposure E cr d) = d_AbbenayTokenKey d"
  "d_GenerateAbbenayToken (From_exposure E cr d) = d_GenerateAbbenayToken d"
  "d_AbbenayConfigMap (From_exposure E cr d) = d_AbbenayConfigMap d"
  "d_AbbenayPersist (From_exposure E cr d) = d_AbbenayPersist d"
  "d_AbbenayPVCSize (From_exposure E cr d) = d_AbbenayPVCSize d"
  "d_AbbenayStorageClass (From_exposure E cr d) = d_AbbenayStorageClass d"
  "d_DatabaseMode (From_exposure E cr d) = d_DatabaseMode d"
  "d_DatabaseSecretName (From_exposure E cr d) = d_DatabaseSecretName d"
  "d_DatabaseSecretKey (From_exposure E cr d) = d_DatabaseSecretKey d"
  "d_GeneratePostgres (From_exposure E cr d) = d_GeneratePostgres d"
  "d_PostgresImage (From_exposure E cr d) = d_PostgresImage d"
  "d_PostgresSize (From_exposure E cr d) = d_PostgresSize d"
  "d_PostgresStorageClass (From_exposure E cr d) = d_PostgresStorageClass d"
  "d_PostgresResources (From_exposure E cr d) = d_PostgresResources d"
  "d_PostgresTLSSecretName (From_exposure E cr d) = d_PostgresTLSSecretName d"
  "d_GeneratePostgresTLS (From_exposure E cr d) = d_GeneratePostgresTLS d"
  "d_RouteHost (From_exposure E cr d) = d_RouteHost d"
  "d_IngressEnabled (From_exposure E cr d) = d_IngressEnabled d"
  "d_IngressClassName (From_exposure E cr d) = d_IngressClassName d"
  "d_IngressHost (From_exposure E cr d) = d_IngressHost d"
  "d_IngressAnnotations (From_exposure E cr d) = d_IngressAnnotations d"
  "d_IngressTLSSecretName (From_exposure E cr d) = d_IngressTLSSecretName d"
  "d_NetworkPolicy (From_exposure E cr d) = d_NetworkPolicy d"
  "d_Resources (From_exposure E cr d) = d_Resources d"
  "d_ProxyEnv (From_exposure E cr d) = d_ProxyEnv d"
  by (simp_all add: From_exposure_def Let_def split: option.split)

lemma From_database_frame [simp]:
  "d_Name (From_database E cr d) = d_Name d"
  "d_Namespace (From_database E cr d) = d_Namespace d"
  "d_Version (From_database E cr d) = d_Version d"
  "d_Registry (From_database E cr d) = d_Registry d"
  "d_PullPolicy (From_database E cr d) = d_PullPolicy d"
  "d_PullSecrets (From_database E cr d) = d_PullSecrets d"
  "d_Replicas (From_database E cr d) = d_Replicas d"
  "d_Gitleaks (From_database E cr d) = d_Gitleaks d"
  "d_CollectionHealth (From_database E cr d) = d_CollectionHealth d"
  "d_DepAudit (From_database E cr d) = d_DepAudit d"
  "d_UI (From_database E cr d) = d_UI d"
  "d_Plugins (From_database E cr d) = d_Plugins d"
  "d_ProxyAdminTokenName (From_database E cr d) = d_ProxyAdminTokenName d"
  "d_ProxyAdminTokenKey (From_database E cr d) = d_ProxyAdminTokenKey d"
  "d_GalaxyTLSVerify (From_database E cr d) = d_GalaxyTLSVerify d"
  "d_GalaxyCAConfigMap (From_database E cr d) = d_GalaxyCAConfigMap d"
  "d_GalaxyCAKey (From_database E cr d) = d_GalaxyCAKey d"
  "d_Abbenay (From_database E cr d) = d_Abbenay d"
  "d_AbbenayImage (From_database E cr d) = d_AbbenayImage d"
  "d_AbbenayTokenName (From_database E cr d) = d_AbbenayTokenName d"
  "d_AbbenayTokenKey (From_database E cr d) = d_AbbenayTokenKey d"
  "d_GenerateAbbenayToken (From_database E cr d) = d_GenerateAbbenayToken d"
  "d_AbbenayConfigMap (From_database E cr d) = d_AbbenayConfigMap d"
  "d_AbbenayPersist (From_database E cr d) = d_AbbenayPersist d"
  "d_AbbenayPVCSize (From_database E cr d) = d_AbbenayPVCSize d"
  "d_AbbenayStorageClass (From_database E cr d) = d_AbbenayStorageClass d"
  "d_SessionsSize (From_database E cr d) = d_SessionsSize d"
  "d_SessionsStorageClass (From_database E cr d) = d_SessionsStorageClass d"
  "d_ProxyCacheSize (From_database E cr d) = d_ProxyCacheSize d"
  "d_ProxyCacheStorageClass (From_database E cr d) = d_ProxyCacheStorageClass d"
  "d_RouteEnabled (From_database E cr d) = d_RouteEnabled d"
  "d_RouteHost (From_database E cr d) = d_RouteHost d"
  "d_RouteTermination (From_database E cr d) = d_RouteTermination d"
  "d_RouteInsecureEdgeTerminationPolicy (From_database E cr d) = d_RouteInsecureEdgeTerminationPolicy d"
  "d_IngressEnabled (From_database E cr d) = d_IngressEnabled d"
  "d_IngressClassName (From_database E cr d) = d_IngressClassName d"
  "d_IngressHost (From_database E cr d) = d_IngressHost d"
  "d_IngressAnnotations (From_database E cr d) = d_IngressAnnotations d"
  "d_IngressTLSSecretName (From_database E cr d) = d_IngressTLSSecretName d"
  "d_NetworkPolicy (From_database E cr d) = d_NetworkPolicy d"
  "d_Resources (From_database E cr d) = d_Resources d"
  "d_ProxyEnv (From_database E cr d) = d_ProxyEnv d"
  by (simp_all add: From_database_def Let_def split: option.split)

lemma From_abbenay_frame [simp]:
  "d_Name (From_abbenay E cr d) = d_Name d"
  "d_Namespace (From_abbenay E cr d) = d_Namespace d"
  "d_Version (From_abbenay E cr d) = d_Version d"
  "d_Registry (From_abbenay E cr d) = d_Registry d"
  "d_PullPolicy (From_abbenay E cr d) = d_PullPolicy d"
  "d_PullSecrets (From_abbenay E cr d) = d_PullSecrets d"
  "d_Replicas (From_abbenay E cr d) = d_Replicas d"
  "d_Gitleaks (From_abbenay E cr d) = d_Gitleaks d"
  "d_CollectionHealth (From_abbenay E cr d) = d_CollectionHealth d"
  "d_DepAudit (From_abbenay E cr d) = d_DepAudit d"
  "d_UI (From_abbenay E cr d) = d_UI d"
  "d_Plugins (From_abbenay E cr d) = d_Plugins d"
  "d_ProxyAdminTokenName (From_abbenay E cr d) = d_ProxyAdminTokenName d"
  "d_ProxyAdminTokenKey (From_abbenay E cr d) = d_ProxyAdminTokenKey d"
  "d_GalaxyTLSVerify (From_abbenay E cr d) = d_GalaxyTLSVerify d"
  "d_GalaxyCAConfigMap (From_abbenay E cr d) = d_GalaxyCAConfigMap d"
  "d_GalaxyCAKey (From_abbenay E cr d) = d_GalaxyCAKey d"
  "d_Abbenay (From_abbenay E cr d) = d_Abbenay d"
  "d_AbbenayConfigMap (From_abbenay E cr d) = d_AbbenayConfigMap d"
  "d_DatabaseMode (From_abbenay E cr d) = d_DatabaseMode d"
  "d_DatabaseSecretName (From_abbenay E cr d) = d_DatabaseSecretName d"
  "d_DatabaseSecretKey (From_abbenay E cr d) = d_DatabaseSecretKey d"
  "d_GeneratePostgres (From_abbenay E cr d) = d_GeneratePostgres d"
  "d_PostgresImage (From_abbenay E cr d) = d_PostgresImage d"
  "d_PostgresSize (From_abbenay E cr d) = d_PostgresSize d"
  "d_PostgresStorageClass (From_abbenay E cr d) = d_PostgresStorageClass d"
  "d_PostgresResources (From_abbenay E cr d) = d_PostgresResources d"
  "d_PostgresTLSSecretName (From_abbenay E cr d) = d_PostgresTLSSecretName d"
  "d_GeneratePostgresTLS (From_abbenay E cr d) = d_GeneratePostgresTLS d"
  "d_SessionsSize (From_abbenay E cr d) = d_SessionsSize d"
  "d_SessionsStorageClass (From_abbenay E cr d) = d_SessionsStorageClass d"
  "d_ProxyCacheSize (From_abbenay E cr d) = d_ProxyCacheSize d"
  "d_ProxyCacheStorageClass (From_abbenay E cr d) = d_ProxyCacheStorageClass d"
  "d_RouteEnabled (From_abbenay E cr d) = d_RouteEnabled d"
  "d_RouteHost (From_abbenay E cr d) = d_RouteHost d"
  "d_RouteTermination (From_abbenay E cr d) = d_RouteTermination d"
  "d_RouteInsecureEdgeTerminationPolicy (From_abbenay E cr d) = d_RouteInsecureEdgeTerminationPolicy d"
  "d_IngressEnabled (From_abbenay E cr d) = d_IngressEnabled d"
  "d_IngressClassName (From_abbenay E cr d) = d_IngressClassName d"
  "d_IngressHost (From_abbenay E cr d) = d_IngressHost d"
  "d_IngressAnnotations (From_abbenay E cr d) = d_IngressAnnotations d"
  "d_IngressTLSSecretName (From_abbenay E cr d) = d_IngressTLSSecretName d"
  "d_NetworkPolicy (From_abbenay E cr d) = d_NetworkPolicy d"
  "d_Resources (From_abbenay E cr d) = d_Resources d"
  "d_ProxyEnv (From_abbenay E cr d) = d_ProxyEnv d"
  by (simp_all add: From_abbenay_def Let_def split: option.split)

subsection \<open>The value of each field\<close>

lemma From_identity [resolve_simps]:
  "d_Name (From E cr) = m_name (apme_meta cr)"
  "d_Namespace (From E cr) = m_namespace (apme_meta cr)"
  "d_Plugins (From E cr) = resolvePlugins (spec_Plugins (apme_Spec cr))"
  "d_ProxyEnv (From E cr) = clusterProxyEnv E"
  by (simp_all add: From_def Let_def From_literal_def  split: option.split)

lemma From_images [resolve_simps]:
  "d_Version (From E cr) = orDefault (spec_Version (apme_Spec cr)) DefaultVersion"
  "d_Registry (From E cr) = orDefault (img_Registry (spec_Image (apme_Spec cr))) DefaultRegistry"
  "d_PullPolicy (From E cr) = orDefault (img_PullPolicy (spec_Image (apme_Spec cr))) ''IfNotPresent''"
  "d_PullSecrets (From E cr) = img_PullSecrets (spec_Image (apme_Spec cr))"
  "d_Replicas (From E cr) = (if spec_Replicas (apme_Spec cr) = 0 then 1 else spec_Replicas (apme_Spec cr))"
  "d_Resources (From E cr) = spec_Resources (apme_Spec cr)"
  by (simp_all add: From_def Let_def From_literal_def From_image_def split: option.split)

lemma From_components [resolve_simps]:
  "d_Gitleaks (From E cr) = defaultTrue (cmp_Gitleaks (spec_Components (apme_Spec cr)))"
  "d_CollectionHealth (From E cr) = defaultTrue (cmp_CollectionHealth (spec_Components (apme_Spec cr)))"
  "d_DepAudit (From E cr) = defaultTrue (cmp_DepAudit (spec_Components (apme_Spec cr)))"
  "d_UI (From E cr) = defaultTrue (cmp_UI (spec_Components (apme_Spec cr)))"
  "d_NetworkPolicy (From E cr) = defaultTrue (npol_Enabled (spec_NetworkPolicy (apme_Spec cr)))"
  "d_Abbenay (From E cr) = ab_Enabled (spec_Abbenay (apme_Spec cr))"
  by (simp_all add: From_def Let_def From_literal_def  split: option.split)

lemma From_galaxy [resolve_simps]:
  "d_ProxyAdminTokenName (From E cr) = m_name (apme_meta cr) @ ''-proxy-admin''"
  "d_ProxyAdminTokenKey (From E cr) = ''token''"
  "d_GalaxyTLSVerify (From E cr) = gt_Verify (spec_GalaxyProxyTLS (apme_Spec cr))"
  "d_GalaxyCAConfigMap (From E cr) =
     (case gt_CABundleConfigMapRef (spec_GalaxyProxyTLS (apme_Spec cr)) of
        None \<Rightarrow> [] | Some ref \<Rightarrow> cmk_Name ref)"
  "d_GalaxyCAKey (From E cr) =
     (case gt_CABundleConfigMapRef (spec_GalaxyProxyTLS (apme_Spec cr)) of
        None \<Rightarrow> ''ca-bundle.crt'' | Some ref \<Rightarrow> orDefault (cmk_Key ref) ''ca-bundle.crt'')"
  by (simp_all add: From_def Let_def From_literal_def From_image_def orDefault_def split: option.split)

lemma From_exposed [resolve_simps]:
  "d_RouteEnabled (From E cr) = defaultTrue (ro_Enabled (ex_Route (spec_Exposure (apme_Spec cr))))"
  "d_RouteHost (From E cr) = ro_Host (ex_Route (spec_Exposure (apme_Spec cr)))"
  "d_RouteTermination (From E cr)
   = orDefault (rt_Termination (ro_TLS (ex_Route (spec_Exposure (apme_Spec cr))))) ''edge''"
  "d_RouteInsecureEdgeTerminationPolicy (From E cr)
   = orDefault (rt_InsecureEdgeTerminationPolicy (ro_TLS (ex_Route (spec_Exposure (apme_Spec cr))))) ''Redirect''"
  "d_IngressEnabled (From E cr) = in_Enabled (ex_Ingress (spec_Exposure (apme_Spec cr)))"
  "d_IngressHost (From E cr) = in_Host (ex_Ingress (spec_Exposure (apme_Spec cr)))"
  "d_IngressTLSSecretName (From E cr) = in_TLSSecretName (ex_Ingress (spec_Exposure (apme_Spec cr)))"
  by (simp_all add: From_def Let_def From_literal_def From_exposure_def split: option.split)

lemma From_storage [resolve_simps]:
  "d_SessionsSize (From E cr) = qtyOr E (pv_Size (st_Sessions (spec_Storage (apme_Spec cr)))) ''10Gi''"
  "d_ProxyCacheSize (From E cr) = qtyOr E (pv_Size (st_ProxyCache (spec_Storage (apme_Spec cr)))) ''10Gi''"
  by (simp_all add: From_def Let_def From_literal_def From_exposure_def split: option.split)

definition externalDB :: "Apme \<Rightarrow> bool" where
  "externalDB cr \<longleftrightarrow> skr_Name (db_ConnectionSecretRef (spec_Database (apme_Spec cr))) \<noteq> []"

lemma From_db [resolve_simps]:
  "d_DatabaseMode (From E cr) = (if externalDB cr then DatabaseExternal else DatabaseManaged)"
  "d_GeneratePostgres (From E cr) = (\<not> externalDB cr)"
  "d_DatabaseSecretName (From E cr) =
     (if externalDB cr then skr_Name (db_ConnectionSecretRef (spec_Database (apme_Spec cr)))
      else m_name (apme_meta cr) @ ''-postgres'')"
  "d_DatabaseSecretKey (From E cr) =
     (if externalDB cr
      then orDefault (skr_Key (db_ConnectionSecretRef (spec_Database (apme_Spec cr)))) ''database-url''
      else ''database-url'')"
  "d_PostgresImage (From E cr) =
     (if externalDB cr then []
      else orDefault (pg_Image (db_Postgres (spec_Database (apme_Spec cr)))) DefaultPostgresImage)"
  "d_PostgresTLSSecretName (From E cr) =
     (if externalDB cr then []
      else orDefault (pg_TLSSecretName (db_Postgres (spec_Database (apme_Spec cr))))
             (m_name (apme_meta cr) @ ''-postgres-tls''))"
  "d_GeneratePostgresTLS (From E cr) =
     (\<not> externalDB cr \<and> pg_TLSSecretName (db_Postgres (spec_Database (apme_Spec cr))) = [])"
  "d_PostgresSize (From E cr) =
     (if externalDB cr then ''0''
      else qtyOr E (pv_Size (pg_Storage (db_Postgres (spec_Database (apme_Spec cr))))) ''10Gi'')"
  by (simp_all add: From_def Let_def From_literal_def From_database_def externalDB_def orDefault_def split: option.split)

lemma From_ai [resolve_simps]:
  "d_AbbenayImage (From E cr) =
     (let img = ab_Image (spec_Abbenay (apme_Spec cr))
      in if ab_Enabled (spec_Abbenay (apme_Spec cr)) then orDefault img DefaultAbbenayImage else img)"
  "d_AbbenayTokenName (From E cr) =
     (let tok = skr_Name (ab_TokenSecretRef (spec_Abbenay (apme_Spec cr)))
      in if ab_Enabled (spec_Abbenay (apme_Spec cr)) then orDefault tok (m_name (apme_meta cr) @ ''-abbenay'') else tok)"
  "d_AbbenayTokenKey (From E cr) =
     (let key = skr_Key (ab_TokenSecretRef (spec_Abbenay (apme_Spec cr)))
      in if ab_Enabled (spec_Abbenay (apme_Spec cr)) then orDefault key ''token'' else key)"
  "d_GenerateAbbenayToken (From E cr) =
     (ab_Enabled (spec_Abbenay (apme_Spec cr)) \<and> skr_Name (ab_TokenSecretRef (spec_Abbenay (apme_Spec cr))) = [])"
  "d_AbbenayConfigMap (From E cr) = ab_ConfigMapRef (spec_Abbenay (apme_Spec cr))"
  "d_AbbenayPersist (From E cr) =
     (ab_Enabled (spec_Abbenay (apme_Spec cr)) \<and> defaultTrue (ap_Enabled (ab_Persistence (spec_Abbenay (apme_Spec cr)))))"
  by (simp_all add: From_def Let_def From_literal_def From_abbenay_def orDefault_def split: option.split)

subsection \<open>The invariant of resolved intents\<close>

definition resolved :: "Desired \<Rightarrow> bool" where
  "resolved d \<longleftrightarrow>
     d_Version d \<noteq> [] \<and> d_Registry d \<noteq> [] \<and> d_PullPolicy d \<noteq> [] \<and> d_Replicas d \<noteq> 0
   \<and> d_ProxyAdminTokenName d = d_Name d @ ''-proxy-admin'' \<and> d_ProxyAdminTokenKey d \<noteq> []
   \<and> d_GalaxyCAKey d \<noteq> []
   \<and> d_RouteTermination d \<noteq> [] \<and> d_RouteInsecureEdgeTerminationPolicy d \<noteq> []
   \<and> d_DatabaseSecretName d \<noteq> [] \<and> d_DatabaseSecretKey d \<noteq> []
   \<and> (if d_GeneratePostgres d
      then d_DatabaseMode d = DatabaseManaged \<and> d_PostgresImage d \<noteq> []
         \<and> d_DatabaseSecretName d = d_Name d @ ''-postgres'' \<and> d_DatabaseSecretKey d = ''database-url''
         \<and> d_PostgresTLSSecretName d \<noteq> []
      else d_DatabaseMode d = DatabaseExternal)
   \<and> (if d_GeneratePostgresTLS d
      then d_GeneratePostgres d \<and> d_PostgresTLSSecretName d = d_Name d @ ''-postgres-tls'' else True)
   \<and> (if d_Abbenay d then d_AbbenayImage d \<noteq> [] \<and> d_AbbenayTokenName d \<noteq> [] \<and> d_AbbenayTokenKey d \<noteq> []
      else \<not> d_AbbenayPersist d)
   \<and> (if d_GenerateAbbenayToken d
      then d_Abbenay d \<and> d_AbbenayTokenName d = d_Name d @ ''-abbenay'' else True)"

lemma orDefault_nonempty [simp]: "dflt \<noteq> [] \<Longrightarrow> orDefault s dflt \<noteq> []"
  by (simp add: orDefault_def)

lemma orDefault_Nil [simp]: "orDefault [] dflt = dflt"
  by (simp add: orDefault_def)

lemma resolved_From [simp]: "resolved (From E cr)"
  unfolding resolved_def
  by (auto simp: resolve_simps externalDB_def DefaultVersion_def DefaultRegistry_def
      DefaultPostgresImage_def DefaultAbbenayImage_def Let_def split: option.split)


subsection \<open>Proxy environment\<close>

lemma clusterProxyEnv_set:
  "e \<in> set (clusterProxyEnv E) \<longleftrightarrow>
     (\<exists>k \<in> set proxyVars. TrimSpace (os_Getenv E k) \<noteq> [] \<and> e = EnvVar k (os_Getenv E k))"
  by (auto simp: clusterProxyEnv_def Let_def split: if_splits)

lemma clusterProxyEnv_names:
  "map ev_name (clusterProxyEnv E) = filter (\<lambda>k. TrimSpace (os_Getenv E k) \<noteq> []) proxyVars"
  by (simp add: clusterProxyEnv_def proxyVars_def Let_def EnvVar_def)

lemma clusterProxyEnv_distinct: "distinct (map ev_name (clusterProxyEnv E))"
  unfolding clusterProxyEnv_names by (rule distinct_filter) (simp add: proxyVars_def)

subsection \<open>An example instance\<close>

text \<open>
  A resource with three plugins, the AI sidecar, a custom CA and a proxy variable in the
  environment; witnesses use it.
\<close>

definition example_env :: resolve_env where
  "example_env = \<lparr>q_IsZero = (\<lambda>q. q = ''0''), q_MustParse = (\<lambda>s. s),
     os_Getenv = (\<lambda>k. if k = ''NO_PROXY'' then ''.cluster.local'' else [])\<rparr>"

definition example_cr :: Apme where
  "example_cr = (zero_apme ''apme'' ''ns'')\<lparr>apme_Spec := zero_spec\<lparr>
     spec_Plugins := example_plugins,
     spec_GalaxyProxyTLS := \<lparr>gt_Verify = Some True,
       gt_CABundleConfigMapRef = Some \<lparr>cmk_Name = ''hub-ca'', cmk_Key = []\<rparr>\<rparr>,
     spec_Abbenay := (spec_Abbenay zero_spec)\<lparr>ab_Enabled := True\<rparr>\<rparr>\<rparr>"

lemma example_cr_simps [simp]:
  "spec_Plugins (apme_Spec example_cr) = example_plugins"
  "m_name (apme_meta example_cr) = ''apme''"
  "m_namespace (apme_meta example_cr) = ''ns''"
  by (simp_all add: example_cr_def zero_apme_def)

lemma From_plugin_names:
  "valid_plugins (spec_Plugins (apme_Spec cr)) \<Longrightarrow> distinct (map rp_Name (d_Plugins (From E cr)))"
  by (simp add: resolve_simps resolvePlugins_names valid_plugins_names)

end
