(* ===== verification/Labels.thy ===== *)
theory Labels
  imports Resolve_Facts "HOL-Library.Word"
begin

text \<open>
  \<open>internal/manifests/labels.go\<close> and the \<open>typeMeta\<close> helper of \<open>sa.go\<close>: object
  metadata, labels and selectors, and the FNV-1a checksum that rolls the Deployment.
\<close>

unbundle bit_operations_syntax

subsection \<open>Labels\<close>

definition appNameLabel :: string where
  "appNameLabel = ''app.kubernetes.io/name''"

definition appInstanceLabel :: string where
  "appInstanceLabel = ''app.kubernetes.io/instance''"

definition appManagedByLabel :: string where
  "appManagedByLabel = ''app.kubernetes.io/managed-by''"

definition appComponentLabel :: string where
  "appComponentLabel = ''app.kubernetes.io/component''"

definition managedBy :: string where
  "managedBy = ''apme-operator''"

definition componentEngine :: string where
  "componentEngine = ''engine''"

definition componentGateway :: string where
  "componentGateway = ''gateway''"

definition componentUI :: string where
  "componentUI = ''ui''"

definition componentPostgres :: string where
  "componentPostgres = ''postgres''"

definition componentAbbenay :: string where
  "componentAbbenay = ''abbenay''"

lemmas label_keys = appNameLabel_def appInstanceLabel_def appManagedByLabel_def appComponentLabel_def

lemmas component_names = componentEngine_def componentGateway_def componentUI_def
  componentPostgres_def componentAbbenay_def

definition labels :: "Desired \<Rightarrow> string \<Rightarrow> strmap" where
  "labels d component =
     [(appNameLabel, ''apme''),
      (appInstanceLabel, d_Name d),
      (appManagedByLabel, managedBy),
      (appComponentLabel, component)]"

definition selectorLabels :: "Desired \<Rightarrow> string \<Rightarrow> strmap" where
  "selectorLabels d component =
     [(appNameLabel, ''apme''),
      (appInstanceLabel, d_Name d),
      (appComponentLabel, component)]"

definition meta :: "string \<Rightarrow> string \<Rightarrow> string \<Rightarrow> Desired \<Rightarrow> object_meta" where
  "meta name ns component d = zero_meta\<lparr>m_name := name, m_namespace := ns, m_labels := labels d component\<rparr>"

definition typeMeta :: "string \<Rightarrow> string \<Rightarrow> type_meta" where
  "typeMeta kind apiVersion = \<lparr>tm_kind = kind, tm_apiVersion = apiVersion\<rparr>"

lemma meta_simps [simp]:
  "m_name (meta n ns c d) = n" "m_namespace (meta n ns c d) = ns" "m_labels (meta n ns c d) = labels d c"
  "m_ownerRefs (meta n ns c d) = []" "m_annotations (meta n ns c d) = []" "m_uid (meta n ns c d) = []"
  by (simp_all add: meta_def)

lemma typeMeta_kind [simp]: "tm_kind (typeMeta k v) = k" "tm_apiVersion (typeMeta k v) = v"
  by (simp_all add: typeMeta_def)

text \<open>
  A selector of one intent selects the objects labelled for the same instance and
  component, and no others.
\<close>

lemma selects_labels:
  "selects (selectorLabels d c) (labels e c') \<longleftrightarrow> d_Name d = d_Name e \<and> c = c'"
  by (auto simp: selects_def selectorLabels_def labels_def label_keys)

lemma selects_selectorLabels:
  "selects (selectorLabels d c) (selectorLabels e c') \<longleftrightarrow> d_Name d = d_Name e \<and> c = c'"
  by (auto simp: selects_def selectorLabels_def label_keys)

subsection \<open>FNV-1a\<close>

definition fnv_offset64 :: "64 word" where
  "fnv_offset64 = 14695981039346656037"

definition fnv_prime64 :: "64 word" where
  "fnv_prime64 = 1099511628211"

definition fnv_step :: "64 word \<Rightarrow> char \<Rightarrow> 64 word" where
  "fnv_step h c = (h XOR of_nat (of_char c)) * fnv_prime64"

definition fnv1a :: "64 word \<Rightarrow> string \<Rightarrow> 64 word" where
  "fnv1a h s = foldl fnv_step h s"

text \<open>\<open>hex.EncodeToString\<close> of the big-endian bytes of \<open>Sum\<close>: the nibbles from the top.\<close>

definition hex_digit :: "64 word \<Rightarrow> char" where
  "hex_digit n = ''0123456789abcdef'' ! unat n"

definition nibble :: "64 word \<Rightarrow> nat \<Rightarrow> 64 word" where
  "nibble w k = take_bit 4 (drop_bit (4 * k) w)"

definition hex_encode :: "64 word \<Rightarrow> string" where
  "hex_encode w = map (\<lambda>k. hex_digit (nibble w k)) (rev [0 ..< 16])"

definition Checksum :: "string list \<Rightarrow> string" where
  "Checksum parts = hex_encode (fnv1a fnv_offset64 (concat (map (\<lambda>p. p @ nl) parts)))"

lemma fnv1a_append: "fnv1a h (s @ t) = fnv1a (fnv1a h s) t"
  by (simp add: fnv1a_def)

text \<open>The prime is odd, so multiplying by it can be undone.\<close>

lemma fnv_prime64_cancel: "a * fnv_prime64 = b * fnv_prime64 \<longleftrightarrow> a = b"
proof
  assume "a * fnv_prime64 = b * fnv_prime64"
  then have "(a * fnv_prime64) * 14886173955864302971 = (b * fnv_prime64) * 14886173955864302971"
    by (rule arg_cong)
  then have "a * (fnv_prime64 * 14886173955864302971) = b * (fnv_prime64 * 14886173955864302971)"
    by (simp only: mult.assoc)
  moreover have "fnv_prime64 * 14886173955864302971 = 1"
    by (simp add: fnv_prime64_def)
  ultimately show "a = b" by simp
qed simp

lemma xor_cancel: "(a XOR c) = (b XOR c) \<longleftrightarrow> a = (b :: 64 word)"
proof
  assume "(a XOR c) = (b XOR c)"
  then have "((a XOR c) XOR c) = ((b XOR c) XOR c)" by (rule arg_cong)
  then show "a = b" by (simp only: xor.assoc xor_self_eq xor.right_neutral)
qed simp

lemma fnv_step_state: "fnv_step h c = fnv_step h' c \<longleftrightarrow> h = h'"
  by (simp add: fnv_step_def fnv_prime64_cancel xor_cancel)

lemma fnv_step_byte: "fnv_step h c = fnv_step h c' \<longleftrightarrow> c = c'"
proof -
  have "(of_nat (of_char c) :: 64 word) = of_nat (of_char c') \<longleftrightarrow> c = c'"
  proof
    assume "(of_nat (of_char c) :: 64 word) = of_nat (of_char c')"
    then have "unat (of_nat (of_char c) :: 64 word) = unat (of_nat (of_char c') :: 64 word)" by simp
    moreover have "of_char e < (2 :: nat) ^ 64" for e
      by (rule less_trans [of _ 256]) simp_all
    ultimately have "of_char c = (of_char c' :: nat)"
      by (simp add: unat_of_nat)
    then show "c = c'" by simp
  qed simp
  then show ?thesis
    by (simp add: fnv_step_def fnv_prime64_cancel) (metis xor.commute xor_cancel)
qed

lemma fnv1a_state: "fnv1a h s = fnv1a h' s \<longleftrightarrow> h = h'"
  by (induction s arbitrary: h h') (simp_all add: fnv1a_def fnv_step_state)

lemma hex_digit_inject:
  assumes "unat m < 16" "unat n < 16"
  shows "hex_digit m = hex_digit n \<longleftrightarrow> m = n"
proof -
  have "distinct ''0123456789abcdef''" by simp
  then show ?thesis using assms by (simp add: hex_digit_def nth_eq_iff_index_eq word_unat_eq_iff)
qed

lemma nibble_bound: "unat (nibble w k) < 16"
  using unsigned_take_bit_eq [of 4 "drop_bit (4 * k) w", where 'a = nat]
    take_bit_nat_less_exp [of 4 "unat (drop_bit (4 * k) w)"]
  by (simp add: nibble_def)

lemma nibble_bit: "i < 64 \<Longrightarrow> bit w i = bit (nibble w (i div 4)) (i mod 4)"
  by (simp add: nibble_def bit_simps mult_div_mod_eq)

lemma hex_encode_inject: "hex_encode v = hex_encode w \<longleftrightarrow> v = w"
proof
  assume eq: "hex_encode v = hex_encode w"
  have "nibble v k = nibble w k" if "k < 16" for k
  proof -
    have "hex_digit (nibble v k) = hex_digit (nibble w k)"
      using eq that unfolding hex_encode_def map_eq_conv by simp
    then show ?thesis using hex_digit_inject [OF nibble_bound nibble_bound] by simp
  qed
  then have "bit v i = bit w i" if "i < 64" for i
    using nibble_bit [OF that] that by simp
  then show "v = w" by (intro bit_word_eqI) simp
qed simp

text \<open>C40: A change of a single byte in any one of the hashed parts, everything else equal, always
  changes the checksum annotation, hence the pod template: the Deployment rolls. (FNV-1a
  multiplies by an odd constant, so a one-byte difference can never cancel out.)\<close>

theorem checksum_detects_byte_change:
  assumes "c \<noteq> c'"
  shows "Checksum (before @ [s @ [c] @ t] @ after) \<noteq> Checksum (before @ [s @ [c'] @ t] @ after)"
proof -
  define u where "u = concat (map (\<lambda>p. p @ nl) before) @ s"
  define v where "v = t @ nl @ concat (map (\<lambda>p. p @ nl) after)"
  have "fnv1a fnv_offset64 (u @ [x] @ v) = fnv1a (fnv_step (fnv1a fnv_offset64 u) x) v" for x
    by (simp add: fnv1a_def)
  then have "Checksum (before @ [s @ [x] @ t] @ after)
      = hex_encode (fnv1a (fnv_step (fnv1a fnv_offset64 u) x) v)" for x
    by (simp add: Checksum_def u_def v_def)
  then show ?thesis
    using assms by (simp only: hex_encode_inject fnv1a_state fnv_step_byte not_False_eq_True)
qed

theorem checksum_detects_byte_change_witness:
  "CHR ''1'' \<noteq> CHR ''2''
   \<and> Checksum ([''apme-postgres''] @ [''2026.8.'' @ [CHR ''1''] @ ''0''] @ [''''])
     \<noteq> Checksum ([''apme-postgres''] @ [''2026.8.'' @ [CHR ''2''] @ ''0''] @ [''''])"
  using checksum_detects_byte_change [of "CHR ''1''" "CHR ''2''" "[''apme-postgres'']" "''2026.8.''" "''0''" "['''']"]
  by simp

lemma hex_encode_chars: "length (hex_encode w) = 16" "set (hex_encode w) \<subseteq> set ''0123456789abcdef''"
proof -
  show "length (hex_encode w) = 16" by (simp add: hex_encode_def)
  have "hex_digit (nibble w k) \<in> set ''0123456789abcdef''" for k
    unfolding hex_digit_def using nibble_bound [of w k] by (intro nth_mem) simp
  then show "set (hex_encode w) \<subseteq> set ''0123456789abcdef''"
    by (simp only: hex_encode_def set_map image_subset_iff ball_simps simp_thms) simp
qed

end
