(* ===== verification/Manifests.thy ===== *)
theory Manifests
  imports Labels
begin

text \<open>
  The object builders of \<open>internal/manifests\<close> other than the Deployment: service
  account, volume claims, services, network policies, ingress, routes, the seed
  ConfigMap and the token Secrets.
\<close>

subsection \<open>Service account and volume claims\<close>

definition ServiceAccount :: "Desired \<Rightarrow> service_account" where
  "ServiceAccount d =
     \<lparr>sa_type = typeMeta ''ServiceAccount'' ''v1'',
      sa_meta = meta (d_Name d) (d_Namespace d) componentEngine d\<rparr>"

definition claim :: "string \<Rightarrow> string \<Rightarrow> Desired \<Rightarrow> quantity \<Rightarrow> string \<Rightarrow> persistent_volume_claim" where
  "claim name component d sz storageClass =
    (let spec = \<lparr>pvcs_accessModes = [''ReadWriteOnce''],
                 pvcs_requests = [(''storage'', sz)],
                 pvcs_storageClassName = None\<rparr>;
         spec = (if storageClass \<noteq> [] then spec\<lparr>pvcs_storageClassName := Some storageClass\<rparr> else spec)
     in \<lparr>pvc_type = typeMeta ''PersistentVolumeClaim'' ''v1'',
         pvc_meta = meta name (d_Namespace d) component d,
         pvc_spec = spec\<rparr>)"

definition SessionsPVC :: "Desired \<Rightarrow> persistent_volume_claim" where
  "SessionsPVC d =
     claim (d_Name d @ ''-sessions'') componentEngine d (d_SessionsSize d) (d_SessionsStorageClass d)"

definition ProxyCachePVC :: "Desired \<Rightarrow> persistent_volume_claim" where
  "ProxyCachePVC d =
     claim (d_Name d @ ''-proxy-cache'') componentEngine d (d_ProxyCacheSize d) (d_ProxyCacheStorageClass d)"

definition AbbenayPVC :: "Desired \<Rightarrow> persistent_volume_claim" where
  "AbbenayPVC d =
     claim (d_Name d @ ''-abbenay-config'') componentAbbenay d (d_AbbenayPVCSize d) (d_AbbenayStorageClass d)"

subsection \<open>Services\<close>

definition clusterIP :: "string \<Rightarrow> string \<Rightarrow> Desired \<Rightarrow> service_port list \<Rightarrow> service" where
  "clusterIP name component d ports =
     \<lparr>svc_typeMeta = typeMeta ''Service'' ''v1'',
      svc_meta = meta name (d_Namespace d) component d,
      svc_type = ''ClusterIP'',
      svc_selector = selectorLabels d componentEngine,
      svc_ports = ports\<rparr>"

definition tcpPort :: "string \<Rightarrow> int \<Rightarrow> service_port" where
  "tcpPort name p = \<lparr>sp_name = name, sp_port = p, sp_targetPort = IntVal p, sp_protocol = ''TCP''\<rparr>"

definition GatewayService :: "Desired \<Rightarrow> service" where
  "GatewayService d = clusterIP (d_Name d @ ''-gateway'') componentGateway d [tcpPort ''http'' 8080]"

definition EngineService :: "Desired \<Rightarrow> service" where
  "EngineService d = clusterIP (d_Name d @ ''-engine'') componentEngine d
     ([tcpPort ''grpc-engine'' 50051]
      @ (if d_CollectionHealth d then [tcpPort ''grpc-collection-health'' 50058] else [])
      @ (if d_DepAudit d then [tcpPort ''grpc-dep-audit'' 50059] else []))"

definition UIService :: "Desired \<Rightarrow> service" where
  "UIService d = clusterIP (d_Name d @ ''-ui'') componentUI d [tcpPort ''http'' 8081]"

definition PostgresService :: "Desired \<Rightarrow> service" where
  "PostgresService d =
     (clusterIP (d_Name d @ ''-postgres'') componentPostgres d [tcpPort ''postgres'' 5432])
       \<lparr>svc_selector := selectorLabels d componentPostgres\<rparr>"

subsection \<open>Network policies\<close>

definition tcpNPPort :: "int \<Rightarrow> np_port" where
  "tcpNPPort p = \<lparr>npp_protocol = ''TCP'', npp_port = IntVal p\<rparr>"

definition APMENetworkPolicy :: "Desired \<Rightarrow> network_policy" where
  "APMENetworkPolicy d =
     \<lparr>np_type = typeMeta ''NetworkPolicy'' ''networking.k8s.io/v1'',
      np_meta = meta (d_Name d @ ''-engine'') (d_Namespace d) componentEngine d,
      np_podSelector = selectorLabels d componentEngine,
      np_policyTypes = [''Ingress''],
      np_ingress = [\<lparr>npr_from = [], npr_ports = [tcpNPPort 8080]\<rparr>]
        @ (if d_UI d then [\<lparr>npr_from = [], npr_ports = [tcpNPPort 8081]\<rparr>] else [])\<rparr>"

definition PostgresNetworkPolicy :: "Desired \<Rightarrow> network_policy" where
  "PostgresNetworkPolicy d =
     \<lparr>np_type = typeMeta ''NetworkPolicy'' ''networking.k8s.io/v1'',
      np_meta = meta (d_Name d @ ''-postgres'') (d_Namespace d) componentPostgres d,
      np_podSelector = selectorLabels d componentPostgres,
      np_policyTypes = [''Ingress''],
      np_ingress = [\<lparr>npr_from = [selectorLabels d componentEngine], npr_ports = [tcpNPPort 5432]\<rparr>]\<rparr>"

text \<open>
  What a policy of type Ingress admits: a connection to a selected pod on a port, from
  a pod with given labels, is allowed when one of its rules lists the port and has no
  peers or a peer that selects the source. A rule with an empty peer list admits every
  source; a peer that is only a pod selector selects among the pods of the policy's own
  namespace, so \<open>src\<close> stands for the labels of such a pod there.
\<close>

definition np_admits :: "network_policy \<Rightarrow> strmap \<Rightarrow> int \<Rightarrow> bool" where
  "np_admits np src port \<longleftrightarrow>
     list_ex (\<lambda>r. list_ex (\<lambda>p. npp_port p = IntVal port) (npr_ports r)
                \<and> (npr_from r = [] \<or> list_ex (\<lambda>sel. selects sel src) (npr_from r)))
       (np_ingress np)"

subsection \<open>Ingress\<close>

definition httpPath :: "string \<Rightarrow> string \<Rightarrow> string \<Rightarrow> int \<Rightarrow> http_ingress_path" where
  "httpPath path pt svc port = \<lparr>hp_path = path, hp_pathType = pt, hp_service = svc, hp_port = port\<rparr>"

definition Ingress :: "Desired \<Rightarrow> ingress" where
  "Ingress d =
    (let paths = (if d_UI d
                  then [httpPath ''/'' ''Prefix'' (d_Name d @ ''-ui'') 8081,
                        httpPath ''/api'' ''Prefix'' (d_Name d @ ''-gateway'') 8080]
                  else [httpPath ''/'' ''Prefix'' (d_Name d @ ''-gateway'') 8080]);
         ing = \<lparr>ing_type = typeMeta ''Ingress'' ''networking.k8s.io/v1'',
                ing_meta = meta (d_Name d) (d_Namespace d) componentEngine d,
                ing_className = None,
                ing_host = d_IngressHost d,
                ing_paths = paths,
                ing_tls = []\<rparr>;
         ing = (if d_IngressClassName d \<noteq> [] then ing\<lparr>ing_className := Some (d_IngressClassName d)\<rparr> else ing);
         ing = (if 0 < length (d_IngressAnnotations d)
                then ing\<lparr>ing_meta := (ing_meta ing)\<lparr>m_annotations := d_IngressAnnotations d\<rparr>\<rparr> else ing)
     in if d_IngressTLSSecretName d \<noteq> [] \<and> d_IngressHost d \<noteq> []
        then ing\<lparr>ing_tls := [\<lparr>it_hosts = [d_IngressHost d], it_secretName = d_IngressTLSSecretName d\<rparr>]\<rparr>
        else ing)"

lemma Ingress_meta [simp]:
  "m_name (ing_meta (Ingress d)) = d_Name d" "m_namespace (ing_meta (Ingress d)) = d_Namespace d"
  "m_labels (ing_meta (Ingress d)) = labels d componentEngine"
  by (simp_all add: Ingress_def Let_def)

subsection \<open>Routes\<close>

definition RouteDesiredHostAnnotation :: string where
  "RouteDesiredHostAnnotation = ''apme.ansible.com/desired-host''"

definition toUnstructuredStringMap :: "strmap \<Rightarrow> (string \<times> json) list" where
  "toUnstructuredStringMap m = map (\<lambda>(k, v). (k, JString v)) m"

definition routeUnstructured ::
  "string \<Rightarrow> string \<Rightarrow> string \<Rightarrow> string \<Rightarrow> string \<Rightarrow> Desired \<Rightarrow> json" where
  "routeUnstructured name component host svc path d =
    (let spec =
       [(''to'', JObject [(''kind'', JString ''Service''), (''name'', JString svc), (''weight'', JInt 100)]),
        (''port'', JObject [(''targetPort'', JString ''http'')]),
        (''tls'', JObject [(''termination'', JString (d_RouteTermination d)),
                         (''insecureEdgeTerminationPolicy'', JString (d_RouteInsecureEdgeTerminationPolicy d))])]
       @ (if host \<noteq> [] then [(''host'', JString host)] else [])
       @ (if path \<noteq> [] then [(''path'', JString path)] else [])
     in JObject
       [(''apiVersion'', JString ''route.openshift.io/v1''),
        (''kind'', JString ''Route''),
        (''metadata'', JObject
          [(''name'', JString name),
           (''namespace'', JString (d_Namespace d)),
           (''labels'', JObject (toUnstructuredStringMap (labels d component))),
           (''annotations'', JObject [(RouteDesiredHostAnnotation, JString host)])]),
        (''spec'', JObject spec)])"

definition UIRoute :: "Desired \<Rightarrow> json" where
  "UIRoute d = routeUnstructured (d_Name d @ ''-ui'') componentUI (d_RouteHost d) (d_Name d @ ''-ui'') [] d"

definition APIRoute :: "Desired \<Rightarrow> json" where
  "APIRoute d =
     routeUnstructured (d_Name d @ ''-api'') componentGateway (d_RouteHost d) (d_Name d @ ''-gateway'')
       (if d_UI d then ''/api'' else []) d"

subsection \<open>Configuration and tokens\<close>

definition DefaultAbbenayConfigMap :: "Desired \<Rightarrow> config_map" where
  "DefaultAbbenayConfigMap d =
     \<lparr>cm_type = typeMeta ''ConfigMap'' ''v1'',
      cm_meta = meta (d_Name d @ ''-abbenay-config'') (d_Namespace d) componentAbbenay d,
      cm_data = [(''config.yaml'', ''providers: []'' @ nl)]\<rparr>"

definition NewAbbenayTokenSecret :: "Desired \<Rightarrow> string \<Rightarrow> secret" where
  "NewAbbenayTokenSecret d token =
     \<lparr>sec_typeMeta = typeMeta ''Secret'' ''v1'',
      sec_meta = meta (d_Name d @ ''-abbenay'') (d_Namespace d) componentAbbenay d,
      sec_type = ''Opaque'',
      sec_data = [],
      sec_stringData = [(d_AbbenayTokenKey d, token)]\<rparr>"

definition NewProxyAdminTokenSecret :: "Desired \<Rightarrow> string \<Rightarrow> secret" where
  "NewProxyAdminTokenSecret d token =
     \<lparr>sec_typeMeta = typeMeta ''Secret'' ''v1'',
      sec_meta = meta (d_ProxyAdminTokenName d) (d_Namespace d) componentEngine d,
      sec_type = ''Opaque'',
      sec_data = [(d_ProxyAdminTokenKey d, token)],
      sec_stringData = []\<rparr>"

lemmas claim_defs [manifest_defs] = claim_def SessionsPVC_def ProxyCachePVC_def AbbenayPVC_def

lemmas service_defs [manifest_defs] = clusterIP_def tcpPort_def GatewayService_def EngineService_def
  UIService_def PostgresService_def

lemmas policy_defs [manifest_defs] = tcpNPPort_def APMENetworkPolicy_def PostgresNetworkPolicy_def

lemmas config_defs [manifest_defs] = ServiceAccount_def DefaultAbbenayConfigMap_def
  NewAbbenayTokenSecret_def NewProxyAdminTokenSecret_def

subsection \<open>Network exposure\<close>

text \<open>The engine pod's policy admits traffic on port 8080 always, on port 8081 exactly when
  the UI is on, and on no other port, whatever the source; in particular the gRPC ports
  of the engine, the validators and the plugins stay unreachable from outside the pod.\<close>

lemma engine_policy_ports:
  "np_admits (APMENetworkPolicy d) src port \<longleftrightarrow> port = 8080 \<or> (port = 8081 \<and> d_UI d)"
  by (auto simp: np_admits_def manifest_defs)

text \<open>The Postgres policy admits a connection only on port 5432 and only from pods whose
  labels contain the engine selector of the same instance: labels made for another
  instance, or for another component such as Postgres itself, are turned away.\<close>

lemma postgres_policy_sources:
  "np_admits (PostgresNetworkPolicy d) (labels e c) port
     \<longleftrightarrow> port = 5432 \<and> d_Name d = d_Name e \<and> c = componentEngine"
  by (auto simp: np_admits_def manifest_defs selects_labels)

end
