(* ===== verification/Effects.thy ===== *)
theory Effects
  imports Apme_Types
begin

text \<open>
  The outside world of the operator: Go errors, the requests it sends to the Kubernetes
  API and to the process (clock, randomness, certificate authority), programs that send
  them, and their executions. A program is a tree whose branching over responses makes
  no assumption on what the API server, other clients of it or the random source do in
  between, so a property of all executions holds for every interleaving with them.
\<close>

subsection \<open>Errors\<close>

text \<open>
  The errors the operator sees: API errors of the client library, with the reason and
  the message of their status; texts of \<open>fmt.Errorf\<close> and of the standard library;
  texts that wrap another error (\<open>%w\<close>); and \<open>routePermissionError\<close>.
\<close>

datatype gerror =
    ApiError (api_reason: string) (api_message: string)
  | ErrorString string
  | WrapError string gerror
  | RoutePermissionError gerror

fun Error :: "gerror \<Rightarrow> string" where
  "Error (ApiError reason msg) = msg"
| "Error (ErrorString msg) = msg"
| "Error (WrapError prefix e) = prefix @ Error e"
| "Error (RoutePermissionError e) =
     ''missing permission to manage Route hosts; grant create on route.openshift.io/routes/custom-host ''
     @ ''to the operator ServiceAccount: '' @ Error e"

text \<open>
  The verb \<open>%q\<close>: quotes and backslashes are escaped, the named control characters and
  the other control characters of ASCII have their escapes. Bytes from 128 on belong
  to UTF-8 encodings and stay as they are, which is what Go does when they form
  printable characters.
\<close>

definition hex_lower :: "nat \<Rightarrow> char" where
  "hex_lower n = ''0123456789abcdef'' ! n"

definition quote_char :: "char \<Rightarrow> string" where
  "quote_char c =
    (let n = of_char c :: nat; bs = CHR 0x5C in
     if n = 34 \<or> n = 92 then [bs, c]
     else if n = 7 then [bs, CHR ''a''] else if n = 8 then [bs, CHR ''b'']
     else if n = 12 then [bs, CHR ''f''] else if n = 10 then [bs, CHR ''n'']
     else if n = 13 then [bs, CHR ''r''] else if n = 9 then [bs, CHR ''t'']
     else if n = 11 then [bs, CHR ''v'']
     else if n < 32 \<or> n = 127 then [bs, CHR ''x'', hex_lower (n div 16), hex_lower (n mod 16)]
     else [c])"

definition fmt_q :: "string \<Rightarrow> string" where
  "fmt_q s = dq (concat (map quote_char s))"

lemma fmt_q_plain: "list_all (\<lambda>c. quote_char c = [c]) s \<Longrightarrow> fmt_q s = dq s"
proof -
  assume "list_all (\<lambda>c. quote_char c = [c]) s"
  then have "concat (map quote_char s) = s" by (induction s) simp_all
  then show ?thesis by (simp add: fmt_q_def)
qed

subsection \<open>Requests\<close>

record NamespacedName =
  nn_Name :: string
  nn_Namespace :: string

text \<open>The two readers of \<open>ApmeReconciler\<close>: the cached client and the uncached \<open>APIReader\<close>.\<close>

datatype reader = CachedReader | UncachedReader

text \<open>
  A P-256 private key is its scalar and a public key a point; a certificate is the part
  of \<open>x509.Certificate\<close> the operator sets. Times are nanoseconds.
\<close>

type_synonym ec_private = nat
type_synonym ec_public = "int \<times> int"

datatype key_usage = DigitalSignature | KeyEncipherment | CertSign | CRLSign

datatype ext_key_usage = ServerAuth

record certificate =
  x_SerialNumber :: int
  x_CommonName :: string
  x_NotBefore :: int
  x_NotAfter :: int
  x_IsCA :: bool
  x_KeyUsage :: "key_usage list"
  x_ExtKeyUsage :: "ext_key_usage list"
  x_BasicConstraintsValid :: bool
  x_DNSNames :: "string list"

datatype 'a prog =
    Return 'a
  | GetApme NamespacedName "gerror + Apme \<Rightarrow> 'a prog"
  | GetSecret NamespacedName "gerror + secret \<Rightarrow> 'a prog"
  | GetConfigMap NamespacedName "gerror + config_map \<Rightarrow> 'a prog"
  | GetStatefulSet NamespacedName "gerror + stateful_set \<Rightarrow> 'a prog"
  | GetDeployment NamespacedName "gerror + deployment \<Rightarrow> 'a prog"
  | GetRoute NamespacedName "gerror + json \<Rightarrow> 'a prog"
  | ListPods reader string strmap "gerror + pod list \<Rightarrow> 'a prog"
  | Patch client_object "gerror option \<Rightarrow> 'a prog"
  | Create client_object "gerror option \<Rightarrow> 'a prog"
  | Update client_object "gerror option \<Rightarrow> 'a prog"
  | Delete client_object "gerror option \<Rightarrow> 'a prog"
  | StatusPatch Apme Apme "gerror option \<Rightarrow> 'a prog"
  | RandRead nat "gerror + bytes \<Rightarrow> 'a prog"
  | RandInt int "gerror + int \<Rightarrow> 'a prog"
  | GenerateKey "gerror + ec_private \<Rightarrow> 'a prog"
  | CreateCertificate certificate certificate ec_public ec_private "gerror + bytes \<Rightarrow> 'a prog"
  | Now "int \<Rightarrow> 'a prog"

text \<open>\<open>call p k\<close> runs \<open>p\<close> and continues with its result.\<close>

primrec call :: "'a prog \<Rightarrow> ('a \<Rightarrow> 'b prog) \<Rightarrow> 'b prog" where
  "call (Return a) k = k a"
| "call (GetApme n f) k = GetApme n (\<lambda>r. call (f r) k)"
| "call (GetSecret n f) k = GetSecret n (\<lambda>r. call (f r) k)"
| "call (GetConfigMap n f) k = GetConfigMap n (\<lambda>r. call (f r) k)"
| "call (GetStatefulSet n f) k = GetStatefulSet n (\<lambda>r. call (f r) k)"
| "call (GetDeployment n f) k = GetDeployment n (\<lambda>r. call (f r) k)"
| "call (GetRoute n f) k = GetRoute n (\<lambda>r. call (f r) k)"
| "call (ListPods rd ns sel f) k = ListPods rd ns sel (\<lambda>r. call (f r) k)"
| "call (Patch ob f) k = Patch ob (\<lambda>r. call (f r) k)"
| "call (Create ob f) k = Create ob (\<lambda>r. call (f r) k)"
| "call (Update ob f) k = Update ob (\<lambda>r. call (f r) k)"
| "call (Delete ob f) k = Delete ob (\<lambda>r. call (f r) k)"
| "call (StatusPatch cr orig f) k = StatusPatch cr orig (\<lambda>r. call (f r) k)"
| "call (RandRead n f) k = RandRead n (\<lambda>r. call (f r) k)"
| "call (RandInt n f) k = RandInt n (\<lambda>r. call (f r) k)"
| "call (GenerateKey f) k = GenerateKey (\<lambda>r. call (f r) k)"
| "call (CreateCertificate tpl parent pub priv f) k =
     CreateCertificate tpl parent pub priv (\<lambda>r. call (f r) k)"
| "call (Now f) k = Now (\<lambda>r. call (f r) k)"

text \<open>\<open>if err := p; err != nil { return err }\<close> in a function that returns an error.\<close>

definition attempt :: "gerror option prog \<Rightarrow> gerror option prog \<Rightarrow> gerror option prog" where
  "attempt p k = call p (\<lambda>err. case err of Some e \<Rightarrow> Return (Some e) | None \<Rightarrow> k)"

subsection \<open>Executions\<close>

datatype event =
    EGetApme NamespacedName "gerror + Apme"
  | EGetSecret NamespacedName "gerror + secret"
  | EGetConfigMap NamespacedName "gerror + config_map"
  | EGetStatefulSet NamespacedName "gerror + stateful_set"
  | EGetDeployment NamespacedName "gerror + deployment"
  | EGetRoute NamespacedName "gerror + json"
  | EListPods reader string strmap "gerror + pod list"
  | EPatch client_object "gerror option"
  | ECreate client_object "gerror option"
  | EUpdate client_object "gerror option"
  | EDelete client_object "gerror option"
  | EStatusPatch Apme Apme "gerror option"
  | ERandRead nat "gerror + bytes"
  | ERandInt int "gerror + int"
  | EGenerateKey "gerror + ec_private"
  | ECreateCertificate certificate certificate ec_public ec_private "gerror + bytes"
  | ENow int

inductive exec :: "'a prog \<Rightarrow> event list \<Rightarrow> 'a \<Rightarrow> bool" where
  exec_Return: "exec (Return a) [] a"
| exec_GetApme: "exec (f r) tr a \<Longrightarrow> exec (GetApme n f) (EGetApme n r # tr) a"
| exec_GetSecret: "exec (f r) tr a \<Longrightarrow> exec (GetSecret n f) (EGetSecret n r # tr) a"
| exec_GetConfigMap: "exec (f r) tr a \<Longrightarrow> exec (GetConfigMap n f) (EGetConfigMap n r # tr) a"
| exec_GetStatefulSet: "exec (f r) tr a \<Longrightarrow> exec (GetStatefulSet n f) (EGetStatefulSet n r # tr) a"
| exec_GetDeployment: "exec (f r) tr a \<Longrightarrow> exec (GetDeployment n f) (EGetDeployment n r # tr) a"
| exec_GetRoute: "exec (f r) tr a \<Longrightarrow> exec (GetRoute n f) (EGetRoute n r # tr) a"
| exec_ListPods: "exec (f r) tr a \<Longrightarrow> exec (ListPods rd ns sel f) (EListPods rd ns sel r # tr) a"
| exec_Patch: "exec (f r) tr a \<Longrightarrow> exec (Patch ob f) (EPatch ob r # tr) a"
| exec_Create: "exec (f r) tr a \<Longrightarrow> exec (Create ob f) (ECreate ob r # tr) a"
| exec_Update: "exec (f r) tr a \<Longrightarrow> exec (Update ob f) (EUpdate ob r # tr) a"
| exec_Delete: "exec (f r) tr a \<Longrightarrow> exec (Delete ob f) (EDelete ob r # tr) a"
| exec_StatusPatch: "exec (f r) tr a \<Longrightarrow> exec (StatusPatch cr orig f) (EStatusPatch cr orig r # tr) a"
| exec_RandRead: "exec (f r) tr a \<Longrightarrow> exec (RandRead n f) (ERandRead n r # tr) a"
| exec_RandInt: "exec (f r) tr a \<Longrightarrow> exec (RandInt m f) (ERandInt m r # tr) a"
| exec_GenerateKey: "exec (f r) tr a \<Longrightarrow> exec (GenerateKey f) (EGenerateKey r # tr) a"
| exec_CreateCertificate:
    "exec (f r) tr a \<Longrightarrow>
     exec (CreateCertificate tpl parent pub priv f) (ECreateCertificate tpl parent pub priv r # tr) a"
| exec_Now: "exec (f t) tr a \<Longrightarrow> exec (Now f) (ENow t # tr) a"

inductive_simps exec_simps [simp]:
  "exec (Return a) tr b"
  "exec (GetApme n f) tr b"
  "exec (GetSecret n f) tr b"
  "exec (GetConfigMap n f) tr b"
  "exec (GetStatefulSet n f) tr b"
  "exec (GetDeployment n f) tr b"
  "exec (GetRoute n f) tr b"
  "exec (ListPods rd ns sel f) tr b"
  "exec (Patch ob f) tr b"
  "exec (Create ob f) tr b"
  "exec (Update ob f) tr b"
  "exec (Delete ob f) tr b"
  "exec (StatusPatch cr orig f) tr b"
  "exec (RandRead m f) tr b"
  "exec (RandInt i f) tr b"
  "exec (GenerateKey f) tr b"
  "exec (CreateCertificate tpl parent pub priv f) tr b"
  "exec (Now f) tr b"

lemma exec_case_sum [simp]:
  "exec (case r of Inl e \<Rightarrow> f e | Inr x \<Rightarrow> g x) tr a \<longleftrightarrow>
     (\<exists>e. r = Inl e \<and> exec (f e) tr a) \<or> (\<exists>x. r = Inr x \<and> exec (g x) tr a)"
  by (cases r) simp_all

lemma exec_case_option [simp]:
  "exec (case r of None \<Rightarrow> f | Some x \<Rightarrow> g x) tr a \<longleftrightarrow>
     r = None \<and> exec f tr a \<or> (\<exists>x. r = Some x \<and> exec (g x) tr a)"
  by (cases r) simp_all

lemma exec_if [simp]:
  "exec (if b then p else q) tr a \<longleftrightarrow> b \<and> exec p tr a \<or> \<not> b \<and> exec q tr a"
  by simp

text \<open>An execution of a call is an execution of the callee followed by one of the rest.\<close>

lemma exec_step_call:
  "(\<exists>r tr'. tr = E r # tr' \<and> (\<exists>tr1 tr2 a. tr' = tr1 @ tr2 \<and> P r tr1 a \<and> Q tr2 a)) \<longleftrightarrow>
   (\<exists>tr1 tr2 a. tr = tr1 @ tr2 \<and> (\<exists>r tr'. tr1 = E r # tr' \<and> P r tr' a) \<and> Q tr2 a)"
  (is "?L = ?R")
proof
  assume ?L
  then obtain r tr1 tr2 a where *: "tr = (E r # tr1) @ tr2" "P r tr1 a" "Q tr2 a" by auto
  then show ?R by blast
next
  assume ?R
  then obtain tr1 tr2 a r tr' where "tr = tr1 @ tr2" "tr1 = E r # tr'" "P r tr' a" "Q tr2 a" by blast
  then have "tr = E r # (tr' @ tr2)" "\<exists>tr1 tr2'. tr' @ tr2 = tr1 @ tr2' \<and> P r tr1 a \<and> Q tr2' a" by auto
  then show ?L by blast
qed

lemma exec_call:
  "exec (call p k) tr b \<longleftrightarrow> (\<exists>tr1 tr2 a. tr = tr1 @ tr2 \<and> exec p tr1 a \<and> exec (k a) tr2 b)"
proof (induction p arbitrary: tr)
  case (Return a)
  show ?case by auto
qed (simp only: call.simps exec_simps rangeI exec_step_call)+

lemma exec_attempt:
  "exec (attempt p k) tr b \<longleftrightarrow>
     (\<exists>e. b = Some e \<and> exec p tr (Some e)) \<or>
     (\<exists>tr1 tr2. tr = tr1 @ tr2 \<and> exec p tr1 None \<and> exec k tr2 b)"
  by (auto simp: attempt_def exec_call)

subsection \<open>Running against a server\<close>

text \<open>
  A deterministic environment answers every request from a state it keeps; a program run
  against it has one execution. Used to evaluate programs on concrete clusters.
\<close>

record 'w server =
  sv_GetApme :: "NamespacedName \<Rightarrow> 'w \<Rightarrow> gerror + Apme"
  sv_GetSecret :: "NamespacedName \<Rightarrow> 'w \<Rightarrow> gerror + secret"
  sv_GetConfigMap :: "NamespacedName \<Rightarrow> 'w \<Rightarrow> gerror + config_map"
  sv_GetStatefulSet :: "NamespacedName \<Rightarrow> 'w \<Rightarrow> gerror + stateful_set"
  sv_GetDeployment :: "NamespacedName \<Rightarrow> 'w \<Rightarrow> gerror + deployment"
  sv_GetRoute :: "NamespacedName \<Rightarrow> 'w \<Rightarrow> gerror + json"
  sv_ListPods :: "reader \<Rightarrow> string \<Rightarrow> strmap \<Rightarrow> 'w \<Rightarrow> gerror + pod list"
  sv_Patch :: "client_object \<Rightarrow> 'w \<Rightarrow> gerror option \<times> 'w"
  sv_Create :: "client_object \<Rightarrow> 'w \<Rightarrow> gerror option \<times> 'w"
  sv_Update :: "client_object \<Rightarrow> 'w \<Rightarrow> gerror option \<times> 'w"
  sv_Delete :: "client_object \<Rightarrow> 'w \<Rightarrow> gerror option \<times> 'w"
  sv_StatusPatch :: "Apme \<Rightarrow> Apme \<Rightarrow> 'w \<Rightarrow> gerror option \<times> 'w"
  sv_RandRead :: "nat \<Rightarrow> 'w \<Rightarrow> gerror + bytes"
  sv_RandInt :: "int \<Rightarrow> 'w \<Rightarrow> gerror + int"
  sv_GenerateKey :: "'w \<Rightarrow> gerror + ec_private"
  sv_CreateCertificate ::
    "certificate \<Rightarrow> certificate \<Rightarrow> ec_public \<Rightarrow> ec_private \<Rightarrow> 'w \<Rightarrow> gerror + bytes"
  sv_Now :: "'w \<Rightarrow> int"

definition emit :: "event \<Rightarrow> event list \<times> 'a \<times> 'w \<Rightarrow> event list \<times> 'a \<times> 'w" where
  "emit e r = (e # fst r, snd r)"

primrec run :: "'w server \<Rightarrow> 'a prog \<Rightarrow> 'w \<Rightarrow> event list \<times> 'a \<times> 'w" where
  "run S (Return a) w = ([], a, w)"
| "run S (GetApme n f) w = (let r = sv_GetApme S n w in emit (EGetApme n r) (run S (f r) w))"
| "run S (GetSecret n f) w = (let r = sv_GetSecret S n w in emit (EGetSecret n r) (run S (f r) w))"
| "run S (GetConfigMap n f) w = (let r = sv_GetConfigMap S n w in emit (EGetConfigMap n r) (run S (f r) w))"
| "run S (GetStatefulSet n f) w = (let r = sv_GetStatefulSet S n w in emit (EGetStatefulSet n r) (run S (f r) w))"
| "run S (GetDeployment n f) w = (let r = sv_GetDeployment S n w in emit (EGetDeployment n r) (run S (f r) w))"
| "run S (GetRoute n f) w = (let r = sv_GetRoute S n w in emit (EGetRoute n r) (run S (f r) w))"
| "run S (ListPods rd ns sel f) w =
     (let r = sv_ListPods S rd ns sel w in emit (EListPods rd ns sel r) (run S (f r) w))"
| "run S (Patch ob f) w = (let r = sv_Patch S ob w in emit (EPatch ob (fst r)) (run S (f (fst r)) (snd r)))"
| "run S (Create ob f) w = (let r = sv_Create S ob w in emit (ECreate ob (fst r)) (run S (f (fst r)) (snd r)))"
| "run S (Update ob f) w = (let r = sv_Update S ob w in emit (EUpdate ob (fst r)) (run S (f (fst r)) (snd r)))"
| "run S (Delete ob f) w = (let r = sv_Delete S ob w in emit (EDelete ob (fst r)) (run S (f (fst r)) (snd r)))"
| "run S (StatusPatch cr orig f) w =
     (let r = sv_StatusPatch S cr orig w in emit (EStatusPatch cr orig (fst r)) (run S (f (fst r)) (snd r)))"
| "run S (RandRead n f) w = (let r = sv_RandRead S n w in emit (ERandRead n r) (run S (f r) w))"
| "run S (RandInt m f) w = (let r = sv_RandInt S m w in emit (ERandInt m r) (run S (f r) w))"
| "run S (GenerateKey f) w = (let r = sv_GenerateKey S w in emit (EGenerateKey r) (run S (f r) w))"
| "run S (CreateCertificate tpl parent pub priv f) w =
     (let r = sv_CreateCertificate S tpl parent pub priv w
      in emit (ECreateCertificate tpl parent pub priv r) (run S (f r) w))"
| "run S (Now f) w = (let r = sv_Now S w in emit (ENow r) (run S (f r) w))"

lemma run_exec: "exec p (fst (run S p w)) (fst (snd (run S p w)))"
  by (induction p arbitrary: w) (simp_all add: Let_def emit_def)

lemma run_call:
  "run S (call p k) w =
     (case run S p w of (tr1, a, w1) \<Rightarrow>
      case run S (k a) w1 of (tr2, b, w2) \<Rightarrow> (tr1 @ tr2, b, w2))"
  by (induction p arbitrary: w) (simp_all add: Let_def emit_def split: prod.split)

lemma run_execI: "run S p w = (tr, a, w') \<Longrightarrow> exec p tr a"
  using run_exec [of p S w] by simp

end
