(* ===== verification/Net_Url.thy ===== *)
theory Net_Url
  imports Effects "HOL-Library.AList"
begin

text \<open>
  The part of \<open>net/url\<close> the operator applies to database URLs: percent encoding, query
  values, \<open>Parse\<close> and \<open>String\<close>. The hosts whose syntax depends on the release of Go (IP
  literals in brackets and hosts with several colons) are left to the argument
  \<open>odd_host\<close>; the operator's own URLs contain neither.
\<close>

subsection \<open>Strings\<close>

text \<open>\<open>strings.Cut\<close> with a separator of one byte: before, after, found.\<close>

fun Cut :: "string \<Rightarrow> char \<Rightarrow> string \<times> string \<times> bool" where
  "Cut [] c = ([], [], False)"
| "Cut (x # xs) c =
     (if x = c then ([], xs, True)
      else case Cut xs c of (before, after, found) \<Rightarrow> (x # before, after, found))"

lemma Cut_append: "c \<notin> set a \<Longrightarrow> Cut (a @ c # b) c = (a, b, True)"
  by (induction a) auto

lemma Cut_none: "c \<notin> set a \<Longrightarrow> Cut a c = (a, [], False)"
  by (induction a) auto

lemma Cut_length: "Cut s c = (a, b, f) \<Longrightarrow> s \<noteq> [] \<Longrightarrow> length b < length s"
proof (induction s arbitrary: a)
  case (Cons x xs)
  then show ?case by (cases "xs = []") (auto split: if_splits prod.splits)
qed simp

text \<open>Around the last occurrence (\<open>strings.LastIndex\<close>): before, after, found.\<close>

definition CutLast :: "string \<Rightarrow> char \<Rightarrow> string \<times> string \<times> bool" where
  "CutLast s c = (case Cut (rev s) c of (a, b, found) \<Rightarrow> if found then (rev b, rev a, True) else (s, [], False))"

lemma CutLast_append: "c \<notin> set b \<Longrightarrow> CutLast (a @ c # b) c = (a, b, True)"
  using Cut_append [of c "rev b" "rev a"] by (simp add: CutLast_def)

lemma CutLast_none: "c \<notin> set a \<Longrightarrow> CutLast a c = (a, [], False)"
  using Cut_none [of c "rev a"] by (simp add: CutLast_def)

subsection \<open>Percent encoding\<close>

datatype encoding = encodePath | encodeHost | encodeUserPassword | encodeQueryComponent | encodeFragment

definition alnum :: "char \<Rightarrow> bool" where
  "alnum c = (let n = of_char c :: nat in
     97 \<le> n \<and> n \<le> 122 \<or> 65 \<le> n \<and> n \<le> 90 \<or> 48 \<le> n \<and> n \<le> 57)"

definition shouldEscape :: "char \<Rightarrow> encoding \<Rightarrow> bool" where
  "shouldEscape c mode =
    (if alnum c then False
     else if mode = encodeHost \<and> c \<in> set (''!$&()*+,;=:[]<>'' @ [CHR 0x27, CHR 0x22]) then False
     else if c \<in> set ''-_.~'' then False
     else if c \<in> set ''$&+,/:;=?@'' then
       (case mode of
          encodePath \<Rightarrow> c = CHR ''?''
        | encodeUserPassword \<Rightarrow> c \<in> set ''@/?:''
        | encodeQueryComponent \<Rightarrow> True
        | encodeFragment \<Rightarrow> False
        | encodeHost \<Rightarrow> True)
     else if mode = encodeFragment \<and> c \<in> set ''!()*'' then False
     else True)"

definition hex_upper :: "nat \<Rightarrow> char" where
  "hex_upper n = ''0123456789ABCDEF'' ! n"

definition escape_char :: "encoding \<Rightarrow> char \<Rightarrow> string" where
  "escape_char mode c =
    (if shouldEscape c mode then
       if c = CHR '' '' \<and> mode = encodeQueryComponent then ''+''
       else [CHR ''%'', hex_upper (of_char c div 16), hex_upper (of_char c mod 16)]
     else [c])"

definition escape :: "string \<Rightarrow> encoding \<Rightarrow> string" where
  "escape s mode = concat (map (escape_char mode) s)"

definition unhex :: "char \<Rightarrow> nat option" where
  "unhex c = (let n = of_char c :: nat in
     if 48 \<le> n \<and> n \<le> 57 then Some (n - 48)
     else if 97 \<le> n \<and> n \<le> 102 then Some (n - 87)
     else if 65 \<le> n \<and> n \<le> 70 then Some (n - 55)
     else None)"

definition ishex :: "char \<Rightarrow> bool" where
  "ishex c = (unhex c \<noteq> None)"

definition EscapeError :: "string \<Rightarrow> string" where
  "EscapeError s = ''invalid URL escape '' @ fmt_q s"

definition InvalidHostError :: "string \<Rightarrow> string" where
  "InvalidHostError s = ''invalid character '' @ fmt_q s @ '' in host name''"

definition unhex_byte :: "char \<Rightarrow> char \<Rightarrow> char" where
  "unhex_byte h l = char_of (the (unhex h) * 16 + the (unhex l))"

text \<open>
  \<open>unescape\<close>: the check of the first loop and the decoding of the second in one pass
  from left to right; the first malformed place decides the error.
\<close>

fun unescape :: "string \<Rightarrow> encoding \<Rightarrow> string + string" where
  "unescape [] mode = Inr []"
| "unescape (c # cs) mode =
     (if c = CHR ''%'' then
        (case cs of
           h # l # rest \<Rightarrow>
             if \<not> (ishex h \<and> ishex l) then Inl (EscapeError [c, h, l])
             else if mode = encodeHost \<and> the (unhex h) < 8 \<and> [c, h, l] \<noteq> ''%25'' then Inl (EscapeError [c, h, l])
             else map_sum id ((#) (unhex_byte h l)) (unescape rest mode)
         | _ \<Rightarrow> Inl (EscapeError (c # cs)))
      else if mode = encodeHost \<and> (of_char c :: nat) < 128 \<and> shouldEscape c mode then Inl (InvalidHostError [c])
      else map_sum id ((#) (if c = CHR ''+'' \<and> mode = encodeQueryComponent then CHR '' '' else c))
             (unescape cs mode))"

lemma unescape_plain:
  assumes "list_all (\<lambda>c. c \<noteq> CHR ''%'' \<and> c \<noteq> CHR ''+'' \<and> \<not> shouldEscape c encodeHost) s"
  shows "unescape s mode = Inr s"
  using assms by (induction s) auto

lemma escape_plain:
  assumes "list_all (\<lambda>c. \<not> shouldEscape c mode) s"
  shows "escape s mode = s"
  using assms by (induction s) (auto simp: escape_def escape_char_def)

lemma escape_Nil [simp]: "escape [] mode = []"
  and escape_Cons: "escape (c # cs) mode = escape_char mode c @ escape cs mode"
  by (simp_all add: escape_def)

subsection \<open>Query values\<close>

text \<open>\<open>url.Values\<close> is a Go map from keys to lists; here its entries, one per key.\<close>

type_synonym Values = "(string \<times> string list) list"

definition QueryEscape :: "string \<Rightarrow> string" where
  "QueryEscape s = escape s encodeQueryComponent"

definition QueryUnescape :: "string \<Rightarrow> string + string" where
  "QueryUnescape s = unescape s encodeQueryComponent"

fun values_add :: "Values \<Rightarrow> string \<Rightarrow> string \<Rightarrow> Values" where
  "values_add [] k v = [(k, [v])]"
| "values_add ((k', vs) # m) k v = (if k' = k then (k', vs @ [v]) # m else (k', vs) # values_add m k v)"

definition values_Del :: "Values \<Rightarrow> string \<Rightarrow> Values" where
  "values_Del m k = filter (\<lambda>(k', vs). k' \<noteq> k) m"

definition values_Set :: "Values \<Rightarrow> string \<Rightarrow> string \<Rightarrow> Values" where
  "values_Set m k v = AList.update k [v] m"

text \<open>
  One round of the loop of \<open>parseQuery\<close>: an item with a semicolon, an empty one and one
  that does not decode are skipped (\<open>Query\<close> ignores the error they cause).
\<close>

definition query_item :: "string \<Rightarrow> (string \<times> string) option" where
  "query_item item =
    (if CHR '';'' \<in> set item \<or> item = [] then None
     else case Cut item (CHR ''='') of (key, val, _) \<Rightarrow>
       (case QueryUnescape key of
          Inl _ \<Rightarrow> None
        | Inr key \<Rightarrow> (case QueryUnescape val of Inl _ \<Rightarrow> None | Inr val \<Rightarrow> Some (key, val))))"

function parseQuery :: "Values \<Rightarrow> string \<Rightarrow> Values" where
  "parseQuery m query =
    (if query = [] then m
     else case Cut query (CHR ''&'') of (item, rest, _) \<Rightarrow>
       parseQuery (case query_item item of None \<Rightarrow> m | Some (k, v) \<Rightarrow> values_add m k v) rest)"
  by pat_completeness auto
termination
  by (relation "measure (\<lambda>(m, query). length query)") (auto dest!: Cut_length [OF sym])

declare parseQuery.simps [simp del]

definition ParseQuery :: "string \<Rightarrow> Values" where
  "ParseQuery query = parseQuery [] query"

text \<open>\<open>Encode\<close> sorts by key; \<open>encode_items\<close> are the texts it joins with ampersands.\<close>

definition encode_items :: "Values \<Rightarrow> string list" where
  "encode_items m =
     concat (map (\<lambda>(k, vs). map (\<lambda>v. QueryEscape k @ ''='' @ QueryEscape v) vs) (sort_key fst m))"

fun join_amp :: "string list \<Rightarrow> string" where
  "join_amp [] = []"
| "join_amp [x] = x"
| "join_amp (x # xs) = x @ ''&'' @ join_amp xs"

definition Encode :: "Values \<Rightarrow> string" where
  "Encode m = join_amp (encode_items m)"

subsection \<open>Queries: reading back what was printed\<close>

lemma hex_upper_unhex: "n < 16 \<Longrightarrow> unhex (hex_upper n) = Some n"
proof -
  have "list_all (\<lambda>n. unhex (hex_upper n) = Some n) [0 ..< 16]" by code_simp
  then show "n < 16 \<Longrightarrow> unhex (hex_upper n) = Some n" by (simp add: list_all_iff)
qed

lemma hex_high: "of_char c div 16 < (16 :: nat)"
  by (rule less_mult_imp_div_less) simp

lemma unhex_byte_hex [simp]:
  "unhex_byte (hex_upper (of_char c div 16)) (hex_upper (of_char c mod 16)) = c"
  using hex_high [of c] by (simp add: unhex_byte_def hex_upper_unhex)

lemma ishex_hex_upper: "n < 16 \<Longrightarrow> ishex (hex_upper n)"
  by (simp add: ishex_def hex_upper_unhex)

definition query_safe :: "char \<Rightarrow> bool" where
  "query_safe c \<longleftrightarrow> c \<notin> set ''&=;? #''"

lemma unescape_escape_char:
  "unescape (escape_char encodeQueryComponent c @ t) encodeQueryComponent
   = map_sum id ((#) c) (unescape t encodeQueryComponent)"
proof -
  have plain: "c \<noteq> CHR ''%'' \<and> c \<noteq> CHR ''+''" if "\<not> shouldEscape c encodeQueryComponent"
    using that by (auto simp: shouldEscape_def alnum_def)
  show ?thesis
    using plain by (auto simp: escape_char_def ishex_hex_upper hex_high)
qed

lemma QueryUnescape_QueryEscape [simp]: "QueryUnescape (QueryEscape s) = Inr s"
  unfolding QueryUnescape_def QueryEscape_def
  by (induction s) (simp_all add: escape_Cons unescape_escape_char)

lemma query_plain_char: "\<not> shouldEscape c encodeQueryComponent \<Longrightarrow> query_safe c"
  by (auto simp: shouldEscape_def alnum_def query_safe_def)

lemma hex_upper_safe: "n < 16 \<Longrightarrow> query_safe (hex_upper n)"
proof -
  have "list_all (\<lambda>n. query_safe (hex_upper n)) [0 ..< 16]" by code_simp
  then show "n < 16 \<Longrightarrow> query_safe (hex_upper n)" by (simp add: list_all_iff)
qed

lemma QueryEscape_safe: "list_all query_safe (QueryEscape s)"
proof -
  have "list_all query_safe (escape_char encodeQueryComponent c)" for c
  proof (cases "shouldEscape c encodeQueryComponent")
    case True
    have "query_safe (CHR ''%'')" "query_safe (CHR ''+'')" by (simp_all add: query_safe_def)
    then show ?thesis using True hex_upper_safe hex_high by (simp add: escape_char_def)
  next
    case False
    then show ?thesis using query_plain_char [of c] by (simp add: escape_char_def)
  qed
  then show ?thesis unfolding QueryEscape_def escape_def by (induction s) simp_all
qed

lemma QueryEscape_notin [simp]:
  "c \<in> set ''&=;? #'' \<Longrightarrow> c \<notin> set (QueryEscape s)"
  using QueryEscape_safe [of s] by (auto simp: list_all_iff query_safe_def)

definition pair_item :: "string \<times> string \<Rightarrow> string" where
  "pair_item kv = QueryEscape (fst kv) @ ''='' @ QueryEscape (snd kv)"

lemma query_item_pair [simp]: "query_item (pair_item kv) = Some kv"
  using Cut_append [of "CHR ''=''" "QueryEscape (fst kv)" "QueryEscape (snd kv)"]
  by (cases kv) (simp add: query_item_def pair_item_def)

lemma pair_item_amp: "CHR ''&'' \<notin> set (pair_item kv)" "pair_item kv \<noteq> []"
  by (simp_all add: pair_item_def)

definition add_pair :: "Values \<Rightarrow> string \<times> string \<Rightarrow> Values" where
  "add_pair m kv = values_add m (fst kv) (snd kv)"

lemma parseQuery_join:
  "parseQuery m (join_amp (map pair_item kvs)) = foldl add_pair m kvs"
proof (induction kvs arbitrary: m)
  case Nil
  show ?case by (simp add: parseQuery.simps [of m "[]"])
next
  case (Cons kv kvs)
  note IH = Cons.IH
  have nil: "parseQuery m' [] = m'" for m' by (simp add: parseQuery.simps [of m' "[]"])
  show ?case
  proof (cases kvs)
    case Nil
    then show ?thesis
      using pair_item_amp [of kv]
      by (simp add: parseQuery.simps [of m "pair_item kv"] Cut_none nil add_pair_def split: prod.split)
  next
    case (Cons kv' kvs')
    let ?rest = "join_amp (map pair_item kvs)"
    have "parseQuery m (pair_item kv @ CHR ''&'' # ?rest) = parseQuery (add_pair m kv) ?rest"
      using pair_item_amp [of kv]
      by (subst parseQuery.simps) (simp add: Cut_append add_pair_def split: prod.split)
    then show ?thesis using IH Cons by simp
  qed
qed

text \<open>The pairs of a value map, in order.\<close>

definition flat_values :: "Values \<Rightarrow> (string \<times> string) list" where
  "flat_values m = concat (map (\<lambda>(k, vs). map (\<lambda>v. (k, v)) vs) m)"

lemma encode_items_flat: "encode_items m = map pair_item (flat_values (sort_key fst m))"
  by (simp add: encode_items_def flat_values_def map_concat comp_def split_def pair_item_def)

lemma values_add_new: "k \<notin> fst ` set m \<Longrightarrow> values_add m k v = m @ [(k, [v])]"
  by (induction m) auto

lemma values_add_last: "k \<notin> fst ` set m \<Longrightarrow> values_add (m @ [(k, vs)]) k v = m @ [(k, vs @ [v])]"
  by (induction m) auto

lemma foldl_add_key:
  "k \<notin> fst ` set m \<Longrightarrow> us \<noteq> [] \<Longrightarrow>
   foldl add_pair (m @ [(k, us)]) (map (\<lambda>v. (k, v)) vs) = m @ [(k, us @ vs)]"
  by (induction vs arbitrary: us) (simp_all add: add_pair_def values_add_last)

definition valid_values :: "Values \<Rightarrow> bool" where
  "valid_values m \<longleftrightarrow> distinct (map fst m) \<and> list_all (\<lambda>kv. snd kv \<noteq> []) m"

lemma foldl_add_flat:
  "distinct (map fst (m @ n)) \<Longrightarrow> list_all (\<lambda>kv. snd kv \<noteq> []) n \<Longrightarrow>
   foldl add_pair m (flat_values n) = m @ n"
proof (induction n arbitrary: m)
  case (Cons kv n)
  obtain k v vs where kv: "kv = (k, v # vs)"
    using Cons.prems(2) by (cases kv; cases "snd kv") auto
  have k: "k \<notin> fst ` set m" using Cons.prems(1) kv by auto
  have "foldl add_pair m (map (\<lambda>v. (k, v)) (v # vs)) = m @ [kv]"
    using k foldl_add_key [of k m "[v]" vs] by (simp add: add_pair_def values_add_new kv)
  then show ?case
    using Cons.IH [of "m @ [kv]"] Cons.prems by (simp add: flat_values_def kv)
qed (simp add: flat_values_def)

text \<open>Printing a query and reading it back gives the same values, sorted by key.\<close>

lemma ParseQuery_Encode:
  "valid_values m \<Longrightarrow> ParseQuery (Encode m) = sort_key fst m"
  unfolding ParseQuery_def Encode_def encode_items_flat parseQuery_join
  using foldl_add_flat [of "[]" "sort_key fst m"]
  by (simp add: valid_values_def list_all_iff distinct_map)

lemma valid_values_add: "valid_values m \<Longrightarrow> valid_values (values_add m k v)"
proof -
  have "fst ` set (values_add m k v) = insert k (fst ` set m)" for m
    by (induction m k v rule: values_add.induct) auto
  then show "valid_values m \<Longrightarrow> valid_values (values_add m k v)"
    by (induction m k v rule: values_add.induct) (auto simp: valid_values_def)
qed

lemma valid_values_parseQuery: "valid_values m \<Longrightarrow> valid_values (parseQuery m q)"
proof (induction m q rule: parseQuery.induct)
  case (1 m q)
  show ?case
    using 1 by (subst parseQuery.simps) (fastforce split: prod.split option.split intro: valid_values_add)
qed

lemma valid_values_ParseQuery [simp]: "valid_values (ParseQuery q)"
  unfolding ParseQuery_def by (rule valid_values_parseQuery) (simp add: valid_values_def)

lemma valid_values_Del: "valid_values m \<Longrightarrow> valid_values (values_Del m k)"
  by (auto simp: valid_values_def values_Del_def distinct_map_filter list_all_iff)

lemma valid_values_Set: "valid_values m \<Longrightarrow> valid_values (values_Set m k v)"
proof -
  have "list_all (\<lambda>kv. snd kv \<noteq> []) m \<Longrightarrow> list_all (\<lambda>kv. snd kv \<noteq> []) (AList.update k [v] m)"
    by (induction m) auto
  then show "valid_values m \<Longrightarrow> valid_values (values_Set m k v)"
    by (simp add: valid_values_def values_Set_def distinct_update)
qed

subsection \<open>URLs\<close>

record Userinfo =
  ui_username :: string
  ui_password :: "string option"

record url =
  u_Scheme :: string
  u_Opaque :: string
  u_User :: "Userinfo option"
  u_Host :: string
  u_Path :: string
  u_RawPath :: string
  u_OmitHost :: bool
  u_ForceQuery :: bool
  u_RawQuery :: string
  u_Fragment :: string
  u_RawFragment :: string

definition zero_url :: url where
  "zero_url = \<lparr>u_Scheme = [], u_Opaque = [], u_User = None, u_Host = [], u_Path = [], u_RawPath = [],
     u_OmitHost = False, u_ForceQuery = False, u_RawQuery = [], u_Fragment = [], u_RawFragment = []\<rparr>"

text \<open>
  \<open>getScheme\<close>: the characters before the colon must form a scheme; a string that does
  not start with one has the empty scheme. \<open>n\<close> counts the characters read.
\<close>

fun scheme_scan :: "nat \<Rightarrow> string \<Rightarrow> string \<Rightarrow> string \<Rightarrow> string + string \<times> string" where
  "scheme_scan n whole acc [] = Inr ([], whole)"
| "scheme_scan n whole acc (c # cs) =
     (let v = of_char c :: nat in
      if 97 \<le> v \<and> v \<le> 122 \<or> 65 \<le> v \<and> v \<le> 90 then scheme_scan (n + 1) whole (acc @ [c]) cs
      else if 48 \<le> v \<and> v \<le> 57 \<or> c \<in> set ''+-.'' then
        (if n = 0 then Inr ([], whole) else scheme_scan (n + 1) whole (acc @ [c]) cs)
      else if c = CHR '':'' then
        (if n = 0 then Inl ''missing protocol scheme'' else Inr (acc, cs))
      else Inr ([], whole))"

definition getScheme :: "string \<Rightarrow> string + string \<times> string" where
  "getScheme s = scheme_scan 0 s [] s"

definition validUserinfo :: "string \<Rightarrow> bool" where
  "validUserinfo s = list_all (\<lambda>c. alnum c \<or> c \<in> set (''-._:~!$&()*+,;=%@'' @ [CHR 0x27])) s"

definition validOptionalPort :: "string \<Rightarrow> bool" where
  "validOptionalPort port =
    (case port of [] \<Rightarrow> True
     | c # cs \<Rightarrow> c = CHR '':'' \<and> list_all (\<lambda>d. 48 \<le> (of_char d :: nat) \<and> (of_char d :: nat) \<le> 57) cs)"

definition parseHost :: "(string \<Rightarrow> string \<Rightarrow> string + string) \<Rightarrow> string \<Rightarrow> string \<Rightarrow> string + string" where
  "parseHost odd_host scheme host =
    (if CHR ''['' \<in> set host \<or> 1 < length (filter (\<lambda>c. c = CHR '':'') host) then odd_host scheme host
     else case CutLast host (CHR '':'') of (name, port, found) \<Rightarrow>
       if found \<and> \<not> validOptionalPort (CHR '':'' # port)
       then Inl (''invalid port '' @ fmt_q (CHR '':'' # port) @ '' after host'')
       else unescape host encodeHost)"

definition parseUserinfo :: "string \<Rightarrow> string + Userinfo" where
  "parseUserinfo userinfo =
    (if \<not> validUserinfo userinfo then Inl ''net/url: invalid userinfo''
     else case Cut userinfo (CHR '':'') of (username, password, found) \<Rightarrow>
       if \<not> found then map_sum id (\<lambda>u. \<lparr>ui_username = u, ui_password = None\<rparr>) (unescape userinfo encodeUserPassword)
       else (case unescape username encodeUserPassword of
               Inl e \<Rightarrow> Inl e
             | Inr u \<Rightarrow> map_sum id (\<lambda>p. \<lparr>ui_username = u, ui_password = Some p\<rparr>) (unescape password encodeUserPassword)))"

definition parseAuthority ::
  "(string \<Rightarrow> string \<Rightarrow> string + string) \<Rightarrow> string \<Rightarrow> string \<Rightarrow> string + Userinfo option \<times> string" where
  "parseAuthority odd_host scheme authority =
    (case CutLast authority (CHR ''@'') of (userinfo, host, found) \<Rightarrow>
       if \<not> found then map_sum id (\<lambda>h. (None, h)) (parseHost odd_host scheme authority)
       else (case parseHost odd_host scheme host of
               Inl e \<Rightarrow> Inl e
             | Inr h \<Rightarrow> map_sum id (\<lambda>u. (Some u, h)) (parseUserinfo userinfo)))"

definition setPath :: "url \<Rightarrow> string \<Rightarrow> string + url" where
  "setPath u p = map_sum id
     (\<lambda>path. u\<lparr>u_Path := path, u_RawPath := (if p = escape path encodePath then [] else p)\<rparr>)
     (unescape p encodePath)"

definition setFragment :: "url \<Rightarrow> string \<Rightarrow> string + url" where
  "setFragment u f = map_sum id
     (\<lambda>frag. u\<lparr>u_Fragment := frag, u_RawFragment := (if f = escape frag encodeFragment then [] else f)\<rparr>)
     (unescape f encodeFragment)"

text \<open>\<open>parse(rawURL, false)\<close>, in the order of its steps.\<close>

definition parse_hier :: "(string \<Rightarrow> string \<Rightarrow> string + string) \<Rightarrow> url \<Rightarrow> string \<Rightarrow> string + url" where
  "parse_hier odd_host u rest =
    (if (u_Scheme u \<noteq> [] \<or> \<not> HasPrefix rest ''///'') \<and> HasPrefix rest ''//'' then
       let authority = takeWhile (\<lambda>c. c \<noteq> CHR ''/'') (drop 2 rest);
           path = dropWhile (\<lambda>c. c \<noteq> CHR ''/'') (drop 2 rest)
       in case parseAuthority odd_host (u_Scheme u) authority of
            Inl e \<Rightarrow> Inl e
          | Inr (user, host) \<Rightarrow> setPath (u\<lparr>u_User := user, u_Host := host\<rparr>) path
     else if u_Scheme u \<noteq> [] \<and> HasPrefix rest ''/'' then setPath (u\<lparr>u_OmitHost := True\<rparr>) rest
     else setPath u rest)"

definition split_query :: "string \<Rightarrow> string \<times> bool \<times> string" where
  "split_query rest =
    (if rest \<noteq> [] \<and> last rest = CHR ''?'' \<and> length (filter (\<lambda>c. c = CHR ''?'') rest) = 1
     then (butlast rest, True, [])
     else case Cut rest (CHR ''?'') of (r, q, _) \<Rightarrow> (r, False, q))"

definition parse_url :: "(string \<Rightarrow> string \<Rightarrow> string + string) \<Rightarrow> string \<Rightarrow> string + url" where
  "parse_url odd_host rawURL =
    (if list_ex (\<lambda>c. (of_char c :: nat) < 32 \<or> (of_char c :: nat) = 127) rawURL
     then Inl ''net/url: invalid control character in URL''
     else if rawURL = ''*'' then Inr (zero_url\<lparr>u_Path := ''*''\<rparr>)
     else case getScheme rawURL of
       Inl e \<Rightarrow> Inl e
     | Inr (scheme, rest) \<Rightarrow>
        (case split_query rest of (rest, force, query) \<Rightarrow>
           let u = zero_url\<lparr>u_Scheme := ToLower scheme, u_ForceQuery := force, u_RawQuery := query\<rparr> in
           if \<not> HasPrefix rest ''/'' \<and> u_Scheme u \<noteq> [] then Inr (u\<lparr>u_Opaque := rest\<rparr>)
           else if \<not> HasPrefix rest ''/'' \<and> CHR '':'' \<in> set (takeWhile (\<lambda>c. c \<noteq> CHR ''/'') rest)
           then Inl ''first path segment in URL cannot contain colon''
           else parse_hier odd_host u rest))"

definition url_error :: "string \<Rightarrow> string \<Rightarrow> gerror" where
  "url_error u msg = ErrorString (''parse '' @ fmt_q u @ '': '' @ msg)"

definition Parse :: "(string \<Rightarrow> string \<Rightarrow> string + string) \<Rightarrow> string \<Rightarrow> gerror + url" where
  "Parse odd_host rawURL =
    (case Cut rawURL (CHR ''#'') of (u, frag, _) \<Rightarrow>
      (case parse_url odd_host u of
         Inl e \<Rightarrow> Inl (url_error u e)
       | Inr r \<Rightarrow>
          if frag = [] then Inr r
          else map_sum (url_error rawURL) id (setFragment r frag)))"

subsection \<open>Printing\<close>

definition Userinfo_String :: "Userinfo \<Rightarrow> string" where
  "Userinfo_String ui =
    (escape (ui_username ui) encodeUserPassword
     @ (case ui_password ui of None \<Rightarrow> [] | Some p \<Rightarrow> '':'' @ escape p encodeUserPassword))"

definition validEncoded :: "string \<Rightarrow> encoding \<Rightarrow> bool" where
  "validEncoded s mode =
     list_all (\<lambda>c. c \<in> set (''!$&()*+,;=:@[]%'' @ [CHR 0x27]) \<or> \<not> shouldEscape c mode) s"

definition EscapedPath :: "url \<Rightarrow> string" where
  "EscapedPath u =
    (if u_RawPath u \<noteq> [] \<and> validEncoded (u_RawPath u) encodePath \<and> unescape (u_RawPath u) encodePath = Inr (u_Path u)
     then u_RawPath u
     else if u_Path u = ''*'' then ''*''
     else escape (u_Path u) encodePath)"

definition EscapedFragment :: "url \<Rightarrow> string" where
  "EscapedFragment u =
    (if u_RawFragment u \<noteq> [] \<and> validEncoded (u_RawFragment u) encodeFragment
        \<and> unescape (u_RawFragment u) encodeFragment = Inr (u_Fragment u)
     then u_RawFragment u
     else escape (u_Fragment u) encodeFragment)"

text \<open>\<open>String\<close>: what it has written before the path, the path, and the rest.\<close>

definition url_prefix :: "url \<Rightarrow> string" where
  "url_prefix u =
    (if u_Scheme u \<noteq> [] then u_Scheme u @ '':'' else [])
    @ (if u_Scheme u \<noteq> [] \<or> u_Host u \<noteq> [] \<or> u_User u \<noteq> None then
         if u_OmitHost u \<and> u_Host u = [] \<and> u_User u = None then []
         else (if u_Host u \<noteq> [] \<or> u_Path u \<noteq> [] \<or> u_User u \<noteq> None then ''//'' else [])
              @ (case u_User u of None \<Rightarrow> [] | Some ui \<Rightarrow> Userinfo_String ui @ ''@'')
              @ (if u_Host u \<noteq> [] then escape (u_Host u) encodeHost else [])
       else [])"

definition url_path :: "url \<Rightarrow> string" where
  "url_path u =
    (let path = EscapedPath u;
         slash = (if path \<noteq> [] \<and> hd path \<noteq> CHR ''/'' \<and> u_Host u \<noteq> [] then ''/'' else [])
     in slash
        @ (if url_prefix u @ slash = [] \<and> CHR '':'' \<in> set (takeWhile (\<lambda>c. c \<noteq> CHR ''/'') path) then ''./'' else [])
        @ path)"

definition URL_String :: "url \<Rightarrow> string" where
  "URL_String u =
    (if u_Opaque u \<noteq> []
     then (if u_Scheme u \<noteq> [] then u_Scheme u @ '':'' else []) @ u_Opaque u
     else url_prefix u @ url_path u)
    @ (if u_ForceQuery u \<or> u_RawQuery u \<noteq> [] then ''?'' @ u_RawQuery u else [])
    @ (if u_Fragment u \<noteq> [] then ''#'' @ EscapedFragment u else [])"

end
