(* ===== verification/Base64.thy ===== *)
theory Base64
  imports Prelude
begin

text \<open>
  The two encodings of \<open>encoding/base64\<close> the operator relies on: \<open>RawURLEncoding\<close> of
  its random tokens and passwords, and the padded standard encoding inside
  \<open>encoding/pem\<close> blocks. Both map three bytes to four characters; they differ in the
  alphabet and in the padding.
\<close>

definition alnum_chars :: string where
  "alnum_chars = ''ABCDEFGHIJKLMNOPQRSTUVWXYZabcdefghijklmnopqrstuvwxyz0123456789''"

definition url_alphabet :: string where
  "url_alphabet = alnum_chars @ ''-_''"

definition std_alphabet :: string where
  "std_alphabet = alnum_chars @ ''+/''"

fun encode_groups :: "string \<Rightarrow> nat list \<Rightarrow> string list" where
  "encode_groups al [] = []"
| "encode_groups al [a] = [[al ! (a div 4), al ! (a mod 4 * 16)]]"
| "encode_groups al [a, b] = [[al ! (a div 4), al ! (a mod 4 * 16 + b div 16), al ! (b mod 16 * 4)]]"
| "encode_groups al (a # b # c # bs) =
     [al ! (a div 4), al ! (a mod 4 * 16 + b div 16), al ! (b mod 16 * 4 + c div 64), al ! (c mod 64)]
     # encode_groups al bs"

definition RawURLEncoding :: "string \<Rightarrow> string" where
  "RawURLEncoding s = concat (encode_groups url_alphabet (map of_char s))"

definition pad_group :: "string \<Rightarrow> string" where
  "pad_group g = g @ replicate (4 - length g) (CHR ''='')"

definition StdEncoding :: "string \<Rightarrow> string" where
  "StdEncoding s = concat (map pad_group (encode_groups std_alphabet (map of_char s)))"

text \<open>The prefix \<open>EncodeToString(b)[:n]\<close> of an encoding of \<open>n\<close> bytes is never out of range.\<close>

lemma encode_groups_length: "length bs \<le> length (concat (encode_groups al bs))"
  by (induction al bs rule: encode_groups.induct) auto

lemma RawURLEncoding_length: "length s \<le> length (RawURLEncoding s)"
  using encode_groups_length [of "map of_char s" url_alphabet] by (simp add: RawURLEncoding_def)

lemma sextet_bounds:
  assumes "a < 256" "b < 256" "c < (256 :: nat)"
  shows "a div 4 < 64" "a mod 4 * 16 < 64" "a mod 4 * 16 + b div 16 < 64" "b mod 16 * 4 < 64"
    "b mod 16 * 4 + c div 64 < 64" "c mod 64 < 64"
proof -
  have "b div 16 < 16" "a mod 4 < 4" "b mod 16 < 16" "c div 64 < 4" using assms by auto
  then show "a div 4 < 64" "a mod 4 * 16 < 64" "a mod 4 * 16 + b div 16 < 64" "b mod 16 * 4 < 64"
    "b mod 16 * 4 + c div 64 < 64" "c mod 64 < 64"
    using assms by linarith+
qed

lemma encode_groups_set:
  assumes "list_all (\<lambda>n. n < 256) bs" and "length al = 64"
  shows "set (concat (encode_groups al bs)) \<subseteq> set al"
proof -
  have mem: "n < 64 \<Longrightarrow> al ! n \<in> set al" for n using assms(2) by simp
  show ?thesis
    using assms(1) mem
  proof (induction al bs rule: encode_groups.induct)
    case (3 al a b)
    then show ?case using sextet_bounds [of a b 0] by simp
  next
    case (4 al a b c bs)
    then show ?case using sextet_bounds [of a b c] by simp
  qed simp_all
qed

lemma alphabet_lengths: "length url_alphabet = 64" "length std_alphabet = 64"
  by (simp_all add: url_alphabet_def std_alphabet_def alnum_chars_def)

lemma RawURLEncoding_set: "set (RawURLEncoding s) \<subseteq> set url_alphabet"
  unfolding RawURLEncoding_def
  by (rule encode_groups_set)
    (simp_all add: list_all_iff alphabet_lengths del: of_char_of)

end
