(* ===== verification/Library.thy ===== *)
theory Library
  imports Effects "HOL-Library.AList"
begin

text \<open>
  The functions of other packages the operator calls without touching the cluster:
  \<open>controllerutil\<close>, \<open>metav1\<close>, \<open>apierrors\<close>, \<open>apimeta\<close>, \<open>client\<close> and \<open>unstructured\<close> of the
  Kubernetes libraries, and the X.509 and elliptic-curve encodings of \<open>crypto\<close>. They are
  the fields of one record, an argument of every definition that calls one of them;
  what a theorem relies on is a named hypothesis on the record.
\<close>

record lib =
  SetControllerReference :: "Apme \<Rightarrow> client_object \<Rightarrow> gerror + client_object"
  IsControlledBy :: "client_object \<Rightarrow> Apme \<Rightarrow> bool"
  IsNotFound :: "gerror \<Rightarrow> bool"
  IsForbidden :: "gerror \<Rightarrow> bool"
  IgnoreNotFound :: "gerror option \<Rightarrow> gerror option"
  SetStatusCondition :: "Condition list \<Rightarrow> Condition \<Rightarrow> Condition list"
  ObjectKeyFromObject :: "client_object \<Rightarrow> NamespacedName"
  NestedString :: "json \<Rightarrow> string list \<Rightarrow> string \<times> bool \<times> gerror option"
  NestedSlice :: "json \<Rightarrow> string list \<Rightarrow> json list \<times> bool \<times> gerror option"
  SetNestedField :: "json \<Rightarrow> json \<Rightarrow> string list \<Rightarrow> json \<times> gerror option"
  DeletionTimestampIsZero :: "json \<Rightarrow> bool"
  AppendCertsFromPEM :: "bytes \<Rightarrow> bool"
  ParseCertificate :: "bytes \<Rightarrow> gerror + certificate"
  PublicKey :: "ec_private \<Rightarrow> ec_public"
  MarshalECPrivateKey :: "ec_private \<Rightarrow> gerror + bytes"
  OddHost :: "string \<Rightarrow> string \<Rightarrow> string + string"

subsection \<open>Names of objects\<close>

text \<open>The kind, namespace and name by which the API server identifies an object.\<close>

definition json_field :: "string \<Rightarrow> json \<Rightarrow> json option" where
  "json_field k j = (case j of JObject fs \<Rightarrow> map_of fs k | _ \<Rightarrow> None)"

fun json_string :: "string list \<Rightarrow> json \<Rightarrow> string option" where
  "json_string [] (JString s) = Some s"
| "json_string [] _ = None"
| "json_string (k # ks) j = (case json_field k j of None \<Rightarrow> None | Some j' \<Rightarrow> json_string ks j')"

definition json_text :: "string list \<Rightarrow> json \<Rightarrow> string" where
  "json_text path j = (case json_string path j of None \<Rightarrow> [] | Some s \<Rightarrow> s)"

record object_id =
  id_kind :: string
  id_namespace :: string
  id_name :: string

definition meta_id :: "type_meta \<Rightarrow> object_meta \<Rightarrow> object_id" where
  "meta_id t m = \<lparr>id_kind = tm_kind t, id_namespace = m_namespace m, id_name = m_name m\<rparr>"

fun id_of :: "client_object \<Rightarrow> object_id" where
  "id_of (OServiceAccount x) = meta_id (sa_type x) (sa_meta x)"
| "id_of (OPVC x) = meta_id (pvc_type x) (pvc_meta x)"
| "id_of (OConfigMap x) = meta_id (cm_type x) (cm_meta x)"
| "id_of (OSecret x) = meta_id (sec_typeMeta x) (sec_meta x)"
| "id_of (OStatefulSet x) = meta_id (sts_type x) (sts_meta x)"
| "id_of (ODeployment x) = meta_id (dep_type x) (dep_meta x)"
| "id_of (OService x) = meta_id (svc_typeMeta x) (svc_meta x)"
| "id_of (ONetworkPolicy x) = meta_id (np_type x) (np_meta x)"
| "id_of (OIngress x) = meta_id (ing_type x) (ing_meta x)"
| "id_of (ORoute x) =
     \<lparr>id_kind = json_text [''kind''] x, id_namespace = json_text [''metadata'', ''namespace''] x,
      id_name = json_text [''metadata'', ''name''] x\<rparr>"

subsection \<open>An instance\<close>

text \<open>
  An implementation with the documented behaviour of these functions, on which the
  witnesses of the development evaluate: owner references with one controller, status
  reasons found through wrapped errors, conditions keyed by type whose transition time
  moves with their status only, and access to nested JSON fields.
\<close>

definition owner_of :: "Apme \<Rightarrow> owner_ref" where
  "owner_of cr = \<lparr>or_kind = ''Apme'', or_name = m_name (apme_meta cr), or_uid = m_uid (apme_meta cr),
     or_controller = True\<rparr>"

definition owner_json :: "Apme \<Rightarrow> json" where
  "owner_json cr = JObject
     [(''kind'', JString ''Apme''), (''name'', JString (m_name (apme_meta cr))),
      (''uid'', JString (m_uid (apme_meta cr))), (''controller'', JString ''true'')]"

fun map_meta :: "(object_meta \<Rightarrow> object_meta) \<Rightarrow> client_object \<Rightarrow> client_object" where
  "map_meta f (OServiceAccount x) = OServiceAccount (x\<lparr>sa_meta := f (sa_meta x)\<rparr>)"
| "map_meta f (OPVC x) = OPVC (x\<lparr>pvc_meta := f (pvc_meta x)\<rparr>)"
| "map_meta f (OConfigMap x) = OConfigMap (x\<lparr>cm_meta := f (cm_meta x)\<rparr>)"
| "map_meta f (OSecret x) = OSecret (x\<lparr>sec_meta := f (sec_meta x)\<rparr>)"
| "map_meta f (OStatefulSet x) = OStatefulSet (x\<lparr>sts_meta := f (sts_meta x)\<rparr>)"
| "map_meta f (ODeployment x) = ODeployment (x\<lparr>dep_meta := f (dep_meta x)\<rparr>)"
| "map_meta f (OService x) = OService (x\<lparr>svc_meta := f (svc_meta x)\<rparr>)"
| "map_meta f (ONetworkPolicy x) = ONetworkPolicy (x\<lparr>np_meta := f (np_meta x)\<rparr>)"
| "map_meta f (OIngress x) = OIngress (x\<lparr>ing_meta := f (ing_meta x)\<rparr>)"
| "map_meta f (ORoute x) = ORoute x"

fun owner_refs :: "client_object \<Rightarrow> owner_ref list" where
  "owner_refs (OServiceAccount x) = m_ownerRefs (sa_meta x)"
| "owner_refs (OPVC x) = m_ownerRefs (pvc_meta x)"
| "owner_refs (OConfigMap x) = m_ownerRefs (cm_meta x)"
| "owner_refs (OSecret x) = m_ownerRefs (sec_meta x)"
| "owner_refs (OStatefulSet x) = m_ownerRefs (sts_meta x)"
| "owner_refs (ODeployment x) = m_ownerRefs (dep_meta x)"
| "owner_refs (OService x) = m_ownerRefs (svc_meta x)"
| "owner_refs (ONetworkPolicy x) = m_ownerRefs (np_meta x)"
| "owner_refs (OIngress x) = m_ownerRefs (ing_meta x)"
| "owner_refs (ORoute x) =
     (case json_field ''metadata'' x of None \<Rightarrow> []
      | Some m \<Rightarrow>
         (case json_field ''ownerReferences'' m of
            Some (JArray rs) \<Rightarrow>
              map (\<lambda>r. \<lparr>or_kind = json_text [''kind''] r, or_name = json_text [''name''] r,
                        or_uid = json_text [''uid''] r, or_controller = (json_text [''controller''] r = ''true'')\<rparr>) rs
          | _ \<Rightarrow> []))"

fun json_set :: "string list \<Rightarrow> json \<Rightarrow> json \<Rightarrow> json" where
  "json_set [] v j = v"
| "json_set (k # ks) v (JObject fs) =
     JObject (AList.update k (json_set ks v (case map_of fs k of Some j \<Rightarrow> j | None \<Rightarrow> JObject [])) fs)"
| "json_set (k # ks) v j = JObject [(k, json_set ks v (JObject []))]"

fun set_owner :: "Apme \<Rightarrow> client_object \<Rightarrow> client_object" where
  "set_owner cr (ORoute x) = ORoute (json_set [''metadata'', ''ownerReferences''] (JArray [owner_json cr]) x)"
| "set_owner cr ob = map_meta (\<lambda>m. m\<lparr>m_ownerRefs := [owner_of cr]\<rparr>) ob"

fun std_reason :: "gerror \<Rightarrow> string" where
  "std_reason (ApiError r m) = r"
| "std_reason (ErrorString m) = []"
| "std_reason (WrapError p e) = std_reason e"
| "std_reason (RoutePermissionError e) = std_reason e"

fun std_SetStatusCondition :: "Condition list \<Rightarrow> Condition \<Rightarrow> Condition list" where
  "std_SetStatusCondition [] c = [c]"
| "std_SetStatusCondition (x # xs) c =
     (if cond_Type x = cond_Type c
      then c\<lparr>cond_LastTransitionTime :=
               (if cond_Status x = cond_Status c then cond_LastTransitionTime x else cond_LastTransitionTime c)\<rparr> # xs
      else x # std_SetStatusCondition xs c)"

definition example_certificate :: certificate where
  "example_certificate = \<lparr>x_SerialNumber = 1, x_CommonName = ''ca'', x_NotBefore = 0, x_NotAfter = 1,
     x_IsCA = True, x_KeyUsage = [], x_ExtKeyUsage = [], x_BasicConstraintsValid = True, x_DNSNames = []\<rparr>"

definition std_lib :: lib where
  "std_lib =
     \<lparr>SetControllerReference = (\<lambda>cr ob.
        if list_ex (\<lambda>r. or_controller r \<and> or_uid r \<noteq> m_uid (apme_meta cr)) (owner_refs ob)
        then Inl (ErrorString ''Object is already owned by another controller'') else Inr (set_owner cr ob)),
      IsControlledBy = (\<lambda>ob cr. list_ex (\<lambda>r. or_controller r \<and> or_uid r = m_uid (apme_meta cr)) (owner_refs ob)),
      IsNotFound = (\<lambda>e. std_reason e = ''NotFound''),
      IsForbidden = (\<lambda>e. std_reason e = ''Forbidden''),
      IgnoreNotFound = (\<lambda>r. case r of Some e \<Rightarrow> if std_reason e = ''NotFound'' then None else Some e | None \<Rightarrow> None),
      SetStatusCondition = std_SetStatusCondition,
      ObjectKeyFromObject = (\<lambda>ob. \<lparr>nn_Name = id_name (id_of ob), nn_Namespace = id_namespace (id_of ob)\<rparr>),
      NestedString = (\<lambda>j path. (json_text path j, json_string path j \<noteq> None, None)),
      NestedSlice = (\<lambda>j path.
        case path of
          [a, b] \<Rightarrow>
            (case json_field a j of None \<Rightarrow> ([], False, None)
             | Some x \<Rightarrow> (case json_field b x of Some (JArray xs) \<Rightarrow> (xs, True, None) | _ \<Rightarrow> ([], False, None)))
        | _ \<Rightarrow> ([], False, None)),
      SetNestedField = (\<lambda>j v path. (json_set path v j, None)),
      DeletionTimestampIsZero = (\<lambda>j. json_string [''metadata'', ''deletionTimestamp''] j = None),
      AppendCertsFromPEM = (\<lambda>pem. Contains pem ''-----BEGIN CERTIFICATE-----''),
      ParseCertificate = (\<lambda>der. Inr example_certificate),
      PublicKey = (\<lambda>k. (int k, int k)),
      MarshalECPrivateKey = (\<lambda>k. Inr (nat_digits k)),
      OddHost = (\<lambda>scheme host. Inl ''unsupported host'')\<rparr>"

end
