(* ===== verification/Postgres.thy ===== *)
theory Postgres
  imports Manifests Net_Url Base64 Library
begin

text \<open>
  \<open>internal/manifests/postgres\<close>: certificates, TLS configuration, credentials and the
  StatefulSet of the managed database.
\<close>

subsection \<open>\<open>certs.go\<close>\<close>

definition tlsCRT :: string where "tlsCRT = ''tls.crt''"
definition tlsKey :: string where "tlsKey = ''tls.key''"
definition caCRT :: string where "caCRT = ''ca.crt''"
definition caKey :: string where "caKey = ''ca.key''"

lemmas tls_keys = tlsCRT_def tlsKey_def caCRT_def caKey_def

definition ServiceHostnames :: "Desired \<Rightarrow> string list" where
  "ServiceHostnames d =
    (let base = d_Name d @ ''-postgres'' in
     [base,
      base @ ''.'' @ d_Namespace d,
      base @ ''.'' @ d_Namespace d @ ''.svc'',
      base @ ''.'' @ d_Namespace d @ ''.svc.cluster.local''])"

text \<open>The label map that every object of this package spells out.\<close>

definition postgresLabels :: "Desired \<Rightarrow> strmap" where
  "postgresLabels d =
     [(''app.kubernetes.io/name'', ''apme''),
      (''app.kubernetes.io/instance'', d_Name d),
      (''app.kubernetes.io/managed-by'', ''apme-operator''),
      (''app.kubernetes.io/component'', ''postgres'')]"

definition postgresMeta :: "Desired \<Rightarrow> string \<Rightarrow> object_meta" where
  "postgresMeta d name =
     zero_meta\<lparr>m_name := name, m_namespace := d_Namespace d, m_labels := postgresLabels d\<rparr>"

text \<open>\<open>pem.EncodeToMemory\<close>: base64 in lines of 64 characters between the markers.\<close>

function pem_lines :: "string \<Rightarrow> string" where
  "pem_lines s = (if s = [] then [] else take 64 s @ nl @ pem_lines (drop 64 s))"
  by pat_completeness auto
termination by (relation "measure length") simp_all

declare pem_lines.simps [simp del]

definition EncodeToMemory :: "string \<Rightarrow> bytes \<Rightarrow> bytes" where
  "EncodeToMemory typ b =
     ''-----BEGIN '' @ typ @ ''-----'' @ nl @ pem_lines (StdEncoding b) @ ''-----END '' @ typ @ ''-----'' @ nl"

definition pemEncodeECKey :: "lib \<Rightarrow> ec_private \<Rightarrow> gerror + bytes" where
  "pemEncodeECKey L key =
    (case MarshalECPrivateKey L key of
       Inl err \<Rightarrow> Inl (WrapError ''marshal EC key: '' err)
     | Inr b \<Rightarrow> Inr (EncodeToMemory ''EC PRIVATE KEY'' b))"

definition hour :: int where
  "hour = 3600 * 1000000000"

definition caTemplate :: "Desired \<Rightarrow> int \<Rightarrow> int \<Rightarrow> certificate" where
  "caTemplate d serial now =
     \<lparr>x_SerialNumber = serial, x_CommonName = d_Name d @ ''-postgres-ca'',
      x_NotBefore = now, x_NotAfter = now + 10 * 365 * 24 * hour, x_IsCA = True,
      x_KeyUsage = [CertSign, CRLSign, DigitalSignature], x_ExtKeyUsage = [],
      x_BasicConstraintsValid = True, x_DNSNames = []\<rparr>"

definition serverTemplate :: "Desired \<Rightarrow> int \<Rightarrow> int \<Rightarrow> certificate" where
  "serverTemplate d serial now =
     \<lparr>x_SerialNumber = serial, x_CommonName = ServiceHostnames d ! 2,
      x_NotBefore = now, x_NotAfter = now + 365 * 24 * hour, x_IsCA = False,
      x_KeyUsage = [DigitalSignature, KeyEncipherment], x_ExtKeyUsage = [ServerAuth],
      x_BasicConstraintsValid = False, x_DNSNames = ServiceHostnames d\<rparr>"

definition tlsSecret :: "Desired \<Rightarrow> bytes \<Rightarrow> bytes \<Rightarrow> bytes \<Rightarrow> bytes \<Rightarrow> secret" where
  "tlsSecret d serverDER serverKeyPEM caDER caKeyPEM =
     \<lparr>sec_typeMeta = \<lparr>tm_kind = ''Secret'', tm_apiVersion = ''v1''\<rparr>,
      sec_meta = postgresMeta d (d_PostgresTLSSecretName d),
      sec_type = ''kubernetes.io/tls'',
      sec_data =
        [(tlsCRT, EncodeToMemory ''CERTIFICATE'' serverDER),
         (tlsKey, serverKeyPEM),
         (caCRT, EncodeToMemory ''CERTIFICATE'' caDER),
         (caKey, caKeyPEM)],
      sec_stringData = []\<rparr>"

text \<open>
  \<open>NewTLSSecret\<close> from its end to its start: encoding the keys and building the Secret,
  the server certificate, the CA certificate, the two keys. \<open>or_fail\<close> is
  \<open>if err != nil { return nil, fmt.Errorf("prefix%w", err) }\<close>.
\<close>

definition or_fail :: "string \<Rightarrow> ('x \<Rightarrow> (gerror + 'a) prog) \<Rightarrow> gerror + 'x \<Rightarrow> (gerror + 'a) prog" where
  "or_fail prefix k r = (case r of Inl err \<Rightarrow> Return (Inl (WrapError prefix err)) | Inr x \<Rightarrow> k x)"

definition encodeTLSSecret ::
  "lib \<Rightarrow> Desired \<Rightarrow> ec_private \<Rightarrow> ec_private \<Rightarrow> bytes \<Rightarrow> bytes \<Rightarrow> gerror + secret" where
  "encodeTLSSecret L d caKeyPriv serverKeyPriv caDER serverDER =
    (case pemEncodeECKey L caKeyPriv of
       Inl err \<Rightarrow> Inl err
     | Inr caKeyPEM \<Rightarrow>
        (case pemEncodeECKey L serverKeyPriv of
           Inl err \<Rightarrow> Inl err
         | Inr serverKeyPEM \<Rightarrow> Inr (tlsSecret d serverDER serverKeyPEM caDER caKeyPEM)))"

definition signServer ::
  "lib \<Rightarrow> Desired \<Rightarrow> ec_private \<Rightarrow> ec_private \<Rightarrow> int \<Rightarrow> bytes \<Rightarrow> certificate \<Rightarrow> (gerror + secret) prog" where
  "signServer L d caKeyPriv serverKeyPriv now caDER caCert =
     RandInt (2 ^ 128) (or_fail ''server serial: '' (\<lambda>serial.
       CreateCertificate (serverTemplate d serial now) caCert (PublicKey L serverKeyPriv) caKeyPriv
         (or_fail ''create server cert: '' (\<lambda>serverDER.
            Return (encodeTLSSecret L d caKeyPriv serverKeyPriv caDER serverDER)))))"

definition signCA :: "lib \<Rightarrow> Desired \<Rightarrow> ec_private \<Rightarrow> ec_private \<Rightarrow> (gerror + secret) prog" where
  "signCA L d caKeyPriv serverKeyPriv =
     RandInt (2 ^ 128) (or_fail ''CA serial: '' (\<lambda>serial.
       Now (\<lambda>t. let now = t - hour; caTpl = caTemplate d serial now in
         CreateCertificate caTpl caTpl (PublicKey L caKeyPriv) caKeyPriv
           (or_fail ''create CA cert: '' (\<lambda>caDER.
              or_fail ''parse CA cert: '' (signServer L d caKeyPriv serverKeyPriv now caDER)
                (ParseCertificate L caDER))))))"

definition NewTLSSecret :: "lib \<Rightarrow> Desired \<Rightarrow> (gerror + secret) prog" where
  "NewTLSSecret L d =
     GenerateKey (or_fail ''generate CA key: '' (\<lambda>caKeyPriv.
       GenerateKey (or_fail ''generate server key: '' (\<lambda>serverKeyPriv.
         signCA L d caKeyPriv serverKeyPriv))))"

text \<open>The pointer is never nil where the operator calls it.\<close>

definition data_len :: "secret \<Rightarrow> string \<Rightarrow> nat" where
  "data_len sec k = (case map_of (sec_data sec) k of None \<Rightarrow> 0 | Some b \<Rightarrow> length b)"

definition HasTLSMaterial :: "secret option \<Rightarrow> bool" where
  "HasTLSMaterial sec =
    (case sec of None \<Rightarrow> False
     | Some sec \<Rightarrow> data_len sec tlsCRT > 0 \<and> data_len sec tlsKey > 0 \<and> data_len sec caCRT > 0)"

subsection \<open>\<open>ssl_config.go\<close>\<close>

definition SSLConfigMap :: "Desired \<Rightarrow> config_map" where
  "SSLConfigMap d =
     \<lparr>cm_type = \<lparr>tm_kind = ''ConfigMap'', tm_apiVersion = ''v1''\<rparr>,
      cm_meta = postgresMeta d (d_Name d @ ''-postgres-ssl''),
      cm_data =
        [(''ssl.conf'', unlines
           [''ssl = on'',
            ''ssl_cert_file = '' @ sq ''/opt/app-root/src/certs/tls.crt'',
            ''ssl_key_file = '' @ sq ''/opt/app-root/src/certs/tls.key''])]\<rparr>"

subsection \<open>\<open>statefulset.go\<close>\<close>

definition pgUser :: string where "pgUser = ''apme''"
definition pgDB :: string where "pgDB = ''apme''"

definition randomPassword :: "nat \<Rightarrow> (gerror + string) prog" where
  "randomPassword n = RandRead n (\<lambda>r. case r of
     Inl err \<Rightarrow> Return (Inl err)
   | Inr b \<Rightarrow> Return (Inr (take n (RawURLEncoding b))))"

definition secretURL :: "Desired \<Rightarrow> string \<Rightarrow> url" where
  "secretURL d pw =
    (let host = d_Name d @ ''-postgres.'' @ d_Namespace d @ ''.svc'' in
     zero_url\<lparr>u_Scheme := ''postgresql+asyncpg'',
       u_User := Some \<lparr>ui_username = pgUser, ui_password = Some pw\<rparr>,
       u_Host := host @ '':5432'',
       u_Path := ''/'' @ pgDB,
       u_RawQuery := ''ssl=verify-full''\<rparr>)"

definition postgresSecret :: "Desired \<Rightarrow> string \<Rightarrow> secret" where
  "postgresSecret d pw =
     \<lparr>sec_typeMeta = \<lparr>tm_kind = ''Secret'', tm_apiVersion = ''v1''\<rparr>,
      sec_meta = postgresMeta d (d_DatabaseSecretName d),
      sec_type = ''Opaque'',
      sec_data = [],
      sec_stringData =
        [(''username'', pgUser), (''password'', pw), (''database'', pgDB),
         (''database-url'', URL_String (secretURL d pw))]\<rparr>"

definition NewSecret :: "Desired \<Rightarrow> (gerror + secret) prog" where
  "NewSecret d = call (randomPassword 24) (\<lambda>r. case r of
     Inl err \<Rightarrow> Return (Inl err)
   | Inr pw \<Rightarrow> Return (Inr (postgresSecret d pw)))"

definition verifyFullQuery :: "string \<Rightarrow> string" where
  "verifyFullQuery rawQuery =
    (let q = ParseQuery rawQuery;
         q = values_Del q ''sslmode'';
         q = values_Set q ''ssl'' ''verify-full''
     in Encode q)"

definition WithVerifyFullTLS :: "lib \<Rightarrow> string \<Rightarrow> gerror + string" where
  "WithVerifyFullTLS L databaseURL =
    (case Parse (OddHost L) databaseURL of
       Inl err \<Rightarrow> Inl err
     | Inr u \<Rightarrow> Inr (URL_String (u\<lparr>u_RawQuery := verifyFullQuery (u_RawQuery u)\<rparr>)))"

definition secretEnv :: "string \<Rightarrow> string \<Rightarrow> string \<Rightarrow> env_var" where
  "secretEnv name secretName key =
     \<lparr>ev_name = name, ev_value = [], ev_valueFrom = Some \<lparr>sks_name = secretName, sks_key = key\<rparr>\<rparr>"

definition postgresInit :: "Desired \<Rightarrow> container" where
  "postgresInit d = zero_container
     \<lparr>c_name := ''postgres-tls-perms'', c_image := d_PostgresImage d, c_imagePullPolicy := ''IfNotPresent'',
      c_command := [''/bin/sh'', ''-c'',
        ''cp /tls-src/tls.crt /tls-src/tls.key /certs/ && chmod 600 /certs/tls.key && chmod 644 /certs/tls.crt''],
      c_volumeMounts :=
        [\<lparr>vm_name = ''postgres-tls-src'', vm_mountPath = ''/tls-src'', vm_readOnly = True\<rparr>,
         \<lparr>vm_name = ''postgres-certs'', vm_mountPath = ''/certs'', vm_readOnly = False\<rparr>]\<rparr>"

definition postgresContainer :: "Desired \<Rightarrow> container" where
  "postgresContainer d = zero_container
     \<lparr>c_name := ''postgres'', c_image := d_PostgresImage d,
      c_ports := [\<lparr>cp_name = ''postgres'', cp_containerPort = 5432\<rparr>],
      c_env :=
        [secretEnv ''POSTGRESQL_USER'' (d_DatabaseSecretName d) ''username'',
         secretEnv ''POSTGRESQL_PASSWORD'' (d_DatabaseSecretName d) ''password'',
         secretEnv ''POSTGRESQL_DATABASE'' (d_DatabaseSecretName d) ''database''],
      c_volumeMounts :=
        [\<lparr>vm_name = ''data'', vm_mountPath = ''/var/lib/pgsql/data'', vm_readOnly = False\<rparr>,
         \<lparr>vm_name = ''postgres-certs'', vm_mountPath = ''/opt/app-root/src/certs'', vm_readOnly = True\<rparr>,
         \<lparr>vm_name = ''postgres-ssl-cfg'', vm_mountPath = ''/opt/app-root/src/postgresql-cfg'', vm_readOnly = True\<rparr>],
      c_resources := d_PostgresResources d,
      c_readinessProbe := Some
        \<lparr>pr_handler = TCPSocket (IntVal 5432), pr_initialDelaySeconds = 0, pr_periodSeconds = 10\<rparr>\<rparr>"

definition postgresPod :: "Desired \<Rightarrow> pod_spec" where
  "postgresPod d =
     \<lparr>ps_serviceAccountName = [],
      ps_securityContext = Some EmptySecurityContext,
      ps_imagePullSecrets = d_PullSecrets d,
      ps_initContainers = [postgresInit d],
      ps_containers = [postgresContainer d],
      ps_volumes =
        [\<lparr>v_name = ''postgres-tls-src'', v_source = SecretSource (d_PostgresTLSSecretName d) []\<rparr>,
         \<lparr>v_name = ''postgres-certs'', v_source = EmptyDirSource\<rparr>,
         \<lparr>v_name = ''postgres-ssl-cfg'', v_source = ConfigMapSource (d_Name d @ ''-postgres-ssl'') []\<rparr>]\<rparr>"

definition StatefulSet :: "Desired \<Rightarrow> stateful_set" where
  "StatefulSet d =
    (let lbls = postgresLabels d;
         pvcSpec = \<lparr>pvcs_accessModes = [''ReadWriteOnce''],
                    pvcs_requests = [(''storage'', d_PostgresSize d)],
                    pvcs_storageClassName = None\<rparr>;
         pvcSpec = (if d_PostgresStorageClass d \<noteq> []
                    then pvcSpec\<lparr>pvcs_storageClassName := Some (d_PostgresStorageClass d)\<rparr> else pvcSpec)
     in \<lparr>sts_type = \<lparr>tm_kind = ''StatefulSet'', tm_apiVersion = ''apps/v1''\<rparr>,
         sts_meta = postgresMeta d (d_Name d @ ''-postgres''),
         sts_replicas = Some 1,
         sts_serviceName = d_Name d @ ''-postgres'',
         sts_selector = Some lbls,
         sts_template = \<lparr>pt_meta = zero_meta\<lparr>m_labels := lbls\<rparr>, pt_spec = postgresPod d\<rparr>,
         sts_volumeClaimTemplates =
           [\<lparr>pvc_type = \<lparr>tm_kind = [], tm_apiVersion = []\<rparr>,
             pvc_meta = zero_meta\<lparr>m_name := ''data'', m_labels := lbls\<rparr>,
             pvc_spec = pvcSpec\<rparr>],
         sts_readyReplicas = 0\<rparr>)"

end
