(* ===== verification/Containers.thy ===== *)
theory Containers
  imports Resolve_Facts
begin

text \<open>
  \<open>internal/manifests/containers/containers.go\<close>: one definition per container builder, and
  the contract the builders share, as the locale \<open>sidecar\<close>.
\<close>

subsection \<open>Probes and environment\<close>

definition tcpProbe :: "int \<Rightarrow> int \<Rightarrow> int \<Rightarrow> probe" where
  "tcpProbe port delay period =
     \<lparr>pr_handler = TCPSocket (IntVal port), pr_initialDelaySeconds = delay, pr_periodSeconds = period\<rparr>"

definition httpProbe :: "string \<Rightarrow> string \<Rightarrow> int \<Rightarrow> int \<Rightarrow> probe" where
  "httpProbe path port delay period =
     \<lparr>pr_handler = HTTPGet path (StrVal port), pr_initialDelaySeconds = delay, pr_periodSeconds = period\<rparr>"

text \<open>\<open>env\<close> pairs its arguments up; an odd one at the end is dropped.\<close>

fun env :: "string list \<Rightarrow> env_var list" where
  "env (k # v # kv) = EnvVar k v # env kv"
| "env kv = []"

definition secretRef :: "string \<Rightarrow> string \<Rightarrow> string \<Rightarrow> env_var" where
  "secretRef name sec key =
     \<lparr>ev_name = name, ev_value = [], ev_valueFrom = Some \<lparr>sks_name = sec, sks_key = key\<rparr>\<rparr>"

definition withProxy :: "env_var list \<Rightarrow> Desired \<Rightarrow> env_var list" where
  "withProxy base d = base @ d_ProxyEnv d"

definition resources :: "Desired \<Rightarrow> resource_requirements" where
  "resources d = d_Resources d"

definition pull :: "Desired \<Rightarrow> string" where
  "pull d = d_PullPolicy d"

definition emptySC :: "security_context option" where
  "emptySC = Some EmptySecurityContext"

definition mount :: "string \<Rightarrow> string \<Rightarrow> bool \<Rightarrow> volume_mount" where
  "mount n path ro = \<lparr>vm_name = n, vm_mountPath = path, vm_readOnly = ro\<rparr>"

definition cport :: "string \<Rightarrow> int \<Rightarrow> container_port" where
  "cport n p = \<lparr>cp_name = n, cp_containerPort = p\<rparr>"

lemmas parts_defs [builder_defs] = tcpProbe_def httpProbe_def secretRef_def withProxy_def resources_def
  pull_def emptySC_def mount_def cport_def EnvVar_def

subsection \<open>Containers of the engine pod\<close>

definition pluginEnv :: "ResolvedPlugin \<Rightarrow> env_var" where
  "pluginEnv p = EnvVar (''APME_PLUGIN_'' @ ToUpper (rp_Name p) @ ''_ADDRESS'') (''127.0.0.1:'' @ fmt_d (rp_Port p))"

definition engineEnv :: "Desired \<Rightarrow> env_var list" where
  "engineEnv d =
     env [''UV_CACHE_DIR'', ''/tmp/uv-cache'',
          ''APME_ENGINE_LISTEN'', ''0.0.0.0:50051'',
          ''APME_ENGINE_MAX_RPCS'', ''16'',
          ''NATIVE_GRPC_ADDRESS'', ''127.0.0.1:50055'',
          ''OPA_GRPC_ADDRESS'', ''127.0.0.1:50054'',
          ''ANSIBLE_GRPC_ADDRESS'', ''127.0.0.1:50053'',
          ''APME_GALAXY_PROXY_URL'', ''http://127.0.0.1:8765'',
          ''APME_REPORTING_ENDPOINT'', ''127.0.0.1:50060'']
     @ [secretRef ''APME_PROXY_ADMIN_TOKEN'' (d_ProxyAdminTokenName d) (d_ProxyAdminTokenKey d)]
     @ (if d_Gitleaks d then [EnvVar ''GITLEAKS_GRPC_ADDRESS'' ''127.0.0.1:50056''] else [])
     @ (if d_CollectionHealth d then [EnvVar ''COLLECTION_HEALTH_GRPC_ADDRESS'' ''127.0.0.1:50058''] else [])
     @ (if d_DepAudit d then [EnvVar ''DEP_AUDIT_GRPC_ADDRESS'' ''127.0.0.1:50059''] else [])
     @ map pluginEnv (d_Plugins d)
     @ (if d_Abbenay d
        then [EnvVar ''APME_ABBENAY_ADDR'' ''unix:///tmp/abbenay-run/abbenay/daemon.sock'',
              secretRef ''APME_ABBENAY_TOKEN'' (d_AbbenayTokenName d) (d_AbbenayTokenKey d)]
        else [])"

definition Engine :: "Desired \<Rightarrow> container" where
  "Engine d = zero_container\<lparr>
     c_name := ''engine'',
     c_image := Image d ''engine'',
     c_imagePullPolicy := pull d,
     c_securityContext := emptySC,
     c_env := withProxy (engineEnv d) d,
     c_ports := [cport ''grpc'' 50051],
     c_readinessProbe := Some (tcpProbe 50051 5 10),
     c_livenessProbe := Some (tcpProbe 50051 15 30),
     c_volumeMounts := [mount ''sessions'' ''/sessions'' False]
       @ (if d_Abbenay d then [mount ''abbenay-run'' ''/tmp/abbenay-run'' False] else []),
     c_resources := resources d\<rparr>"

definition Native :: "Desired \<Rightarrow> container" where
  "Native d = zero_container\<lparr>
     c_name := ''native'',
     c_image := Image d ''native'',
     c_imagePullPolicy := pull d,
     c_securityContext := emptySC,
     c_env := withProxy (env [''APME_NATIVE_VALIDATOR_LISTEN'', ''0.0.0.0:50055'']) d,
     c_readinessProbe := Some (tcpProbe 50055 5 10),
     c_livenessProbe := Some (tcpProbe 50055 15 30),
     c_resources := resources d\<rparr>"

definition OPA :: "Desired \<Rightarrow> container" where
  "OPA d = zero_container\<lparr>
     c_name := ''opa'',
     c_image := Image d ''opa'',
     c_imagePullPolicy := pull d,
     c_securityContext := emptySC,
     c_env := withProxy (env [''APME_OPA_VALIDATOR_LISTEN'', ''0.0.0.0:50054'']) d,
     c_readinessProbe := Some (tcpProbe 50054 5 10),
     c_livenessProbe := Some (tcpProbe 50054 15 30),
     c_resources := resources d\<rparr>"

definition Ansible :: "Desired \<Rightarrow> container" where
  "Ansible d = zero_container\<lparr>
     c_name := ''ansible'',
     c_image := Image d ''ansible'',
     c_imagePullPolicy := pull d,
     c_securityContext := emptySC,
     c_env := withProxy (env [''APME_ANSIBLE_VALIDATOR_LISTEN'', ''0.0.0.0:50053'',
                              ''APME_GALAXY_PROXY_URL'', ''http://127.0.0.1:8765'']) d,
     c_readinessProbe := Some (tcpProbe 50053 5 10),
     c_livenessProbe := Some (tcpProbe 50053 15 30),
     c_volumeMounts := [mount ''sessions'' ''/sessions'' True],
     c_resources := resources d\<rparr>"

definition Gitleaks :: "Desired \<Rightarrow> container" where
  "Gitleaks d = zero_container\<lparr>
     c_name := ''gitleaks'',
     c_image := Image d ''gitleaks'',
     c_imagePullPolicy := pull d,
     c_securityContext := emptySC,
     c_env := withProxy (env [''APME_GITLEAKS_VALIDATOR_LISTEN'', ''0.0.0.0:50056'']) d,
     c_readinessProbe := Some (tcpProbe 50056 5 10),
     c_livenessProbe := Some (tcpProbe 50056 15 30),
     c_resources := resources d\<rparr>"

definition CollectionHealth :: "Desired \<Rightarrow> container" where
  "CollectionHealth d = zero_container\<lparr>
     c_name := ''collection-health'',
     c_image := Image d ''collection-health'',
     c_imagePullPolicy := pull d,
     c_securityContext := emptySC,
     c_env := withProxy (env [''APME_COLLECTION_HEALTH_VALIDATOR_LISTEN'', ''0.0.0.0:50058'']) d,
     c_readinessProbe := Some (tcpProbe 50058 5 10),
     c_livenessProbe := Some (tcpProbe 50058 15 30),
     c_volumeMounts := [mount ''sessions'' ''/sessions'' True],
     c_resources := resources d\<rparr>"

definition DepAudit :: "Desired \<Rightarrow> container" where
  "DepAudit d = zero_container\<lparr>
     c_name := ''dep-audit'',
     c_image := Image d ''dep-audit'',
     c_imagePullPolicy := pull d,
     c_securityContext := emptySC,
     c_env := withProxy (env [''APME_DEP_AUDIT_VALIDATOR_LISTEN'', ''0.0.0.0:50059'']) d,
     c_readinessProbe := Some (tcpProbe 50059 5 10),
     c_livenessProbe := Some (tcpProbe 50059 15 30),
     c_volumeMounts := [mount ''sessions'' ''/sessions'' True],
     c_resources := resources d\<rparr>"

definition PluginConfigVolumeName :: "string \<Rightarrow> string" where
  "PluginConfigVolumeName name = ''plugin-'' @ name @ ''-config''"

definition Plugin :: "Desired \<Rightarrow> ResolvedPlugin \<Rightarrow> container" where
  "Plugin d p =
    (let c = zero_container\<lparr>
       c_name := ''plugin-'' @ rp_Name p,
       c_image := rp_Image p,
       c_imagePullPolicy := pull d,
       c_securityContext := emptySC,
       c_env := withProxy (env [''APME_PLUGIN_LISTEN'', ''0.0.0.0:'' @ fmt_d (rp_Port p)]) d,
       c_readinessProbe := Some (tcpProbe (rp_Port p) 5 10),
       c_livenessProbe := Some (tcpProbe (rp_Port p) 15 30),
       c_resources := resources d\<rparr>
     in if rp_ConfigMapName p \<noteq> []
        then c\<lparr>c_volumeMounts := [mount (PluginConfigVolumeName (rp_Name p)) ''/etc/apme-plugin'' True]\<rparr>
        else c)"

definition galaxyProxyEnv :: "Desired \<Rightarrow> env_var list" where
  "galaxyProxyEnv d =
     [secretRef ''APME_PROXY_ADMIN_TOKEN'' (d_ProxyAdminTokenName d) (d_ProxyAdminTokenKey d),
      EnvVar ''APME_PROXY_REQUIRE_GATEWAY_CONFIG'' ''1'']
     @ (case d_GalaxyTLSVerify d of
          None \<Rightarrow> [] | Some v \<Rightarrow> [EnvVar ''ANSIBLE_GALAXY_IGNORE'' (FormatBool (\<not> v))])
     @ (if d_GalaxyCAConfigMap d \<noteq> []
        then [EnvVar ''SSL_CERT_FILE'' ''/etc/apme/galaxy-ca/ca-bundle.crt''] else [])"

definition GalaxyProxy :: "Desired \<Rightarrow> container" where
  "GalaxyProxy d = zero_container\<lparr>
     c_name := ''galaxy-proxy'',
     c_image := Image d ''galaxy-proxy'',
     c_imagePullPolicy := pull d,
     c_securityContext := emptySC,
     c_env := withProxy (galaxyProxyEnv d) d,
     c_readinessProbe := Some (tcpProbe 8765 5 10),
     c_livenessProbe := Some (tcpProbe 8765 10 30),
     c_volumeMounts := [mount ''proxy-cache'' ''/cache'' False]
       @ (if d_GalaxyCAConfigMap d \<noteq> [] then [mount ''galaxy-ca-bundle'' ''/etc/apme/galaxy-ca'' True] else []),
     c_resources := resources d\<rparr>"

definition gatewayEnv :: "Desired \<Rightarrow> env_var list" where
  "gatewayEnv d =
     env [''APME_ENGINE_ADDRESS'', ''127.0.0.1:50051'',
          ''APME_GATEWAY_GRPC_LISTEN'', ''0.0.0.0:50060'',
          ''APME_GATEWAY_HTTP_HOST'', ''0.0.0.0'',
          ''APME_GATEWAY_HTTP_PORT'', ''8080'']
     @ [secretRef ''APME_DATABASE_URL'' (d_DatabaseSecretName d) (d_DatabaseSecretKey d)]
     @ [secretRef ''APME_PROXY_ADMIN_TOKEN'' (d_ProxyAdminTokenName d) (d_ProxyAdminTokenKey d)]
     @ (if d_CollectionHealth d then [EnvVar ''COLLECTION_HEALTH_GRPC_ADDRESS'' ''127.0.0.1:50058''] else [])
     @ (if d_DepAudit d then [EnvVar ''DEP_AUDIT_GRPC_ADDRESS'' ''127.0.0.1:50059''] else [])
     @ (if d_GeneratePostgres d
        then [EnvVar ''SSL_CERT_FILE'' ''/etc/apme/db-ca/ca-bundle.crt'',
              EnvVar ''PGSSLROOTCERT'' ''/etc/apme/db-ca/ca-bundle.crt'']
        else [])
     @ (if d_Abbenay d
        then [EnvVar ''APME_ABBENAY_HTTP_URL'' ''http://127.0.0.1:8787'',
              secretRef ''APME_ABBENAY_HTTP_TOKEN'' (d_AbbenayTokenName d) (d_AbbenayTokenKey d),
              EnvVar ''APME_ABBENAY_ADDR'' ''unix:///tmp/abbenay-run/abbenay/daemon.sock'']
        else [])"

definition Gateway :: "Desired \<Rightarrow> container" where
  "Gateway d = zero_container\<lparr>
     c_name := ''gateway'',
     c_image := Image d ''gateway'',
     c_imagePullPolicy := pull d,
     c_securityContext := emptySC,
     c_env := withProxy (gatewayEnv d) d,
     c_ports := [cport ''gateway-grpc'' 50060, cport ''http'' 8080],
     c_livenessProbe := Some (httpProbe ''/api/v1/dashboard/summary'' ''http'' 10 30),
     c_readinessProbe := Some (httpProbe ''/api/v1/dashboard/summary'' ''http'' 5 10),
     c_volumeMounts :=
       (if d_GeneratePostgres d then [mount ''db-ca-bundle'' ''/etc/apme/db-ca'' True] else [])
       @ (if d_Abbenay d then [mount ''abbenay-run'' ''/tmp/abbenay-run'' False] else []),
     c_resources := resources d\<rparr>"

definition UI :: "Desired \<Rightarrow> container" where
  "UI d = zero_container\<lparr>
     c_name := ''ui'',
     c_image := Image d ''ui'',
     c_imagePullPolicy := pull d,
     c_securityContext := emptySC,
     c_env := withProxy (env [''APME_API_BACKEND'', ''http://127.0.0.1:8080'']) d,
     c_ports := [cport ''ui-http'' 8081],
     c_livenessProbe := Some (httpProbe ''/'' ''ui-http'' 5 30),
     c_readinessProbe := Some (httpProbe ''/'' ''ui-http'' 3 10),
     c_volumeMounts := [mount ''nginx-cache'' ''/var/cache/nginx'' False, mount ''nginx-run'' ''/var/run'' False,
                        mount ''nginx-conf'' ''/etc/nginx/conf.d'' False],
     c_resources := resources d\<rparr>"

definition abbenayProbe :: probe where
  "abbenayProbe = \<lparr>pr_handler = Exec [''/opt/abbenay/abbenay'', ''status''],
     pr_initialDelaySeconds = 0, pr_periodSeconds = 0\<rparr>"

definition Abbenay :: "Desired \<Rightarrow> container" where
  "Abbenay d = zero_container\<lparr>
     c_name := ''abbenay'',
     c_image := d_AbbenayImage d,
     c_imagePullPolicy := pull d,
     c_securityContext := emptySC,
     c_args := [''web'', ''--host'', ''127.0.0.1'', ''--port'', ''8787'', ''--grpc-host'', ''127.0.0.1'',
                ''--grpc-port'', ''50057''],
     c_env := withProxy
       [secretRef ''APME_ABBENAY_TOKEN'' (d_AbbenayTokenName d) (d_AbbenayTokenKey d),
        secretRef ''ABBENAY_API_TOKEN'' (d_AbbenayTokenName d) (d_AbbenayTokenKey d),
        EnvVar ''XDG_RUNTIME_DIR'' ''/tmp/abbenay-run'',
        EnvVar ''XDG_CONFIG_HOME'' ''/etc/abbenay-config''] d,
     c_readinessProbe := Some (abbenayProbe\<lparr>pr_initialDelaySeconds := 5, pr_periodSeconds := 10\<rparr>),
     c_livenessProbe := Some (abbenayProbe\<lparr>pr_initialDelaySeconds := 15, pr_periodSeconds := 30\<rparr>),
     c_volumeMounts := [mount ''abbenay-config'' ''/etc/abbenay-config'' False,
                        mount ''abbenay-run'' ''/tmp/abbenay-run'' False],
     c_resources := resources d\<rparr>"

subsection \<open>Init containers\<close>

text \<open>
  Both bundle scripts start from the image's system roots, wherever the distribution
  keeps them, and append one more certificate file.
\<close>

definition bundleScript :: "string list" where
  "bundleScript =
     [''set -e'',
      ''BUNDLE=/work/ca-bundle.crt'',
      ''rm -f '' @ dq ''$BUNDLE'',
      ''if [ -f /etc/pki/tls/certs/ca-bundle.crt ]; then'',
      ''  cat /etc/pki/tls/certs/ca-bundle.crt > '' @ dq ''$BUNDLE'',
      ''elif [ -f /etc/ssl/certs/ca-certificates.crt ]; then'',
      ''  cat /etc/ssl/certs/ca-certificates.crt > '' @ dq ''$BUNDLE'',
      ''else'',
      ''  : > '' @ dq ''$BUNDLE'',
      ''fi'']"

definition galaxyCAScript :: string where
  "galaxyCAScript = unlines
     (bundleScript @ [''printf '' @ [CHR 0x27, CHR 0x5C, CHR ''n'', CHR 0x27] @ '' >> '' @ dq ''$BUNDLE'',
                      ''cat /hub-ca/ca-bundle.crt >> '' @ dq ''$BUNDLE''])"

definition dbCAScript :: string where
  "dbCAScript = unlines (bundleScript @ [''cat /db-ca/ca.crt >> '' @ dq ''$BUNDLE''])"

definition InitGalaxyCABundle :: "Desired \<Rightarrow> container" where
  "InitGalaxyCABundle d = zero_container\<lparr>
     c_name := ''init-galaxy-ca'',
     c_image := Image d ''galaxy-proxy'',
     c_imagePullPolicy := pull d,
     c_securityContext := emptySC,
     c_command := [''/bin/sh'', ''-c'', galaxyCAScript],
     c_volumeMounts := [mount ''galaxy-ca'' ''/hub-ca'' True, mount ''galaxy-ca-bundle'' ''/work'' False]\<rparr>"

definition InitDBCABundle :: "Desired \<Rightarrow> container" where
  "InitDBCABundle d = zero_container\<lparr>
     c_name := ''init-db-ca'',
     c_image := Image d ''gateway'',
     c_imagePullPolicy := pull d,
     c_securityContext := emptySC,
     c_command := [''/bin/sh'', ''-c'', dbCAScript],
     c_volumeMounts := [mount ''db-ca'' ''/db-ca'' True, mount ''db-ca-bundle'' ''/work'' False]\<rparr>"

definition InitNginx :: "Desired \<Rightarrow> container" where
  "InitNginx d = zero_container\<lparr>
     c_name := ''init-nginx-conf'',
     c_image := Image d ''ui'',
     c_imagePullPolicy := pull d,
     c_securityContext := emptySC,
     c_command := [''sh'', ''-c'',
       ''cp -a -r --no-preserve=mode,ownership,timestamps /etc/nginx/conf.d/. /mnt/conf.d/''],
     c_volumeMounts := [mount ''nginx-conf'' ''/mnt/conf.d'' False]\<rparr>"

definition InitAbbenayConfig :: "Desired \<Rightarrow> container" where
  "InitAbbenayConfig d = zero_container\<lparr>
     c_name := ''init-abbenay-config'',
     c_image := d_AbbenayImage d,
     c_imagePullPolicy := pull d,
     c_securityContext := emptySC,
     c_command := [''sh'', ''-c'',
       ''mkdir -p /mnt/config/abbenay; if [ ! -f /mnt/config/abbenay/config.yaml ]; then cp /seed/config.yaml /mnt/config/abbenay/config.yaml; fi''],
     c_volumeMounts := [mount ''abbenay-config-seed'' ''/seed'' True, mount ''abbenay-config'' ''/mnt/config'' False]\<rparr>"

lemmas container_defs [builder_defs] = Engine_def Native_def OPA_def Ansible_def Gitleaks_def
  CollectionHealth_def DepAudit_def GalaxyProxy_def Gateway_def UI_def Abbenay_def

lemmas init_defs [builder_defs] = InitGalaxyCABundle_def InitDBCABundle_def InitNginx_def
  InitAbbenayConfig_def

subsection \<open>The contract of the builders\<close>

text \<open>
  Every builder takes the pull policy of the intent and an empty security context (the
  restricted SCC chooses the user), under a fixed container name. A \<open>sidecar\<close> is a
  long-running one: it also carries the resources of the intent, ends its environment
  with the cluster's proxy settings and has both probes. \<open>vols\<close> names the volumes it
  mounts.
\<close>

locale builder =
  fixes build :: "Desired \<Rightarrow> container" and cname :: string and vols :: "Desired \<Rightarrow> string list"
  assumes name: "c_name (build d) = cname"
    and policy: "c_imagePullPolicy (build d) = d_PullPolicy d"
    and security: "c_securityContext (build d) = Some EmptySecurityContext"
    and mounted: "map vm_name (c_volumeMounts (build d)) = vols d"
begin

lemma mounts_within: "set (vols d) \<subseteq> V \<Longrightarrow> vm_name ` set (c_volumeMounts (build d)) \<subseteq> V"
  using mounted [of d] by (metis list.set_map)

end

locale sidecar = builder +
  fixes own :: "Desired \<Rightarrow> env_var list"
  assumes resourced: "c_resources (build d) = d_Resources d"
    and environment: "c_env (build d) = own d @ d_ProxyEnv d"
    and probed: "c_readinessProbe (build d) \<noteq> None" "c_livenessProbe (build d) \<noteq> None"
begin

lemma proxied: "set (d_ProxyEnv d) \<subseteq> set (c_env (build d))"
  by (simp add: environment)

lemma conforms:
  "c_imagePullPolicy (build d) = d_PullPolicy d \<and> c_securityContext (build d) = Some EmptySecurityContext
   \<and> c_resources (build d) = d_Resources d \<and> set (d_ProxyEnv d) \<subseteq> set (c_env (build d))
   \<and> c_readinessProbe (build d) \<noteq> None \<and> c_livenessProbe (build d) \<noteq> None"
  using policy security resourced proxied probed by simp

end

interpretation engine: sidecar Engine "''engine''"
  "\<lambda>d. ''sessions'' # (if d_Abbenay d then [''abbenay-run''] else [])" engineEnv
  by unfold_locales (simp_all add: builder_defs)

interpretation native: sidecar Native "''native''" "\<lambda>d. []"
  "\<lambda>d. env [''APME_NATIVE_VALIDATOR_LISTEN'', ''0.0.0.0:50055'']"
  by unfold_locales (simp_all add: builder_defs)

interpretation opa: sidecar OPA "''opa''" "\<lambda>d. []"
  "\<lambda>d. env [''APME_OPA_VALIDATOR_LISTEN'', ''0.0.0.0:50054'']"
  by unfold_locales (simp_all add: builder_defs)

interpretation ansible: sidecar Ansible "''ansible''" "\<lambda>d. [''sessions'']"
  "\<lambda>d. env [''APME_ANSIBLE_VALIDATOR_LISTEN'', ''0.0.0.0:50053'', ''APME_GALAXY_PROXY_URL'', ''http://127.0.0.1:8765'']"
  by unfold_locales (simp_all add: builder_defs)

interpretation gitleaks: sidecar Gitleaks "''gitleaks''" "\<lambda>d. []"
  "\<lambda>d. env [''APME_GITLEAKS_VALIDATOR_LISTEN'', ''0.0.0.0:50056'']"
  by unfold_locales (simp_all add: builder_defs)

interpretation collection_health: sidecar CollectionHealth "''collection-health''" "\<lambda>d. [''sessions'']"
  "\<lambda>d. env [''APME_COLLECTION_HEALTH_VALIDATOR_LISTEN'', ''0.0.0.0:50058'']"
  by unfold_locales (simp_all add: builder_defs)

interpretation dep_audit: sidecar DepAudit "''dep-audit''" "\<lambda>d. [''sessions'']"
  "\<lambda>d. env [''APME_DEP_AUDIT_VALIDATOR_LISTEN'', ''0.0.0.0:50059'']"
  by unfold_locales (simp_all add: builder_defs)

interpretation plugin: sidecar "\<lambda>d. Plugin d p" "''plugin-'' @ rp_Name p"
  "\<lambda>d. if rp_ConfigMapName p \<noteq> [] then [PluginConfigVolumeName (rp_Name p)] else []"
  "\<lambda>d. env [''APME_PLUGIN_LISTEN'', ''0.0.0.0:'' @ fmt_d (rp_Port p)]"
  for p
  by unfold_locales (simp_all add: Plugin_def Let_def parts_defs)

interpretation galaxy_proxy: sidecar GalaxyProxy "''galaxy-proxy''"
  "\<lambda>d. ''proxy-cache'' # (if d_GalaxyCAConfigMap d \<noteq> [] then [''galaxy-ca-bundle''] else [])" galaxyProxyEnv
  by unfold_locales (simp_all add: builder_defs)

interpretation gateway: sidecar Gateway "''gateway''"
  "\<lambda>d. (if d_GeneratePostgres d then [''db-ca-bundle''] else []) @ (if d_Abbenay d then [''abbenay-run''] else [])"
  gatewayEnv
  by unfold_locales (simp_all add: builder_defs)

interpretation ui: sidecar UI "''ui''" "\<lambda>d. [''nginx-cache'', ''nginx-run'', ''nginx-conf'']"
  "\<lambda>d. env [''APME_API_BACKEND'', ''http://127.0.0.1:8080'']"
  by unfold_locales (simp_all add: builder_defs)

interpretation abbenay: sidecar Abbenay "''abbenay''" "\<lambda>d. [''abbenay-config'', ''abbenay-run'']"
  "\<lambda>d. [secretRef ''APME_ABBENAY_TOKEN'' (d_AbbenayTokenName d) (d_AbbenayTokenKey d),
        secretRef ''ABBENAY_API_TOKEN'' (d_AbbenayTokenName d) (d_AbbenayTokenKey d),
        EnvVar ''XDG_RUNTIME_DIR'' ''/tmp/abbenay-run'',
        EnvVar ''XDG_CONFIG_HOME'' ''/etc/abbenay-config'']"
  by unfold_locales (simp_all add: builder_defs)

interpretation init_galaxy: builder InitGalaxyCABundle "''init-galaxy-ca''" "\<lambda>d. [''galaxy-ca'', ''galaxy-ca-bundle'']"
  by unfold_locales (simp_all add: builder_defs)

interpretation init_db: builder InitDBCABundle "''init-db-ca''" "\<lambda>d. [''db-ca'', ''db-ca-bundle'']"
  by unfold_locales (simp_all add: builder_defs)

interpretation init_nginx: builder InitNginx "''init-nginx-conf''" "\<lambda>d. [''nginx-conf'']"
  by unfold_locales (simp_all add: builder_defs)

interpretation init_abbenay: builder InitAbbenayConfig "''init-abbenay-config''"
  "\<lambda>d. [''abbenay-config-seed'', ''abbenay-config'']"
  by unfold_locales (simp_all add: builder_defs)

lemmas container_names [simp] = engine.name native.name opa.name ansible.name gitleaks.name
  collection_health.name dep_audit.name plugin.name galaxy_proxy.name gateway.name ui.name abbenay.name
  init_galaxy.name init_db.name init_nginx.name init_abbenay.name

lemmas container_mounts = engine.mounted native.mounted opa.mounted ansible.mounted gitleaks.mounted
  collection_health.mounted dep_audit.mounted plugin.mounted galaxy_proxy.mounted gateway.mounted
  ui.mounted abbenay.mounted init_galaxy.mounted init_db.mounted init_nginx.mounted init_abbenay.mounted

lemmas sidecar_conforms = engine.conforms native.conforms opa.conforms ansible.conforms
  gitleaks.conforms collection_health.conforms dep_audit.conforms plugin.conforms
  galaxy_proxy.conforms gateway.conforms ui.conforms abbenay.conforms

end
