(* ===== verification/Engine_Pod.thy ===== *)
theory Engine_Pod
  imports Manifests Containers
begin

text \<open>
  \<open>internal/manifests/deployment.go\<close>: the Simple all-in-one Deployment, and the
  wiring of its pod: container names, volumes and mounts, ports, probes and the
  loopback addresses the containers use to reach each other.
\<close>

definition checksumAnnotation :: string where
  "checksumAnnotation = ''apme.ansible.com/config-checksum''"

definition pvcVol :: "string \<Rightarrow> string \<Rightarrow> volume" where
  "pvcVol name clm = \<lparr>v_name = name, v_source = PVCSource clm\<rparr>"

definition emptyVol :: "string \<Rightarrow> volume" where
  "emptyVol name = \<lparr>v_name = name, v_source = EmptyDirSource\<rparr>"

definition configVol :: "string \<Rightarrow> string \<Rightarrow> key_to_path list \<Rightarrow> volume" where
  "configVol name cm items = \<lparr>v_name = name, v_source = ConfigMapSource cm items\<rparr>"

definition podContainers :: "Desired \<Rightarrow> container list" where
  "podContainers d =
     [Engine d, Native d, OPA d, Ansible d]
     @ (if d_Gitleaks d then [Gitleaks d] else [])
     @ (if d_CollectionHealth d then [CollectionHealth d] else [])
     @ (if d_DepAudit d then [DepAudit d] else [])
     @ map (Plugin d) (d_Plugins d)
     @ [GalaxyProxy d, Gateway d]
     @ (if d_UI d then [UI d] else [])
     @ (if d_Abbenay d then [Abbenay d] else [])"

definition podInitContainers :: "Desired \<Rightarrow> container list" where
  "podInitContainers d =
     (if d_GalaxyCAConfigMap d \<noteq> [] then [InitGalaxyCABundle d] else [])
     @ (if d_GeneratePostgres d then [InitDBCABundle d] else [])
     @ (if d_UI d then [InitNginx d] else [])
     @ (if d_Abbenay d then [InitAbbenayConfig d] else [])"

definition pluginVolumes :: "ResolvedPlugin list \<Rightarrow> volume list" where
  "pluginVolumes ps =
     map (\<lambda>p. configVol (PluginConfigVolumeName (rp_Name p)) (rp_ConfigMapName p) [])
       (filter (\<lambda>p. rp_ConfigMapName p \<noteq> []) ps)"

definition podVolumes :: "Desired \<Rightarrow> volume list" where
  "podVolumes d =
     [pvcVol ''sessions'' (d_Name d @ ''-sessions''),
      pvcVol ''proxy-cache'' (d_Name d @ ''-proxy-cache'')]
     @ (if d_GalaxyCAConfigMap d \<noteq> []
        then [configVol ''galaxy-ca'' (d_GalaxyCAConfigMap d) [\<lparr>kp_key = d_GalaxyCAKey d, kp_path = ''ca-bundle.crt''\<rparr>],
              emptyVol ''galaxy-ca-bundle'']
        else [])
     @ pluginVolumes (d_Plugins d)
     @ (if d_GeneratePostgres d
        then [\<lparr>v_name = ''db-ca'',
               v_source = SecretSource (d_PostgresTLSSecretName d) [\<lparr>kp_key = ''ca.crt'', kp_path = ''ca.crt''\<rparr>]\<rparr>,
              emptyVol ''db-ca-bundle'']
        else [])
     @ (if d_UI d then [emptyVol ''nginx-cache'', emptyVol ''nginx-run'', emptyVol ''nginx-conf''] else [])
     @ (if d_Abbenay d
        then (let seed = (if d_AbbenayConfigMap d \<noteq> [] then d_AbbenayConfigMap d else d_Name d @ ''-abbenay-config'')
              in [configVol ''abbenay-config-seed'' seed [], emptyVol ''abbenay-run''])
           @ (if d_AbbenayPersist d then [pvcVol ''abbenay-config'' (d_Name d @ ''-abbenay-config'')]
              else [emptyVol ''abbenay-config''])
        else [])"

definition Deployment :: "Desired \<Rightarrow> string \<Rightarrow> deployment" where
  "Deployment d checksum =
    (let replicas = (if d_Replicas d = 0 then 1 else d_Replicas d);
         lbls = selectorLabels d componentEngine;
         ann = [(checksumAnnotation, checksum)]
     in \<lparr>dep_type = typeMeta ''Deployment'' ''apps/v1'',
         dep_meta = meta (d_Name d) (d_Namespace d) componentEngine d,
         dep_replicas = Some replicas,
         dep_strategy = ''Recreate'',
         dep_selector = Some lbls,
         dep_template =
           \<lparr>pt_meta = zero_meta\<lparr>m_labels := lbls, m_annotations := ann\<rparr>,
            pt_spec =
              \<lparr>ps_serviceAccountName = d_Name d,
               ps_securityContext = Some EmptySecurityContext,
               ps_imagePullSecrets = d_PullSecrets d,
               ps_initContainers = podInitContainers d,
               ps_containers = podContainers d,
               ps_volumes = podVolumes d\<rparr>\<rparr>,
         dep_readyReplicas = 0\<rparr>)"

definition deploymentPod :: "Desired \<Rightarrow> string \<Rightarrow> pod_spec" where
  "deploymentPod d checksum = pt_spec (dep_template (Deployment d checksum))"

lemma deploymentPod_simps [simp]:
  "ps_containers (deploymentPod d cs) = podContainers d"
  "ps_initContainers (deploymentPod d cs) = podInitContainers d"
  "ps_volumes (deploymentPod d cs) = podVolumes d"
  by (simp_all add: deploymentPod_def Deployment_def Let_def)

lemma Deployment_meta [simp]:
  "m_name (dep_meta (Deployment d cs)) = d_Name d" "m_namespace (dep_meta (Deployment d cs)) = d_Namespace d"
  by (simp_all add: Deployment_def Let_def)

subsection \<open>Volumes\<close>

lemma pluginVolumes_names:
  "map v_name (pluginVolumes ps)
   = map (PluginConfigVolumeName \<circ> rp_Name) (filter (\<lambda>p. rp_ConfigMapName p \<noteq> []) ps)"
  by (simp add: pluginVolumes_def configVol_def)

lemma podVolumes_names:
  "map v_name (podVolumes d) =
     [''sessions'', ''proxy-cache'']
     @ (if d_GalaxyCAConfigMap d \<noteq> [] then [''galaxy-ca'', ''galaxy-ca-bundle''] else [])
     @ map v_name (pluginVolumes (d_Plugins d))
     @ (if d_GeneratePostgres d then [''db-ca'', ''db-ca-bundle''] else [])
     @ (if d_UI d then [''nginx-cache'', ''nginx-run'', ''nginx-conf''] else [])
     @ (if d_Abbenay d then [''abbenay-config-seed'', ''abbenay-run'', ''abbenay-config''] else [])"
  by (simp add: podVolumes_def pvcVol_def emptyVol_def configVol_def Let_def)

text \<open>The names of the volumes a container mounts.\<close>

definition mountedVolumes :: "container \<Rightarrow> string list" where
  "mountedVolumes c = map vm_name (c_volumeMounts c)"

lemmas mountedVolumes_simps [simp] = container_mounts [folded mountedVolumes_def]

text \<open>Every volume that any container or init container of the engine pod mounts is declared
  among the pod's volumes, for every combination of the optional components, plugins and
  database modes: the API server never rejects the pod for a dangling mount.\<close>

lemma pod_mounts_declared:
  "set (concat (map mountedVolumes
      (ps_initContainers (deploymentPod d cs) @ ps_containers (deploymentPod d cs))))
    \<subseteq> set (map v_name (ps_volumes (deploymentPod d cs)))"
proof -
  have "set (concat (map mountedVolumes (map (Plugin d) (d_Plugins d))))
      = set (map v_name (pluginVolumes (d_Plugins d)))"
    by (auto simp: pluginVolumes_names)
  then show ?thesis
    unfolding deploymentPod_simps podVolumes_names podContainers_def podInitContainers_def
      map_append concat_append set_append
    by auto
qed


lemma pod_volume_names_distinct:
  assumes "distinct (map rp_Name (d_Plugins d))"
  shows "distinct (map v_name (ps_volumes (deploymentPod d cs)))"
proof -
  have "distinct (map v_name (pluginVolumes (d_Plugins d)))"
    using distinct_map_filter [OF assms]
    by (simp add: pluginVolumes_names distinct_map comp_inj_on inj_on_def PluginConfigVolumeName_def)
  moreover have "set (map v_name (pluginVolumes (d_Plugins d))) \<inter>
      {''sessions'', ''proxy-cache'', ''galaxy-ca'', ''galaxy-ca-bundle'', ''db-ca'', ''db-ca-bundle'',
       ''nginx-cache'', ''nginx-run'', ''nginx-conf'', ''abbenay-config-seed'', ''abbenay-run'',
       ''abbenay-config''} = {}"
    by (auto simp: pluginVolumes_names PluginConfigVolumeName_def)
  ultimately show ?thesis
    unfolding deploymentPod_simps podVolumes_names by (auto simp del: set_map)
qed

subsection \<open>Container names\<close>

lemma podContainers_names:
  "map c_name (podContainers d) =
     [''engine'', ''native'', ''opa'', ''ansible'']
     @ (if d_Gitleaks d then [''gitleaks''] else [])
     @ (if d_CollectionHealth d then [''collection-health''] else [])
     @ (if d_DepAudit d then [''dep-audit''] else [])
     @ map (\<lambda>p. ''plugin-'' @ rp_Name p) (d_Plugins d)
     @ [''galaxy-proxy'', ''gateway'']
     @ (if d_UI d then [''ui''] else [])
     @ (if d_Abbenay d then [''abbenay''] else [])"
  by (simp add: podContainers_def)

lemma podInitContainers_names:
  "map c_name (podInitContainers d) =
     (if d_GalaxyCAConfigMap d \<noteq> [] then [''init-galaxy-ca''] else [])
     @ (if d_GeneratePostgres d then [''init-db-ca''] else [])
     @ (if d_UI d then [''init-nginx-conf''] else [])
     @ (if d_Abbenay d then [''init-abbenay-config''] else [])"
  by (simp add: podInitContainers_def)

lemma pod_container_names_distinct:
  assumes "distinct (map rp_Name (d_Plugins d))"
  shows "distinct (map c_name
    (ps_initContainers (deploymentPod d cs) @ ps_containers (deploymentPod d cs)))"
proof -
  have "distinct (map (\<lambda>p. ''plugin-'' @ rp_Name p) (d_Plugins d))"
    using assms by (auto simp: distinct_map inj_on_def)
  then show ?thesis
    unfolding deploymentPod_simps map_append podContainers_names podInitContainers_names by auto
qed

text \<open>Container names, init containers included, and volume names are unique in the engine pod
  whenever the plugins have distinct names, which Kubernetes requires of a pod: no mount is
  ambiguous and no plugin shadows another container or volume.\<close>

lemma pod_names_distinct:
  assumes "distinct (map rp_Name (d_Plugins d))"
  shows "distinct (map c_name (ps_initContainers (deploymentPod d cs) @ ps_containers (deploymentPod d cs)))
    \<and> distinct (map v_name (ps_volumes (deploymentPod d cs)))"
  using pod_container_names_distinct [OF assms] pod_volume_names_distinct [OF assms] by blast

subsection \<open>Ports and addresses\<close>

text \<open>
  The ports a container listens on: its declared ports, the port of its TCP readiness
  probe and the ports its arguments set. All containers of a pod share one network
  namespace, so these must not clash.
\<close>

fun argPorts :: "string list \<Rightarrow> int list" where
  "argPorts (a # b # r) =
     (if a = ''--port'' \<or> a = ''--grpc-port'' then [int (digits_val b)] else []) @ argPorts (b # r)"
| "argPorts r = []"

fun probePorts :: "probe option \<Rightarrow> int list" where
  "probePorts None = []"
| "probePorts (Some pr) = (case pr_handler pr of TCPSocket (IntVal n) \<Rightarrow> [n] | _ \<Rightarrow> [])"

definition listenPorts :: "container \<Rightarrow> int list" where
  "listenPorts c =
     remdups (map cp_containerPort (c_ports c) @ probePorts (c_readinessProbe c) @ argPorts (c_args c))"

lemma listenPorts_simps [simp]:
  "listenPorts (Engine d) = [50051]" "listenPorts (Native d) = [50055]" "listenPorts (OPA d) = [50054]"
  "listenPorts (Ansible d) = [50053]" "listenPorts (Gitleaks d) = [50056]"
  "listenPorts (CollectionHealth d) = [50058]" "listenPorts (DepAudit d) = [50059]"
  "listenPorts (Plugin d p) = [rp_Port p]" "listenPorts (GalaxyProxy d) = [8765]"
  "listenPorts (Gateway d) = [50060, 8080]" "listenPorts (UI d) = [8081]"
  "listenPorts (Abbenay d) = [8787, 50057]"
  by (simp_all add: listenPorts_def builder_defs Plugin_def Let_def abbenayProbe_def digits_val_def)

definition podPorts :: "Desired \<Rightarrow> int list" where
  "podPorts d = concat (map listenPorts (podContainers d))"

lemma podPorts_eq:
  "podPorts d =
     [50051, 50055, 50054, 50053]
     @ (if d_Gitleaks d then [50056] else [])
     @ (if d_CollectionHealth d then [50058] else [])
     @ (if d_DepAudit d then [50059] else [])
     @ map rp_Port (d_Plugins d)
     @ [8765, 50060, 8080]
     @ (if d_UI d then [8081] else [])
     @ (if d_Abbenay d then [8787, 50057] else [])"
  by (simp add: podPorts_def podContainers_def o_def concat_map_singleton)

text \<open>No two containers of the engine pod listen on the same port, for every instance whose
  plugin list the CRD admits: the range 50100 to 50199 keeps the plugins clear of every
  built-in container.\<close>

lemma pod_ports_distinct:
  assumes "valid_plugins (spec_Plugins (apme_Spec cr))"
  shows "distinct (podPorts (From E cr))"
proof -
  let ?d = "From E cr"
  have "distinct (map rp_Port (d_Plugins ?d))"
    and "\<forall>n \<in> set (map rp_Port (d_Plugins ?d)). 50100 \<le> n \<and> n \<le> 50199"
    using plugin_ports_ok [OF assms] by (auto simp: resolve_simps)
  then show ?thesis unfolding podPorts_eq by fastforce
qed

text \<open>
  The two forms in which the code writes an address of the pod: the one a container
  listens on, and the ones its peers dial on the loopback interface.
\<close>

definition listensAt :: "string \<Rightarrow> int \<Rightarrow> bool" where
  "listensAt v n \<longleftrightarrow> v = ''0.0.0.0:'' @ fmt_d n"

definition dials :: "string \<Rightarrow> int \<Rightarrow> bool" where
  "dials v n \<longleftrightarrow> v = ''127.0.0.1:'' @ fmt_d n \<or> v = ''http://127.0.0.1:'' @ fmt_d n"

text \<open>The environment a container has of its own, without the cluster's proxy settings.\<close>

definition ownEnv :: "container \<Rightarrow> env_var list" where
  "ownEnv c = filter (\<lambda>e. ev_name e \<notin> set proxyVars) (c_env c)"

lemma port_texts:
  "''50051'' = fmt_d n \<longleftrightarrow> n = 50051" "''50053'' = fmt_d n \<longleftrightarrow> n = 50053"
  "''50054'' = fmt_d n \<longleftrightarrow> n = 50054" "''50055'' = fmt_d n \<longleftrightarrow> n = 50055"
  "''50056'' = fmt_d n \<longleftrightarrow> n = 50056" "''50058'' = fmt_d n \<longleftrightarrow> n = 50058"
  "''50059'' = fmt_d n \<longleftrightarrow> n = 50059" "''50060'' = fmt_d n \<longleftrightarrow> n = 50060"
  "''8765'' = fmt_d n \<longleftrightarrow> n = 8765" "''8080'' = fmt_d n \<longleftrightarrow> n = 8080" "''8787'' = fmt_d n \<longleftrightarrow> n = 8787"
proof -
  have *: "s = fmt_d k \<Longrightarrow> s = fmt_d n \<longleftrightarrow> n = k" for s k
    using fmt_d_inject [of k n] by auto
  show
    "''50051'' = fmt_d n \<longleftrightarrow> n = 50051" "''50053'' = fmt_d n \<longleftrightarrow> n = 50053"
    "''50054'' = fmt_d n \<longleftrightarrow> n = 50054" "''50055'' = fmt_d n \<longleftrightarrow> n = 50055"
    "''50056'' = fmt_d n \<longleftrightarrow> n = 50056" "''50058'' = fmt_d n \<longleftrightarrow> n = 50058"
    "''50059'' = fmt_d n \<longleftrightarrow> n = 50059" "''50060'' = fmt_d n \<longleftrightarrow> n = 50060"
    "''8765'' = fmt_d n \<longleftrightarrow> n = 8765" "''8080'' = fmt_d n \<longleftrightarrow> n = 8080" "''8787'' = fmt_d n \<longleftrightarrow> n = 8787"
    by (rule *, simp add: fmt_d_def nat_digits.simps)+
qed

definition addressesServed :: "int set \<Rightarrow> container \<Rightarrow> bool" where
  "addressesServed ports c \<longleftrightarrow>
     (\<forall>e \<in> set (ownEnv c). \<forall>n.
        (listensAt (ev_value e) n \<longrightarrow> n \<in> set (listenPorts c)) \<and> (dials (ev_value e) n \<longrightarrow> n \<in> ports))"

lemma addressesServed_env:
  assumes "c_env c = own @ d_ProxyEnv d" and "set (map ev_name (d_ProxyEnv d)) \<subseteq> set proxyVars"
    and "\<And>e n. e \<in> set own \<Longrightarrow> listensAt (ev_value e) n \<Longrightarrow> n \<in> set (listenPorts c)"
    and "\<And>e n. e \<in> set own \<Longrightarrow> dials (ev_value e) n \<Longrightarrow> n \<in> ports"
  shows "addressesServed ports c"
  using assms by (auto simp: addressesServed_def ownEnv_def)

lemmas address_simps = listensAt_def dials_def port_texts EnvVar_def secretRef_def


lemma served_validators:
  assumes "set (map ev_name (d_ProxyEnv d)) \<subseteq> set proxyVars"
  shows "addressesServed P (Native d)" "addressesServed P (OPA d)" "addressesServed P (Gitleaks d)"
    "addressesServed P (CollectionHealth d)" "addressesServed P (DepAudit d)"
    "addressesServed P (GalaxyProxy d)" "addressesServed P (Plugin d p)" "addressesServed P (Abbenay d)"
    "8765 \<in> P \<Longrightarrow> addressesServed P (Ansible d)" "8080 \<in> P \<Longrightarrow> addressesServed P (UI d)"
proof -
  note proxy = assms
  show "addressesServed P (Native d)" "addressesServed P (OPA d)" "addressesServed P (Gitleaks d)"
    "addressesServed P (CollectionHealth d)" "addressesServed P (DepAudit d)"
    by (rule addressesServed_env [OF native.environment proxy] addressesServed_env [OF opa.environment proxy]
        addressesServed_env [OF gitleaks.environment proxy]
        addressesServed_env [OF collection_health.environment proxy]
        addressesServed_env [OF dep_audit.environment proxy]; auto simp: address_simps)+
  show "addressesServed P (GalaxyProxy d)"
    by (rule addressesServed_env [OF galaxy_proxy.environment proxy])
      (auto simp: address_simps galaxyProxyEnv_def FormatBool_def split: option.splits if_splits)
  show "addressesServed P (Plugin d p)"
    by (rule addressesServed_env [OF plugin.environment proxy]) (auto simp: address_simps fmt_d_inject)
  show "addressesServed P (Abbenay d)"
    by (rule addressesServed_env [OF abbenay.environment proxy]) (auto simp: address_simps)
  show "8765 \<in> P \<Longrightarrow> addressesServed P (Ansible d)"
    by (rule addressesServed_env [OF ansible.environment proxy]) (auto simp: address_simps)
  show "8080 \<in> P \<Longrightarrow> addressesServed P (UI d)"
    by (rule addressesServed_env [OF ui.environment proxy]) (auto simp: address_simps)
qed

lemma served_engine:
  assumes "set (map ev_name (d_ProxyEnv d)) \<subseteq> set proxyVars"
    and "set (podPorts d) \<subseteq> P"
  shows "addressesServed P (Engine d)"
  using assms(2)
  by (intro addressesServed_env [OF engine.environment assms(1)])
    (auto simp: address_simps engineEnv_def pluginEnv_def podPorts_eq fmt_d_inject split: if_splits)

lemma served_gateway:
  assumes "set (map ev_name (d_ProxyEnv d)) \<subseteq> set proxyVars"
    and "set (podPorts d) \<subseteq> P"
  shows "addressesServed P (Gateway d)"
  using assms(2)
  by (intro addressesServed_env [OF gateway.environment assms(1)])
    (auto simp: address_simps gatewayEnv_def podPorts_eq split: if_splits)

text \<open>C20: The loopback wiring of the pod closes: every address \<open>127.0.0.1:n\<close> (or
  \<open>http://127.0.0.1:n\<close>) that a container's own environment dials, the engine's plugin
  addresses included, is a port on which some container of the same pod listens, and
  every \<open>0.0.0.0:n\<close> listen address agrees with a port its own container is probed or
  declared on. So switching a component off also removes the addresses that point to it.\<close>

theorem pod_addresses_served:
  "list_all (addressesServed (set (podPorts (From E cr))))
     (ps_containers (deploymentPod (From E cr) cs))"
proof -
  let ?d = "From E cr"
  have proxy: "set (map ev_name (d_ProxyEnv ?d)) \<subseteq> set proxyVars"
    by (auto simp: resolve_simps clusterProxyEnv_names)
  note served = served_validators [OF proxy] served_engine [OF proxy] served_gateway [OF proxy]
  have "8765 \<in> set (podPorts ?d)" "8080 \<in> set (podPorts ?d)" by (simp_all add: podPorts_eq)
  then show ?thesis
    unfolding deploymentPod_simps podContainers_def using served by (auto simp: list_all_iff)
qed

subsection \<open>Common contract of the containers\<close>

lemma podContainers_sidecars:
  "c \<in> set (podContainers d) \<Longrightarrow>
     c_imagePullPolicy c = d_PullPolicy d \<and> c_securityContext c = Some EmptySecurityContext
     \<and> c_resources c = d_Resources d \<and> set (d_ProxyEnv d) \<subseteq> set (c_env c)
     \<and> c_readinessProbe c \<noteq> None \<and> c_livenessProbe c \<noteq> None"
  using sidecar_conforms [of d]
  by (auto simp: podContainers_def split: if_splits)


subsection \<open>The shared administration token\<close>

definition envNamed :: "string \<Rightarrow> container \<Rightarrow> env_var list" where
  "envNamed n c = filter (\<lambda>e. ev_name e = n) (c_env c)"

lemma envNamed_proxy:
  assumes "n \<notin> set proxyVars" and "set (map ev_name (d_ProxyEnv d)) \<subseteq> set proxyVars"
    and "c_env c = own @ d_ProxyEnv d"
  shows "envNamed n c = filter (\<lambda>e. ev_name e = n) own"
  using assms by (auto simp: envNamed_def filter_empty_conv)

text \<open>Engine, Gateway and Galaxy Proxy take the administration token from one and the same
  Secret key, \<open>{name}-proxy-admin\<close> / \<open>token\<close>, once each and always by reference, never as
  a literal value; so the Gateway's pushes authenticate against the proxy for every
  configuration.\<close>

lemma admin_token_shared:
  "map (envNamed ''APME_PROXY_ADMIN_TOKEN'') [Engine (From E cr), Gateway (From E cr), GalaxyProxy (From E cr)]
   = replicate 3 [secretRef ''APME_PROXY_ADMIN_TOKEN'' (m_name (apme_meta cr) @ ''-proxy-admin'') ''token'']"
proof -
  let ?n = "''APME_PROXY_ADMIN_TOKEN''" and ?d = "From E cr"
  have proxy: "?n \<notin> set proxyVars" "set (map ev_name (d_ProxyEnv ?d)) \<subseteq> set proxyVars"
    by (auto simp: resolve_simps clusterProxyEnv_names proxyVars_def)
  have "filter (\<lambda>e. ev_name e = ?n) (map pluginEnv ps) = []" for ps
    by (simp add: filter_empty_conv pluginEnv_def EnvVar_def)
  then show ?thesis
    using envNamed_proxy [OF proxy engine.environment] envNamed_proxy [OF proxy gateway.environment]
      envNamed_proxy [OF proxy galaxy_proxy.environment]
    by (simp add: engineEnv_def gatewayEnv_def galaxyProxyEnv_def EnvVar_def secretRef_def resolve_simps
        numeral_3_eq_3 split: option.split)
qed

subsection \<open>Services and ingress\<close>

definition podServices :: "Desired \<Rightarrow> service list" where
  "podServices d = [EngineService d, GatewayService d] @ (if d_UI d then [UIService d] else [])"

definition podLabels :: "Desired \<Rightarrow> string \<Rightarrow> strmap" where
  "podLabels d cs = m_labels (pt_meta (dep_template (Deployment d cs)))"

lemma podLabels_eq [simp]: "podLabels d cs = selectorLabels d componentEngine"
  by (simp add: podLabels_def Deployment_def Let_def)

definition targets :: "int list \<Rightarrow> service_port \<Rightarrow> bool" where
  "targets ports p \<longleftrightarrow> (case sp_targetPort p of IntVal n \<Rightarrow> n \<in> set ports | StrVal s \<Rightarrow> False)"

definition backend :: "service list \<Rightarrow> string \<Rightarrow> int \<Rightarrow> bool" where
  "backend svcs n p \<longleftrightarrow> list_ex (\<lambda>s. m_name (svc_meta s) = n \<and> p \<in> sp_port ` set (svc_ports s)) svcs"


subsection \<open>Admission of the pod\<close>

text \<open>C19: The API server admits the engine pod and its containers can start side by side, for every resource
  whose plugin list the CRD admits: the names of all containers, init containers included, and
  of all volumes are unique, every volume a container mounts is declared, and no two
  containers listen on the same port; neither a plugin nor a switched component can break this.\<close>

theorem pod_admissible:
  assumes "valid_plugins (spec_Plugins (apme_Spec cr))"
  shows "let pod = deploymentPod (From E cr) cs; cs = ps_initContainers pod @ ps_containers pod in
    distinct (map c_name cs) \<and> distinct (map v_name (ps_volumes pod))
    \<and> (\<forall>c \<in> set cs. set (map vm_name (c_volumeMounts c)) \<subseteq> set (map v_name (ps_volumes pod)))
    \<and> distinct (concat (map listenPorts (ps_containers pod)))"
proof -
  let ?pod = "deploymentPod (From E cr) cs"
  have "\<forall>c \<in> set (ps_initContainers ?pod @ ps_containers ?pod).
      set (map vm_name (c_volumeMounts c)) \<subseteq> set (map v_name (ps_volumes ?pod))"
    (is "\<forall>c \<in> ?cs. _ \<subseteq> ?vols")
  proof
    fix c
    assume "c \<in> ?cs"
    then have "set (mountedVolumes c) \<subseteq> set (concat (map mountedVolumes (ps_initContainers ?pod @ ps_containers ?pod)))"
      unfolding set_concat set_map by (intro UN_upper imageI)
    then show "set (map vm_name (c_volumeMounts c)) \<subseteq> ?vols"
      using pod_mounts_declared [of "From E cr" cs] unfolding mountedVolumes_def by (rule subset_trans)
  qed
  moreover have "distinct (concat (map listenPorts (ps_containers ?pod)))"
    using pod_ports_distinct [OF assms, of E] by (simp add: podPorts_def deploymentPod_simps)
  ultimately show ?thesis
    using pod_names_distinct [OF From_plugin_names [OF assms], of E cs] unfolding Let_def by blast
qed

theorem pod_admissible_witness:
  "let pod = deploymentPod (From example_env example_cr) ''0''; cs = ps_initContainers pod @ ps_containers pod in
    50102 \<in> set (concat (map listenPorts (ps_containers pod)))
    \<and> distinct (map c_name cs) \<and> distinct (concat (map listenPorts (ps_containers pod)))"
proof -
  have valid: "valid_plugins (spec_Plugins (apme_Spec example_cr))"
    using example_plugins_valid by simp
  have "50102 \<in> set (map rp_Port (resolvePlugins example_plugins))" by code_simp
  then have "50102 \<in> set (podPorts (From example_env example_cr))"
    by (simp add: podPorts_eq resolve_simps)
  then have "50102 \<in> set (concat (map listenPorts (ps_containers (deploymentPod (From example_env example_cr) ''0''))))"
    by (simp add: podPorts_def deploymentPod_simps)
  then show ?thesis using pod_admissible [OF valid, of example_env "''0''"] by (simp only: Let_def)
qed

end
