(* ===== verification/Controller.thy ===== *)
theory Controller
  imports Postgres Engine_Pod
begin

text \<open>
  \<open>internal/controller\<close>: the reconciler. Every method is a program over the requests of
  theory \<open>Effects\<close>; \<open>L\<close> holds the library functions it calls, \<open>R\<close> the fields of
  \<open>ApmeReconciler\<close> that steer it. A method that returns an error returns \<open>None\<close> for nil.
  Logging is left out.
\<close>

record ApmeReconciler =
  HasRouteAPI :: bool
  HasAPIReader :: bool

definition condReady :: string where "condReady = ''Ready''"
definition condProgressing :: string where "condProgressing = ''Progressing''"
definition condDegraded :: string where "condDegraded = ''Degraded''"
definition condDatabaseReady :: string where "condDatabaseReady = ''DatabaseReady''"

definition second :: int where "second = 1000000000"
definition requeueStatus :: int where "requeueStatus = 20 * second"

lemmas cond_names = condReady_def condProgressing_def condDegraded_def condDatabaseReady_def

definition key_in :: "Desired \<Rightarrow> string \<Rightarrow> NamespacedName" where
  "key_in d name = \<lparr>nn_Name = name, nn_Namespace = d_Namespace d\<rparr>"

subsection \<open>Applying objects\<close>

definition apply_obj :: "lib \<Rightarrow> Apme \<Rightarrow> client_object \<Rightarrow> gerror option prog" where
  "apply_obj L owner ob =
    (case SetControllerReference L owner ob of
       Inl err \<Rightarrow> Return (Some err)
     | Inr ob \<Rightarrow> Patch ob Return)"

text \<open>\<open>SetControllerReference\<close> and \<open>Create\<close>, the common end of the \<open>ensure\<close> methods.\<close>

definition create_owned :: "lib \<Rightarrow> Apme \<Rightarrow> secret \<Rightarrow> gerror option prog" where
  "create_owned L owner sec =
    (case SetControllerReference L owner (OSecret sec) of
       Inl err \<Rightarrow> Return (Some err)
     | Inr ob \<Rightarrow> Create ob Return)"

text \<open>The loop \<open>for _, obj := range objs { if err := r.apply(...); err != nil { return err } }\<close>.\<close>

fun apply_all :: "lib \<Rightarrow> Apme \<Rightarrow> client_object list \<Rightarrow> gerror option prog" where
  "apply_all L cr [] = Return None"
| "apply_all L cr (ob # obs) = attempt (apply_obj L cr ob) (apply_all L cr obs)"

definition coreObjects :: "Desired \<Rightarrow> client_object list" where
  "coreObjects d = [OServiceAccount (ServiceAccount d), OPVC (SessionsPVC d), OPVC (ProxyCachePVC d)]"

definition applyCore :: "lib \<Rightarrow> Apme \<Rightarrow> Desired \<Rightarrow> gerror option prog" where
  "applyCore L cr d = apply_all L cr (coreObjects d)"

subsection \<open>Secrets\<close>

definition ensurePostgresURLTLS :: "lib \<Rightarrow> secret \<Rightarrow> gerror option prog" where
  "ensurePostgresURLTLS L sec =
    (case map_of (sec_data sec) ''database-url'' of
       None \<Rightarrow> Return None
     | Some raw \<Rightarrow>
         if length raw = 0 then Return None
         else (case WithVerifyFullTLS L raw of
                 Inl err \<Rightarrow> Return (Some err)
               | Inr updated \<Rightarrow>
                   if updated = raw then Return None
                   else Update (OSecret (sec\<lparr>sec_stringData :=
                          AList.update ''database-url'' updated (sec_stringData sec)\<rparr>)) Return))"

definition ensurePostgresSecret :: "lib \<Rightarrow> Apme \<Rightarrow> Desired \<Rightarrow> gerror option prog" where
  "ensurePostgresSecret L owner d =
     GetSecret (key_in d (d_DatabaseSecretName d)) (\<lambda>r. case r of
       Inr existing \<Rightarrow> ensurePostgresURLTLS L existing
     | Inl err \<Rightarrow>
         if \<not> IsNotFound L err then Return (Some err)
         else call (NewSecret d) (\<lambda>r. case r of
                Inl err \<Rightarrow> Return (Some err)
              | Inr sec \<Rightarrow> create_owned L owner sec))"

definition ensurePostgresTLS :: "lib \<Rightarrow> Apme \<Rightarrow> Desired \<Rightarrow> gerror option prog" where
  "ensurePostgresTLS L owner d =
     GetSecret (key_in d (d_PostgresTLSSecretName d)) (\<lambda>r. case r of
       Inr existing \<Rightarrow>
         if \<not> HasTLSMaterial (Some existing)
         then Return (Some (ErrorString (''postgres TLS secret '' @ fmt_q (d_PostgresTLSSecretName d)
                @ '' must contain tls.crt, tls.key, and ca.crt'')))
         else Return None
     | Inl err \<Rightarrow>
         if \<not> IsNotFound L err then Return (Some err)
         else if \<not> d_GeneratePostgresTLS d
         then Return (Some (ErrorString (''postgres TLS secret '' @ fmt_q (d_PostgresTLSSecretName d) @ '' not found'')))
         else call (NewTLSSecret L d) (\<lambda>r. case r of
                Inl err \<Rightarrow> Return (Some err)
              | Inr sec \<Rightarrow> create_owned L owner sec))"

definition randomToken :: "nat \<Rightarrow> (gerror + string) prog" where
  "randomToken n = RandRead n (\<lambda>r. case r of
     Inl err \<Rightarrow> Return (Inl err)
   | Inr b \<Rightarrow> Return (Inr (take n (RawURLEncoding b))))"

definition ensureAbbenayToken :: "lib \<Rightarrow> Apme \<Rightarrow> Desired \<Rightarrow> gerror option prog" where
  "ensureAbbenayToken L owner d =
     GetSecret (key_in d (d_AbbenayTokenName d)) (\<lambda>r. case r of
       Inr existing \<Rightarrow> Return None
     | Inl err \<Rightarrow>
         if \<not> IsNotFound L err then Return (Some err)
         else call (randomToken 32) (\<lambda>r. case r of
                Inl err \<Rightarrow> Return (Some err)
              | Inr tok \<Rightarrow> create_owned L owner (NewAbbenayTokenSecret d tok)))"

definition ensureProxyAdminToken :: "lib \<Rightarrow> Apme \<Rightarrow> Desired \<Rightarrow> gerror option prog" where
  "ensureProxyAdminToken L owner d =
     GetSecret (key_in d (d_ProxyAdminTokenName d)) (\<lambda>r. case r of
       Inr existing \<Rightarrow>
         if \<not> IsControlledBy L (OSecret existing) owner
         then Return (Some (ErrorString (''proxy admin secret '' @ fmt_q (d_ProxyAdminTokenName d)
                @ '' must be controlled by this Apme instance'')))
         else if data_len existing (d_ProxyAdminTokenKey d) = 0
         then Return (Some (ErrorString (''proxy admin secret '' @ fmt_q (d_ProxyAdminTokenName d)
                @ '' must contain a non-empty '' @ fmt_q (d_ProxyAdminTokenKey d))))
         else Return None
     | Inl err \<Rightarrow>
         if \<not> IsNotFound L err then Return (Some err)
         else call (randomToken 32) (\<lambda>r. case r of
                Inl err \<Rightarrow> Return (Some err)
              | Inr tok \<Rightarrow> create_owned L owner (NewProxyAdminTokenSecret d tok)))"

subsection \<open>Database and AI sidecar\<close>

definition managedPostgresExists :: "Desired \<Rightarrow> bool prog" where
  "managedPostgresExists d =
     GetStatefulSet (key_in d (d_Name d @ ''-postgres'')) (\<lambda>r. Return (case r of Inr _ \<Rightarrow> True | Inl _ \<Rightarrow> False))"

text \<open>The managed branch, an error or nil; the flag it returns is always false.\<close>

definition ensureManagedDatabase :: "lib \<Rightarrow> Apme \<Rightarrow> Desired \<Rightarrow> gerror option prog" where
  "ensureManagedDatabase L cr d =
     attempt (ensurePostgresTLS L cr d)
    (attempt (ensurePostgresSecret L cr d)
    (attempt (apply_obj L cr (OConfigMap (SSLConfigMap d)))
    (attempt (apply_obj L cr (OStatefulSet (StatefulSet d)))
    (attempt (apply_obj L cr (OService (PostgresService d)))
     (if d_NetworkPolicy d then apply_obj L cr (ONetworkPolicy (PostgresNetworkPolicy d))
      else Return None)))))"

definition ensureDatabase :: "lib \<Rightarrow> Apme \<Rightarrow> Desired \<Rightarrow> (bool \<times> gerror option) prog" where
  "ensureDatabase L cr d =
    (if d_DatabaseMode d \<noteq> DatabaseManaged
     then call (managedPostgresExists d) (\<lambda>leftover. Return (leftover, None))
     else call (ensureManagedDatabase L cr d) (\<lambda>err. Return (False, err)))"

definition ensureAbbenay :: "lib \<Rightarrow> Apme \<Rightarrow> Desired \<Rightarrow> gerror option prog" where
  "ensureAbbenay L cr d =
    (if \<not> d_Abbenay d then Return None
     else attempt (if d_GenerateAbbenayToken d then ensureAbbenayToken L cr d else Return None)
         (attempt (if d_AbbenayConfigMap d = [] then apply_obj L cr (OConfigMap (DefaultAbbenayConfigMap d))
                   else Return None)
           (if d_AbbenayPersist d then apply_obj L cr (OPVC (AbbenayPVC d)) else Return None)))"

subsection \<open>Routes\<close>

text \<open>\<open>errors.As\<close> looks for the type along the chain of wrapped errors.\<close>

fun as_routePermission :: "gerror \<Rightarrow> bool" where
  "as_routePermission (RoutePermissionError e) = True"
| "as_routePermission (WrapError prefix e) = as_routePermission e"
| "as_routePermission (ApiError reason msg) = False"
| "as_routePermission (ErrorString msg) = False"

definition isRoutePermissionErr :: "gerror option \<Rightarrow> bool" where
  "isRoutePermissionErr err = (case err of None \<Rightarrow> False | Some e \<Rightarrow> as_routePermission e)"

definition wrapRouteApplyErr :: "lib \<Rightarrow> gerror option \<Rightarrow> string \<Rightarrow> gerror option" where
  "wrapRouteApplyErr L err customHost =
    (case err of
       None \<Rightarrow> None
     | Some e \<Rightarrow>
         if \<not> IsForbidden L e then Some e
         else let msg = ToLower (Error e) in
           if customHost \<noteq> [] \<or> Contains msg ''custom-host'' then Some (RoutePermissionError e)
           else Some (WrapError
             ''forbidden managing OpenShift Route (check ClusterRole for route.openshift.io/routes): '' e))"

definition routeNeedsRecreate :: "lib \<Rightarrow> json \<Rightarrow> json \<Rightarrow> bool" where
  "routeNeedsRecreate L existing desired =
    (let existingPath = fst (NestedString L existing [''spec'', ''path'']);
         desiredPath = fst (NestedString L desired [''spec'', ''path'']) in
     if existingPath \<noteq> desiredPath then True
     else
       let desiredIntent = fst (NestedString L desired [''metadata'', ''annotations'', RouteDesiredHostAnnotation]);
           (existingIntent, hasIntent, _) =
             NestedString L existing [''metadata'', ''annotations'', RouteDesiredHostAnnotation] in
       if hasIntent then existingIntent \<noteq> desiredIntent
       else
         let desiredHost = fst (NestedString L desired [''spec'', ''host'']) in
         if desiredHost = [] then False
         else fst (NestedString L existing [''spec'', ''host'']) \<noteq> desiredHost)"

text \<open>The live host goes into the payload when the resource names none.\<close>

definition preserveHost :: "lib \<Rightarrow> json \<Rightarrow> json \<Rightarrow> json" where
  "preserveHost L existing desired =
    (if fst (NestedString L desired [''spec'', ''host'']) = [] then
       case NestedString L existing [''spec'', ''host''] of (existingHost, found, _) \<Rightarrow>
         if found \<and> existingHost \<noteq> []
         then fst (SetNestedField L desired (JString existingHost) [''spec'', ''host''])
         else desired
     else desired)"

definition applyOrRecreateRoute :: "lib \<Rightarrow> Apme \<Rightarrow> json \<Rightarrow> gerror option prog" where
  "applyOrRecreateRoute L owner desired =
     GetRoute (ObjectKeyFromObject L (ORoute desired)) (\<lambda>r. case r of
       Inr existing \<Rightarrow>
         if \<not> DeletionTimestampIsZero L existing then Return None
         else if IsControlledBy L (ORoute existing) owner \<and> routeNeedsRecreate L existing desired
         then Delete (ORoute existing) Return
         else apply_obj L owner (ORoute (preserveHost L existing desired))
     | Inl err \<Rightarrow>
         if \<not> IsNotFound L err then Return (Some err)
         else apply_obj L owner (ORoute desired))"

definition deleteOwnedRoute :: "lib \<Rightarrow> Apme \<Rightarrow> string \<Rightarrow> string \<Rightarrow> gerror option prog" where
  "deleteOwnedRoute L owner name ns =
     GetRoute \<lparr>nn_Name = name, nn_Namespace = ns\<rparr> (\<lambda>r. case r of
       Inl err \<Rightarrow> if IsNotFound L err then Return None else Return (Some err)
     | Inr rt \<Rightarrow>
         if \<not> IsControlledBy L (ORoute rt) owner then Return None
         else Delete (ORoute rt) (\<lambda>err. Return (IgnoreNotFound L err)))"

text \<open>One of the two Routes: apply it or delete what is left of it.\<close>

definition ensureRoute :: "lib \<Rightarrow> Apme \<Rightarrow> Desired \<Rightarrow> bool \<Rightarrow> json \<Rightarrow> string \<Rightarrow> gerror option prog" where
  "ensureRoute L cr d want route name =
    (if want then call (applyOrRecreateRoute L cr route) (\<lambda>err. Return (wrapRouteApplyErr L err (d_RouteHost d)))
     else deleteOwnedRoute L cr name (d_Namespace d))"

definition ensureRoutes :: "ApmeReconciler \<Rightarrow> lib \<Rightarrow> Apme \<Rightarrow> Desired \<Rightarrow> gerror option prog" where
  "ensureRoutes R L cr d =
    (if \<not> HasRouteAPI R then Return None
     else attempt (ensureRoute L cr d (d_RouteEnabled d \<and> d_UI d) (UIRoute d) (d_Name d @ ''-ui''))
                  (ensureRoute L cr d (d_RouteEnabled d) (APIRoute d) (d_Name d @ ''-api'')))"

subsection \<open>Workload\<close>

text \<open>The load of the Galaxy Proxy CA bundle: an error, or its text (empty without a ConfigMap).\<close>

definition loadCABundle :: "lib \<Rightarrow> Desired \<Rightarrow> (gerror + string) prog" where
  "loadCABundle L d =
    (if d_GalaxyCAConfigMap d \<noteq> [] then
       GetConfigMap (key_in d (d_GalaxyCAConfigMap d)) (\<lambda>r. case r of
         Inl err \<Rightarrow> Return (Inl (WrapError ''load Galaxy Proxy CA ConfigMap: '' err))
       | Inr cm \<Rightarrow>
           let caBundle = (case map_of (cm_data cm) (d_GalaxyCAKey d) of None \<Rightarrow> [] | Some s \<Rightarrow> s) in
           if TrimSpace caBundle = []
           then Return (Inl (ErrorString (''galaxy proxy CA ConfigMap '' @ fmt_q (d_GalaxyCAConfigMap d)
                  @ '' must contain nonempty key '' @ fmt_q (d_GalaxyCAKey d))))
           else if \<not> AppendCertsFromPEM L caBundle
           then Return (Inl (ErrorString (''galaxy proxy CA ConfigMap '' @ fmt_q (d_GalaxyCAConfigMap d)
                  @ '' key '' @ fmt_q (d_GalaxyCAKey d) @ '' must contain PEM certificates'')))
           else Return (Inr caBundle))
     else Return (Inr []))"

definition configChecksum :: "Desired \<Rightarrow> secret \<Rightarrow> string \<Rightarrow> string" where
  "configChecksum d proxyToken caBundle =
     Checksum [d_DatabaseSecretName d, d_DatabaseSecretKey d, d_PostgresTLSSecretName d,
       d_AbbenayTokenName d, d_ProxyAdminTokenName d,
       (case map_of (sec_data proxyToken) (d_ProxyAdminTokenKey d) of None \<Rightarrow> [] | Some b \<Rightarrow> b),
       d_Version d, caBundle]"

definition workloadObjects :: "Desired \<Rightarrow> string \<Rightarrow> client_object list" where
  "workloadObjects d checksum =
     [ODeployment (Deployment d checksum), OService (EngineService d), OService (GatewayService d)]
     @ (if d_UI d then [OService (UIService d)] else [])
     @ (if d_IngressEnabled d then [OIngress (Ingress d)] else [])
     @ (if d_NetworkPolicy d then [ONetworkPolicy (APMENetworkPolicy d)] else [])"

definition applyWorkload :: "ApmeReconciler \<Rightarrow> lib \<Rightarrow> Apme \<Rightarrow> Desired \<Rightarrow> gerror option prog" where
  "applyWorkload R L cr d =
     GetSecret (key_in d (d_ProxyAdminTokenName d)) (\<lambda>r. case r of
       Inl err \<Rightarrow> Return (Some err)
     | Inr proxyToken \<Rightarrow>
         call (loadCABundle L d) (\<lambda>r. case r of
           Inl err \<Rightarrow> Return (Some err)
         | Inr caBundle \<Rightarrow>
             attempt (apply_all L cr (workloadObjects d (configChecksum d proxyToken caBundle)))
                     (ensureRoutes R L cr d)))"

definition ensureAll :: "ApmeReconciler \<Rightarrow> lib \<Rightarrow> Apme \<Rightarrow> Desired \<Rightarrow> (bool \<times> gerror option) prog" where
  "ensureAll R L cr d =
     call (applyCore L cr d) (\<lambda>err. case err of Some e \<Rightarrow> Return (False, Some e) | None \<Rightarrow>
     call (ensureDatabase L cr d) (\<lambda>(leftover, err). case err of Some e \<Rightarrow> Return (leftover, Some e) | None \<Rightarrow>
     call (ensureAbbenay L cr d) (\<lambda>err. case err of Some e \<Rightarrow> Return (leftover, Some e) | None \<Rightarrow>
     call (ensureProxyAdminToken L cr d) (\<lambda>err. case err of Some e \<Rightarrow> Return (leftover, Some e) | None \<Rightarrow>
     call (applyWorkload R L cr d) (\<lambda>err. Return (leftover, err))))))"

subsection \<open>Status\<close>

definition databaseReady :: "Desired \<Rightarrow> (bool \<times> string) prog" where
  "databaseReady d =
    (if d_DatabaseMode d = DatabaseExternal then
       GetSecret (key_in d (d_DatabaseSecretName d)) (\<lambda>r. Return (case r of
         Inl _ \<Rightarrow> (False, ''external database secret '' @ fmt_q (d_DatabaseSecretName d) @ '' not found'')
       | Inr _ \<Rightarrow> (True, ''external secret present'')))
     else
       GetStatefulSet (key_in d (d_Name d @ ''-postgres'')) (\<lambda>r. Return (case r of
         Inl _ \<Rightarrow> (False, ''postgres StatefulSet not found'')
       | Inr sts \<Rightarrow>
           if sts_readyReplicas sts \<ge> 1 then (True, ''postgres ready'')
           else (False, ''waiting for postgres replica''))))"

definition containerImage :: "pod \<Rightarrow> string \<Rightarrow> string" where
  "containerImage p name =
    (case find (\<lambda>c. c_name c = name) (ps_initContainers (pod_spec p)) of
       Some c \<Rightarrow> c_image c
     | None \<Rightarrow>
        (case find (\<lambda>c. c_name c = name) (ps_containers (pod_spec p)) of
           Some c \<Rightarrow> c_image c
         | None \<Rightarrow> []))"

definition pullErrors :: "string list" where
  "pullErrors = [''ErrImagePull'', ''ImagePullBackOff'', ''InvalidImageName'']"

text \<open>The text for one container status: \<open>None\<close> where the loop goes on. The dash is U+2014.\<close>

definition statusMessage :: "pod \<Rightarrow> container_status \<Rightarrow> string option" where
  "statusMessage p cs =
    (case cs_waiting cs of
       None \<Rightarrow> None
     | Some w \<Rightarrow>
         if w_reason w \<in> set pullErrors then
           (let img = containerImage p (cs_name cs);
                img = (if img = [] then cs_image cs else img) in
            if w_message w \<noteq> []
            then Some (w_reason w @ '': '' @ img @ '' '' @ [CHR 0xE2, CHR 0x80, CHR 0x94] @ '' '' @ w_message w)
            else Some (w_reason w @ '': '' @ img))
         else None)"

fun firstStatus :: "pod \<Rightarrow> container_status list \<Rightarrow> string option" where
  "firstStatus p [] = None"
| "firstStatus p (cs # css) = (case statusMessage p cs of Some m \<Rightarrow> Some m | None \<Rightarrow> firstStatus p css)"

fun firstPod :: "pod list \<Rightarrow> string" where
  "firstPod [] = []"
| "firstPod (p # ps) =
     (case firstStatus p (pod_initContainerStatuses p @ pod_containerStatuses p) of
        Some m \<Rightarrow> m
      | None \<Rightarrow> firstPod ps)"

definition imagePullMessage :: "ApmeReconciler \<Rightarrow> deployment \<Rightarrow> string prog" where
  "imagePullMessage R dep =
    (case dep_selector dep of
       None \<Rightarrow> Return []
     | Some sel \<Rightarrow>
         if length sel = 0 then Return []
         else ListPods (if HasAPIReader R then UncachedReader else CachedReader)
                (m_namespace (dep_meta dep)) sel
                (\<lambda>r. Return (case r of Inl _ \<Rightarrow> [] | Inr pods \<Rightarrow> firstPod pods)))"

definition deploymentReady :: "ApmeReconciler \<Rightarrow> Desired \<Rightarrow> (bool \<times> string \<times> bool) prog" where
  "deploymentReady R d =
     GetDeployment (key_in d (d_Name d)) (\<lambda>r. case r of
       Inl _ \<Rightarrow> Return (False, ''deployment not found'', False)
     | Inr dep \<Rightarrow>
         if dep_readyReplicas dep \<ge> 1 then Return (True, ''deployment ready'', False)
         else call (imagePullMessage R dep) (\<lambda>msg.
           if msg \<noteq> [] then Return (False, msg, True)
           else Return (False, ''waiting for APME deployment'', False)))"

text \<open>The host of a Route: the first admitted ingress host if there is one, else \<open>spec.host\<close>.\<close>

definition routeHost :: "lib \<Rightarrow> json \<Rightarrow> string" where
  "routeHost L rt =
    (let host = fst (NestedString L rt [''spec'', ''host'']);
         (ingress, found, _) = NestedSlice L rt [''status'', ''ingress''] in
     if found \<and> length ingress > 0 then
       (case ingress ! 0 of
          JObject m \<Rightarrow> (case map_of m ''host'' of Some (JString h) \<Rightarrow> if h \<noteq> [] then h else host | _ \<Rightarrow> host)
        | _ \<Rightarrow> host)
     else host)"

definition ingressURL :: "Desired \<Rightarrow> string" where
  "ingressURL d =
    (if d_IngressEnabled d \<and> d_IngressHost d \<noteq> [] then ''https://'' @ d_IngressHost d else [])"

definition publicURL :: "ApmeReconciler \<Rightarrow> lib \<Rightarrow> Desired \<Rightarrow> string prog" where
  "publicURL R L d =
    (if d_RouteEnabled d \<and> HasRouteAPI R then
       GetRoute (key_in d (if \<not> d_UI d then d_Name d @ ''-api'' else d_Name d @ ''-ui'')) (\<lambda>r. Return (case r of
         Inr rt \<Rightarrow> let host = routeHost L rt in if host \<noteq> [] then ''https://'' @ host else ingressURL d
       | Inl _ \<Rightarrow> ingressURL d))
     else Return (ingressURL d))"

text \<open>The closure \<open>set\<close> of \<open>patchStatus\<close>, and the conditions it is called for, in order.\<close>

definition set_cond ::
  "lib \<Rightarrow> int \<Rightarrow> int \<Rightarrow> string \<Rightarrow> string \<Rightarrow> string \<Rightarrow> string \<Rightarrow> Condition list \<Rightarrow> Condition list" where
  "set_cond L now gen typ status reason msg conds =
     SetStatusCondition L conds
       \<lparr>cond_Type = typ, cond_Status = status, cond_Reason = reason, cond_Message = msg,
        cond_LastTransitionTime = now, cond_ObservedGeneration = gen\<rparr>"

definition error_text :: "gerror option \<Rightarrow> string" where
  "error_text err = (case err of None \<Rightarrow> [] | Some e \<Rightarrow> Error e)"

definition degraded ::
  "bool \<Rightarrow> gerror option \<Rightarrow> bool \<Rightarrow> string \<Rightarrow> string \<times> string \<times> string" where
  "degraded leftoverPG recErr imagePull depMsg =
    (if leftoverPG then (''True'', ''LeftoverManagedPostgres'',
       ''connectionSecretRef is set but managed Postgres objects still exist; delete them manually'')
     else if isRoutePermissionErr recErr then (''True'', ''RoutePermissionDenied'', error_text recErr)
     else if recErr \<noteq> None then (''True'', ''ReconcileError'', error_text recErr)
     else if imagePull then (''True'', ''ImagePullError'', depMsg)
     else (''False'', ''AsExpected'', ''no errors''))"

definition progressing ::
  "bool \<Rightarrow> gerror option \<Rightarrow> bool \<Rightarrow> bool \<Rightarrow> string \<Rightarrow> string \<times> string \<times> string" where
  "progressing leftoverPG recErr depReady dbReady depMsg =
    (if recErr \<noteq> None then (''True'', ''Retrying'', error_text recErr)
     else if depReady \<and> dbReady \<and> \<not> leftoverPG then (''False'', ''Stable'', ''all owned objects ready'')
     else (''True'', ''Waiting'', depMsg))"

definition ready ::
  "bool \<Rightarrow> gerror option \<Rightarrow> bool \<Rightarrow> bool \<Rightarrow> string \<Rightarrow> string \<times> string \<times> string" where
  "ready leftoverPG recErr depReady dbReady depMsg =
    (if recErr \<noteq> None then
       (''False'', if isRoutePermissionErr recErr then ''RoutePermissionDenied'' else ''Error'', error_text recErr)
     else if depReady \<and> dbReady \<and> \<not> leftoverPG
     then (''True'', ''Available'', ''APME Simple topology is ready'')
     else (''False'', ''Waiting'', depMsg))"

definition newStatus ::
  "lib \<Rightarrow> int \<Rightarrow> Apme \<Rightarrow> Desired \<Rightarrow> bool \<Rightarrow> gerror option \<Rightarrow> string \<Rightarrow> bool \<times> string
   \<Rightarrow> bool \<times> string \<times> bool \<Rightarrow> ApmeStatus" where
  "newStatus L now cr d leftoverPG recErr url db dep =
    (let (dbReady, dbMsg) = db; (depReady, depMsg, imagePull) = dep;
         set = (\<lambda>typ (status, reason, msg). set_cond L now (apme_Generation cr) typ status reason msg);
         st = (apme_Status cr)
           \<lparr>status_ObservedGeneration := apme_Generation cr, status_Topology := TopologySimple,
            status_Database := d_DatabaseMode d, status_URL := url\<rparr>;
         conds = status_Conditions st;
         conds = set condDatabaseReady
           (if dbReady then (''True'', ''Available'', dbMsg) else (''False'', ''Pending'', dbMsg)) conds;
         conds = set condDegraded (degraded leftoverPG recErr imagePull depMsg) conds;
         conds = set condProgressing (progressing leftoverPG recErr depReady dbReady depMsg) conds;
         conds = set condReady (ready leftoverPG recErr depReady dbReady depMsg) conds
     in st\<lparr>status_Conditions := conds\<rparr>)"

definition patchStatus ::
  "ApmeReconciler \<Rightarrow> lib \<Rightarrow> Apme \<Rightarrow> Desired \<Rightarrow> bool \<Rightarrow> gerror option \<Rightarrow> gerror option prog" where
  "patchStatus R L cr d leftoverPG recErr =
     Now (\<lambda>now.
     call (publicURL R L d) (\<lambda>url.
     call (databaseReady d) (\<lambda>db.
     call (deploymentReady R d) (\<lambda>dep.
       StatusPatch (cr\<lparr>apme_Status := newStatus L now cr d leftoverPG recErr url db dep\<rparr>) cr Return))))"

subsection \<open>Reconcile\<close>

record Result =
  RequeueAfter :: int

definition fail_with ::
  "ApmeReconciler \<Rightarrow> lib \<Rightarrow> Apme \<Rightarrow> Desired \<Rightarrow> gerror \<Rightarrow> (Result \<times> gerror option) prog" where
  "fail_with R L cr d err =
     call (patchStatus R L cr d False (Some err)) (\<lambda>_. Return (\<lparr>RequeueAfter = 0\<rparr>, Some err))"

text \<open>\<open>Reconcile\<close> after its first read, and the whole.\<close>

definition reconcile_cr ::
  "ApmeReconciler \<Rightarrow> lib \<Rightarrow> resolve_env \<Rightarrow> Apme \<Rightarrow> (Result \<times> gerror option) prog" where
  "reconcile_cr R L E cr =
    (let d = From E cr in
     call (ensureAll R L cr d) (\<lambda>(leftoverPG, err). case err of
       Some err \<Rightarrow> fail_with R L cr d err
     | None \<Rightarrow>
         call (patchStatus R L cr d leftoverPG None) (\<lambda>err. case err of
           Some err \<Rightarrow> Return (\<lparr>RequeueAfter = 0\<rparr>, Some err)
         | None \<Rightarrow> Return (\<lparr>RequeueAfter = requeueStatus\<rparr>, None))))"

definition Reconcile ::
  "ApmeReconciler \<Rightarrow> lib \<Rightarrow> resolve_env \<Rightarrow> NamespacedName \<Rightarrow> (Result \<times> gerror option) prog" where
  "Reconcile R L E req =
     GetApme req (\<lambda>r. case r of
       Inl err \<Rightarrow> Return (\<lparr>RequeueAfter = 0\<rparr>, IgnoreNotFound L (Some err))
     | Inr cr \<Rightarrow> reconcile_cr R L E cr)"

text \<open>The registration: the reconciled kind, the kinds whose changes trigger it, its name.\<close>

record registration =
  reg_For :: string
  reg_Owns :: "string list"
  reg_Named :: string

definition SetupWithManager :: "ApmeReconciler \<Rightarrow> registration" where
  "SetupWithManager R =
    (let b = \<lparr>reg_For = ''Apme'',
              reg_Owns = [''Deployment'', ''StatefulSet'', ''Service'', ''PersistentVolumeClaim'', ''ConfigMap'',
                ''Secret'', ''ServiceAccount'', ''NetworkPolicy'', ''Ingress''],
              reg_Named = ''apme''\<rparr>
     in if HasRouteAPI R then b\<lparr>reg_Owns := reg_Owns b @ [''Route'']\<rparr> else b)"

end
