(* ===== verification/Postgres_Facts.thy ===== *)
theory Postgres_Facts
  imports Postgres Engine_Pod
begin

text \<open>
  What the managed database promises: the rewriting of its URL, the credentials and
  certificates it generates, and the wiring of its pod, service and network policy.
\<close>

subsection \<open>Plain URLs\<close>

text \<open>Characters no mode escapes and no step of \<open>Parse\<close> treats specially.\<close>

definition url_plain :: "char \<Rightarrow> bool" where
  "url_plain c \<longleftrightarrow> alnum c \<or> c \<in> set ''-_.''"

lemma url_plainD:
  assumes "url_plain c"
  shows "\<not> shouldEscape c mode" "c \<notin> set ''%+:@/?#[&=;''" "\<not> (of_char c :: nat) < 32" "(of_char c :: nat) \<noteq> 127"
proof -
  have "\<not> alnum e" if "e \<in> set ''%+:@/?#[&=;''" for e
    using that by (auto simp: alnum_def)
  then show "c \<notin> set ''%+:@/?#[&=;''" using assms by (auto simp: url_plain_def)
  show "\<not> shouldEscape c mode" using assms by (auto simp: url_plain_def shouldEscape_def)
  show "\<not> (of_char c :: nat) < 32" "(of_char c :: nat) \<noteq> 127"
    using assms by (auto simp: url_plain_def alnum_def Let_def)
qed

lemma plain_notin: "list_all url_plain s \<Longrightarrow> c \<in> set ''%+:@/?#[&=;'' \<Longrightarrow> c \<notin> set s"
  using url_plainD(2) by (fastforce simp: list_all_iff)

lemma plain_notin_simps:
  assumes "list_all url_plain s"
  shows "CHR ''%'' \<notin> set s" "CHR '':'' \<notin> set s" "CHR ''@'' \<notin> set s" "CHR ''/'' \<notin> set s"
    "CHR ''?'' \<notin> set s" "CHR ''#'' \<notin> set s" "CHR ''['' \<notin> set s" "CHR ''+'' \<notin> set s"
  using plain_notin [OF assms] by simp_all

lemma plain_escape: "list_all url_plain s \<Longrightarrow> escape s mode = s"
  by (rule escape_plain) (auto simp: list_all_iff url_plainD(1))

lemma plain_unescape: "list_all url_plain s \<Longrightarrow> unescape s mode = Inr s"
  by (rule unescape_plain) (use url_plainD in \<open>fastforce simp: list_all_iff\<close>)

lemma plain_no_ctl:
  "list_all url_plain s \<Longrightarrow> \<not> list_ex (\<lambda>c. (of_char c :: nat) < 32 \<or> (of_char c :: nat) = 127) s"
  using url_plainD(3,4) by (auto simp: list_all_iff list_ex_iff)

lemma plain_userinfo: "list_all url_plain s \<Longrightarrow> validUserinfo s"
  by (auto simp: validUserinfo_def list_all_iff url_plain_def)

lemma validUserinfo_append: "validUserinfo (a @ b) \<longleftrightarrow> validUserinfo a \<and> validUserinfo b"
  by (simp add: validUserinfo_def)

lemma takeWhile_stop: "c \<notin> set a \<Longrightarrow> takeWhile (\<lambda>x. x \<noteq> c) (a @ c # b) = a"
  by (induction a) auto

lemma dropWhile_stop: "c \<notin> set a \<Longrightarrow> dropWhile (\<lambda>x. x \<noteq> c) (a @ c # b) = c # b"
  by (induction a) auto

text \<open>A URL in the shape of \<open>NewSecret\<close>, and what \<open>Parse\<close> makes of it.\<close>

definition plain_url :: "string \<Rightarrow> string \<Rightarrow> string \<Rightarrow> string \<Rightarrow> url" where
  "plain_url user pw host query = zero_url
     \<lparr>u_Scheme := ''postgresql+asyncpg'', u_User := Some \<lparr>ui_username = user, ui_password = Some pw\<rparr>,
      u_Host := host @ '':5432'', u_Path := ''/apme'', u_RawQuery := query\<rparr>"

definition plain_text :: "string \<Rightarrow> string \<Rightarrow> string \<Rightarrow> string \<Rightarrow> string" where
  "plain_text user pw host query =
     ''postgresql+asyncpg://'' @ user @ '':'' @ pw @ ''@'' @ host @ '':5432/apme?'' @ query"

lemma port_escape: "list_all url_plain host \<Longrightarrow> escape (host @ '':5432'') encodeHost = host @ '':5432''"
proof -
  assume "list_all url_plain host"
  moreover have "escape '':5432'' encodeHost = '':5432''" by code_simp
  ultimately show ?thesis using plain_escape [of host] by (simp add: escape_def)
qed

lemma URL_String_plain:
  assumes "list_all url_plain user" "list_all url_plain pw" "list_all url_plain host" "query \<noteq> []"
  shows "URL_String (plain_url user pw host query) = plain_text user pw host query"
proof -
  have path: "escape ''/apme'' encodePath = ''/apme''"
    by (rule escape_plain) (simp add: shouldEscape_def alnum_def)
  show ?thesis
    using assms(4)
    by (simp add: URL_String_def url_prefix_def url_path_def EscapedPath_def plain_url_def plain_text_def
        zero_url_def Userinfo_String_def plain_escape [OF assms(1)] plain_escape [OF assms(2)]
        port_escape [OF assms(3), simplified] path Let_def)
qed

lemma parseHost_plain:
  assumes "list_all url_plain host"
  shows "parseHost odd_host scheme (host @ '':5432'') = Inr (host @ '':5432'')"
proof -
  have "unescape (host @ '':5432'') encodeHost = Inr (host @ '':5432'')"
    by (rule unescape_plain)
      (use assms url_plainD in \<open>fastforce simp: list_all_iff shouldEscape_def alnum_def\<close>)
  moreover have "CutLast (host @ '':5432'') CHR '':'' = (host, ''5432'', True)"
    using CutLast_append [of "CHR '':''" "''5432''" host] by simp
  moreover have "filter (\<lambda>c. c = CHR '':'') host = []"
    using plain_notin_simps(2) [OF assms] by (auto simp: filter_empty_conv)
  moreover have "validOptionalPort '':5432''" by code_simp
  ultimately show ?thesis
    using plain_notin_simps(7) [OF assms] by (simp add: parseHost_def)
qed

lemma parseUserinfo_plain:
  assumes "list_all url_plain user" "list_all url_plain pw"
  shows "parseUserinfo (user @ CHR '':'' # pw) = Inr \<lparr>ui_username = user, ui_password = Some pw\<rparr>"
proof -
  have "validUserinfo (user @ CHR '':'' # pw)"
    using plain_userinfo [OF assms(1)] plain_userinfo [OF assms(2)] by (simp add: validUserinfo_def)
  then show ?thesis
    using Cut_append [OF plain_notin_simps(2) [OF assms(1)]]
    by (simp add: parseUserinfo_def plain_unescape [OF assms(1)] plain_unescape [OF assms(2)])
qed

lemma parseAuthority_plain:
  assumes "list_all url_plain user" "list_all url_plain pw" "list_all url_plain host"
  shows "parseAuthority odd_host scheme (user @ '':'' @ pw @ ''@'' @ host @ '':5432'')
    = Inr (Some \<lparr>ui_username = user, ui_password = Some pw\<rparr>, host @ '':5432'')"
proof -
  have "CutLast ((user @ CHR '':'' # pw) @ CHR ''@'' # (host @ '':5432'')) CHR ''@''
      = (user @ CHR '':'' # pw, host @ '':5432'', True)"
    by (rule CutLast_append) (use plain_notin_simps(3) [OF assms(3)] in simp)
  then show ?thesis
    using parseHost_plain [OF assms(3)] parseUserinfo_plain [OF assms(1,2)]
    by (simp add: parseAuthority_def)
qed

lemma split_query_plain:
  assumes "CHR ''?'' \<notin> set a" "q \<noteq> []" "last q \<noteq> CHR ''?''"
  shows "split_query (a @ CHR ''?'' # q) = (a, False, q)"
  using assms Cut_append [OF assms(1), of q] by (simp add: split_query_def)

lemma Parse_plain:
  assumes plain: "list_all url_plain user" "list_all url_plain pw" "list_all url_plain host"
    and query: "query \<noteq> []" "last query \<noteq> CHR ''?''" "CHR ''#'' \<notin> set query"
      "\<not> list_ex (\<lambda>c. (of_char c :: nat) < 32 \<or> (of_char c :: nat) = 127) query"
  shows "Parse odd_host (plain_text user pw host query) = Inr (plain_url user pw host query)"
proof -
  let ?auth = "user @ '':'' @ pw @ ''@'' @ host @ '':5432''"
  let ?rest = "''//'' @ ?auth @ ''/apme''"
  note notin = plain_notin_simps [OF plain(1)] plain_notin_simps [OF plain(2)] plain_notin_simps [OF plain(3)]
  have cut: "Cut (plain_text user pw host query) CHR ''#'' = (plain_text user pw host query, [], False)"
    using notin query by (intro Cut_none) (simp add: plain_text_def)
  have ctl: "\<not> list_ex (\<lambda>c. (of_char c :: nat) < 32 \<or> (of_char c :: nat) = 127) (plain_text user pw host query)"
    using query(4) plain_no_ctl [OF plain(1)] plain_no_ctl [OF plain(2)] plain_no_ctl [OF plain(3)]
    by (simp add: plain_text_def)
  have scheme: "getScheme (plain_text user pw host query) = Inr (''postgresql+asyncpg'', ?rest @ CHR ''?'' # query)"
    by (simp add: getScheme_def plain_text_def)
  have split: "split_query (?rest @ CHR ''?'' # query) = (?rest, False, query)"
    using notin query by (intro split_query_plain) simp_all
  have slash: "CHR ''/'' \<notin> set ?auth" using notin by simp
  have path: "setPath u ''/apme'' = Inr (u\<lparr>u_Path := ''/apme'', u_RawPath := []\<rparr>)" for u
  proof -
    have "unescape ''/apme'' encodePath = Inr ''/apme''" "escape ''/apme'' encodePath = ''/apme''" by code_simp+
    then show ?thesis by (simp add: setPath_def)
  qed
  have hier: "parse_hier odd_host u ?rest
      = Inr (u\<lparr>u_User := Some \<lparr>ui_username = user, ui_password = Some pw\<rparr>, u_Host := host @ '':5432'',
                u_Path := ''/apme'', u_RawPath := []\<rparr>)" if "u_Scheme u \<noteq> []" for u
    using that takeWhile_stop [OF slash, of "''apme''"] dropWhile_stop [OF slash, of "''apme''"]
      parseAuthority_plain [OF plain, of odd_host "u_Scheme u"] path
    by (simp add: parse_hier_def)
  have low: "ToLower ''postgresql+asyncpg'' = ''postgresql+asyncpg''" by code_simp
  have "plain_text user pw host query \<noteq> ''*''" by (simp add: plain_text_def)
  then have "parse_url odd_host (plain_text user pw host query) = Inr (plain_url user pw host query)"
    unfolding parse_url_def scheme using split ctl hier
    by (simp add: low plain_url_def zero_url_def)
  then show ?thesis by (simp add: Parse_def cut)
qed

subsection \<open>The query of the database URL\<close>

lemma map_of_sort_key: "distinct (map fst m) \<Longrightarrow> map_of (sort_key fst m) = map_of m"
proof (rule ext)
  fix k
  assume "distinct (map fst m)"
  then have "map_of (sort_key fst m) k = Some v \<longleftrightarrow> map_of m k = Some v" for v
    by (simp add: map_of_eq_Some_iff distinct_map)
  then show "map_of (sort_key fst m) k = map_of m k"
    by (metis not_None_eq)
qed
 
lemma verifyFullQuery_values:
  "ParseQuery (verifyFullQuery q)
   = sort_key fst (values_Set (values_Del (ParseQuery q) ''sslmode'') ''ssl'' ''verify-full'')"
  by (simp add: verifyFullQuery_def ParseQuery_Encode valid_values_Set valid_values_Del)

lemma map_of_values_Del: "map_of (values_Del m k) = (map_of m)(k := None)"
  by (induction m) (auto simp: values_Del_def)

text \<open>C22: Whatever URL the credentials Secret holds, if \<open>WithVerifyFullTLS\<close> accepts it then the result
  differs from it in the query only: there \<open>ssl\<close> has the single value \<open>verify-full\<close>, \<open>sslmode\<close> is
  gone, every other parameter that decodes keeps its values, and applying the
  same rewriting to the new query changes nothing.\<close>

theorem WithVerifyFullTLS_query:
  assumes "WithVerifyFullTLS L raw = Inr updated"
  shows "\<exists>u q. Parse (OddHost L) raw = Inr u \<and> updated = URL_String (u\<lparr>u_RawQuery := q\<rparr>)
    \<and> map_of (ParseQuery q) = (map_of (ParseQuery (u_RawQuery u)))(''sslmode'' := None, ''ssl'' \<mapsto> [''verify-full''])
    \<and> verifyFullQuery q = q"
proof -
  obtain u where u: "Parse (OddHost L) raw = Inr u"
    and updated: "updated = URL_String (u\<lparr>u_RawQuery := verifyFullQuery (u_RawQuery u)\<rparr>)"
    using assms by (auto simp: WithVerifyFullTLS_def split: sum.splits)
  let ?q = "verifyFullQuery (u_RawQuery u)" and ?m = "ParseQuery (u_RawQuery u)"
  let ?m' = "values_Set (values_Del ?m ''sslmode'') ''ssl'' ''verify-full''"
  have valid: "valid_values ?m'" by (simp add: valid_values_Set valid_values_Del)
  have m': "map_of ?m' = (map_of ?m)(''sslmode'' := None, ''ssl'' \<mapsto> [''verify-full''])"
    by (simp add: values_Set_def update_conv' map_of_values_Del)
  have query: "map_of (ParseQuery ?q) = (map_of ?m)(''sslmode'' := None, ''ssl'' \<mapsto> [''verify-full''])"
    using valid m' by (simp add: verifyFullQuery_values map_of_sort_key valid_values_def)
  have "values_Set (values_Del (sort_key fst ?m') ''sslmode'') ''ssl'' ''verify-full'' = sort_key fst ?m'"
  proof -
    have s: "map_of (sort_key fst ?m') = map_of ?m'" using valid by (simp add: map_of_sort_key valid_values_def)
    have "map_of (sort_key fst ?m') ''sslmode'' = None" by (simp only: s m') simp
    then have "values_Del (sort_key fst ?m') ''sslmode'' = sort_key fst ?m'"
      by (force simp: values_Del_def filter_id_conv map_of_eq_None_iff)
    moreover have "AList.update ''ssl'' [''verify-full''] (sort_key fst ?m') = sort_key fst ?m'"
      by (rule update_triv) (simp add: s m')
    ultimately show ?thesis by (simp add: values_Set_def)
  qed
  then have "verifyFullQuery ?q = ?q"
    by (simp add: verifyFullQuery_def [of ?q] verifyFullQuery_values)
       (simp add: verifyFullQuery_def Encode_def encode_items_def sort_key_id_if_sorted)
  then show ?thesis using u updated query by blast
qed

theorem WithVerifyFullTLS_query_witness:
  "WithVerifyFullTLS std_lib ''postgresql+asyncpg://u:p@db:5432/x?sslmode=require&a=1''
     = Inr ''postgresql+asyncpg://u:p@db:5432/x?a=1&ssl=verify-full''
   \<and> (\<exists>q. map_of (ParseQuery q) ''ssl'' = Some [''verify-full''] \<and> verifyFullQuery q = q)"
proof -
  have "WithVerifyFullTLS std_lib ''postgresql+asyncpg://u:p@db:5432/x?sslmode=require&a=1''
     = Inr ''postgresql+asyncpg://u:p@db:5432/x?a=1&ssl=verify-full''"
    by code_simp
  moreover from WithVerifyFullTLS_query [OF this]
  have "\<exists>q. map_of (ParseQuery q) ''ssl'' = Some [''verify-full''] \<and> verifyFullQuery q = q"
    by (metis fun_upd_same)
  ultimately show ?thesis by blast
qed

definition dns_char :: "char \<Rightarrow> bool" where
  "dns_char c \<longleftrightarrow> lower_alnum c \<or> c = CHR ''-'' \<or> c = CHR ''.''"

lemma dns_char_plain: "dns_char c \<Longrightarrow> url_plain c"
  by (auto simp: dns_char_def url_plain_def lower_alnum_code alnum_def Let_def)

lemma dns_plain: "list_all dns_char s \<Longrightarrow> list_all url_plain s"
  by (auto simp: list_all_iff dns_char_plain)

lemma url_alphabet_plain: "list_all url_plain url_alphabet"
  by code_simp

lemma token_plain: "list_all url_plain (take n (RawURLEncoding b))"
  using RawURLEncoding_set [of b] url_alphabet_plain set_take_subset [of n "RawURLEncoding b"]
  by (fastforce simp: list_all_iff)

lemma secretURL_plain:
  "secretURL d pw = plain_url ''apme'' pw (d_Name d @ ''-postgres.'' @ d_Namespace d @ ''.svc'') ''ssl=verify-full''"
  by (simp add: secretURL_def plain_url_def pgUser_def pgDB_def)

lemma verifyFullQuery_fix: "verifyFullQuery ''ssl=verify-full'' = ''ssl=verify-full''"
  by code_simp

lemma NewSecret_exec:
  "exec (NewSecret d) tr (Inr sec) \<longleftrightarrow>
     (\<exists>b. tr = [ERandRead 24 (Inr b)] \<and> sec = postgresSecret d (take 24 (RawURLEncoding b)))"
  by (auto simp: NewSecret_def randomPassword_def exec_call)

subsection \<open>Credentials\<close>

text \<open>The database URL of a generated password parses to what it was built from and is left as it is.\<close>

lemma generated_url:
  fixes n :: nat and b :: bytes
  assumes "list_all dns_char (d_Name d)" and "list_all dns_char (d_Namespace d)"
  defines "u \<equiv> secretURL d (take n (RawURLEncoding b))"
  shows "Parse (OddHost L) (URL_String u) = Inr u" and "WithVerifyFullTLS L (URL_String u) = Inr (URL_String u)"
proof -
  let ?pw = "take n (RawURLEncoding b)" and ?host = "d_Name d @ ''-postgres.'' @ d_Namespace d @ ''.svc''"
  have plain: "list_all url_plain ''apme''" "list_all url_plain ?pw" "list_all url_plain ?host"
    using dns_plain [OF assms(1)] dns_plain [OF assms(2)] token_plain
    by (simp_all add: url_plain_def alnum_def)
  have url: "URL_String u = plain_text ''apme'' ?pw ?host ''ssl=verify-full''"
    unfolding u_def secretURL_plain by (rule URL_String_plain [OF plain]) simp
  have parse: "Parse (OddHost L) (URL_String u) = Inr u"
    unfolding url unfolding u_def secretURL_plain by (rule Parse_plain [OF plain]) simp_all
  then show "Parse (OddHost L) (URL_String u) = Inr u" .
  have "u\<lparr>u_RawQuery := verifyFullQuery (u_RawQuery u)\<rparr> = u"
    by (simp add: u_def secretURL_def zero_url_def verifyFullQuery_fix Let_def)
  then show "WithVerifyFullTLS L (URL_String u) = Inr (URL_String u)"
    by (simp add: WithVerifyFullTLS_def parse)
qed

text \<open>C25: For every instance whose name and namespace are DNS names, the credentials Secret the
  operator generates is consistent: the database URL parses, carries the user name and
  password the StatefulSet gives to Postgres, addresses port 5432 of a host that the
  server certificate names, and is left as it is by \<open>WithVerifyFullTLS\<close>, so no later
  reconcile rewrites the Secret.\<close>

theorem postgres_secret_consistent:
  assumes "exec (NewSecret d) tr (Inr sec)"
    and "list_all dns_char (d_Name d)" and "list_all dns_char (d_Namespace d)"
  shows "\<exists>user pw url u host.
    map_of (sec_stringData sec) ''username'' = Some user
    \<and> map_of (sec_stringData sec) ''password'' = Some pw
    \<and> map_of (sec_stringData sec) ''database-url'' = Some url
    \<and> Parse (OddHost L) url = Inr u
    \<and> u_User u = Some \<lparr>ui_username = user, ui_password = Some pw\<rparr>
    \<and> u_Host u = host @ '':5432'' \<and> host \<in> set (ServiceHostnames d)
    \<and> WithVerifyFullTLS L url = Inr url"
proof -
  obtain b where sec: "sec = postgresSecret d (take 24 (RawURLEncoding b))"
    using assms(1) by (auto simp: NewSecret_exec)
  let ?u = "secretURL d (take 24 (RawURLEncoding b))"
  have "map_of (sec_stringData sec) ''username'' = Some ''apme''"
    and "map_of (sec_stringData sec) ''password'' = Some (take 24 (RawURLEncoding b))"
    and "map_of (sec_stringData sec) ''database-url'' = Some (URL_String ?u)"
    by (simp_all add: sec postgresSecret_def pgUser_def)
  moreover have "u_User ?u = Some \<lparr>ui_username = ''apme'', ui_password = Some (take 24 (RawURLEncoding b))\<rparr>"
    and "u_Host ?u = (d_Name d @ ''-postgres.'' @ d_Namespace d @ ''.svc'') @ '':5432''"
    and "d_Name d @ ''-postgres.'' @ d_Namespace d @ ''.svc'' \<in> set (ServiceHostnames d)"
    by (simp_all add: secretURL_def pgUser_def zero_url_def ServiceHostnames_def Let_def)
  ultimately show ?thesis
    using generated_url [OF assms(2,3)] by blast
qed

text \<open>The instance the witnesses of this theory use, and one execution of \<open>NewSecret\<close> for it.\<close>

definition example_d :: Desired where
  "example_d = From example_env example_cr"

lemma example_d_names [simp]: "d_Name example_d = ''apme''" "d_Namespace example_d = ''ns''"
  by (simp_all add: example_d_def resolve_simps example_cr_def zero_apme_def)

lemma example_d_dns: "list_all dns_char (d_Name example_d)" "list_all dns_char (d_Namespace example_d)"
  by (simp_all add: dns_char_def lower_alnum_code)

theorem postgres_secret_consistent_witness:
  "exec (NewSecret example_d) [ERandRead 24 (Inr (replicate 24 CHR ''x''))]
     (Inr (postgresSecret example_d (take 24 (RawURLEncoding (replicate 24 CHR ''x'')))))
   \<and> (\<exists>url. map_of (sec_stringData (postgresSecret example_d (take 24 (RawURLEncoding (replicate 24 CHR ''x'')))))
        ''database-url'' = Some url
      \<and> WithVerifyFullTLS std_lib url = Inr url)"
proof -
  have "exec (NewSecret example_d) [ERandRead 24 (Inr (replicate 24 CHR ''x''))]
     (Inr (postgresSecret example_d (take 24 (RawURLEncoding (replicate 24 CHR ''x'')))))"
    unfolding NewSecret_exec by blast
  then show ?thesis
    using postgres_secret_consistent [OF _ example_d_dns] by blast
qed

subsection \<open>Certificates\<close>

lemma EncodeToMemory_nonempty [simp]: "EncodeToMemory typ b \<noteq> []"
  by (simp add: EncodeToMemory_def)

lemma pemEncodeECKey_Inr:
  "pemEncodeECKey L key = Inr pem \<longleftrightarrow>
     (\<exists>b. MarshalECPrivateKey L key = Inr b \<and> pem = EncodeToMemory ''EC PRIVATE KEY'' b)"
  by (auto simp: pemEncodeECKey_def split: sum.splits)

lemma exec_or_fail [simp]:
  "exec (or_fail prefix k r) tr a \<longleftrightarrow>
     (\<exists>err. r = Inl err \<and> tr = [] \<and> a = Inl (WrapError prefix err)) \<or> (\<exists>x. r = Inr x \<and> exec (k x) tr a)"
  by (auto simp: or_fail_def)

lemma encodeTLSSecret_Inr:
  "encodeTLSSecret L d ck sk caDER serverDER = Inr sec \<longleftrightarrow>
     (\<exists>a b. MarshalECPrivateKey L ck = Inr a \<and> MarshalECPrivateKey L sk = Inr b
       \<and> sec = tlsSecret d serverDER (EncodeToMemory ''EC PRIVATE KEY'' b) caDER (EncodeToMemory ''EC PRIVATE KEY'' a))"
  by (auto simp: encodeTLSSecret_def pemEncodeECKey_def split: sum.splits)

text \<open>C21: When \<open>NewTLSSecret\<close> succeeds, its Secret passes \<open>HasTLSMaterial\<close>, and its parts belong
  together: \<open>tls.crt\<close> is the certificate issued for the four service host names and for
  server authentication, on the public key of the private key in \<open>tls.key\<close>, signed by the
  CA key with the parsed \<open>ca.crt\<close> as its parent; \<open>ca.crt\<close> is a CA certificate signed by its
  own key; and the server certificate is valid for a year, inside the CA's validity.\<close>

theorem NewTLSSecret_chain:
  assumes "exec (NewTLSSecret L d) tr (Inr sec)"
  shows "\<exists>caKeyPriv serverKeyPriv caTpl caCert serverTpl caDER serverDER serverKeyDER.
    HasTLSMaterial (Some sec)
    \<and> ECreateCertificate caTpl caTpl (PublicKey L caKeyPriv) caKeyPriv (Inr caDER) \<in> set tr
    \<and> ECreateCertificate serverTpl caCert (PublicKey L serverKeyPriv) caKeyPriv (Inr serverDER) \<in> set tr
    \<and> ParseCertificate L caDER = Inr caCert
    \<and> MarshalECPrivateKey L serverKeyPriv = Inr serverKeyDER
    \<and> map_of (sec_data sec) ''ca.crt'' = Some (EncodeToMemory ''CERTIFICATE'' caDER)
    \<and> map_of (sec_data sec) ''tls.crt'' = Some (EncodeToMemory ''CERTIFICATE'' serverDER)
    \<and> map_of (sec_data sec) ''tls.key'' = Some (EncodeToMemory ''EC PRIVATE KEY'' serverKeyDER)
    \<and> x_IsCA caTpl \<and> CertSign \<in> set (x_KeyUsage caTpl)
    \<and> x_DNSNames serverTpl = ServiceHostnames d \<and> x_ExtKeyUsage serverTpl = [ServerAuth] \<and> \<not> x_IsCA serverTpl
    \<and> x_NotBefore caTpl \<le> x_NotBefore serverTpl \<and> x_NotAfter serverTpl \<le> x_NotAfter caTpl
    \<and> x_NotAfter serverTpl - x_NotBefore serverTpl = 365 * 24 * 3600 * 1000000000"
proof -
  obtain ck sk serial t caDER caCert serial' serverDER a b where
    ca: "ECreateCertificate (caTemplate d serial (t - hour)) (caTemplate d serial (t - hour))
       (PublicKey L ck) ck (Inr caDER) \<in> set tr"
    and server: "ECreateCertificate (serverTemplate d serial' (t - hour)) caCert (PublicKey L sk) ck (Inr serverDER) \<in> set tr"
    and parse: "ParseCertificate L caDER = Inr caCert"
    and marshal: "MarshalECPrivateKey L sk = Inr b"
    and sec: "sec = tlsSecret d serverDER (EncodeToMemory ''EC PRIVATE KEY'' b) caDER (EncodeToMemory ''EC PRIVATE KEY'' a)"
    using assms
    by (fastforce simp: NewTLSSecret_def signCA_def signServer_def Let_def encodeTLSSecret_Inr
        dest: sym [of _ "encodeTLSSecret L d _ _ _ _"])
  have data: "HasTLSMaterial (Some sec)"
    "map_of (sec_data sec) ''ca.crt'' = Some (EncodeToMemory ''CERTIFICATE'' caDER)"
    "map_of (sec_data sec) ''tls.crt'' = Some (EncodeToMemory ''CERTIFICATE'' serverDER)"
    "map_of (sec_data sec) ''tls.key'' = Some (EncodeToMemory ''EC PRIVATE KEY'' b)"
    by (simp_all add: sec tlsSecret_def tls_keys HasTLSMaterial_def data_len_def)
  have "x_IsCA (caTemplate d serial (t - hour))" "CertSign \<in> set (x_KeyUsage (caTemplate d serial (t - hour)))"
    by (simp_all add: caTemplate_def)
  moreover have "x_DNSNames (serverTemplate d serial' (t - hour)) = ServiceHostnames d"
    "x_ExtKeyUsage (serverTemplate d serial' (t - hour)) = [ServerAuth]"
    "\<not> x_IsCA (serverTemplate d serial' (t - hour))"
    by (simp_all add: serverTemplate_def)
  moreover have "x_NotBefore (caTemplate d serial (t - hour)) \<le> x_NotBefore (serverTemplate d serial' (t - hour))"
    "x_NotAfter (serverTemplate d serial' (t - hour)) \<le> x_NotAfter (caTemplate d serial (t - hour))"
    "x_NotAfter (serverTemplate d serial' (t - hour)) - x_NotBefore (serverTemplate d serial' (t - hour))
      = 365 * 24 * 3600 * 1000000000"
    by (simp_all add: caTemplate_def serverTemplate_def hour_def)
  ultimately show ?thesis using ca server parse marshal data by blast
qed

text \<open>One execution: key scalars 7 and 11, serial numbers 5 and 6, at time 0.\<close>

definition tls_trace :: "event list" where
  "tls_trace =
    (let ca = caTemplate example_d 5 (0 - hour); server = serverTemplate example_d 6 (0 - hour) in
     [EGenerateKey (Inr 7), EGenerateKey (Inr 11), ERandInt (2 ^ 128) (Inr 5), ENow 0,
      ECreateCertificate ca ca (7, 7) 7 (Inr ''CA''), ERandInt (2 ^ 128) (Inr 6),
      ECreateCertificate server example_certificate (11, 11) 7 (Inr ''SRV'')])"

definition tls_example :: secret where
  "tls_example = tlsSecret example_d ''SRV'' (EncodeToMemory ''EC PRIVATE KEY'' (nat_digits 11)) ''CA''
     (EncodeToMemory ''EC PRIVATE KEY'' (nat_digits 7))"

lemma tls_trace_exec: "exec (NewTLSSecret std_lib example_d) tls_trace (Inr tls_example)"
  by (simp add: NewTLSSecret_def signCA_def signServer_def Let_def tls_trace_def tls_example_def
      encodeTLSSecret_def pemEncodeECKey_def std_lib_def)

theorem NewTLSSecret_chain_witness:
  "exec (NewTLSSecret std_lib example_d) tls_trace (Inr tls_example)
   \<and> HasTLSMaterial (Some tls_example)
   \<and> (\<exists>serverTpl caCert pub priv der. ECreateCertificate serverTpl caCert pub priv (Inr der) \<in> set tls_trace
        \<and> x_DNSNames serverTpl = ServiceHostnames example_d
        \<and> map_of (sec_data tls_example) ''tls.crt'' = Some (EncodeToMemory ''CERTIFICATE'' der))"
  using tls_trace_exec NewTLSSecret_chain [OF tls_trace_exec] by blast

subsection \<open>The database workload\<close>

lemma postgresLabels_labels: "postgresLabels d = labels d componentPostgres"
  by (simp add: postgresLabels_def labels_def label_keys managedBy_def component_names)

lemma postgresLabels_selects: "selects (postgresLabels d) (postgresLabels e) \<longleftrightarrow> d_Name d = d_Name e"
  by (auto simp: selects_def postgresLabels_def)

lemma selects_postgresLabels:
  "selects (selectorLabels d c) (postgresLabels e) \<longleftrightarrow> d_Name d = d_Name e \<and> c = ''postgres''"
  by (auto simp: postgresLabels_labels selects_labels component_names)



end
