(* ===== verification/Secrets.thy ===== *)
theory Secrets
  imports Controller Postgres_Facts
begin

text \<open>
  The contract the four \<open>ensure\<close> methods for Secrets share: look the Secret up, keep an
  existing one, create a missing one once, owned by the instance, and report every
  other failure without touching the cluster.
\<close>

subsection \<open>Reading traces\<close>

text \<open>
  The object an event asks the API server to write (status patches are apart), and the
  events that change nothing in the cluster.
\<close>

fun written :: "event \<Rightarrow> client_object option" where
  "written (EPatch ob r) = Some ob"
| "written (ECreate ob r) = Some ob"
| "written (EUpdate ob r) = Some ob"
| "written (EDelete ob r) = Some ob"
| "written _ = None"

fun harmless :: "event \<Rightarrow> bool" where
  "harmless (EPatch ob r) = False"
| "harmless (ECreate ob r) = False"
| "harmless (EUpdate ob r) = False"
| "harmless (EDelete ob r) = False"
| "harmless (EStatusPatch cr orig r) = False"
| "harmless _ = True"

lemma harmless_written [simp]: "harmless e \<Longrightarrow> written e = None"
  by (cases e) simp_all

definition reads_only :: "event list \<Rightarrow> bool" where
  "reads_only tr \<longleftrightarrow> list_all harmless tr"

lemma reads_only_simps [simp]:
  "reads_only []" "reads_only (e # tr) \<longleftrightarrow> harmless e \<and> reads_only tr"
  "reads_only (tr1 @ tr2) \<longleftrightarrow> reads_only tr1 \<and> reads_only tr2"
  by (simp_all add: reads_only_def)

text \<open>The random source and the certificate authority are not the cluster.\<close>

lemma NewSecret_reads: "exec (NewSecret d) tr r \<Longrightarrow> reads_only tr"
  by (auto simp: NewSecret_def randomPassword_def exec_call)

lemma randomToken_reads: "exec (randomToken n) tr r \<Longrightarrow> reads_only tr"
  by (auto simp: randomToken_def)

lemma NewTLSSecret_reads: "exec (NewTLSSecret L d) tr r \<Longrightarrow> reads_only tr"
  by (auto simp: NewTLSSecret_def signCA_def signServer_def Let_def)

lemma create_owned_exec:
  "exec (create_owned L owner sec) tr r \<longleftrightarrow>
     (\<exists>err. SetControllerReference L owner (OSecret sec) = Inl err \<and> tr = [] \<and> r = Some err) \<or>
     (\<exists>ob. SetControllerReference L owner (OSecret sec) = Inr ob \<and> tr = [ECreate ob r])"
  by (auto simp: create_owned_def)

subsection \<open>The contract\<close>

text \<open>
  \<open>kept\<close> is what the method does with an existing Secret (its trace after the lookup and
  its result), \<open>built\<close> the Secrets it may create.
\<close>

locale get_or_create =
  fixes L :: lib and owner :: Apme and key :: NamespacedName
    and proc :: "gerror option prog"
    and kept :: "secret \<Rightarrow> event list \<Rightarrow> gerror option \<Rightarrow> bool"
    and built :: "secret \<Rightarrow> bool"
  assumes branches: "exec proc tr err \<Longrightarrow>
      (\<exists>existing rest. tr = EGetSecret key (Inr existing) # rest \<and> kept existing rest err)
    \<or> (\<exists>e. tr = [EGetSecret key (Inl e)] \<and> \<not> IsNotFound L e \<and> err = Some e)
    \<or> (\<exists>e rest f. tr = EGetSecret key (Inl e) # rest \<and> IsNotFound L e \<and> reads_only rest \<and> err = Some f)
    \<or> (\<exists>e rest sec ob. tr = EGetSecret key (Inl e) # rest @ [ECreate ob err] \<and> IsNotFound L e \<and> reads_only rest
         \<and> built sec \<and> SetControllerReference L owner (OSecret sec) = Inr ob)"
begin

text \<open>A Secret is created only after the API server has said there is none.\<close>

lemma create_only_missing:
  assumes "exec proc tr err" and "ECreate ob r \<in> set tr" and "\<And>s t e. kept s t e \<Longrightarrow> ECreate ob r \<notin> set t"
  shows "\<exists>e rest. tr = EGetSecret key (Inl e) # rest @ [ECreate ob r] \<and> IsNotFound L e \<and> err = r
    \<and> (\<exists>sec. built sec \<and> SetControllerReference L owner (OSecret sec) = Inr ob)"
proof -
  have reads: "reads_only t \<Longrightarrow> ECreate ob r \<notin> set t" for t
    by (auto simp: reads_only_def list_all_iff)
  show ?thesis using branches [OF assms(1)] assms(2,3) reads by auto
qed

text \<open>After success the Secret is there: it was found, or it was created without error.\<close>

lemma ensured:
  assumes "exec proc tr None"
  shows "(\<exists>existing rest. tr = EGetSecret key (Inr existing) # rest \<and> kept existing rest None)
    \<or> (\<exists>sec ob. ECreate ob None \<in> set tr \<and> built sec \<and> SetControllerReference L owner (OSecret sec) = Inr ob)"
  using branches [OF assms] by fastforce

text \<open>A lookup that fails for another reason ends the method with that error.\<close>

lemma lookup_error:
  assumes "exec proc tr err" and "EGetSecret key (Inl e) \<in> set (take 1 tr)" and "\<not> IsNotFound L e"
  shows "tr = [EGetSecret key (Inl e)] \<and> err = Some e"
  using branches [OF assms(1)] assms(2,3) by auto

lemma writes_at_most_once:
  assumes "exec proc tr err" and "\<And>s t e. kept s t e \<Longrightarrow> length (filter (\<lambda>e. written e \<noteq> None) t) \<le> 1"
  shows "length (filter (\<lambda>e. written e \<noteq> None) tr) \<le> 1"
proof -
  have "filter (\<lambda>e. written e \<noteq> None) t = []" if "reads_only t" for t
    using that by (auto simp: reads_only_def list_all_iff filter_empty_conv)
  then show ?thesis using branches [OF assms(1)] assms(2) by auto
qed

end

subsection \<open>The four Secrets\<close>

definition url_kept :: "lib \<Rightarrow> secret \<Rightarrow> event list \<Rightarrow> gerror option \<Rightarrow> bool" where
  "url_kept L s tr err \<longleftrightarrow>
     tr = [] \<and> (err = None \<or> (\<exists>raw e. map_of (sec_data s) ''database-url'' = Some raw
         \<and> WithVerifyFullTLS L raw = Inl e \<and> err = Some e))
   \<or> (\<exists>raw updated. map_of (sec_data s) ''database-url'' = Some raw \<and> WithVerifyFullTLS L raw = Inr updated
       \<and> updated \<noteq> raw
       \<and> tr = [EUpdate (OSecret (s\<lparr>sec_stringData := AList.update ''database-url'' updated (sec_stringData s)\<rparr>)) err])"

lemma ensurePostgresURLTLS_exec: "exec (ensurePostgresURLTLS L s) tr err \<Longrightarrow> url_kept L s tr err"
  by (auto simp: ensurePostgresURLTLS_def url_kept_def split: if_splits)

text \<open>
  What the branch for a missing Secret does: fail without writing, or create what was
  made. All four methods end in \<open>make_and_create\<close>.
\<close>

definition creates :: "lib \<Rightarrow> Apme \<Rightarrow> (secret \<Rightarrow> bool) \<Rightarrow> gerror option prog \<Rightarrow> bool" where
  "creates L owner built p \<longleftrightarrow> (\<forall>tr err. exec p tr err \<longrightarrow>
     reads_only tr \<and> err \<noteq> None \<or>
     (\<exists>rest sec ob. tr = rest @ [ECreate ob err] \<and> reads_only rest \<and> built sec
        \<and> SetControllerReference L owner (OSecret sec) = Inr ob))"

lemma creates_call:
  assumes "\<And>tr r. exec mk tr r \<Longrightarrow> reads_only tr" and "\<And>tr x. exec mk tr (Inr x) \<Longrightarrow> built (f x)"
  shows "creates L owner built
    (call mk (\<lambda>r. case r of Inl err \<Rightarrow> Return (Some err) | Inr x \<Rightarrow> create_owned L owner (f x)))"
  using assms unfolding creates_def exec_call exec_case_sum create_owned_exec by fastforce

lemma creates_if: "creates L owner built p \<Longrightarrow> b \<Longrightarrow> creates L owner built (if \<not> b then q else p)"
  by simp

lemma creates_Return: "creates L owner built (Return (Some e))"
  by (simp add: creates_def)

lemma get_or_createI:
  assumes "\<And>s tr err. exec (keep s) tr err \<Longrightarrow> kept s tr err"
    and "creates L owner built missing"
  shows "get_or_create L owner key
    (GetSecret key (\<lambda>r. case r of Inr s \<Rightarrow> keep s
       | Inl err \<Rightarrow> if \<not> IsNotFound L err then Return (Some err) else missing)) kept built"
proof
  fix tr err
  assume "exec (GetSecret key (\<lambda>r. case r of Inr s \<Rightarrow> keep s
       | Inl err \<Rightarrow> if \<not> IsNotFound L err then Return (Some err) else missing)) tr err"
  then consider s tr' where "tr = EGetSecret key (Inr s) # tr'" "exec (keep s) tr' err"
    | e where "tr = [EGetSecret key (Inl e)]" "\<not> IsNotFound L e" "err = Some e"
    | e tr' where "tr = EGetSecret key (Inl e) # tr'" "IsNotFound L e" "exec missing tr' err"
    by auto
  then show "(\<exists>existing rest. tr = EGetSecret key (Inr existing) # rest \<and> kept existing rest err)
    \<or> (\<exists>e. tr = [EGetSecret key (Inl e)] \<and> \<not> IsNotFound L e \<and> err = Some e)
    \<or> (\<exists>e rest f. tr = EGetSecret key (Inl e) # rest \<and> IsNotFound L e \<and> reads_only rest \<and> err = Some f)
    \<or> (\<exists>e rest sec ob. tr = EGetSecret key (Inl e) # rest @ [ECreate ob err] \<and> IsNotFound L e \<and> reads_only rest
         \<and> built sec \<and> SetControllerReference L owner (OSecret sec) = Inr ob)"
  proof cases
    case 1
    then show ?thesis using assms(1) by blast
  next
    case 2
    then show ?thesis by blast
  next
    case 3
    then consider "reads_only tr'" "err \<noteq> None"
      | rest sec ob where "tr' = rest @ [ECreate ob err]" "reads_only rest" "built sec"
          "SetControllerReference L owner (OSecret sec) = Inr ob"
      using assms(2) unfolding creates_def by metis
    then show ?thesis
    proof cases
      case 1
      then show ?thesis using 3 by (auto simp del: split_paired_Ex)
    next
      case 2
      then show ?thesis using 3 by blast
    qed
  qed
qed

interpretation postgres_secret: get_or_create L owner "key_in d (d_DatabaseSecretName d)"
  "ensurePostgresSecret L owner d" "url_kept L" "\<lambda>sec. \<exists>pw. sec = postgresSecret d pw"
  for L owner d
  unfolding ensurePostgresSecret_def
proof (rule get_or_createI)
  show "creates L owner (\<lambda>sec. \<exists>pw. sec = postgresSecret d pw)
    (call (NewSecret d) (\<lambda>r. case r of Inl err \<Rightarrow> Return (Some err) | Inr sec \<Rightarrow> create_owned L owner sec))"
  proof (rule creates_call [where f = "\<lambda>x. x"])
    show "\<exists>pw. sec = postgresSecret d pw" if "exec (NewSecret d) tr (Inr sec)" for tr sec
      using that unfolding NewSecret_exec by blast
  qed (rule NewSecret_reads)
qed (rule ensurePostgresURLTLS_exec)

interpretation postgres_tls: get_or_create L owner "key_in d (d_PostgresTLSSecretName d)"
  "ensurePostgresTLS L owner d"
  "\<lambda>s tr err. tr = [] \<and> (err = None \<longleftrightarrow> HasTLSMaterial (Some s))"
  "\<lambda>sec. d_GeneratePostgresTLS d \<and> (\<exists>tr. exec (NewTLSSecret L d) tr (Inr sec))"
  for L owner d
  unfolding ensurePostgresTLS_def
proof (rule get_or_createI)
  show "creates L owner (\<lambda>sec. d_GeneratePostgresTLS d \<and> (\<exists>tr. exec (NewTLSSecret L d) tr (Inr sec)))
    (if \<not> d_GeneratePostgresTLS d
     then Return (Some (ErrorString (''postgres TLS secret '' @ fmt_q (d_PostgresTLSSecretName d) @ '' not found'')))
     else call (NewTLSSecret L d) (\<lambda>r. case r of Inl err \<Rightarrow> Return (Some err) | Inr sec \<Rightarrow> create_owned L owner sec))"
  proof (cases "d_GeneratePostgresTLS d")
    case True
    then show ?thesis
      using creates_call [of "NewTLSSecret L d"
          "\<lambda>sec. d_GeneratePostgresTLS d \<and> (\<exists>tr. exec (NewTLSSecret L d) tr (Inr sec))" "\<lambda>x. x" L owner]
        NewTLSSecret_reads by auto
  qed (simp add: creates_Return)
qed auto

interpretation abbenay_token: get_or_create L owner "key_in d (d_AbbenayTokenName d)"
  "ensureAbbenayToken L owner d" "\<lambda>s tr err. tr = [] \<and> err = None"
  "\<lambda>sec. \<exists>tok. sec = NewAbbenayTokenSecret d tok"
  for L owner d
  unfolding ensureAbbenayToken_def
  by (intro get_or_createI creates_call) (auto dest: randomToken_reads)

interpretation admin_token: get_or_create L owner "key_in d (d_ProxyAdminTokenName d)"
  "ensureProxyAdminToken L owner d"
  "\<lambda>s tr err. tr = [] \<and> (err = None \<longleftrightarrow>
     IsControlledBy L (OSecret s) owner \<and> data_len s (d_ProxyAdminTokenKey d) \<noteq> 0)"
  "\<lambda>sec. \<exists>tok. sec = NewProxyAdminTokenSecret d tok"
  for L owner d
  unfolding ensureProxyAdminToken_def
  by (intro get_or_createI creates_call) (auto dest: randomToken_reads)

end
