(* ===== verification/Names.thy ===== *)
theory Names
  imports Secrets "HOL-Library.Sublist"
begin

text \<open>
  The identities of the objects a reconcile applies and generates: kind, namespace and a
  name made from the instance's by a suffix. Within an instance they are distinct, and
  different instances never share one.
\<close>

subsection \<open>Identities of the built objects\<close>

lemmas object_ids = manifest_defs StatefulSet_def SSLConfigMap_def postgresMeta_def Let_def meta_id_def

lemma Deployment_type [simp]: "tm_kind (dep_type (Deployment d cs)) = ''Deployment''"
  by (simp add: Deployment_def Let_def)

lemma Ingress_type [simp]: "tm_kind (ing_type (Ingress d)) = ''Ingress''"
  by (simp add: Ingress_def Let_def)

lemma Route_id [simp]:
  "id_of (ORoute (UIRoute d)) =
     \<lparr>id_kind = ''Route'', id_namespace = d_Namespace d, id_name = d_Name d @ ''-ui''\<rparr>"
  "id_of (ORoute (APIRoute d)) =
     \<lparr>id_kind = ''Route'', id_namespace = d_Namespace d, id_name = d_Name d @ ''-api''\<rparr>"
  by (simp_all add: UIRoute_def APIRoute_def routeUnstructured_def json_text_def json_field_def Let_def)

text \<open>The objects a reconcile applies before the Routes.\<close>

definition databaseObjects :: "Desired \<Rightarrow> client_object list" where
  "databaseObjects d =
    (if d_DatabaseMode d \<noteq> DatabaseManaged then []
     else [OConfigMap (SSLConfigMap d), OStatefulSet (StatefulSet d), OService (PostgresService d)]
        @ (if d_NetworkPolicy d then [ONetworkPolicy (PostgresNetworkPolicy d)] else []))"

definition abbenayObjects :: "Desired \<Rightarrow> client_object list" where
  "abbenayObjects d =
    (if \<not> d_Abbenay d then []
     else (if d_AbbenayConfigMap d = [] then [OConfigMap (DefaultAbbenayConfigMap d)] else [])
        @ (if d_AbbenayPersist d then [OPVC (AbbenayPVC d)] else []))"

definition appliedObjects :: "Desired \<Rightarrow> string \<Rightarrow> client_object list" where
  "appliedObjects d checksum =
     coreObjects d @ databaseObjects d @ abbenayObjects d @ workloadObjects d checksum"

subsection \<open>Instances side by side\<close>

text \<open>
  The names the operator gives to what it creates for an instance: by kind, the suffixes
  it appends to the name of the instance.
\<close>

definition suffix_table :: "(string \<times> string list) list" where
  "suffix_table =
     [(''ServiceAccount'', [[]]), (''Deployment'', [[]]), (''Ingress'', [[]]),
      (''PersistentVolumeClaim'', [''-sessions'', ''-proxy-cache'', ''-abbenay-config'']),
      (''ConfigMap'', [''-postgres-ssl'', ''-abbenay-config'']),
      (''StatefulSet'', [''-postgres'']),
      (''Service'', [''-postgres'', ''-engine'', ''-gateway'', ''-ui'']),
      (''NetworkPolicy'', [''-postgres'', ''-engine'']),
      (''Route'', [''-ui'', ''-api'']),
      (''Secret'', [''-postgres'', ''-postgres-tls'', ''-abbenay'', ''-proxy-admin''])]"

definition all_keys :: "(string \<times> string) list" where
  "all_keys = concat (map (\<lambda>(kind, ss). map (Pair kind) ss) suffix_table)"

definition key_id :: "Desired \<Rightarrow> string \<times> string \<Rightarrow> object_id" where
  "key_id d key = \<lparr>id_kind = fst key, id_namespace = d_Namespace d, id_name = d_Name d @ snd key\<rparr>"

text \<open>Every object a reconcile may apply, and the Secrets it may create under its own names.\<close>

definition routeObjects :: "Desired \<Rightarrow> client_object list" where
  "routeObjects d =
     (if d_RouteEnabled d \<and> d_UI d then [ORoute (UIRoute d)] else [])
     @ (if d_RouteEnabled d then [ORoute (APIRoute d)] else [])"

definition ownObjects :: "Desired \<Rightarrow> string \<Rightarrow> client_object list" where
  "ownObjects d checksum = appliedObjects d checksum @ routeObjects d"

lemma all_keys_distinct: "distinct all_keys"
  by code_simp

text \<open>No suffix of a kind ends in another one, so a name determines its instance.\<close>

definition suffix_clash :: "string \<times> string \<Rightarrow> string \<times> string \<Rightarrow> bool" where
  "suffix_clash k l \<longleftrightarrow> fst k = fst l \<and> HasPrefix (rev (snd l)) (rev (snd k)) \<and> snd k \<noteq> snd l"

lemma all_keys_clash: "list_all (\<lambda>k. list_all (\<lambda>l. \<not> suffix_clash k l) all_keys) all_keys"
  by code_simp

lemma key_id_inject:
  assumes "k \<in> set all_keys" and "l \<in> set all_keys" and "key_id d k = key_id e l"
  shows "d_Namespace d = d_Namespace e \<and> d_Name d = d_Name e \<and> k = l"
proof -
  have same: "x = y" if "(a, x) \<in> set all_keys" "(a, y) \<in> set all_keys" "y = us @ x" for a x y us
  proof -
    have "\<not> suffix_clash (a, x) (a, y)" using that(1,2) all_keys_clash by (simp add: list_all_iff)
    then show ?thesis using that(3) by (auto simp: suffix_clash_def HasPrefix_iff)
  qed
  obtain a x y where kl: "k = (a, x)" "l = (a, y)" "d_Name d @ x = d_Name e @ y"
    using assms(3) by (cases k; cases l) (simp add: key_id_def)
  then obtain us where "d_Name d = d_Name e @ us \<and> us @ x = y \<or> d_Name d @ us = d_Name e \<and> x = us @ y"
    by (auto simp: append_eq_append_conv2)
  then have "d_Name d = d_Name e \<and> x = y"
    using same [of a x y us] same [of a y x us] assms(1,2) kl by auto
  then show ?thesis using kl assms(3) by (simp add: key_id_def)
qed

text \<open>The keys of the objects applied for an intent.\<close>

definition keys :: "Desired \<Rightarrow> (string \<times> string) list" where
  "keys d =
     [(''ServiceAccount'', []), (''PersistentVolumeClaim'', ''-sessions''), (''PersistentVolumeClaim'', ''-proxy-cache'')]
     @ (if d_DatabaseMode d \<noteq> DatabaseManaged then []
        else [(''ConfigMap'', ''-postgres-ssl''), (''StatefulSet'', ''-postgres''), (''Service'', ''-postgres'')]
           @ (if d_NetworkPolicy d then [(''NetworkPolicy'', ''-postgres'')] else []))
     @ (if \<not> d_Abbenay d then []
        else (if d_AbbenayConfigMap d = [] then [(''ConfigMap'', ''-abbenay-config'')] else [])
           @ (if d_AbbenayPersist d then [(''PersistentVolumeClaim'', ''-abbenay-config'')] else []))
     @ [(''Deployment'', []), (''Service'', ''-engine''), (''Service'', ''-gateway'')]
     @ (if d_UI d then [(''Service'', ''-ui'')] else [])
     @ (if d_IngressEnabled d then [(''Ingress'', [])] else [])
     @ (if d_NetworkPolicy d then [(''NetworkPolicy'', ''-engine'')] else [])
     @ (if d_RouteEnabled d \<and> d_UI d then [(''Route'', ''-ui'')] else [])
     @ (if d_RouteEnabled d then [(''Route'', ''-api'')] else [])"

lemma object_keys:
  "map id_of (coreObjects d) = map (key_id d)
     [(''ServiceAccount'', []), (''PersistentVolumeClaim'', ''-sessions''), (''PersistentVolumeClaim'', ''-proxy-cache'')]"
  "map id_of (databaseObjects d) = map (key_id d)
     (if d_DatabaseMode d \<noteq> DatabaseManaged then []
      else [(''ConfigMap'', ''-postgres-ssl''), (''StatefulSet'', ''-postgres''), (''Service'', ''-postgres'')]
         @ (if d_NetworkPolicy d then [(''NetworkPolicy'', ''-postgres'')] else []))"
  "map id_of (abbenayObjects d) = map (key_id d)
     (if \<not> d_Abbenay d then []
      else (if d_AbbenayConfigMap d = [] then [(''ConfigMap'', ''-abbenay-config'')] else [])
         @ (if d_AbbenayPersist d then [(''PersistentVolumeClaim'', ''-abbenay-config'')] else []))"
  "map id_of (workloadObjects d cs) = map (key_id d)
     ([(''Deployment'', []), (''Service'', ''-engine''), (''Service'', ''-gateway'')]
     @ (if d_UI d then [(''Service'', ''-ui'')] else [])
     @ (if d_IngressEnabled d then [(''Ingress'', [])] else [])
     @ (if d_NetworkPolicy d then [(''NetworkPolicy'', ''-engine'')] else []))"
  "map id_of (routeObjects d) = map (key_id d)
     ((if d_RouteEnabled d \<and> d_UI d then [(''Route'', ''-ui'')] else [])
     @ (if d_RouteEnabled d then [(''Route'', ''-api'')] else []))"
  by (simp_all add: coreObjects_def databaseObjects_def abbenayObjects_def workloadObjects_def routeObjects_def object_ids key_id_def
      del: id_of.simps(10))

lemma ownObjects_keys: "map id_of (ownObjects d cs) = map (key_id d) (keys d)"
  unfolding ownObjects_def appliedObjects_def keys_def map_append object_keys by simp

lemma subseq_if: "subseq (if b then xs else []) xs" "subseq (if b then [] else xs) xs"
  by simp_all

definition key_order :: "(string \<times> string) list" where
  "key_order =
     [(''ServiceAccount'', []), (''PersistentVolumeClaim'', ''-sessions''), (''PersistentVolumeClaim'', ''-proxy-cache'')]
     @ ([(''ConfigMap'', ''-postgres-ssl''), (''StatefulSet'', ''-postgres''), (''Service'', ''-postgres'')]
        @ [(''NetworkPolicy'', ''-postgres'')])
     @ ([(''ConfigMap'', ''-abbenay-config'')] @ [(''PersistentVolumeClaim'', ''-abbenay-config'')])
     @ [(''Deployment'', []), (''Service'', ''-engine''), (''Service'', ''-gateway'')]
     @ [(''Service'', ''-ui'')] @ [(''Ingress'', [])] @ [(''NetworkPolicy'', ''-engine'')]
     @ [(''Route'', ''-ui'')] @ [(''Route'', ''-api'')]"

lemma key_order_facts: "distinct key_order" "list_all (\<lambda>k. k \<in> set all_keys) key_order"
  by code_simp+

lemma keys_subseq: "subseq (keys d) key_order"
proof -
  have managed: "subseq (if d_DatabaseMode d \<noteq> DatabaseManaged then []
        else [(''ConfigMap'', ''-postgres-ssl''), (''StatefulSet'', ''-postgres''), (''Service'', ''-postgres'')]
           @ (if d_NetworkPolicy d then [(''NetworkPolicy'', ''-postgres'')] else []))
      ([(''ConfigMap'', ''-postgres-ssl''), (''StatefulSet'', ''-postgres''), (''Service'', ''-postgres'')]
        @ [(''NetworkPolicy'', ''-postgres'')])"
    by simp
  have abbenay: "subseq (if \<not> d_Abbenay d then []
        else (if d_AbbenayConfigMap d = [] then [(''ConfigMap'', ''-abbenay-config'')] else [])
           @ (if d_AbbenayPersist d then [(''PersistentVolumeClaim'', ''-abbenay-config'')] else []))
      ([(''ConfigMap'', ''-abbenay-config'')] @ [(''PersistentVolumeClaim'', ''-abbenay-config'')])"
    by simp
  show ?thesis
    unfolding keys_def key_order_def by (intro list_emb_append_mono subseq_if managed abbenay) simp_all
qed

lemma keys_distinct: "distinct (keys d)" and keys_all: "set (keys d) \<subseteq> set all_keys"
proof -
  obtain N where "keys d = nths key_order N" using keys_subseq by (auto simp: subseq_conv_nths)
  then show "distinct (keys d)" "set (keys d) \<subseteq> set all_keys"
    using key_order_facts set_nths_subset [of key_order N] by (auto simp: distinct_nthsI list_all_iff)
qed

text \<open>The Secrets a reconcile generates, whatever their random contents.\<close>

definition ownSecrets :: "Desired \<Rightarrow> string \<Rightarrow> bytes \<Rightarrow> client_object list" where
  "ownSecrets d tok pem =
     (if d_GeneratePostgres d then [OSecret (postgresSecret d tok)] else [])
     @ (if d_GeneratePostgresTLS d then [OSecret (tlsSecret d pem pem pem pem)] else [])
     @ (if d_GenerateAbbenayToken d then [OSecret (NewAbbenayTokenSecret d tok)] else [])
     @ [OSecret (NewProxyAdminTokenSecret d tok)]"

definition secret_keys :: "Desired \<Rightarrow> (string \<times> string) list" where
  "secret_keys d =
     (if d_GeneratePostgres d then [(''Secret'', ''-postgres'')] else [])
     @ (if d_GeneratePostgresTLS d then [(''Secret'', ''-postgres-tls'')] else [])
     @ (if d_GenerateAbbenayToken d then [(''Secret'', ''-abbenay'')] else [])
     @ [(''Secret'', ''-proxy-admin'')]"

lemma ownSecrets_keys:
  assumes "resolved d"
  shows "map id_of (ownSecrets d tok pem) = map (key_id d) (secret_keys d)"
  using assms
  by (simp add: ownSecrets_def secret_keys_def key_id_def object_ids postgresSecret_def tlsSecret_def resolved_def)

lemma secret_keys_facts: "distinct (secret_keys d)" "set (secret_keys d) \<subseteq> set all_keys" "set (secret_keys d) \<inter> set (keys d) = {}"
proof -
  let ?all = "[(''Secret'', ''-postgres'')] @ [(''Secret'', ''-postgres-tls'')] @ [(''Secret'', ''-abbenay'')] @ [(''Secret'', ''-proxy-admin'')]"
  have "subseq (secret_keys d) ?all"
    unfolding secret_keys_def by (intro list_emb_append_mono subseq_if) simp
  then obtain N where secrets: "secret_keys d = nths ?all N" by (auto simp: subseq_conv_nths)
  obtain M where others: "keys d = nths key_order M" using keys_subseq by (auto simp: subseq_conv_nths)
  have facts: "distinct ?all" "list_all (\<lambda>k. k \<in> set all_keys \<and> k \<notin> set key_order) ?all" by code_simp+
  then show "distinct (secret_keys d)" "set (secret_keys d) \<subseteq> set all_keys"
    unfolding secrets using set_nths_subset [of ?all N] by (auto simp: distinct_nthsI list_all_iff)
  show "set (secret_keys d) \<inter> set (keys d) = {}"
    unfolding secrets others using facts(2) set_nths_subset [of ?all N] set_nths_subset [of key_order M]
    by (auto simp: list_all_iff)
qed

definition everything :: "Desired \<Rightarrow> string \<Rightarrow> string \<Rightarrow> bytes \<Rightarrow> client_object list" where
  "everything d checksum tok pem = ownObjects d checksum @ ownSecrets d tok pem"

lemma everything_keys: "resolved d \<Longrightarrow> map id_of (everything d cs tok pem) = map (key_id d) (keys d @ secret_keys d)"
  by (simp add: everything_def ownObjects_keys ownSecrets_keys del: id_of.simps)

lemma all_keys_of: "set (keys d @ secret_keys d) \<subseteq> set all_keys" "distinct (keys d @ secret_keys d)"
  using keys_all [of d] secret_keys_facts [of d] keys_distinct [of d] by auto

text \<open>C18: No two of the objects one reconcile applies or generates share kind, namespace and name, so
  no step of a reconcile overwrites what another one wrote.\<close>

theorem own_objects_distinct: "distinct (map id_of (everything (From E cr) checksum tok pem))"
proof -
  have "inj_on (key_id (From E cr)) (set all_keys)"
    by (rule inj_onI) (blast dest: key_id_inject)
  then show ?thesis
    unfolding everything_keys [OF resolved_From] distinct_map
    using all_keys_of [of "From E cr"] inj_on_subset by blast
qed

text \<open>C17: Two instances with different names, or in different namespaces, never claim the same object:
  no object that one reconcile applies or generates under a name of its own has the kind,
  namespace and name of one of the other's, even when one name is a prefix of the other.\<close>

theorem instances_apart:
  assumes "(m_namespace (apme_meta cr), m_name (apme_meta cr)) \<noteq> (m_namespace (apme_meta cr'), m_name (apme_meta cr'))"
  shows "set (map id_of (everything (From E cr) checksum tok pem))
    \<inter> set (map id_of (everything (From E' cr') checksum' tok' pem')) = {}"
proof -
  have "key_id (From E cr) k \<noteq> key_id (From E' cr') l"
    if "k \<in> set all_keys" "l \<in> set all_keys" for k l
    using that key_id_inject [of k l "From E cr" "From E' cr'"] assms by (auto simp: resolve_simps)
  then show ?thesis
    unfolding everything_keys [OF resolved_From] set_map
    using all_keys_of [of "From E cr"] all_keys_of [of "From E' cr'"] by blast
qed

end
