(* ===== verification/Safety.thy ===== *)
theory Safety
  imports Names
begin

text \<open>
  What a reconcile may do to the cluster, whatever the API server answers: the objects
  it applies, creates, updates and deletes, each justified by what it read before.
\<close>

named_theorems safe_rules "programs whose writes are justified"

subsection \<open>Justified events\<close>

text \<open>
  \<open>hist\<close> holds the events so far. An applied object carries the owner reference of the
  reconciled instance, lies in its namespace and is of a kind the controller watches;
  a created Secret was looked up and reported missing; an update changes nothing but
  the \<open>database-url\<close> of the credentials Secret as it was read; a deleted Route was read
  and found controlled by the instance; a status patch changes the status only.
\<close>

fun justified_event :: "ApmeReconciler \<Rightarrow> lib \<Rightarrow> Apme \<Rightarrow> Desired \<Rightarrow> event set \<Rightarrow> event \<Rightarrow> bool" where
  "justified_event R L cr d hist (EPatch ob r) \<longleftrightarrow>
     (\<exists>ob0. SetControllerReference L cr ob0 = Inr ob \<and> id_of ob0 \<in> key_id d ` set (keys d)
        \<and> id_kind (id_of ob0) \<in> set (reg_Owns (SetupWithManager R)))"
| "justified_event R L cr d hist (ECreate ob r) \<longleftrightarrow>
     (\<exists>sec e. SetControllerReference L cr (OSecret sec) = Inr ob \<and> IsNotFound L e
        \<and> EGetSecret \<lparr>nn_Name = m_name (sec_meta sec), nn_Namespace = m_namespace (sec_meta sec)\<rparr> (Inl e) \<in> hist
        \<and> id_of (OSecret sec) \<in> key_id d ` set (secret_keys d))"
| "justified_event R L cr d hist (EUpdate ob r) \<longleftrightarrow>
     (\<exists>s raw updated. EGetSecret (key_in d (d_DatabaseSecretName d)) (Inr s) \<in> hist
        \<and> d_DatabaseMode d = DatabaseManaged
        \<and> map_of (sec_data s) ''database-url'' = Some raw \<and> WithVerifyFullTLS L raw = Inr updated \<and> updated \<noteq> raw
        \<and> ob = OSecret (s\<lparr>sec_stringData := AList.update ''database-url'' updated (sec_stringData s)\<rparr>))"
| "justified_event R L cr d hist (EDelete ob r) \<longleftrightarrow>
     (\<exists>n rt. ob = ORoute rt \<and> EGetRoute n (Inr rt) \<in> hist \<and> IsControlledBy L ob cr \<and> HasRouteAPI R)"
| "justified_event R L cr d hist (EStatusPatch cr' orig r) \<longleftrightarrow>
     orig = cr \<and> cr' = cr\<lparr>apme_Status := apme_Status cr'\<rparr>"
| "justified_event R L cr d hist _ \<longleftrightarrow> True"

fun justified :: "ApmeReconciler \<Rightarrow> lib \<Rightarrow> Apme \<Rightarrow> Desired \<Rightarrow> event set \<Rightarrow> event list \<Rightarrow> bool" where
  "justified R L cr d hist [] \<longleftrightarrow> True"
| "justified R L cr d hist (e # tr) \<longleftrightarrow>
     justified_event R L cr d hist e \<and> justified R L cr d (insert e hist) tr"

lemma justified_append [simp]:
  "justified R L cr d hist (tr1 @ tr2) \<longleftrightarrow>
     justified R L cr d hist tr1 \<and> justified R L cr d (hist \<union> set tr1) tr2"
  by (induction tr1 arbitrary: hist) auto

lemma justified_reads: "reads_only tr \<Longrightarrow> justified R L cr d hist tr"
proof (induction tr arbitrary: hist)
  case (Cons e tr)
  then show ?case by (cases e) simp_all
qed simp

definition safe :: "ApmeReconciler \<Rightarrow> lib \<Rightarrow> Apme \<Rightarrow> Desired \<Rightarrow> 'a prog \<Rightarrow> bool" where
  "safe R L cr d p \<longleftrightarrow> (\<forall>hist tr a. exec p tr a \<longrightarrow> justified R L cr d hist tr)"

lemma safeI: "(\<And>hist tr a. exec p tr a \<Longrightarrow> justified R L cr d hist tr) \<Longrightarrow> safe R L cr d p"
  by (auto simp: safe_def)

lemma safeD: "exec p tr a \<Longrightarrow> safe R L cr d p \<Longrightarrow> justified R L cr d hist tr"
  by (auto simp: safe_def)

lemma safe_Return [safe_rules]: "safe R L cr d (Return a)"
  by (simp add: safe_def)

lemma safe_call [safe_rules]:
  assumes "safe R L cr d p" and "\<And>a. safe R L cr d (k a)"
  shows "safe R L cr d (call p k)"
  by (rule safeI) (auto simp: exec_call intro: safeD [OF _ assms(1)] safeD [OF _ assms(2)])

lemma safe_attempt [safe_rules]:
  assumes "safe R L cr d p" and "safe R L cr d q"
  shows "safe R L cr d (attempt p q)"
  by (rule safeI) (auto simp: exec_attempt intro: safeD [OF _ assms(1)] safeD [OF _ assms(2)])

lemma safe_if [safe_rules]:
  "(b \<Longrightarrow> safe R L cr d p) \<Longrightarrow> (\<not> b \<Longrightarrow> safe R L cr d q) \<Longrightarrow> safe R L cr d (if b then p else q)"
  by simp

lemma safe_case_option [safe_rules]:
  "safe R L cr d p \<Longrightarrow> (\<And>x. safe R L cr d (q x)) \<Longrightarrow> safe R L cr d (case r of None \<Rightarrow> p | Some x \<Rightarrow> q x)"
  by (cases r) simp_all

lemma safe_case_sum [safe_rules]:
  "(\<And>e. safe R L cr d (p e)) \<Longrightarrow> (\<And>x. safe R L cr d (q x)) \<Longrightarrow> safe R L cr d (case r of Inl e \<Rightarrow> p e | Inr x \<Rightarrow> q x)"
  by (cases r) simp_all

lemma safe_case_prod [safe_rules]:
  "(\<And>a b. safe R L cr d (p a b)) \<Longrightarrow> safe R L cr d (case r of (a, b) \<Rightarrow> p a b)"
  by (cases r) simp

lemma safe_Get [safe_rules]:
  "\<forall>r. safe R L cr d (f1 r) \<Longrightarrow> safe R L cr d (GetSecret n f1)"
  "\<forall>r. safe R L cr d (f2 r) \<Longrightarrow> safe R L cr d (GetConfigMap n f2)"
  "\<forall>r. safe R L cr d (f3 r) \<Longrightarrow> safe R L cr d (GetStatefulSet n f3)"
  "\<forall>r. safe R L cr d (f4 r) \<Longrightarrow> safe R L cr d (GetDeployment n f4)"
  "\<forall>r. safe R L cr d (f5 r) \<Longrightarrow> safe R L cr d (GetRoute n f5)"
  "\<forall>r. safe R L cr d (f6 r) \<Longrightarrow> safe R L cr d (ListPods rd ns sel f6)"
  "\<forall>t. safe R L cr d (f7 t) \<Longrightarrow> safe R L cr d (Now f7)"
  by (auto simp: safe_def, blast+)

lemmas [safe_rules] = allI

subsection \<open>The methods\<close>

definition applicable :: "ApmeReconciler \<Rightarrow> Desired \<Rightarrow> client_object \<Rightarrow> bool" where
  "applicable R d ob \<longleftrightarrow>
     id_of ob \<in> key_id d ` set (keys d) \<and> id_kind (id_of ob) \<in> set (reg_Owns (SetupWithManager R))"

lemma safe_apply_obj [safe_rules]:
  assumes "applicable R d ob"
  shows "safe R L cr d (apply_obj L cr ob)"
proof (rule safeI)
  fix hist tr a
  assume "exec (apply_obj L cr ob) tr a"
  then consider "tr = []" | ob' where "SetControllerReference L cr ob = Inr ob'" "tr = [EPatch ob' a]"
    by (auto simp: apply_obj_def)
  then show "justified R L cr d hist tr"
  proof cases
    case 2
    then show ?thesis using assms unfolding applicable_def by (simp only: justified.simps justified_event.simps) blast
  qed simp
qed

lemma safe_apply_all [safe_rules]:
  "list_all (applicable R d) obs \<Longrightarrow> safe R L cr d (apply_all L cr obs)"
  by (induction obs) (auto intro!: safe_rules)

lemma owned_kinds [simp]:
  "set (reg_Owns (SetupWithManager R)) =
     {''Deployment'', ''StatefulSet'', ''Service'', ''PersistentVolumeClaim'', ''ConfigMap'', ''Secret'',
      ''ServiceAccount'', ''NetworkPolicy'', ''Ingress''} \<union> (if HasRouteAPI R then {''Route''} else {})"
  by (auto simp: SetupWithManager_def Let_def)

lemma applicableI:
  "ob \<in> set (ownObjects d cs) \<Longrightarrow> id_kind (id_of ob) \<in> set (reg_Owns (SetupWithManager R)) \<Longrightarrow> applicable R d ob"
  using ownObjects_keys [of d cs, THEN arg_cong [where f = set]]
  by (auto simp: applicable_def simp del: id_of.simps owned_kinds)

lemma applicable_listI:
  assumes "set obs \<subseteq> set (ownObjects d cs)"
    and "list_all (\<lambda>ob. id_kind (id_of ob) \<in> set (reg_Owns (SetupWithManager R))) obs"
  shows "list_all (applicable R d) obs"
  using assms applicableI [of _ d cs R] unfolding list_all_iff by blast

lemma coreObjects_applicable: "list_all (applicable R d) (coreObjects d)"
proof (rule applicable_listI)
  show "set (coreObjects d) \<subseteq> set (ownObjects d [])" by (auto simp: ownObjects_def appliedObjects_def)
  show "list_all (\<lambda>ob. id_kind (id_of ob) \<in> set (reg_Owns (SetupWithManager R))) (coreObjects d)"
    by (simp add: coreObjects_def object_ids)
qed

lemma workloadObjects_applicable: "list_all (applicable R d) (workloadObjects d cs)"
proof (rule applicable_listI)
  show "set (workloadObjects d cs) \<subseteq> set (ownObjects d cs)" by (auto simp: ownObjects_def appliedObjects_def)
  show "list_all (\<lambda>ob. id_kind (id_of ob) \<in> set (reg_Owns (SetupWithManager R))) (workloadObjects d cs)"
    by (simp add: workloadObjects_def object_ids)
qed

lemma database_applicable:
  assumes "d_DatabaseMode d = DatabaseManaged"
  shows "applicable R d (OConfigMap (SSLConfigMap d))" "applicable R d (OStatefulSet (StatefulSet d))"
    "applicable R d (OService (PostgresService d))"
    "d_NetworkPolicy d \<Longrightarrow> applicable R d (ONetworkPolicy (PostgresNetworkPolicy d))"
  by (rule applicableI [where cs = "[]"];
      use assms in \<open>simp add: ownObjects_def appliedObjects_def databaseObjects_def object_ids\<close>)+

lemma abbenay_applicable:
  assumes "d_Abbenay d"
  shows "d_AbbenayConfigMap d = [] \<Longrightarrow> applicable R d (OConfigMap (DefaultAbbenayConfigMap d))"
    "d_AbbenayPersist d \<Longrightarrow> applicable R d (OPVC (AbbenayPVC d))"
  by (rule applicableI [where cs = "[]"];
      use assms in \<open>simp add: ownObjects_def appliedObjects_def abbenayObjects_def object_ids\<close>)+

lemma route_applicable:
  assumes "HasRouteAPI R"
  shows "d_RouteEnabled d \<and> d_UI d \<Longrightarrow> applicable R d (ORoute (UIRoute d))"
    "d_RouteEnabled d \<Longrightarrow> applicable R d (ORoute (APIRoute d))"
  by (rule applicableI [where cs = "[]"];
      use assms in \<open>simp add: ownObjects_def routeObjects_def del: id_of.simps\<close>)+

subsection \<open>Secrets\<close>

text \<open>
  The contract of \<open>get_or_create\<close> gives the justification of what an \<open>ensure\<close> method
  writes, once it is known that the Secret it builds has the name it looked up.
\<close>

lemma safe_get_or_create:
  assumes "get_or_create L cr (key_in d name) p kept built"
    and built: "\<And>sec. built sec \<Longrightarrow> m_name (sec_meta sec) = name \<and> m_namespace (sec_meta sec) = d_Namespace d
      \<and> id_of (OSecret sec) \<in> key_id d ` set (secret_keys d)"
    and kept: "\<And>s tr err hist. kept s tr err \<Longrightarrow> justified R L cr d (insert (EGetSecret (key_in d name) (Inr s)) hist) tr"
  shows "safe R L cr d p"
proof (rule safeI)
  fix hist tr err
  assume "exec p tr err"
  from get_or_create.branches [OF assms(1) this]
  consider s rest where "tr = EGetSecret (key_in d name) (Inr s) # rest" "kept s rest err"
    | "reads_only tr"
    | e rest sec ob where "tr = EGetSecret (key_in d name) (Inl e) # rest @ [ECreate ob err]" "IsNotFound L e"
        "reads_only rest" "built sec" "SetControllerReference L cr (OSecret sec) = Inr ob"
    by fastforce
  then show "justified R L cr d hist tr"
  proof cases
    case 1
    then show ?thesis using kept by simp
  next
    case 2
    then show ?thesis by (rule justified_reads)
  next
    case 3
    have "EGetSecret \<lparr>nn_Name = m_name (sec_meta sec), nn_Namespace = m_namespace (sec_meta sec)\<rparr> (Inl e)
        = EGetSecret (key_in d name) (Inl e)"
      using built [OF 3(4)] by (simp add: key_in_def)
    moreover have "id_of (OSecret sec) \<in> key_id d ` set (secret_keys d)" using built [OF 3(4)] by blast
    ultimately have "justified_event R L cr d (insert (EGetSecret (key_in d name) (Inl e)) hist \<union> set rest) (ECreate ob err)"
      using 3 unfolding justified_event.simps by blast
    then show ?thesis
      unfolding 3(1) justified.simps justified_append using justified_reads [OF 3(3)]
      by (simp only: justified_event.simps simp_thms)
  qed
qed

lemma secret_idI:
  "(''Secret'', sfx) \<in> set (secret_keys d) \<Longrightarrow> id_of ob = key_id d (''Secret'', sfx) \<Longrightarrow>
   id_of ob \<in> key_id d ` set (secret_keys d)"
  by simp

lemma safe_ensurePostgresSecret:
  assumes "resolved d" and "d_DatabaseMode d = DatabaseManaged"
  shows "safe R L cr d (ensurePostgresSecret L cr d)"
proof (rule safe_get_or_create [OF postgres_secret.get_or_create_axioms])
  fix sec
  have "d_GeneratePostgres d" "d_DatabaseSecretName d = d_Name d @ ''-postgres''"
    using assms by (auto simp: resolved_def DatabaseManaged_def DatabaseExternal_def split: if_splits)
  then show "m_name (sec_meta sec) = d_DatabaseSecretName d \<and> m_namespace (sec_meta sec) = d_Namespace d
      \<and> id_of (OSecret sec) \<in> key_id d ` set (secret_keys d)" if "\<exists>pw. sec = postgresSecret d pw"
    using that by (auto simp: postgresSecret_def postgresMeta_def meta_id_def key_id_def secret_keys_def
        intro!: secret_idI [of "''-postgres''"])
next
  fix s tr err hist
  assume "url_kept L s tr err"
  then show "justified R L cr d (insert (EGetSecret (key_in d (d_DatabaseSecretName d)) (Inr s)) hist) tr"
    using assms(2) unfolding url_kept_def by (auto, blast)
qed

lemma encodeTLSSecret_meta:
  "Inr sec = encodeTLSSecret L d ck sk caDER der \<Longrightarrow> sec_meta sec = postgresMeta d (d_PostgresTLSSecretName d)"
  by (drule sym) (auto simp: encodeTLSSecret_Inr tlsSecret_def)

lemma encodeTLSSecret_kind:
  "Inr sec = encodeTLSSecret L d ck sk caDER der \<Longrightarrow> tm_kind (sec_typeMeta sec) = ''Secret''"
  by (drule sym) (auto simp: encodeTLSSecret_Inr tlsSecret_def)

lemma NewTLSSecret_kind: "exec (NewTLSSecret L d) tr (Inr sec) \<Longrightarrow> tm_kind (sec_typeMeta sec) = ''Secret''"
  by (auto simp: NewTLSSecret_def signCA_def signServer_def Let_def intro: encodeTLSSecret_kind)

lemma NewTLSSecret_meta: "exec (NewTLSSecret L d) tr (Inr sec) \<Longrightarrow> sec_meta sec = postgresMeta d (d_PostgresTLSSecretName d)"
  by (auto simp: NewTLSSecret_def signCA_def signServer_def Let_def intro: encodeTLSSecret_meta)

lemma safe_ensurePostgresTLS:
  assumes "resolved d"
  shows "safe R L cr d (ensurePostgresTLS L cr d)"
proof (rule safe_get_or_create [OF postgres_tls.get_or_create_axioms])
  fix sec
  assume built: "d_GeneratePostgresTLS d \<and> (\<exists>tr. exec (NewTLSSecret L d) tr (Inr sec))"
  then have "sec_meta sec = postgresMeta d (d_PostgresTLSSecretName d)" "tm_kind (sec_typeMeta sec) = ''Secret''"
    using NewTLSSecret_meta NewTLSSecret_kind by blast+
  then show "m_name (sec_meta sec) = d_PostgresTLSSecretName d \<and> m_namespace (sec_meta sec) = d_Namespace d
      \<and> id_of (OSecret sec) \<in> key_id d ` set (secret_keys d)"
    using built assms
    by (auto simp: postgresMeta_def meta_id_def key_id_def secret_keys_def resolved_def
        intro!: secret_idI [of "''-postgres-tls''"])
qed simp

lemma safe_ensureAbbenayToken:
  assumes "resolved d" and "d_GenerateAbbenayToken d"
  shows "safe R L cr d (ensureAbbenayToken L cr d)"
proof (rule safe_get_or_create [OF abbenay_token.get_or_create_axioms])
  fix sec
  assume "\<exists>tok. sec = NewAbbenayTokenSecret d tok"
  then show "m_name (sec_meta sec) = d_AbbenayTokenName d \<and> m_namespace (sec_meta sec) = d_Namespace d
      \<and> id_of (OSecret sec) \<in> key_id d ` set (secret_keys d)"
    using assms
    by (auto simp: NewAbbenayTokenSecret_def meta_id_def key_id_def secret_keys_def resolved_def
        intro!: secret_idI [of "''-abbenay''"])
qed simp

lemma safe_ensureProxyAdminToken:
  assumes "resolved d"
  shows "safe R L cr d (ensureProxyAdminToken L cr d)"
proof (rule safe_get_or_create [OF admin_token.get_or_create_axioms])
  fix sec
  assume "\<exists>tok. sec = NewProxyAdminTokenSecret d tok"
  then show "m_name (sec_meta sec) = d_ProxyAdminTokenName d \<and> m_namespace (sec_meta sec) = d_Namespace d
      \<and> id_of (OSecret sec) \<in> key_id d ` set (secret_keys d)"
    using assms
    by (auto simp: NewProxyAdminTokenSecret_def meta_id_def key_id_def secret_keys_def resolved_def
        intro!: secret_idI [of "''-proxy-admin''"])
qed simp

lemmas safe_secrets = safe_ensurePostgresSecret safe_ensurePostgresTLS safe_ensureAbbenayToken
  safe_ensureProxyAdminToken

subsection \<open>Routes\<close>

text \<open>
  Writing the host of a Route leaves its identity alone, a law of \<open>SetNestedField\<close>, which
  sets the field at the given path and no other.
\<close>

definition host_keeps_id :: "lib \<Rightarrow> bool" where
  "host_keeps_id L \<longleftrightarrow> (\<forall>j v. id_of (ORoute (fst (SetNestedField L j v [''spec'', ''host'']))) = id_of (ORoute j))"

lemma preserveHost_id: "host_keeps_id L \<Longrightarrow> id_of (ORoute (preserveHost L existing desired)) = id_of (ORoute desired)"
  by (auto simp: preserveHost_def host_keeps_id_def simp del: id_of.simps split: prod.split)

lemma safe_applyOrRecreateRoute:
  assumes "applicable R d (ORoute desired)" and "host_keeps_id L" and "HasRouteAPI R"
  shows "safe R L cr d (applyOrRecreateRoute L cr desired)"
proof (rule safeI)
  fix hist tr err
  assume exec: "exec (applyOrRecreateRoute L cr desired) tr err"
  have app: "applicable R d (ORoute (preserveHost L existing desired))" for existing
    using assms(1,2) by (simp add: applicable_def preserveHost_id del: id_of.simps owned_kinds)
  note safeD [OF _ safe_apply_obj [OF app]] safeD [OF _ safe_apply_obj [OF assms(1)]]
  then show "justified R L cr d hist tr"
    using exec assms(3) by (auto simp: applyOrRecreateRoute_def simp del: owned_kinds)
qed

lemma safe_deleteOwnedRoute: "HasRouteAPI R \<Longrightarrow> safe R L cr d (deleteOwnedRoute L cr name ns)"
  by (rule safeI) (auto simp: deleteOwnedRoute_def)

lemma safe_ensureRoutes:
  assumes "host_keeps_id L"
  shows "safe R L cr d (ensureRoutes R L cr d)"
  unfolding ensureRoutes_def ensureRoute_def
  by (intro safe_rules safe_applyOrRecreateRoute safe_deleteOwnedRoute route_applicable)
    (use assms in simp_all)

subsection \<open>The pipeline\<close>

lemma safe_ensureDatabase:
  assumes "resolved d"
  shows "safe R L cr d (ensureDatabase L cr d)"
  unfolding ensureDatabase_def ensureManagedDatabase_def managedPostgresExists_def
  by (intro safe_rules safe_secrets database_applicable assms) simp_all

lemma safe_ensureAbbenay:
  assumes "resolved d"
  shows "safe R L cr d (ensureAbbenay L cr d)"
  unfolding ensureAbbenay_def
  by (intro safe_rules safe_secrets abbenay_applicable assms) simp_all

lemma safe_applyWorkload:
  assumes "host_keeps_id L"
  shows "safe R L cr d (applyWorkload R L cr d)"
  unfolding applyWorkload_def loadCABundle_def Let_def
  by (intro safe_rules workloadObjects_applicable safe_ensureRoutes assms)

lemma safe_ensureAll:
  assumes "host_keeps_id L" and "resolved d"
  shows "safe R L cr d (ensureAll R L cr d)"
  unfolding ensureAll_def applyCore_def
  by (intro safe_rules coreObjects_applicable safe_ensureDatabase safe_ensureAbbenay safe_secrets
      safe_applyWorkload assms)

lemma safe_StatusPatch:
  "cr' = cr\<lparr>apme_Status := apme_Status cr'\<rparr> \<Longrightarrow> safe R L cr d (StatusPatch cr' cr Return)"
  by (auto simp: safe_def)

lemma safe_patchStatus: "safe R L cr d (patchStatus R L cr e leftoverPG recErr)"
  unfolding patchStatus_def publicURL_def databaseReady_def deploymentReady_def imagePullMessage_def
  by (intro safe_rules safe_StatusPatch) simp

lemma safe_reconcile_cr:
  assumes "host_keeps_id L"
  shows "safe R L cr (From E cr) (reconcile_cr R L E cr)"
  unfolding reconcile_cr_def fail_with_def Let_def
  by (intro safe_rules safe_ensureAll safe_patchStatus assms resolved_From)

text \<open>C1: Safety of a reconcile, whatever the API server answers and other clients do meanwhile. Every
  object it applies is owned by the instance, has one of the names reserved for it and a kind
  the controller watches, so a later change of it triggers a reconcile. Every Secret it
  creates was looked up before and reported missing, and has one of the instance's names. The
  only update changes nothing but the \<open>database-url\<close> of the managed credentials Secret as it
  was read. Only Routes are deleted, after they were read and found controlled by the
  instance. The status patch changes nothing but the status.\<close>

theorem Reconcile_writes_justified:
  assumes "exec (Reconcile R L E req) (EGetApme req (Inr cr) # tr) res" and "host_keeps_id L"
  shows "justified R L cr (From E cr) {} tr"
  using assms safeD [OF _ safe_reconcile_cr] by (auto simp: Reconcile_def)

end
