(* ===== verification/Pipeline.thy ===== *)
theory Pipeline
  imports Safety
begin

text \<open>
  What a reconcile achieves when it succeeds, and how it ends when it does not: the
  objects applied in order, the Secrets that are known to exist afterwards, and the
  stop at the first write that fails.
\<close>

subsection \<open>Objects applied by a successful run\<close>

fun patch_ok :: "event \<Rightarrow> client_object list" where
  "patch_ok (EPatch ob None) = [ob]"
| "patch_ok _ = []"

definition patched :: "event list \<Rightarrow> client_object list" where
  "patched tr = concat (map patch_ok tr)"

lemma patched_simps [simp]:
  "patched [] = []" "patched (e # tr) = patch_ok e @ patched tr" "patched (tr1 @ tr2) = patched tr1 @ patched tr2"
  by (simp_all add: patched_def)

lemma reads_only_patched [simp]: "reads_only tr \<Longrightarrow> patched tr = []"
proof (induction tr)
  case (Cons e tr)
  then show ?case by (cases e) simp_all
qed simp

text \<open>The objects of \<open>obs\<close>, in order, each with its owner reference set.\<close>

definition owned_as :: "lib \<Rightarrow> Apme \<Rightarrow> client_object list \<Rightarrow> client_object list \<Rightarrow> bool" where
  "owned_as L cr obs obs' \<longleftrightarrow> list_all2 (\<lambda>ob ob'. SetControllerReference L cr ob = Inr ob') obs obs'"

lemma owned_as_simps [simp]:
  "owned_as L cr [] obs' \<longleftrightarrow> obs' = []"
  "owned_as L cr (ob # obs) [] \<longleftrightarrow> False"
  by (simp_all add: owned_as_def)

lemma owned_as_append: "owned_as L cr a a' \<Longrightarrow> owned_as L cr b b' \<Longrightarrow> owned_as L cr (a @ b) (a' @ b')"
  by (simp add: owned_as_def list_all2_appendI)

definition applies :: "lib \<Rightarrow> Apme \<Rightarrow> client_object list \<Rightarrow> gerror option prog \<Rightarrow> bool" where
  "applies L cr obs p \<longleftrightarrow> (\<forall>tr. exec p tr None \<longrightarrow> owned_as L cr obs (patched tr))"

lemma applies_Return: "applies L cr [] (Return None)"
  by (simp add: applies_def)

lemma applies_obj: "applies L cr [ob] (apply_obj L cr ob)"
  by (auto simp: applies_def apply_obj_def owned_as_def)

lemma applies_attempt: "applies L cr a p \<Longrightarrow> applies L cr b q \<Longrightarrow> applies L cr (a @ b) (attempt p q)"
  unfolding applies_def exec_attempt by (auto simp: owned_as_append)

lemma applies_if:
  "(b \<Longrightarrow> applies L cr obs1 p) \<Longrightarrow> (\<not> b \<Longrightarrow> applies L cr obs2 q) \<Longrightarrow>
   applies L cr (if b then obs1 else obs2) (if b then p else q)"
  by simp

lemma applies_all: "applies L cr obs (apply_all L cr obs)"
proof (induction obs)
  case (Cons ob obs)
  then show ?case using applies_attempt [OF applies_obj, of L cr obs "apply_all L cr obs" ob] by simp
qed (simp add: applies_Return)

lemma applies_get_or_create:
  assumes "get_or_create L cr key p kept built"
    and "\<And>s tr err. kept s tr err \<Longrightarrow> patched tr = []"
  shows "applies L cr [] p"
  unfolding applies_def
proof (intro allI impI)
  fix tr
  assume "exec p tr None"
  from get_or_create.ensured [OF assms(1) this] get_or_create.branches [OF assms(1) this]
  show "owned_as L cr [] (patched tr)" using assms(2) by fastforce
qed

lemma applies_secrets:
  "applies L cr [] (ensurePostgresSecret L cr d)" "applies L cr [] (ensurePostgresTLS L cr d)"
  "applies L cr [] (ensureAbbenayToken L cr d)" "applies L cr [] (ensureProxyAdminToken L cr d)"
  by (rule applies_get_or_create [OF postgres_secret.get_or_create_axioms], force simp: url_kept_def)
    (rule applies_get_or_create [OF postgres_tls.get_or_create_axioms], simp,
     rule applies_get_or_create [OF abbenay_token.get_or_create_axioms], simp,
     rule applies_get_or_create [OF admin_token.get_or_create_axioms], simp)

lemmas applies_rules = applies_attempt applies_secrets applies_obj applies_if applies_Return

lemma applies_managed:
  assumes "d_DatabaseMode d = DatabaseManaged"
  shows "applies L cr (databaseObjects d) (ensureManagedDatabase L cr d)"
proof -
  have "applies L cr
      ([] @ [] @ [OConfigMap (SSLConfigMap d)] @ [OStatefulSet (StatefulSet d)] @ [OService (PostgresService d)]
       @ (if d_NetworkPolicy d then [ONetworkPolicy (PostgresNetworkPolicy d)] else []))
      (ensureManagedDatabase L cr d)"
    unfolding ensureManagedDatabase_def by (intro applies_rules)
  then show ?thesis using assms by (simp add: databaseObjects_def)
qed

lemma applies_abbenay: "applies L cr (abbenayObjects d) (ensureAbbenay L cr d)"
proof -
  have objects: "abbenayObjects d =
      (if \<not> d_Abbenay d then []
       else (if d_GenerateAbbenayToken d then [] else [])
          @ (if d_AbbenayConfigMap d = [] then [OConfigMap (DefaultAbbenayConfigMap d)] else [])
          @ (if d_AbbenayPersist d then [OPVC (AbbenayPVC d)] else []))"
    by (simp add: abbenayObjects_def)
  show ?thesis unfolding objects ensureAbbenay_def by (intro applies_rules)
qed

lemma managed_mode: "resolved d \<Longrightarrow> d_DatabaseMode d \<noteq> DatabaseManaged \<Longrightarrow> \<not> d_GeneratePostgres d"
  by (auto simp: resolved_def)

text \<open>The whole pipeline before the Routes, and the Routes after it.\<close>

lemma ensureAll_applies:
  assumes "exec (ensureAll R L cr d) tr (leftover, None)"
  shows "\<exists>tr1 tr2 tok ca. tr = tr1 @ tr2
    \<and> EGetSecret (key_in d (d_ProxyAdminTokenName d)) (Inr tok) \<in> set tr1
    \<and> owned_as L cr (appliedObjects d (configChecksum d tok ca)) (patched tr1)
    \<and> exec (ensureRoutes R L cr d) tr2 None"
proof -
  obtain t1 t2 t3 t4 t5 where tr: "tr = t1 @ t2 @ t3 @ t4 @ t5"
    and core: "exec (applyCore L cr d) t1 None"
    and db: "exec (ensureDatabase L cr d) t2 (leftover, None)"
    and ab: "exec (ensureAbbenay L cr d) t3 None"
    and tok: "exec (ensureProxyAdminToken L cr d) t4 None"
    and work: "exec (applyWorkload R L cr d) t5 None"
    using assms by (auto simp: ensureAll_def exec_call)
  have 1: "owned_as L cr (coreObjects d) (patched t1)"
    using core applies_all unfolding applyCore_def applies_def by blast
  have 2: "owned_as L cr (databaseObjects d) (patched t2)"
    using db applies_managed [of d L cr] unfolding applies_def
    by (cases "d_DatabaseMode d = DatabaseManaged")
      (auto simp: ensureDatabase_def exec_call managedPostgresExists_def databaseObjects_def)
  have 3: "owned_as L cr (abbenayObjects d) (patched t3)"
    using ab applies_abbenay unfolding applies_def by blast
  have 4: "patched t4 = []"
    using tok applies_secrets(4) unfolding applies_def by fastforce
  obtain tok' s1 ca t tr2 where t5: "t5 = (EGetSecret (key_in d (d_ProxyAdminTokenName d)) (Inr tok') # s1) @ t @ tr2"
    and ca: "exec (loadCABundle L d) s1 (Inr ca)"
    and t: "exec (apply_all L cr (workloadObjects d (configChecksum d tok' ca))) t None"
    and routes: "exec (ensureRoutes R L cr d) tr2 None"
    using work by (auto simp: applyWorkload_def exec_call exec_attempt)
  let ?s = "EGetSecret (key_in d (d_ProxyAdminTokenName d)) (Inr tok') # s1" and ?cs = "configChecksum d tok' ca"
  have "patched ?s = []" using ca by (auto simp: loadCABundle_def Let_def)
  moreover have "owned_as L cr (workloadObjects d ?cs) (patched t)"
    using t applies_all unfolding applies_def by blast
  ultimately have "owned_as L cr (appliedObjects d ?cs) (patched (t1 @ t2 @ t3 @ t4 @ ?s @ t))"
    unfolding appliedObjects_def using 1 2 3 4 by (auto intro!: owned_as_append)
  moreover have "tr = (t1 @ t2 @ t3 @ t4 @ ?s @ t) @ tr2" by (simp add: tr t5)
  moreover have "EGetSecret (key_in d (d_ProxyAdminTokenName d)) (Inr tok') \<in> set (t1 @ t2 @ t3 @ t4 @ ?s @ t)"
    by simp
  ultimately show ?thesis using routes by blast
qed

subsection \<open>Stopping at a failed write\<close>

fun failed_write :: "event \<Rightarrow> bool" where
  "failed_write (EPatch ob (Some e)) = True"
| "failed_write (ECreate ob (Some e)) = True"
| "failed_write (EUpdate ob (Some e)) = True"
| "failed_write _ = False"

text \<open>A failed write is the last event.\<close>

fun stops :: "event list \<Rightarrow> bool" where
  "stops [] = True"
| "stops (e # tr) = ((failed_write e \<longrightarrow> tr = []) \<and> stops tr)"

definition no_failure :: "event list \<Rightarrow> bool" where
  "no_failure tr \<longleftrightarrow> list_all (\<lambda>e. \<not> failed_write e) tr"

lemma no_failure_simps [simp]:
  "no_failure []" "no_failure (e # tr) \<longleftrightarrow> \<not> failed_write e \<and> no_failure tr"
  "no_failure (a @ b) \<longleftrightarrow> no_failure a \<and> no_failure b"
  by (simp_all add: no_failure_def)

lemma no_failure_stops: "no_failure tr \<Longrightarrow> stops tr"
  by (induction tr) simp_all

lemma stops_append: "no_failure a \<Longrightarrow> stops (a @ b) \<longleftrightarrow> stops b"
  by (induction a) auto

lemma harmless_no_failure [simp]: "harmless e \<Longrightarrow> \<not> failed_write e"
  by (cases e) simp_all

lemma reads_only_no_failure [simp]: "reads_only tr \<Longrightarrow> no_failure tr"
  by (auto simp: reads_only_def no_failure_def list_all_iff)

definition careful :: "('a \<Rightarrow> gerror option) \<Rightarrow> 'a prog \<Rightarrow> bool" where
  "careful err_of p \<longleftrightarrow> (\<forall>tr a. exec p tr a \<longrightarrow> stops tr \<and> (err_of a = None \<longrightarrow> no_failure tr))"

lemma carefulI: "(\<And>tr a. exec p tr a \<Longrightarrow> stops tr \<and> (err_of a = None \<longrightarrow> no_failure tr)) \<Longrightarrow> careful err_of p"
  by (auto simp: careful_def)

lemma carefulD: "exec p tr a \<Longrightarrow> careful err_of p \<Longrightarrow> stops tr \<and> (err_of a = None \<longrightarrow> no_failure tr)"
  by (auto simp: careful_def)

lemma careful_Return: "careful f (Return a)"
  by (simp add: careful_def)

lemma careful_attempt:
  assumes "careful (\<lambda>e. e) p" and "careful (\<lambda>e. e) q"
  shows "careful (\<lambda>e. e) (attempt p q)"
proof (rule carefulI)
  fix tr a
  assume "exec (attempt p q) tr a"
  then show "stops tr \<and> (a = None \<longrightarrow> no_failure tr)"
    using assms unfolding exec_attempt careful_def by (auto simp: stops_append)
qed

lemma careful_if: "(b \<Longrightarrow> careful f p) \<Longrightarrow> (\<not> b \<Longrightarrow> careful f q) \<Longrightarrow> careful f (if b then p else q)"
  by simp

lemma failed_write_iff:
  "failed_write (EPatch ob r) \<longleftrightarrow> r \<noteq> None" "failed_write (ECreate ob r) \<longleftrightarrow> r \<noteq> None"
  "failed_write (EUpdate ob r) \<longleftrightarrow> r \<noteq> None"
  by (cases r; simp)+

lemma careful_obj: "careful (\<lambda>e. e) (apply_obj L cr ob)"
  by (rule carefulI) (auto simp: apply_obj_def failed_write_iff)

lemma careful_all: "careful (\<lambda>e. e) (apply_all L cr obs)"
  by (induction obs) (auto intro: careful_attempt careful_obj careful_Return)

lemma careful_get_or_create:
  assumes "get_or_create L cr key p kept built"
    and "\<And>s tr err. kept s tr err \<Longrightarrow> stops tr \<and> (err = None \<longrightarrow> no_failure tr)"
  shows "careful (\<lambda>e. e) p"
proof (rule carefulI)
  fix tr err
  assume "exec p tr err"
  from get_or_create.branches [OF assms(1) this]
  show "stops tr \<and> (err = None \<longrightarrow> no_failure tr)"
    using assms(2) by (fastforce simp: stops_append failed_write_iff no_failure_stops)
qed

lemma careful_secrets:
  "careful (\<lambda>e. e) (ensurePostgresSecret L cr d)" "careful (\<lambda>e. e) (ensurePostgresTLS L cr d)"
  "careful (\<lambda>e. e) (ensureAbbenayToken L cr d)" "careful (\<lambda>e. e) (ensureProxyAdminToken L cr d)"
  by (rule careful_get_or_create [OF postgres_secret.get_or_create_axioms], force simp: url_kept_def failed_write_iff)
    (rule careful_get_or_create [OF postgres_tls.get_or_create_axioms], simp,
     rule careful_get_or_create [OF abbenay_token.get_or_create_axioms], simp,
     rule careful_get_or_create [OF admin_token.get_or_create_axioms], simp)

lemmas careful_rules = careful_attempt careful_if careful_obj careful_all careful_secrets careful_Return

lemma careful_ensureDatabase: "careful snd (ensureDatabase L cr d)"
proof (rule carefulI)
  fix tr a
  have managed: "careful (\<lambda>e. e) (ensureManagedDatabase L cr d)"
    unfolding ensureManagedDatabase_def by (intro careful_rules)
  assume "exec (ensureDatabase L cr d) tr a"
  then show "stops tr \<and> (snd a = None \<longrightarrow> no_failure tr)"
    using carefulD [OF _ managed] by (auto simp: ensureDatabase_def exec_call managedPostgresExists_def split: if_splits)
qed

lemma careful_ensureRoute: "careful (\<lambda>e. e) (ensureRoute L cr d want route name)"
proof (rule carefulI)
  fix tr err
  have wrap: "wrapRouteApplyErr L e h = None \<longleftrightarrow> e = None" for e h
    by (cases e) (simp_all add: wrapRouteApplyErr_def Let_def)
  assume "exec (ensureRoute L cr d want route name) tr err"
  then show "stops tr \<and> (err = None \<longrightarrow> no_failure tr)"
    using wrap
    by (auto simp: ensureRoute_def exec_call applyOrRecreateRoute_def deleteOwnedRoute_def apply_obj_def
        failed_write_iff split: if_splits)
qed

lemma careful_applyWorkload: "careful (\<lambda>e. e) (applyWorkload R L cr d)"
proof (rule carefulI)
  fix tr err
  have routes: "careful (\<lambda>e. e) (ensureRoutes R L cr d)"
    unfolding ensureRoutes_def by (intro careful_rules careful_ensureRoute)
  have rest: "careful (\<lambda>e. e) (attempt (apply_all L cr obs) (ensureRoutes R L cr d))" for obs
    by (intro careful_rules routes)
  have ca: "reads_only t" if "exec (loadCABundle L d) t r" for t r
    using that by (auto simp: loadCABundle_def Let_def)
  assume "exec (applyWorkload R L cr d) tr err"
  then show "stops tr \<and> (err = None \<longrightarrow> no_failure tr)"
    using carefulD [OF _ rest] ca
    by (fastforce simp: applyWorkload_def exec_call stops_append no_failure_stops)
qed

lemma careful_ensureAll: "careful snd (ensureAll R L cr d)"
proof (rule carefulI)
  fix tr a
  have core: "careful (\<lambda>e. e) (applyCore L cr d)" and ab: "careful (\<lambda>e. e) (ensureAbbenay L cr d)"
    unfolding applyCore_def ensureAbbenay_def by (intro careful_rules)+
  assume "exec (ensureAll R L cr d) tr a"
  then show "stops tr \<and> (snd a = None \<longrightarrow> no_failure tr)"
    unfolding ensureAll_def exec_call
    using carefulD [OF _ core] carefulD [OF _ careful_ensureDatabase] carefulD [OF _ ab]
      carefulD [OF _ careful_secrets(4)] carefulD [OF _ careful_applyWorkload]
    by (fastforce simp: exec_call stops_append)
qed

end
