(* ===== verification/Guarantees.thy ===== *)
theory Guarantees
  imports Pipeline
begin

text \<open>
  Whole reconciles: the shape of their executions, what success and failure mean, which
  Secrets exist afterwards, and that instances do not get into each other's way.
\<close>

subsection \<open>The shape of a reconcile\<close>

lemma publicURL_reads: "exec (publicURL R L d) tr r \<Longrightarrow> reads_only tr"
  by (auto simp: publicURL_def)

lemma databaseReady_reads: "exec (databaseReady d) tr r \<Longrightarrow> reads_only tr"
  by (auto simp: databaseReady_def)

lemma imagePullMessage_reads: "exec (imagePullMessage R dep) tr r \<Longrightarrow> reads_only tr"
  by (auto simp: imagePullMessage_def)

lemma deploymentReady_reads: "exec (deploymentReady R d) tr r \<Longrightarrow> reads_only tr"
  by (auto simp: deploymentReady_def exec_call dest: imagePullMessage_reads)

lemma patchStatus_exec:
  assumes "exec (patchStatus R L cr d leftover recErr) tr r"
  shows "\<exists>now t1 url t2 db t3 dep.
    tr = ENow now # t1 @ t2 @ t3
      @ [EStatusPatch (cr\<lparr>apme_Status := newStatus L now cr d leftover recErr url db dep\<rparr>) cr r]
    \<and> exec (publicURL R L d) t1 url \<and> exec (databaseReady d) t2 db \<and> exec (deploymentReady R d) t3 dep
    \<and> reads_only (t1 @ t2 @ t3)"
  using assms publicURL_reads databaseReady_reads deploymentReady_reads
  by (fastforce simp: patchStatus_def exec_call)

lemma reconcile_cr_exec:
  assumes "exec (reconcile_cr R L E cr) tr (res, err)"
  shows "\<exists>work status leftover workErr statusErr.
    tr = work @ status \<and> exec (ensureAll R L cr (From E cr)) work (leftover, workErr)
    \<and> exec (patchStatus R L cr (From E cr) (leftover \<and> workErr = None) workErr) status statusErr
    \<and> err = (if workErr = None then statusErr else workErr)
    \<and> RequeueAfter res = (if workErr = None \<and> statusErr = None then requeueStatus else 0)"
proof -
  obtain work status leftover workErr where
    work: "tr = work @ status" "exec (ensureAll R L cr (From E cr)) work (leftover, workErr)"
    and rest: "exec (case workErr of Some err \<Rightarrow> fail_with R L cr (From E cr) err
       | None \<Rightarrow> call (patchStatus R L cr (From E cr) leftover None) (\<lambda>err. case err of
           Some err \<Rightarrow> Return (\<lparr>RequeueAfter = 0\<rparr>, Some err)
         | None \<Rightarrow> Return (\<lparr>RequeueAfter = requeueStatus\<rparr>, None))) status (res, err)"
    using assms by (auto simp: reconcile_cr_def Let_def exec_call)
  show ?thesis
  proof (cases workErr)
    case None
    then obtain statusErr where "exec (patchStatus R L cr (From E cr) leftover None) status statusErr"
      "err = statusErr" "RequeueAfter res = (if statusErr = None then requeueStatus else 0)"
      using rest by (auto simp: exec_call)
    then show ?thesis using work None
      by (intro exI [of _ work] exI [of _ status] exI [of _ leftover] exI [of _ workErr] exI [of _ statusErr]) auto
  next
    case (Some e)
    then obtain statusErr where "exec (patchStatus R L cr (From E cr) False (Some e)) status statusErr"
      "err = Some e" "RequeueAfter res = 0"
      using rest by (auto simp: fail_with_def exec_call)
    then show ?thesis using work Some
      by (intro exI [of _ work] exI [of _ status] exI [of _ leftover] exI [of _ workErr] exI [of _ statusErr]) auto
  qed
qed


text \<open>C2: Completeness. When a reconcile returns no error, the objects it applied successfully before
  the Routes are exactly those the intent asks for, each once, in this order, each with its
  owner reference: identity and volumes, the managed database, the AI sidecar's objects, the
  Deployment stamped with the checksum of the administration token as it was read, Services,
  Ingress and policy. The Routes were brought in line after them, without error.\<close>

theorem Reconcile_applies_all:
  assumes "exec (Reconcile R L E req) (EGetApme req (Inr cr) # tr) (res, None)"
  shows "\<exists>work routes look st tok ca.
    tr = work @ routes @ look @ [EStatusPatch (cr\<lparr>apme_Status := st\<rparr>) cr None]
    \<and> EGetSecret (key_in (From E cr) (d_ProxyAdminTokenName (From E cr))) (Inr tok) \<in> set work
    \<and> owned_as L cr (appliedObjects (From E cr) (configChecksum (From E cr) tok ca)) (patched work)
    \<and> exec (ensureRoutes R L cr (From E cr)) routes None \<and> reads_only look"
proof -
  have "exec (reconcile_cr R L E cr) tr (res, None)" using assms by (auto simp: Reconcile_def)
  from reconcile_cr_exec [OF this] obtain work status leftover where
    tr: "tr = work @ status" and work: "exec (ensureAll R L cr (From E cr)) work (leftover, None)"
    and status: "exec (patchStatus R L cr (From E cr) leftover None) status None"
    by (auto split: if_splits)
  from ensureAll_applies [OF work] obtain w1 w2 tok ca where w: "work = w1 @ w2"
    "EGetSecret (key_in (From E cr) (d_ProxyAdminTokenName (From E cr))) (Inr tok) \<in> set w1"
    "owned_as L cr (appliedObjects (From E cr) (configChecksum (From E cr) tok ca)) (patched w1)"
    "exec (ensureRoutes R L cr (From E cr)) w2 None"
    by blast
  obtain now t st where "status = (ENow now # t) @ [EStatusPatch (cr\<lparr>apme_Status := st\<rparr>) cr None]" "reads_only t"
    using patchStatus_exec [OF status] by fastforce
  then have "tr = w1 @ w2 @ (ENow now # t) @ [EStatusPatch (cr\<lparr>apme_Status := st\<rparr>) cr None]"
    "reads_only (ENow now # t)" using tr w(1) by simp_all
  then show ?thesis using w(2-4) by blast
qed

subsection \<open>Secrets the pod needs\<close>

text \<open>The Secrets a pod refers to: in the environment of its containers and in its volumes.\<close>

definition refs :: "env_var list \<Rightarrow> string list" where
  "refs es = map sks_name (List.map_filter ev_valueFrom es)"

definition podSecretRefs :: "pod_spec \<Rightarrow> string list" where
  "podSecretRefs p =
     concat (map (\<lambda>c. refs (c_env c)) (ps_initContainers p @ ps_containers p))
     @ concat (map (\<lambda>v. case v_source v of SecretSource n _ \<Rightarrow> [n] | _ \<Rightarrow> []) (ps_volumes p))"

lemma refs_simps [simp]:
  "refs [] = []" "refs (EnvVar k v # es) = refs es" "refs (secretRef k n key # es) = n # refs es"
  "refs (es @ es') = refs es @ refs es'"
  by (simp_all add: refs_def List.map_filter_def EnvVar_def secretRef_def)

lemma refs_env [simp]: "refs (env kvs) = []"
  by (induction kvs rule: env.induct) simp_all

lemma refs_plugins [simp]: "refs (map pluginEnv ps) = []"
  by (induction ps) (simp_all add: pluginEnv_def)

lemma refs_proxy: "refs (d_ProxyEnv (From E cr)) = []"
proof -
  have "refs es = []" if "list_all (\<lambda>e. ev_valueFrom e = None) es" for es
    using that by (induction es) (simp_all add: refs_def List.map_filter_def)
  moreover have "list_all (\<lambda>e. ev_valueFrom e = None) (clusterProxyEnv E)"
    by (auto simp: list_all_iff clusterProxyEnv_set EnvVar_def)
  ultimately show ?thesis by (simp add: resolve_simps)
qed

text \<open>The proxy settings refer to no Secret, so a sidecar refers to those of its own environment.\<close>

context sidecar
begin

lemma own_refs: "refs (d_ProxyEnv d) = [] \<Longrightarrow> refs (c_env (build d)) = refs (own d)"
  by (simp add: environment)

end

lemmas sidecar_refs = engine.own_refs native.own_refs opa.own_refs ansible.own_refs gitleaks.own_refs
  collection_health.own_refs dep_audit.own_refs plugin.own_refs galaxy_proxy.own_refs gateway.own_refs
  ui.own_refs abbenay.own_refs

lemma podContainers_refs:
  assumes "refs (d_ProxyEnv d) = []"
  shows "set (concat (map (\<lambda>c. refs (c_env c)) (podContainers d)))
    = {d_ProxyAdminTokenName d, d_DatabaseSecretName d} \<union> (if d_Abbenay d then {d_AbbenayTokenName d} else {})"
  by (auto simp: podContainers_def sidecar_refs [OF assms] engineEnv_def gatewayEnv_def galaxyProxyEnv_def
      split: option.split)

lemma podInitContainers_refs: "concat (map (\<lambda>c. refs (c_env c)) (podInitContainers d)) = []"
  by (simp add: podInitContainers_def builder_defs)

lemma podVolumes_refs:
  "set (concat (map (\<lambda>v. case v_source v of SecretSource n _ \<Rightarrow> [n] | _ \<Rightarrow> []) (podVolumes d)))
    = (if d_GeneratePostgres d then {d_PostgresTLSSecretName d} else {})"
  by (auto simp: podVolumes_def pluginVolumes_def pvcVol_def emptyVol_def configVol_def Let_def)

lemma podSecretRefs_set:
  "set (podSecretRefs (deploymentPod (From E cr) cs)) =
     {d_ProxyAdminTokenName (From E cr), d_DatabaseSecretName (From E cr)}
     \<union> (if d_Abbenay (From E cr) then {d_AbbenayTokenName (From E cr)} else {})
     \<union> (if d_GeneratePostgres (From E cr) then {d_PostgresTLSSecretName (From E cr)} else {})"
  unfolding podSecretRefs_def deploymentPod_simps set_append map_append concat_append podInitContainers_refs
    podContainers_refs [OF refs_proxy] podVolumes_refs
  by auto

text \<open>A Secret a trace shows to exist: it was read, or it was created without error.\<close>

definition present :: "lib \<Rightarrow> Apme \<Rightarrow> Desired \<Rightarrow> event list \<Rightarrow> string \<Rightarrow> bool" where
  "present L cr d tr name \<longleftrightarrow>
     (\<exists>s. EGetSecret (key_in d name) (Inr s) \<in> set tr)
     \<or> (\<exists>sec ob. ECreate ob None \<in> set tr \<and> SetControllerReference L cr (OSecret sec) = Inr ob
          \<and> m_name (sec_meta sec) = name \<and> m_namespace (sec_meta sec) = d_Namespace d)"

lemma present_mono: "present L cr d tr name \<Longrightarrow> set tr \<subseteq> set tr' \<Longrightarrow> present L cr d tr' name"
  unfolding present_def by blast

lemma present_get_or_create:
  assumes "get_or_create L cr (key_in d name) p kept built" and "exec p tr None"
    and "\<And>sec. built sec \<Longrightarrow> m_name (sec_meta sec) = name \<and> m_namespace (sec_meta sec) = d_Namespace d"
  shows "present L cr d tr name"
  using get_or_create.ensured [OF assms(1,2)] assms(3) unfolding present_def by fastforce

lemma ensureAll_secrets:
  assumes "exec (ensureAll R L cr d) tr (leftover, None)" and "resolved d"
  shows "present L cr d tr (d_ProxyAdminTokenName d)"
    and "d_GeneratePostgres d \<Longrightarrow> present L cr d tr (d_DatabaseSecretName d)"
    and "d_GeneratePostgres d \<Longrightarrow> present L cr d tr (d_PostgresTLSSecretName d)"
    and "d_GenerateAbbenayToken d \<Longrightarrow> present L cr d tr (d_AbbenayTokenName d)"
proof -
  obtain t1 t2 t3 t4 t5 where tr: "tr = t1 @ t2 @ t3 @ t4 @ t5"
    and db: "exec (ensureDatabase L cr d) t2 (leftover, None)"
    and ab: "exec (ensureAbbenay L cr d) t3 None"
    and tok: "exec (ensureProxyAdminToken L cr d) t4 None"
    using assms by (auto simp: ensureAll_def exec_call)
  note mono = present_mono [of L cr d _ _ tr]
  show "present L cr d tr (d_ProxyAdminTokenName d)"
    by (rule mono [OF present_get_or_create [OF admin_token.get_or_create_axioms tok]])
      (auto simp: NewProxyAdminTokenSecret_def tr)
  show "present L cr d tr (d_AbbenayTokenName d)" if gen: "d_GenerateAbbenayToken d"
  proof -
    have "d_Abbenay d" "d_AbbenayTokenName d = d_Name d @ ''-abbenay''"
      using assms(2) gen by (auto simp: resolved_def)
    moreover from this obtain s s' where "t3 = s @ s'" "exec (ensureAbbenayToken L cr d) s None"
      using ab gen unfolding ensureAbbenay_def by (auto simp: exec_attempt)
    ultimately show ?thesis
      by (intro mono [OF present_get_or_create [OF abbenay_token.get_or_create_axioms]])
        (auto simp: NewAbbenayTokenSecret_def tr)
  qed
  assume gen: "d_GeneratePostgres d"
  then have "d_DatabaseMode d = DatabaseManaged" using assms(2) by (simp add: resolved_def)
  then obtain s s' s'' where t2: "t2 = s @ s' @ s''" and tls: "exec (ensurePostgresTLS L cr d) s None"
    and sec: "exec (ensurePostgresSecret L cr d) s' None"
    using db unfolding ensureDatabase_def ensureManagedDatabase_def by (auto simp: exec_call exec_attempt)
  show "present L cr d tr (d_PostgresTLSSecretName d)"
    by (rule mono [OF present_get_or_create [OF postgres_tls.get_or_create_axioms tls]])
      (auto simp: postgresMeta_def tr t2 dest: NewTLSSecret_meta)
  show "present L cr d tr (d_DatabaseSecretName d)"
    by (rule mono [OF present_get_or_create [OF postgres_secret.get_or_create_axioms sec]])
      (auto simp: postgresSecret_def postgresMeta_def tr t2)
qed

text \<open>C10: After a reconcile that reports no error, every Secret the engine pod refers to, in an environment
  variable or in a volume, has been read or created in its namespace, except those the
  resource itself names for the operator to use as they are: the external database Secret
  and an explicit AI token Secret.\<close>

theorem pod_secrets_present:
  assumes "exec (Reconcile R L E req) (EGetApme req (Inr cr) # tr) (res, None)"
  shows "set (podSecretRefs (deploymentPod (From E cr) cs))
    \<subseteq> {n. present L cr (From E cr) tr n}
      \<union> {skr_Name (db_ConnectionSecretRef (spec_Database (apme_Spec cr))),
         skr_Name (ab_TokenSecretRef (spec_Abbenay (apme_Spec cr)))}"
proof -
  let ?d = "From E cr"
  have "exec (reconcile_cr R L E cr) tr (res, None)" using assms by (auto simp: Reconcile_def)
  from reconcile_cr_exec [OF this] obtain work status leftover where
    tr: "tr = work @ status" and work: "exec (ensureAll R L cr ?d) work (leftover, None)"
    by (auto split: if_splits)
  have mono: "present L cr ?d work n \<Longrightarrow> present L cr ?d tr n" for n
    by (rule present_mono) (auto simp: tr)
  note have_secrets = ensureAll_secrets [OF work resolved_From, THEN mono]
  have db: "d_GeneratePostgres ?d \<or> d_DatabaseSecretName ?d = skr_Name (db_ConnectionSecretRef (spec_Database (apme_Spec cr)))"
    and ab: "d_Abbenay ?d \<Longrightarrow> d_GenerateAbbenayToken ?d
        \<or> d_AbbenayTokenName ?d = skr_Name (ab_TokenSecretRef (spec_Abbenay (apme_Spec cr)))"
    by (auto simp: resolve_simps externalDB_def orDefault_def Let_def)
  show ?thesis
    unfolding podSecretRefs_set using have_secrets db ab by auto
qed

end
