(* ===== verification/Steady.thy ===== *)
theory Steady
  imports Guarantees
begin

text \<open>
  The steady state: on a cluster that holds usable Secrets and accepts every write, a
  reconcile succeeds, and leaves the Secrets alone.
\<close>

subsection \<open>Settled clusters\<close>

text \<open>
  A Secret every \<open>ensure\<close> method accepts as it is: controlled by the instance, with TLS
  material, the administration token, and a database URL (if any) the rewriting leaves.
\<close>

definition settled_secret :: "lib \<Rightarrow> Apme \<Rightarrow> Desired \<Rightarrow> secret \<Rightarrow> bool" where
  "settled_secret L cr d s \<longleftrightarrow>
     HasTLSMaterial (Some s) \<and> IsControlledBy L (OSecret s) cr \<and> data_len s (d_ProxyAdminTokenKey d) \<noteq> 0
     \<and> (case map_of (sec_data s) ''database-url'' of None \<Rightarrow> True
        | Some raw \<Rightarrow> raw = [] \<or> WithVerifyFullTLS L raw = Inr raw)"

definition settled_ca :: "lib \<Rightarrow> Desired \<Rightarrow> config_map \<Rightarrow> bool" where
  "settled_ca L d cm \<longleftrightarrow>
     (case map_of (cm_data cm) (d_GalaxyCAKey d) of None \<Rightarrow> False
      | Some ca \<Rightarrow> TrimSpace ca \<noteq> [] \<and> AppendCertsFromPEM L ca)"

text \<open>
  A server in this state: every Secret read is settled, the CA bundle is usable, writes
  succeed, owner references can be set, and a Route is found or reported missing.
\<close>

definition settled :: "'w server \<Rightarrow> lib \<Rightarrow> Apme \<Rightarrow> Desired \<Rightarrow> bool" where
  "settled S L cr d \<longleftrightarrow>
     (\<forall>n w. \<exists>s. sv_GetSecret S n w = Inr s \<and> settled_secret L cr d s)
   \<and> (\<forall>n w. d_GalaxyCAConfigMap d = [] \<or> (\<exists>cm. sv_GetConfigMap S n w = Inr cm \<and> settled_ca L d cm))
   \<and> (\<forall>n w e. sv_GetRoute S n w = Inl e \<longrightarrow> IsNotFound L e)
   \<and> (\<forall>ob w. fst (sv_Patch S ob w) = None) \<and> (\<forall>ob w. fst (sv_Delete S ob w) = None)
   \<and> (\<forall>a b w. fst (sv_StatusPatch S a b w) = None)
   \<and> (\<forall>ob. \<exists>ob'. SetControllerReference L cr ob = Inr ob')
   \<and> IgnoreNotFound L None = None"

fun keeps_secrets :: "event \<Rightarrow> bool" where
  "keeps_secrets (ECreate ob r) = False"
| "keeps_secrets (EUpdate ob r) = False"
| "keeps_secrets e = True"

text \<open>A program that ends without error and without writing a Secret, from every state.\<close>

definition smooth :: "'w server \<Rightarrow> ('a \<Rightarrow> bool) \<Rightarrow> 'a prog \<Rightarrow> bool" where
  "smooth S good p \<longleftrightarrow>
     (\<forall>w. good (fst (snd (run S p w))) \<and> list_all keeps_secrets (fst (run S p w)))"

lemma smooth_Return: "good a \<Longrightarrow> smooth S good (Return a)"
  by (simp add: smooth_def)

lemma smooth_call:
  assumes "smooth S good p" and "\<And>a. good a \<Longrightarrow> smooth S good' (k a)"
  shows "smooth S good' (call p k)"
  unfolding smooth_def
proof
  fix w
  obtain tr1 a w1 where p: "run S p w = (tr1, a, w1)" by (cases "run S p w")
  obtain tr2 b w2 where k: "run S (k a) w1 = (tr2, b, w2)" by (cases "run S (k a) w1")
  have "good a \<and> list_all keeps_secrets tr1"
    using assms(1) p unfolding smooth_def by (metis fst_conv snd_conv)
  moreover from this have "good' b \<and> list_all keeps_secrets tr2"
    using assms(2) k unfolding smooth_def by (metis fst_conv snd_conv)
  ultimately show "good' (fst (snd (run S (call p k) w))) \<and> list_all keeps_secrets (fst (run S (call p k) w))"
    by (simp add: run_call p k)
qed

lemma smooth_mono: "smooth S good p \<Longrightarrow> (\<And>a. good a \<Longrightarrow> good' a) \<Longrightarrow> smooth S good' p"
  by (auto simp: smooth_def)

definition fine :: "gerror option \<Rightarrow> bool" where
  "fine err \<longleftrightarrow> err = None"

lemma smooth_attempt: "smooth S fine p \<Longrightarrow> smooth S fine q \<Longrightarrow> smooth S fine (attempt p q)"
  unfolding attempt_def by (rule smooth_call [of S fine p]) (auto simp: fine_def)

lemma smooth_if: "(b \<Longrightarrow> smooth S good p) \<Longrightarrow> (\<not> b \<Longrightarrow> smooth S good q) \<Longrightarrow> smooth S good (if b then p else q)"
  by simp

subsection \<open>The methods on a settled cluster\<close>

lemma smooth_apply_obj:
  assumes "settled S L cr d"
  shows "smooth S fine (apply_obj L cr ob)"
proof -
  obtain ob' where "SetControllerReference L cr ob = Inr ob'" using assms unfolding settled_def by blast
  then show ?thesis using assms by (simp add: smooth_def apply_obj_def settled_def emit_def fine_def Let_def)
qed

lemma smooth_apply_all: "settled S L cr d \<Longrightarrow> smooth S fine (apply_all L cr obs)"
  by (induction obs) (auto intro: smooth_attempt smooth_apply_obj smooth_Return simp: fine_def)

lemma smooth_GetSecret:
  assumes "settled S L cr d" and "\<And>s. settled_secret L cr d s \<Longrightarrow> smooth S good (f (Inr s))"
  shows "smooth S good (GetSecret n f)"
  unfolding smooth_def
proof
  fix w
  obtain s where "sv_GetSecret S n w = Inr s" "settled_secret L cr d s" using assms(1) unfolding settled_def by blast
  then show "good (fst (snd (run S (GetSecret n f) w))) \<and> list_all keeps_secrets (fst (run S (GetSecret n f) w))"
    using assms(2) [of s] by (simp add: smooth_def emit_def Let_def)
qed

lemma smooth_secrets:
  assumes "settled S L cr d"
  shows "smooth S fine (ensurePostgresSecret L cr d)" "smooth S fine (ensurePostgresTLS L cr d)"
    "smooth S fine (ensureAbbenayToken L cr d)" "smooth S fine (ensureProxyAdminToken L cr d)"
proof -
  have "smooth S fine (ensurePostgresURLTLS L s)" if "settled_secret L cr d s" for s
    using that by (auto simp: settled_secret_def ensurePostgresURLTLS_def fine_def intro!: smooth_Return split: option.splits)
  then show "smooth S fine (ensurePostgresSecret L cr d)"
    unfolding ensurePostgresSecret_def by (intro smooth_GetSecret [OF assms]) simp
  show "smooth S fine (ensurePostgresTLS L cr d)" "smooth S fine (ensureAbbenayToken L cr d)"
    "smooth S fine (ensureProxyAdminToken L cr d)"
    unfolding ensurePostgresTLS_def ensureAbbenayToken_def ensureProxyAdminToken_def
    by (intro smooth_GetSecret [OF assms]; simp add: settled_secret_def fine_def smooth_Return)+
qed

lemma smooth_loadCABundle:
  assumes "settled S L cr d"
  shows "smooth S (\<lambda>r. \<exists>ca. r = Inr ca) (loadCABundle L d)"
  unfolding smooth_def
proof
  fix w
  consider "d_GalaxyCAConfigMap d = []"
    | cm where "sv_GetConfigMap S (key_in d (d_GalaxyCAConfigMap d)) w = Inr cm" "settled_ca L d cm"
    using assms unfolding settled_def by blast
  then show "(\<exists>ca. fst (snd (run S (loadCABundle L d) w)) = Inr ca) \<and> list_all keeps_secrets (fst (run S (loadCABundle L d) w))"
    by cases (auto simp: loadCABundle_def settled_ca_def emit_def Let_def split: option.splits)
qed

lemma smooth_ensureRoute:
  assumes "settled S L cr d"
  shows "smooth S fine (ensureRoute L cr d want route name)"
proof -
  have found: "\<And>n w e. sv_GetRoute S n w = Inl e \<Longrightarrow> IsNotFound L e" using assms unfolding settled_def by blast
  have apply_ok: "smooth S fine (apply_obj L cr ob)" for ob by (rule smooth_apply_obj [OF assms])
  have delete: "smooth S fine (Delete ob Return)" "smooth S fine (Delete ob (\<lambda>err. Return (IgnoreNotFound L err)))" for ob
    using assms by (simp_all add: smooth_def settled_def emit_def Let_def fine_def)
  have get: "smooth S fine (GetRoute n f)"
    if "\<And>e. IsNotFound L e \<Longrightarrow> smooth S fine (f (Inl e))" "\<And>rt. smooth S fine (f (Inr rt))" for n f
    unfolding smooth_def
  proof
    fix w
    show "fine (fst (snd (run S (GetRoute n f) w))) \<and> list_all keeps_secrets (fst (run S (GetRoute n f) w))"
      using that found [of n w] by (cases "sv_GetRoute S n w") (simp_all add: smooth_def emit_def Let_def)
  qed
  have "smooth S fine (applyOrRecreateRoute L cr route)"
    unfolding applyOrRecreateRoute_def
    by (rule get) (auto intro!: smooth_if apply_ok delete smooth_Return simp: fine_def)
  moreover have "smooth S fine (deleteOwnedRoute L cr name (d_Namespace d))"
    unfolding deleteOwnedRoute_def
    by (rule get) (auto intro!: smooth_if delete smooth_Return simp: fine_def)
  ultimately show ?thesis
    unfolding ensureRoute_def
    by (auto intro!: smooth_call [of S fine] smooth_Return simp: fine_def wrapRouteApplyErr_def)
qed

lemma smooth_reads:
  "(\<And>r. smooth S good (f1 r)) \<Longrightarrow> smooth S good (GetStatefulSet n f1)"
  "(\<And>r. smooth S good (f2 r)) \<Longrightarrow> smooth S good (GetDeployment n f2)"
  "(\<And>r. smooth S good (f3 r)) \<Longrightarrow> smooth S good (ListPods rd ns sel f3)"
  "(\<And>r. smooth S good (f4 r)) \<Longrightarrow> smooth S good (GetRoute n f4)"
  "(\<And>r. smooth S good (f5 r)) \<Longrightarrow> smooth S good (GetSecret n f5)"
  "(\<And>t. smooth S good (f6 t)) \<Longrightarrow> smooth S good (Now f6)"
  by (simp_all add: smooth_def emit_def Let_def)

lemma smooth_ensureDatabase:
  assumes "settled S L cr d"
  shows "smooth S (\<lambda>r. snd r = None) (ensureDatabase L cr d)"
proof -
  note ok = smooth_secrets [OF assms] smooth_apply_obj [OF assms]
  have "smooth S fine (ensureManagedDatabase L cr d)"
    unfolding ensureManagedDatabase_def
    by (intro smooth_attempt smooth_if ok smooth_Return) (simp add: fine_def)
  moreover have "smooth S (\<lambda>_. True) (managedPostgresExists d)"
    unfolding managedPostgresExists_def by (intro smooth_reads smooth_Return) simp
  ultimately show ?thesis
    unfolding ensureDatabase_def
    by (auto intro!: smooth_if smooth_Return intro: smooth_call simp: fine_def)
qed

lemma smooth_ensureAbbenay:
  assumes "settled S L cr d"
  shows "smooth S fine (ensureAbbenay L cr d)"
  unfolding ensureAbbenay_def
  by (intro smooth_attempt smooth_if smooth_secrets [OF assms] smooth_apply_obj [OF assms] smooth_Return)
    (simp_all add: fine_def)

lemma smooth_applyWorkload:
  assumes "settled S L cr d"
  shows "smooth S fine (applyWorkload R L cr d)"
proof -
  have routes: "smooth S fine (ensureRoutes R L cr d)"
    unfolding ensureRoutes_def
    by (intro smooth_attempt smooth_if smooth_ensureRoute [OF assms] smooth_Return) (simp add: fine_def)
  have rest: "smooth S fine (attempt (apply_all L cr obs) (ensureRoutes R L cr d))" for obs
    by (intro smooth_attempt smooth_apply_all [OF assms] routes)
  show ?thesis
    unfolding applyWorkload_def
  proof (rule smooth_GetSecret [OF assms])
    fix tok
    assume "settled_secret L cr d tok"
    have "smooth S fine (call (loadCABundle L d) (\<lambda>r. case r of Inl err \<Rightarrow> Return (Some err)
      | Inr caBundle \<Rightarrow> attempt (apply_all L cr (workloadObjects d (configChecksum d tok caBundle))) (ensureRoutes R L cr d)))"
      by (rule smooth_call [OF smooth_loadCABundle [OF assms]]) (auto simp: rest)
    then show "smooth S fine (case Inr tok of Inl err \<Rightarrow> Return (Some err) | Inr proxyToken \<Rightarrow>
        call (loadCABundle L d) (\<lambda>r. case r of Inl err \<Rightarrow> Return (Some err)
      | Inr caBundle \<Rightarrow> attempt (apply_all L cr (workloadObjects d (configChecksum d proxyToken caBundle))) (ensureRoutes R L cr d)))"
      by simp
  qed
qed

lemma smooth_ensureAll:
  assumes "settled S L cr d"
  shows "smooth S (\<lambda>r. snd r = None) (ensureAll R L cr d)"
  unfolding ensureAll_def applyCore_def
  by (rule smooth_call [OF smooth_apply_all [OF assms]], simp add: fine_def,
      rule smooth_call [OF smooth_ensureDatabase [OF assms]], clarsimp,
      rule smooth_call [OF smooth_ensureAbbenay [OF assms]], simp add: fine_def,
      rule smooth_call [OF smooth_secrets(4) [OF assms]], simp add: fine_def,
      rule smooth_call [OF smooth_applyWorkload [OF assms]], simp add: fine_def smooth_Return)

lemma smooth_patchStatus:
  assumes "settled S L cr d"
  shows "smooth S fine (patchStatus R L cr d leftover recErr)"
proof -
  let ?any = "\<lambda>_. True"
  have url: "smooth S ?any (publicURL R L d)"
    unfolding publicURL_def by (intro smooth_if smooth_reads smooth_Return) simp_all
  have db: "smooth S ?any (databaseReady d)"
    unfolding databaseReady_def by (intro smooth_if smooth_reads smooth_Return) simp_all
  have pull: "smooth S ?any (imagePullMessage R dep)" for dep
    unfolding imagePullMessage_def
    by (cases "dep_selector dep") (auto intro!: smooth_if smooth_reads smooth_Return)
  have dep: "smooth S ?any (deploymentReady R d)"
    unfolding deploymentReady_def
    by (auto intro!: smooth_reads smooth_if smooth_Return smooth_call [OF pull] split: sum.split)
  have patch: "smooth S fine (StatusPatch new cr Return)" for new
    using assms by (simp add: smooth_def settled_def emit_def Let_def fine_def)
  show ?thesis
    unfolding patchStatus_def
    by (intro smooth_reads smooth_call [OF url] smooth_call [OF db] smooth_call [OF dep] patch)
qed

lemma smooth_reconcile_cr:
  assumes "settled S L cr (From E cr)"
  shows "smooth S (\<lambda>r. r = (\<lparr>RequeueAfter = requeueStatus\<rparr>, None)) (reconcile_cr R L E cr)"
  unfolding reconcile_cr_def Let_def
  by (rule smooth_call [OF smooth_ensureAll [OF assms]], clarsimp,
      rule smooth_call [OF smooth_patchStatus [OF assms]], simp add: fine_def smooth_Return)


subsection \<open>A settled cluster\<close>

text \<open>
  The cluster the witnesses run on: it answers every lookup of a Secret with one that is
  controlled by the example instance and complete, has a CA bundle, a Deployment and a
  database that are ready, no Routes yet, and accepts every write.
\<close>

definition settled_example :: secret where
  "settled_example =
     \<lparr>sec_typeMeta = typeMeta ''Secret'' ''v1'',
      sec_meta = zero_meta\<lparr>m_name := ''any'', m_ownerRefs := [owner_of example_cr]\<rparr>,
      sec_type = ''Opaque'',
      sec_data =
        [(''tls.crt'', ''crt''), (''tls.key'', ''key''), (''ca.crt'', ''ca''), (''token'', ''secret''),
         (''database-url'', ''postgresql+asyncpg://u:p@db:5432/x?ssl=verify-full'')],
      sec_stringData = []\<rparr>"

definition example_lib :: lib where
  "example_lib = std_lib\<lparr>SetControllerReference := (\<lambda>cr ob. Inr (set_owner cr ob))\<rparr>"

definition missing :: gerror where
  "missing = ApiError ''NotFound'' ''not found''"

definition example_sts :: stateful_set where
  "example_sts = (StatefulSet (From example_env example_cr))\<lparr>sts_readyReplicas := 1\<rparr>"

definition example_dep :: deployment where
  "example_dep = (Deployment (From example_env example_cr) ''0'')\<lparr>dep_readyReplicas := 1\<rparr>"

definition settled_server :: "unit server" where
  "settled_server =
     \<lparr>sv_GetApme = (\<lambda>n w. Inr example_cr),
      sv_GetSecret = (\<lambda>n w. Inr settled_example),
      sv_GetConfigMap = (\<lambda>n w. Inr \<lparr>cm_type = typeMeta ''ConfigMap'' ''v1'', cm_meta = zero_meta,
        cm_data = [(''ca-bundle.crt'', ''-----BEGIN CERTIFICATE-----'')]\<rparr>),
      sv_GetStatefulSet = (\<lambda>n w. Inr example_sts),
      sv_GetDeployment = (\<lambda>n w. Inr example_dep),
      sv_GetRoute = (\<lambda>n w. Inl missing),
      sv_ListPods = (\<lambda>rd ns sel w. Inr []),
      sv_Patch = (\<lambda>ob w. (None, w)),
      sv_Create = (\<lambda>ob w. (None, w)),
      sv_Update = (\<lambda>ob w. (None, w)),
      sv_Delete = (\<lambda>ob w. (None, w)),
      sv_StatusPatch = (\<lambda>a b w. (None, w)),
      sv_RandRead = (\<lambda>n w. Inr (replicate n CHR ''x'')),
      sv_RandInt = (\<lambda>m w. Inr 7),
      sv_GenerateKey = (\<lambda>w. Inr 7),
      sv_CreateCertificate = (\<lambda>tpl parent pub priv w. Inr ''der''),
      sv_Now = (\<lambda>w. 0)\<rparr>"

lemma settled_url: "WithVerifyFullTLS std_lib ''postgresql+asyncpg://u:p@db:5432/x?ssl=verify-full''
    = Inr ''postgresql+asyncpg://u:p@db:5432/x?ssl=verify-full''"
  by code_simp

lemma WithVerifyFullTLS_example: "WithVerifyFullTLS example_lib raw = WithVerifyFullTLS std_lib raw"
  by (simp add: WithVerifyFullTLS_def example_lib_def)

lemma settled_example_secret: "settled_secret example_lib example_cr (From example_env example_cr) settled_example"
  by (simp add: settled_secret_def settled_example_def WithVerifyFullTLS_example settled_url
      HasTLSMaterial_def data_len_def tls_keys resolve_simps)
    (simp add: example_lib_def std_lib_def owner_of_def)

lemma settled_example_ca: "settled_ca example_lib (From example_env example_cr)
    \<lparr>cm_type = typeMeta ''ConfigMap'' ''v1'', cm_meta = zero_meta,
     cm_data = [(''ca-bundle.crt'', ''-----BEGIN CERTIFICATE-----'')]\<rparr>"
proof -
  have "d_GalaxyCAKey (From example_env example_cr) = ''ca-bundle.crt''" by code_simp
  moreover have "TrimSpace ''-----BEGIN CERTIFICATE-----'' \<noteq> []" by code_simp
  moreover have "Contains ''-----BEGIN CERTIFICATE-----'' ''-----BEGIN CERTIFICATE-----''" by code_simp
  ultimately show ?thesis by (simp add: settled_ca_def example_lib_def std_lib_def)
qed

lemma settled_server_settled: "settled settled_server example_lib example_cr (From example_env example_cr)"
  using settled_example_secret settled_example_ca
  by (simp add: settled_def settled_server_def missing_def) (simp add: example_lib_def std_lib_def)

end
