(* ===== verification/Status.thy ===== *)
theory Status
  imports Guarantees
begin

text \<open>
  What \<open>patchStatus\<close> reports: the four conditions as a table over what the reconcile saw,
  when the instance is called ready, and that a status is a fixed point of reporting.
\<close>

subsection \<open>Conditions by type\<close>

text \<open>
  The documented behaviour of \<open>meta.SetStatusCondition\<close>: a condition replaces the first one
  of its type in place or is appended, and its transition time is taken over from that one
  unless the status changes.
\<close>

definition documented_conditions :: "lib \<Rightarrow> bool" where
  "documented_conditions L \<longleftrightarrow> SetStatusCondition L = std_SetStatusCondition"

definition cond_of :: "string \<Rightarrow> Condition list \<Rightarrow> Condition option" where
  "cond_of typ conds = find (\<lambda>c. cond_Type c = typ) conds"

lemma cond_of_simps [simp]:
  "cond_of typ [] = None"
  "cond_of typ (c # conds) = (if cond_Type c = typ then Some c else cond_of typ conds)"
  by (simp_all add: cond_of_def)

definition replaced :: "Condition option \<Rightarrow> Condition \<Rightarrow> Condition" where
  "replaced old c = c\<lparr>cond_LastTransitionTime :=
     (case old of None \<Rightarrow> cond_LastTransitionTime c
      | Some x \<Rightarrow> if cond_Status x = cond_Status c then cond_LastTransitionTime x else cond_LastTransitionTime c)\<rparr>"

lemma cond_of_set:
  "cond_of typ (std_SetStatusCondition conds c) =
     (if typ = cond_Type c then Some (replaced (cond_of typ conds) c) else cond_of typ conds)"
  by (induction conds) (auto simp: replaced_def)

lemma set_same: "cond_of (cond_Type c) conds = Some (replaced (cond_of (cond_Type c) conds) c) \<Longrightarrow>
    std_SetStatusCondition conds c = conds"
  by (induction conds) (auto simp: replaced_def split: if_splits)

definition says :: "Condition list \<Rightarrow> int \<Rightarrow> string \<Rightarrow> string \<times> string \<times> string \<Rightarrow> bool" where
  "says conds gen typ srm \<longleftrightarrow>
     (\<exists>c. cond_of typ conds = Some c \<and> cond_Type c = typ \<and> cond_ObservedGeneration c = gen
        \<and> (cond_Status c, cond_Reason c, cond_Message c) = srm)"

lemma says_set:
  assumes "documented_conditions L"
  shows "says (set_cond L now gen typ st rs ms conds) g typ' srm \<longleftrightarrow>
     (if typ' = typ then g = gen \<and> srm = (st, rs, ms) else says conds g typ' srm)"
  using assms by (auto simp: says_def set_cond_def documented_conditions_def cond_of_set replaced_def)

lemma cond_types_distinct [simp]:
  "condReady \<noteq> condProgressing" "condReady \<noteq> condDegraded" "condReady \<noteq> condDatabaseReady"
  "condProgressing \<noteq> condReady" "condProgressing \<noteq> condDegraded" "condProgressing \<noteq> condDatabaseReady"
  "condDegraded \<noteq> condReady" "condDegraded \<noteq> condProgressing" "condDegraded \<noteq> condDatabaseReady"
  "condDatabaseReady \<noteq> condReady" "condDatabaseReady \<noteq> condProgressing" "condDatabaseReady \<noteq> condDegraded"
  by (simp_all add: cond_names)

definition database_cond :: "bool \<times> string \<Rightarrow> string \<times> string \<times> string" where
  "database_cond db = (if fst db then (''True'', ''Available'', snd db) else (''False'', ''Pending'', snd db))"

lemma newStatus_says:
  assumes "documented_conditions L"
  shows "says (status_Conditions (newStatus L now cr d leftover err url db dep)) g typ srm \<longleftrightarrow>
    (if typ = condReady then g = apme_Generation cr \<and> srm = ready leftover err (fst dep) (fst db) (fst (snd dep))
     else if typ = condProgressing
       then g = apme_Generation cr \<and> srm = progressing leftover err (fst dep) (fst db) (fst (snd dep))
     else if typ = condDegraded
       then g = apme_Generation cr \<and> srm = degraded leftover err (snd (snd dep)) (fst (snd dep))
     else if typ = condDatabaseReady then g = apme_Generation cr \<and> srm = database_cond db
     else says (status_Conditions (apme_Status cr)) g typ srm)"
  using assms
  by (cases db; cases dep) (simp add: newStatus_def Let_def says_set database_cond_def split: prod.split)

definition cond_status :: "string \<Rightarrow> Condition list \<Rightarrow> string option" where
  "cond_status typ conds = map_option cond_Status (cond_of typ conds)"

lemma says_status: "says conds g typ (st, rs, ms) \<Longrightarrow> cond_status typ conds = Some st"
  by (auto simp: says_def cond_status_def)

lemma newStatus_cond_status:
  assumes "documented_conditions L"
  shows "cond_status condReady (status_Conditions (newStatus L now cr d leftover err url db dep))
      = Some (fst (ready leftover err (fst dep) (fst db) (fst (snd dep))))"
    "cond_status condProgressing (status_Conditions (newStatus L now cr d leftover err url db dep))
      = Some (fst (progressing leftover err (fst dep) (fst db) (fst (snd dep))))"
    "cond_status condDegraded (status_Conditions (newStatus L now cr d leftover err url db dep))
      = Some (fst (degraded leftover err (snd (snd dep)) (fst (snd dep))))"
    "cond_status condDatabaseReady (status_Conditions (newStatus L now cr d leftover err url db dep))
      = Some (fst (database_cond db))"
  using newStatus_says [OF assms, of now cr d leftover err url db dep]
  by (metis (no_types, lifting) says_status cond_types_distinct surjective_pairing)+


subsection \<open>Reporting again\<close>

lemma says_fixed:
  assumes "documented_conditions L" and "says conds gen typ (st, rs, ms)"
  shows "set_cond L now gen typ st rs ms conds = conds"
proof -
  obtain x where x: "cond_of typ conds = Some x" "cond_Type x = typ" "cond_Status x = st" "cond_Reason x = rs"
    "cond_Message x = ms" "cond_ObservedGeneration x = gen"
    using assms(2) by (auto simp: says_def)
  let ?c = "\<lparr>cond_Type = typ, cond_Status = st, cond_Reason = rs, cond_Message = ms,
        cond_LastTransitionTime = now, cond_ObservedGeneration = gen\<rparr>"
  have "replaced (Some x) ?c = x" using x by (cases x) (simp add: replaced_def)
  then have "std_SetStatusCondition conds ?c = conds" using x(1) by (intro set_same) simp
  then show ?thesis using assms(1) by (simp add: set_cond_def documented_conditions_def)
qed

text \<open>C13: Reporting is idempotent: a reconcile that sees what the last one saw, at whatever later time,
  computes the very status the resource already has, transition times included, so its
  status patch is empty and cannot trigger another reconcile.\<close>

theorem status_stable:
  assumes "documented_conditions L"
  shows "newStatus L later (cr\<lparr>apme_Status := newStatus L now cr d leftover err url db dep\<rparr>) d leftover err url db dep
    = newStatus L now cr d leftover err url db dep"
proof -
  let ?st = "newStatus L now cr d leftover err url db dep" and ?g = "apme_Generation cr"
  let ?c = "status_Conditions ?st"
  obtain dbReady dbMsg where db: "db = (dbReady, dbMsg)" by (cases db)
  obtain depReady depMsg imagePull where dep: "dep = (depReady, depMsg, imagePull)" by (cases dep)
  have unchanged: "set_cond L later ?g typ st rs ms ?c = ?c" if "says ?c ?g typ (st, rs, ms)" for "typ" st rs ms
    by (rule says_fixed [OF assms that])
  have said: "says ?c ?g condDatabaseReady (database_cond db)"
    "says ?c ?g condDegraded (degraded leftover err imagePull depMsg)"
    "says ?c ?g condProgressing (progressing leftover err depReady dbReady depMsg)"
    "says ?c ?g condReady (ready leftover err depReady dbReady depMsg)"
    unfolding newStatus_says [OF assms] by (simp_all add: db dep)
  have step: "(case srm of (status, reason, msg) \<Rightarrow> set_cond L later ?g typ status reason msg) ?c = ?c"
    if "says ?c ?g typ srm" for "typ" srm
    using that unchanged by (cases srm) simp
  have rest: "status_ObservedGeneration ?st = ?g" "status_Topology ?st = TopologySimple"
    "status_Database ?st = d_DatabaseMode d" "status_URL ?st = url"
    by (simp_all add: newStatus_def Let_def db dep)
  have "newStatus L later (cr\<lparr>apme_Status := ?st\<rparr>) d leftover err url db dep
    = ?st\<lparr>status_ObservedGeneration := ?g, status_Topology := TopologySimple,
       status_Database := d_DatabaseMode d, status_URL := url, status_Conditions := ?c\<rparr>"
    unfolding newStatus_def [of L later] Let_def db dep
    using said [THEN step] by (cases dbReady) (simp_all add: database_cond_def db dep)
  also have "\<dots> = ?st" using rest by (cases ?st) simp
  finally show ?thesis .
qed

end
