(* ===== verification/Requests.thy ===== *)
theory Requests
  imports Guarantees
begin

text \<open>
  How much a reconcile asks of its environment: it ends after a bounded number of
  requests, whatever the answers are, and lists Pods at most once, for its status.
\<close>

fun lists_pods :: "event \<Rightarrow> bool" where
  "lists_pods (EListPods rd ns sel r) = True"
| "lists_pods _ = False"

text \<open>At most \<open>n\<close> requests, none of them a list of Pods.\<close>

definition brief :: "nat \<Rightarrow> event list \<Rightarrow> bool" where
  "brief n tr \<longleftrightarrow> length tr \<le> n \<and> list_all (\<lambda>e. \<not> lists_pods e) tr"

lemma brief_Nil [simp]: "brief n []"
  by (simp add: brief_def)

lemma brief_Cons [simp]: "brief n (e # tr) \<longleftrightarrow> n \<noteq> 0 \<and> \<not> lists_pods e \<and> brief (n - 1) tr"
  by (cases n) (auto simp: brief_def)

lemma brief_append: "brief m a \<Longrightarrow> brief n b \<Longrightarrow> m + n \<le> k \<Longrightarrow> brief k (a @ b)"
  by (simp add: brief_def)

lemma brief_mono: "brief m a \<Longrightarrow> m \<le> n \<Longrightarrow> brief n a"
  by (simp add: brief_def)

definition within :: "nat \<Rightarrow> 'a prog \<Rightarrow> bool" where
  "within n p \<longleftrightarrow> (\<forall>tr a. exec p tr a \<longrightarrow> brief n tr)"

lemma withinI: "(\<And>tr a. exec p tr a \<Longrightarrow> brief n tr) \<Longrightarrow> within n p"
  by (auto simp: within_def)

lemma withinD: "exec p tr a \<Longrightarrow> within n p \<Longrightarrow> brief n tr"
  by (auto simp: within_def)

lemma within_mono: "within m p \<Longrightarrow> m \<le> n \<Longrightarrow> within n p"
  by (auto simp: within_def intro: brief_mono)

lemma within_Return: "within n (Return a)"
  by (simp add: within_def)

lemma within_call: "within m p \<Longrightarrow> m \<le> n \<Longrightarrow> (\<And>a. within (n - m) (k a)) \<Longrightarrow> within n (call p k)"
  by (fastforce simp: within_def exec_call intro: brief_append)

lemma within_attempt: "within m p \<Longrightarrow> m \<le> n \<Longrightarrow> within (n - m) q \<Longrightarrow> within n (attempt p q)"
  unfolding attempt_def by (rule within_call) (auto simp: within_Return split: option.split)

lemma within_if: "within n p \<Longrightarrow> within n q \<Longrightarrow> within n (if b then p else q)"
  by simp

lemma within_option:
  "(\<And>e. within n (q e)) \<Longrightarrow> within n p \<Longrightarrow> within n (case r of None \<Rightarrow> p | Some e \<Rightarrow> q e)"
  by (cases r) simp_all

subsection \<open>The methods\<close>

lemma within_apply_obj: "within 1 (apply_obj L cr ob)"
  by (rule withinI) (auto simp: apply_obj_def)

lemma within_apply_all: "length obs \<le> n \<Longrightarrow> within n (apply_all L cr obs)"
proof (induction obs arbitrary: n)
  case (Cons ob obs)
  then show ?case using within_attempt [OF within_apply_obj, of n "apply_all L cr obs"] by simp
qed (simp add: within_Return)

lemma within_create_owned: "within 1 (create_owned L cr sec)"
  by (rule withinI) (auto simp: create_owned_def)

lemma within_NewTLSSecret: "within 7 (NewTLSSecret L d)"
  by (rule withinI) (auto simp: NewTLSSecret_def signCA_def signServer_def or_fail_def Let_def split: sum.splits)

lemma within_secrets:
  "within 3 (ensurePostgresSecret L cr d)" "within 9 (ensurePostgresTLS L cr d)"
  "within 3 (ensureAbbenayToken L cr d)" "within 3 (ensureProxyAdminToken L cr d)"
proof -
  have get: "within n (GetSecret k f)" if "\<And>r. within (n - 1) (f r)" "n \<noteq> 0" for n k and f :: "gerror + secret \<Rightarrow> 'a prog"
    using that(2) by (intro withinI) (auto dest: withinD [OF _ that(1)])
  have create: "within (n + 1) (call p (\<lambda>r. case r of Inl err \<Rightarrow> Return (Some err) | Inr x \<Rightarrow> create_owned L cr (f x)))"
    if "within n p" for n f and p :: "(gerror + 'c) prog"
    by (rule within_call [OF that]) (auto simp: within_Return within_create_owned split: sum.split simp del: One_nat_def)
  have url: "within 2 (ensurePostgresURLTLS L s)" for s
    by (rule withinI) (auto simp: ensurePostgresURLTLS_def split: if_splits)
  have secret: "within 1 (NewSecret d)" and token: "within 1 (randomToken n)" for n
    by (rule withinI; auto simp: NewSecret_def randomPassword_def randomToken_def exec_call)+
  have made:
    "within 2 (call (NewSecret d) (\<lambda>r. case r of Inl err \<Rightarrow> Return (Some err) | Inr sec \<Rightarrow> create_owned L cr sec))"
    "within 8 (call (NewTLSSecret L d) (\<lambda>r. case r of Inl err \<Rightarrow> Return (Some err) | Inr sec \<Rightarrow> create_owned L cr sec))"
    "within 2 (call (randomToken n) (\<lambda>r. case r of Inl err \<Rightarrow> Return (Some err) | Inr tok \<Rightarrow> create_owned L cr (g tok)))" for n g
    using create [OF secret] create [OF token] create [OF within_NewTLSSecret] by (simp_all add: numeral_eq_Suc)
  show "within 3 (ensurePostgresSecret L cr d)" "within 9 (ensurePostgresTLS L cr d)"
    "within 3 (ensureAbbenayToken L cr d)" "within 3 (ensureProxyAdminToken L cr d)"
    unfolding ensurePostgresSecret_def ensurePostgresTLS_def ensureAbbenayToken_def ensureProxyAdminToken_def
    using made url by (intro get; auto simp: within_Return numeral_eq_Suc split: sum.split)+
qed

lemma within_managed: "within 16 (ensureManagedDatabase L cr d)"
  unfolding ensureManagedDatabase_def
  by (rule within_attempt [OF within_secrets(2)], simp, rule within_attempt [OF within_secrets(1)], simp,
      (rule within_attempt [OF within_apply_obj], simp)+,
      rule within_if [OF within_mono [OF within_apply_obj] within_Return]) simp

lemma within_ensureDatabase: "within 16 (ensureDatabase L cr d)"
proof -
  have "within 16 (call (managedPostgresExists d) (\<lambda>leftover. Return (leftover, None)))"
    by (rule withinI) (auto simp: managedPostgresExists_def exec_call)
  moreover have "within 16 (call (ensureManagedDatabase L cr d) (\<lambda>err. Return (False, err)))"
    by (rule within_call [OF within_managed]) (simp_all add: within_Return)
  ultimately show ?thesis unfolding ensureDatabase_def by (rule within_if)
qed

lemma within_ensureAbbenay: "within 5 (ensureAbbenay L cr d)"
  unfolding ensureAbbenay_def
  by (rule within_if [OF within_Return], rule within_attempt [OF within_if [OF within_secrets(3) within_Return]], simp,
      rule within_attempt [OF within_if [OF within_apply_obj within_Return]], simp,
      rule within_if [OF within_mono [OF within_apply_obj] within_Return]) simp

lemma within_ensureRoutes: "within 4 (ensureRoutes R L cr d)"
proof -
  have route: "within 2 (ensureRoute L cr d want route name)" for want route name
    by (rule withinI)
      (auto simp: ensureRoute_def applyOrRecreateRoute_def deleteOwnedRoute_def apply_obj_def exec_call split: if_splits)
  show ?thesis unfolding ensureRoutes_def
    by (rule within_if [OF within_Return], rule within_attempt [OF route], simp, rule within_mono [OF route]) simp
qed

lemma workloadObjects_length: "length (workloadObjects d cs) \<le> 6"
  by (simp add: workloadObjects_def)

lemma within_applyWorkload: "within 12 (applyWorkload R L cr d)"
proof (rule withinI)
  fix tr err
  have load: "within 1 (loadCABundle L d)"
    by (rule withinI) (auto simp: loadCABundle_def Let_def split: if_splits)
  have rest: "within 10 (attempt (apply_all L cr (workloadObjects d cs)) (ensureRoutes R L cr d))" for cs
    by (rule within_attempt [OF within_apply_all [OF workloadObjects_length]], simp,
        rule within_mono [OF within_ensureRoutes]) simp
  assume "exec (applyWorkload R L cr d) tr err"
  then consider r where "tr = [EGetSecret (key_in d (d_ProxyAdminTokenName d)) r]"
    | r t1 t2 where "tr = EGetSecret (key_in d (d_ProxyAdminTokenName d)) r # t1 @ t2" "brief 1 t1" "brief 10 t2"
  proof -
    assume *: "\<And>r. tr = [EGetSecret (key_in d (d_ProxyAdminTokenName d)) r] \<Longrightarrow> thesis"
      "\<And>r t1 t2. tr = EGetSecret (key_in d (d_ProxyAdminTokenName d)) r # t1 @ t2 \<Longrightarrow> brief 1 t1 \<Longrightarrow> brief 10 t2 \<Longrightarrow> thesis"
    have "exec (case x of Inl err \<Rightarrow> Return (Some err)
        | Inr ca \<Rightarrow> attempt (apply_all L cr (workloadObjects d (configChecksum d tok ca))) (ensureRoutes R L cr d)) t y
      \<Longrightarrow> brief 10 t" for x tok t y
      using withinD [OF _ rest] by (cases x) auto
    then show thesis
      using \<open>exec (applyWorkload R L cr d) tr err\<close> withinD [OF _ load] *
      unfolding applyWorkload_def exec_simps exec_case_sum exec_call by blast
  qed
  then show "brief 12 tr" by cases (auto intro: brief_append)
qed

lemma within_ensureAll: "within 39 (ensureAll R L cr d)"
  unfolding ensureAll_def applyCore_def
  by (rule within_call [OF within_apply_all [of "coreObjects d" 3]], simp add: coreObjects_def, simp,
      rule within_option, rule within_Return,
      rule within_call [OF within_ensureDatabase], simp, clarsimp,
      rule within_option, rule within_Return,
      rule within_call [OF within_ensureAbbenay], simp, rule within_option, rule within_Return,
      rule within_call [OF within_secrets(4)], simp, rule within_option, rule within_Return,
      rule within_call [OF within_applyWorkload], simp, rule within_Return)

subsection \<open>The whole\<close>

lemma status_requests:
  assumes "exec (patchStatus R L cr d leftover recErr) tr r"
  shows "length tr \<le> 6 \<and> length (filter lists_pods tr) \<le> 1"
proof -
  from patchStatus_exec [OF assms] obtain now t1 url t2 db t3 dep st where
    tr: "tr = ENow now # t1 @ t2 @ t3 @ [EStatusPatch st cr r]"
    and parts: "exec (publicURL R L d) t1 url" "exec (databaseReady d) t2 db" "exec (deploymentReady R d) t3 dep"
    by blast
  have "within 1 (publicURL R L d)" "within 1 (databaseReady d)"
    by (rule withinI; auto simp: publicURL_def databaseReady_def Let_def split: if_splits)+
  then have "brief 1 t1" "brief 1 t2" using withinD [OF parts(1)] withinD [OF parts(2)] by blast+
  moreover have "length t3 \<le> 2 \<and> length (filter lists_pods t3) \<le> 1"
    using parts(3) by (auto simp: deploymentReady_def imagePullMessage_def exec_call split: option.splits if_splits)
  ultimately show ?thesis by (auto simp: tr brief_def list_all_iff filter_empty_conv)
qed

text \<open>C16: Termination. Against every environment a reconcile ends with a result, and whatever the environment
  answers it sends at most 46 requests, of which at most one lists Pods.\<close>

theorem Reconcile_bounded:
  "(\<exists>tr res w'. run S (Reconcile R L E req) w = (tr, res, w') \<and> exec (Reconcile R L E req) tr res)
   \<and> (\<forall>tr res. exec (Reconcile R L E req) tr res \<longrightarrow> length tr \<le> 46 \<and> length (filter lists_pods tr) \<le> 1)"
proof (intro conjI allI impI)
  show "\<exists>tr res w'. run S (Reconcile R L E req) w = (tr, res, w') \<and> exec (Reconcile R L E req) tr res"
    using run_execI by (metis prod_cases3)
next
  fix tr res
  assume exec: "exec (Reconcile R L E req) tr res"
  have "length tr \<le> 46 \<and> length (filter lists_pods tr) \<le> 1"
  proof (cases "\<exists>cr rest. tr = EGetApme req (Inr cr) # rest")
    case False
    then show ?thesis using exec by (auto simp: Reconcile_def)
  next
    case True
    then obtain cr rest where tr: "tr = EGetApme req (Inr cr) # rest" by blast
    then have "exec (reconcile_cr R L E cr) rest (fst res, snd res)" using exec by (auto simp: Reconcile_def)
    from reconcile_cr_exec [OF this] obtain work status leftover workErr statusErr where
      rest: "rest = work @ status"
      and work: "exec (ensureAll R L cr (From E cr)) work (leftover, workErr)"
      and status: "exec (patchStatus R L cr (From E cr) (leftover \<and> workErr = None) workErr) status statusErr"
      by blast
    have "length work \<le> 39" "filter lists_pods work = []"
      using withinD [OF work within_ensureAll] by (auto simp: brief_def list_all_iff filter_empty_conv)
    then show ?thesis using status_requests [OF status] by (simp add: tr rest)
  qed
  then show "length tr \<le> 46" "length (filter lists_pods tr) \<le> 1" by blast+
qed

end
