(* ===== verification/Reports.thy ===== *)
theory Reports
  imports Status Requests
begin

text \<open>
  The status patch of a whole reconcile against what its trace shows: readiness is earned,
  image pull failures surface, and an external database is left alone.
\<close>

subsection \<open>Readiness\<close>

lemma deploymentReady_True:
  assumes "exec (deploymentReady R d) tr (True, msg, imagePull)"
  shows "\<exists>dep. EGetDeployment (key_in d (d_Name d)) (Inr dep) \<in> set tr \<and> dep_readyReplicas dep \<ge> 1"
  using assms by (auto simp: deploymentReady_def exec_call)

lemma databaseReady_True:
  assumes "exec (databaseReady d) tr (True, msg)"
  shows "if d_DatabaseMode d = DatabaseExternal
    then \<exists>s. EGetSecret (key_in d (d_DatabaseSecretName d)) (Inr s) \<in> set tr
    else \<exists>sts. EGetStatefulSet (key_in d (d_Name d @ ''-postgres'')) (Inr sts) \<in> set tr \<and> sts_readyReplicas sts \<ge> 1"
proof (cases "d_DatabaseMode d = DatabaseExternal")
  case True
  then obtain r where "tr = [EGetSecret (key_in d (d_DatabaseSecretName d)) r]"
    "(True, msg) = (case r of
         Inl _ \<Rightarrow> (False, ''external database secret '' @ fmt_q (d_DatabaseSecretName d) @ '' not found'')
       | Inr _ \<Rightarrow> (True, ''external secret present''))"
    using assms by (auto simp: databaseReady_def)
  then show ?thesis using True by (cases r) auto
next
  case False
  then obtain r where "tr = [EGetStatefulSet (key_in d (d_Name d @ ''-postgres'')) r]"
    "(True, msg) = (case r of
         Inl _ \<Rightarrow> (False, ''postgres StatefulSet not found'')
       | Inr sts \<Rightarrow>
           if sts_readyReplicas sts \<ge> 1 then (True, ''postgres ready'')
           else (False, ''waiting for postgres replica''))"
    using assms by (auto simp: databaseReady_def)
  then show ?thesis using False by (cases r) (auto split: if_splits)
qed

lemma ensureAll_leftover:
  assumes "exec (ensureAll R L cr d) tr (leftover, None)" and "d_DatabaseMode d \<noteq> DatabaseManaged"
  shows "\<exists>r. EGetStatefulSet (key_in d (d_Name d @ ''-postgres'')) r \<in> set tr \<and> (leftover \<longleftrightarrow> (\<exists>sts. r = Inr sts))"
proof -
  obtain t1 t2 t3 where tr: "tr = t1 @ t2 @ t3" and db: "exec (ensureDatabase L cr d) t2 (leftover, None)"
    using assms(1) by (auto simp: ensureAll_def exec_call)
  then obtain r where "t2 = [EGetStatefulSet (key_in d (d_Name d @ ''-postgres'')) r]"
    "leftover = (case r of Inr _ \<Rightarrow> True | Inl _ \<Rightarrow> False)"
    using assms(2) by (auto simp: ensureDatabase_def managedPostgresExists_def exec_call)
  then show ?thesis by (intro exI [of _ r]) (simp add: tr split: sum.split)
qed

text \<open>A reconcile that ends with a status patch: the work, the look around, and what the patch holds.\<close>

lemma reconcile_report:
  assumes "exec (Reconcile R L E req) (EGetApme req (Inr cr) # tr @ [EStatusPatch cr' orig r]) (res, err)"
  obtains work leftover workErr now t1 url t2 db t3 dep where
    "tr = work @ ENow now # t1 @ t2 @ t3"
    and "exec (ensureAll R L cr (From E cr)) work (leftover, workErr)"
    and "exec (publicURL R L (From E cr)) t1 url" and "exec (databaseReady (From E cr)) t2 db"
    and "exec (deploymentReady R (From E cr)) t3 dep" and "reads_only (t1 @ t2 @ t3)"
    and "apme_Status cr' = newStatus L now cr (From E cr) (leftover \<and> workErr = None) workErr url db dep"
    and "err = (if workErr = None then r else workErr)"
proof -
  have "exec (reconcile_cr R L E cr) (tr @ [EStatusPatch cr' orig r]) (res, err)"
    using assms by (auto simp: Reconcile_def)
  from reconcile_cr_exec [OF this] obtain work status leftover workErr statusErr where
    tr: "tr @ [EStatusPatch cr' orig r] = work @ status"
    and work: "exec (ensureAll R L cr (From E cr)) work (leftover, workErr)"
    and status: "exec (patchStatus R L cr (From E cr) (leftover \<and> workErr = None) workErr) status statusErr"
    and err: "err = (if workErr = None then statusErr else workErr)"
    by blast
  from patchStatus_exec [OF status] obtain now t1 url t2 db t3 dep where
    st: "status = (ENow now # t1 @ t2 @ t3) @ [EStatusPatch (cr\<lparr>apme_Status :=
        newStatus L now cr (From E cr) (leftover \<and> workErr = None) workErr url db dep\<rparr>) cr statusErr]"
    and parts: "exec (publicURL R L (From E cr)) t1 url" "exec (databaseReady (From E cr)) t2 db"
      "exec (deploymentReady R (From E cr)) t3 dep" "reads_only (t1 @ t2 @ t3)"
    by fastforce
  let ?last = "cr\<lparr>apme_Status := newStatus L now cr (From E cr) (leftover \<and> workErr = None) workErr url db dep\<rparr>"
  have "tr @ [EStatusPatch cr' orig r] = (work @ ENow now # t1 @ t2 @ t3) @ [EStatusPatch ?last cr statusErr]"
    unfolding tr st by simp
  then have "tr = work @ ENow now # t1 @ t2 @ t3" "r = statusErr" "cr' = ?last"
    unfolding append1_eq_conv by blast+
  with that work parts err show thesis by simp
qed

text \<open>C3: Ready is earned. If the status a reconcile writes says Ready, then in this same reconcile nothing
  failed to be written, the Deployment was seen with a ready replica, and the database was
  seen too: the managed one with a ready replica, or the Secret of the external one, and
  then no managed StatefulSet left over.\<close>

theorem Ready_is_earned:
  assumes "exec (Reconcile R L E req) (EGetApme req (Inr cr) # tr @ [EStatusPatch cr' orig r]) (res, err)"
    and "documented_conditions L"
    and "cond_status condReady (status_Conditions (apme_Status cr')) = Some ''True''"
  shows "no_failure tr \<and> err = r
    \<and> (\<exists>dep. EGetDeployment (key_in (From E cr) (d_Name (From E cr))) (Inr dep) \<in> set tr \<and> dep_readyReplicas dep \<ge> 1)
    \<and> (if d_DatabaseMode (From E cr) = DatabaseExternal
       then (\<exists>s. EGetSecret (key_in (From E cr) (d_DatabaseSecretName (From E cr))) (Inr s) \<in> set tr)
         \<and> (\<exists>e. EGetStatefulSet (key_in (From E cr) (d_Name (From E cr) @ ''-postgres'')) (Inl e) \<in> set tr)
       else (\<exists>sts. EGetStatefulSet (key_in (From E cr) (d_Name (From E cr) @ ''-postgres'')) (Inr sts) \<in> set tr
         \<and> sts_readyReplicas sts \<ge> 1))"
proof -
  let ?d = "From E cr"
  from assms(1) obtain work leftover workErr now t1 url t2 db t3 dep where
    whole: "tr = work @ ENow now # t1 @ t2 @ t3"
    and work: "exec (ensureAll R L cr ?d) work (leftover, workErr)"
    and reads: "exec (databaseReady ?d) t2 db" "exec (deploymentReady R ?d) t3 dep" "reads_only (t1 @ t2 @ t3)"
    and cr': "apme_Status cr' = newStatus L now cr ?d (leftover \<and> workErr = None) workErr url db dep"
    and err: "err = (if workErr = None then r else workErr)"
    by (rule reconcile_report)
  have "workErr = None \<and> \<not> leftover \<and> fst dep \<and> fst db"
    using assms(3) unfolding cr' newStatus_cond_status [OF assms(2)]
    by (auto simp: ready_def split: if_splits)
  then have seen: "workErr = None" "\<not> leftover" "dep = (True, snd dep)" "db = (True, snd db)"
    by (cases dep; cases db; simp)+
  have "no_failure tr"
    using carefulD [OF work careful_ensureAll] seen(1) reads(3) by (simp add: whole)
  moreover have "\<exists>dep. EGetDeployment (key_in ?d (d_Name ?d)) (Inr dep) \<in> set tr \<and> dep_readyReplicas dep \<ge> 1"
    using deploymentReady_True [of R ?d t3 "fst (snd dep)" "snd (snd dep)"] reads(2) seen(3) by (auto simp: whole)
  moreover have "if d_DatabaseMode ?d = DatabaseExternal
     then (\<exists>s. EGetSecret (key_in ?d (d_DatabaseSecretName ?d)) (Inr s) \<in> set tr)
     else (\<exists>sts. EGetStatefulSet (key_in ?d (d_Name ?d @ ''-postgres'')) (Inr sts) \<in> set tr \<and> sts_readyReplicas sts \<ge> 1)"
    using databaseReady_True [of ?d t2 "snd db"] reads(1) seen(4) by (auto simp: whole split: if_splits)
  moreover have "\<exists>e. EGetStatefulSet (key_in ?d (d_Name ?d @ ''-postgres'')) (Inl e) \<in> set tr"
    if "d_DatabaseMode ?d = DatabaseExternal"
  proof -
    have "d_DatabaseMode ?d \<noteq> DatabaseManaged" using that by (simp add: DatabaseExternal_def DatabaseManaged_def)
    with ensureAll_leftover work seen(1,2)
    obtain q where "EGetStatefulSet (key_in ?d (d_Name ?d @ ''-postgres'')) q \<in> set work" "\<nexists>sts. q = Inr sts"
      by blast
    then show ?thesis by (cases q) (auto simp: whole)
  qed
  ultimately show ?thesis using err seen(1) by auto
qed

subsection \<open>Image pull failures\<close>

text \<open>The reports of all failing containers: pods in order, init containers first.\<close>

definition pullReports :: "pod list \<Rightarrow> string list" where
  "pullReports ps = concat (map (\<lambda>p. List.map_filter (statusMessage p)
     (pod_initContainerStatuses p @ pod_containerStatuses p)) ps)"

lemma firstStatus_reports:
  "firstStatus p css = (case List.map_filter (statusMessage p) css of [] \<Rightarrow> None | m # ms \<Rightarrow> Some m)"
  by (induction css) (auto simp: map_filter_simps split: option.split list.split)

lemma firstPod_reports: "firstPod ps = (case pullReports ps of [] \<Rightarrow> [] | m # ms \<Rightarrow> m)"
proof (induction ps)
  case (Cons p ps)
  let ?own = "List.map_filter (statusMessage p) (pod_initContainerStatuses p @ pod_containerStatuses p)"
  have "pullReports (p # ps) = ?own @ pullReports ps" by (simp add: pullReports_def)
  then show ?case using Cons by (cases ?own) (simp_all add: firstStatus_reports)
qed (simp add: pullReports_def)

lemma statusMessage_not_empty: "statusMessage p cs = Some m \<Longrightarrow> m \<noteq> []"
  by (auto simp: statusMessage_def Let_def split: option.splits if_splits)

lemma pullReports_not_empty: "m \<in> set (pullReports ps) \<Longrightarrow> m \<noteq> []"
  by (auto simp: pullReports_def List.map_filter_def dest: statusMessage_not_empty)

lemma pullReports_origin:
  assumes "m \<in> set (pullReports ps)"
  shows "\<exists>p \<in> set ps. \<exists>cs \<in> set (pod_initContainerStatuses p @ pod_containerStatuses p). \<exists>w.
    cs_waiting cs = Some w \<and> w_reason w \<in> set pullErrors \<and> HasPrefix m (w_reason w @ '': '')"
proof -
  obtain p cs where p: "p \<in> set ps" "cs \<in> set (pod_initContainerStatuses p @ pod_containerStatuses p)"
    "statusMessage p cs = Some m"
    using assms unfolding pullReports_def List.map_filter_def by fastforce
  from p(3) obtain w where "cs_waiting cs = Some w" "w_reason w \<in> set pullErrors" "HasPrefix m (w_reason w @ '': '')"
    by (auto simp: statusMessage_def Let_def HasPrefix_iff split: option.splits if_splits)
  then show ?thesis using p(1,2) by blast
qed

lemma deploymentReady_lists:
  assumes "exec (deploymentReady R d) tr dep" and "EListPods rd ns sel (Inr pods) \<in> set tr"
    and "pullReports pods = m # ms"
  shows "dep = (False, m, True) \<and> (rd = UncachedReader \<longleftrightarrow> HasAPIReader R)
    \<and> (\<exists>dp. EGetDeployment (key_in d (d_Name d)) (Inr dp) \<in> set tr \<and> dep_readyReplicas dp < 1
         \<and> dep_selector dp = Some sel \<and> ns = m_namespace (dep_meta dp))"
proof -
  have "m \<noteq> []" using pullReports_not_empty [of m pods] assms(3) by simp
  then show ?thesis
    using assms by (auto simp: deploymentReady_def imagePullMessage_def exec_call firstPod_reports split: option.splits if_splits)
qed


subsection \<open>External databases\<close>

text \<open>The objects that make up a managed database.\<close>

definition postgres_keys :: "(string \<times> string) list" where
  "postgres_keys =
     [(''Secret'', ''-postgres''), (''Secret'', ''-postgres-tls''), (''ConfigMap'', ''-postgres-ssl''),
      (''StatefulSet'', ''-postgres''), (''Service'', ''-postgres''), (''NetworkPolicy'', ''-postgres'')]"

fun spares :: "lib \<Rightarrow> Apme \<Rightarrow> object_id set \<Rightarrow> event \<Rightarrow> bool" where
  "spares L cr ids (EPatch ob r) \<longleftrightarrow> (\<exists>ob0. SetControllerReference L cr ob0 = Inr ob \<and> id_of ob0 \<notin> ids)"
| "spares L cr ids (ECreate ob r) \<longleftrightarrow> (\<exists>ob0. SetControllerReference L cr ob0 = Inr ob \<and> id_of ob0 \<notin> ids)"
| "spares L cr ids (EUpdate ob r) \<longleftrightarrow> False"
| "spares L cr ids (EDelete ob r) \<longleftrightarrow> (\<exists>rt. ob = ORoute rt)"
| "spares L cr ids _ \<longleftrightarrow> True"

lemma justified_each: "justified R L cr d hist tr \<Longrightarrow> e \<in> set tr \<Longrightarrow> \<exists>hist. justified_event R L cr d hist e"
  by (induction tr arbitrary: hist) auto

lemma external_keys:
  assumes "resolved d" and "d_DatabaseMode d \<noteq> DatabaseManaged" and "k \<in> set (keys d @ secret_keys d)"
  shows "key_id d k \<notin> key_id d ` set postgres_keys"
proof
  assume "key_id d k \<in> key_id d ` set postgres_keys"
  then obtain l where l: "l \<in> set postgres_keys" "key_id d k = key_id d l" by blast
  have "list_all (\<lambda>k. k \<in> set all_keys) postgres_keys" by code_simp
  then have "k = l" using key_id_inject [OF _ _ l(2)] l(1) assms(3) all_keys_of [of d] by (auto simp: list_all_iff)
  moreover have "\<not> d_GeneratePostgres d" "\<not> d_GeneratePostgresTLS d"
    using assms(1,2) by (auto simp: resolved_def)
  ultimately show False
    using l(1) assms(2,3) by (auto simp: postgres_keys_def keys_def secret_keys_def split: if_splits)
qed

lemma external_spares:
  assumes "justified_event R L cr d hist e" and "resolved d" and "d_DatabaseMode d \<noteq> DatabaseManaged"
  shows "spares L cr (key_id d ` set postgres_keys) e"
proof -
  have out: "id_of ob0 \<notin> key_id d ` set postgres_keys"
    if "id_of ob0 \<in> key_id d ` set (keys d) \<or> id_of ob0 \<in> key_id d ` set (secret_keys d)" for ob0
  proof -
    from that obtain k where k: "id_of ob0 = key_id d k" "k \<in> set (keys d @ secret_keys d)" by auto
    show ?thesis unfolding k(1) by (rule external_keys [OF assms(2,3) k(2)])
  qed
  show ?thesis
  proof (cases e)
    case (EPatch ob r)
    then show ?thesis using assms(1) out unfolding EPatch justified_event.simps spares.simps by blast
  next
    case (ECreate ob r)
    then show ?thesis using assms(1) out unfolding ECreate justified_event.simps spares.simps by blast
  qed (use assms(1,3) in auto)
qed

text \<open>C4: An external database is left to its owner. When the resource names a connection Secret, no
  reconcile creates, applies, updates or deletes any object of a managed database, not even
  of one left over from before, and it reads, but never writes, the Secret it is given. What
  is left over is reported: if the reconcile sees the managed StatefulSet and nothing fails,
  Degraded is true with reason LeftoverManagedPostgres.\<close>

theorem external_database_untouched:
  assumes "exec (Reconcile R L E req) (EGetApme req (Inr cr) # tr @ [EStatusPatch cr' orig r]) (res, err)"
    and "d_DatabaseMode (From E cr) \<noteq> DatabaseManaged" and "host_keeps_id L" and "documented_conditions L"
  shows "list_all (spares L cr (key_id (From E cr) ` set postgres_keys)) tr
    \<and> (err = None \<longrightarrow> (\<exists>q. EGetStatefulSet (key_in (From E cr) (d_Name (From E cr) @ ''-postgres'')) q \<in> set tr
         \<and> ((\<exists>sts. q = Inr sts) \<longleftrightarrow>
            (\<exists>msg. says (status_Conditions (apme_Status cr')) (apme_Generation cr) condDegraded
                (''True'', ''LeftoverManagedPostgres'', msg)))))"
proof
  let ?d = "From E cr"
  have exec: "exec (reconcile_cr R L E cr) (tr @ [EStatusPatch cr' orig r]) (res, err)"
    using assms(1) by (auto simp: Reconcile_def)
  have each: "\<exists>hist. justified_event R L cr ?d hist e" if "e \<in> set tr" for e
    using safeD [OF exec safe_reconcile_cr [OF assms(3)], of "{}"] that by (intro justified_each) auto
  then show "list_all (spares L cr (key_id ?d ` set postgres_keys)) tr"
    using external_spares [OF _ resolved_From assms(2)] unfolding list_all_iff by blast
  from assms(1) obtain work leftover workErr now t1 url t2 db t3 dep where
    whole: "tr = work @ ENow now # t1 @ t2 @ t3"
    and work: "exec (ensureAll R L cr ?d) work (leftover, workErr)"
    and cr': "apme_Status cr' = newStatus L now cr ?d (leftover \<and> workErr = None) workErr url db dep"
    and err: "err = (if workErr = None then r else workErr)"
    by (rule reconcile_report)
  show "err = None \<longrightarrow> (\<exists>q. EGetStatefulSet (key_in ?d (d_Name ?d @ ''-postgres'')) q \<in> set tr
         \<and> ((\<exists>sts. q = Inr sts) \<longleftrightarrow>
            (\<exists>msg. says (status_Conditions (apme_Status cr')) (apme_Generation cr) condDegraded
                (''True'', ''LeftoverManagedPostgres'', msg))))"
  proof
    assume "err = None"
    then have workErr: "workErr = None" using err by (auto split: if_splits)
    with ensureAll_leftover work assms(2) obtain q where
      q: "EGetStatefulSet (key_in ?d (d_Name ?d @ ''-postgres'')) q \<in> set work" "leftover \<longleftrightarrow> (\<exists>sts. q = Inr sts)"
      by blast
    have "(\<exists>msg. says (status_Conditions (apme_Status cr')) (apme_Generation cr) condDegraded
        (''True'', ''LeftoverManagedPostgres'', msg)) \<longleftrightarrow> leftover"
      unfolding cr' by (simp add: newStatus_says [OF assms(4)] degraded_def isRoutePermissionErr_def workErr)
    then show "\<exists>q. EGetStatefulSet (key_in ?d (d_Name ?d @ ''-postgres'')) q \<in> set tr
         \<and> ((\<exists>sts. q = Inr sts) \<longleftrightarrow>
            (\<exists>msg. says (status_Conditions (apme_Status cr')) (apme_Generation cr) condDegraded
                (''True'', ''LeftoverManagedPostgres'', msg)))"
      using q by (intro exI [of _ q]) (simp add: whole)
  qed
qed

end
