(* ===== verification/Tokens.thy ===== *)
theory Tokens
  imports Reports
begin

text \<open>
  Generated credentials: how much randomness the tokens and passwords carry, that what the
  operator creates it also accepts when it finds it again, and what happens to a database
  URL it cannot parse.
\<close>

subsection \<open>Base64 keeps the bytes apart\<close>

lemma encode_groups_append:
  "length x = 3 * k \<Longrightarrow> concat (encode_groups al (x @ y)) = concat (encode_groups al x) @ concat (encode_groups al y)
     \<and> length (concat (encode_groups al x)) = 4 * k"
proof (induction k arbitrary: x)
  case (Suc k)
  then obtain a b c x' where "x = a # b # c # x'" "length x' = 3 * k"
    by (auto simp: numeral_3_eq_3 length_Suc_conv)
  then show ?case using Suc.IH by simp
qed simp

lemma digits_inject:
  assumes "q < m" "q' < (m :: nat)" "p * m + q = p' * m + q'"
  shows "p = p' \<and> q = q'"
proof -
  have "(p * m + q) div m = p" "(p' * m + q') div m = p'" using assms(1,2) by simp_all
  then have "p = p'" using assms(3) by simp
  then show ?thesis using assms(3) by simp
qed

lemma sextets_inject:
  assumes "a < 256" "b < 256" "c < 256" "a' < 256" "b' < 256" "c' < (256 :: nat)"
    and "a div 4 = a' div 4" "a mod 4 * 16 + b div 16 = a' mod 4 * 16 + b' div 16"
    and "b mod 16 * 4 + c div 64 = b' mod 16 * 4 + c' div 64" "c mod 64 = c' mod 64"
  shows "a = a' \<and> b = b' \<and> c = c'"
proof -
  have bounds: "b div 16 < 16" "b' div 16 < 16" "c div 64 < 4" "c' div 64 < 4" using assms(1-6) by auto
  have "a mod 4 = a' mod 4 \<and> b div 16 = b' div 16" using digits_inject [OF bounds(1,2) assms(8)] .
  moreover have "b mod 16 = b' mod 16 \<and> c div 64 = c' div 64" using digits_inject [OF bounds(3,4) assms(9)] .
  ultimately show ?thesis using assms(7,10) by (metis div_mult_mod_eq)
qed

lemma encode_groups_inject:
  assumes "length x = 3 * k" "length y = 3 * k" "list_all (\<lambda>n. n < 256) x" "list_all (\<lambda>n. n < 256) y"
    and "distinct al" "length al = 64" "concat (encode_groups al x) = concat (encode_groups al y)"
  shows "x = y"
  using assms(1-4,7)
proof (induction k arbitrary: x y)
  case (Suc k)
  from Suc.prems(1) obtain a b c x' where x: "x = a # b # c # x'" "length x' = 3 * k"
    by (auto simp: numeral_3_eq_3 length_Suc_conv)
  from Suc.prems(2) obtain a' b' c' y' where y: "y = a' # b' # c' # y'" "length y' = 3 * k"
    by (auto simp: numeral_3_eq_3 length_Suc_conv)
  have small: "a < 256" "b < 256" "c < 256" "a' < 256" "b' < 256" "c' < 256"
    using Suc.prems(3,4) x(1) y(1) by simp_all
  note digits = sextet_bounds [OF small(1-3)] sextet_bounds [OF small(4-6)]
  have inj: "al ! i = al ! j \<longleftrightarrow> i = j" if "i < 64" "j < 64" for i j
    using that assms(5,6) by (simp add: nth_eq_iff_index_eq)
  have "a = a' \<and> b = b' \<and> c = c'"
    using Suc.prems(5) digits by (intro sextets_inject small) (simp_all add: x(1) y(1) inj)
  moreover have "x' = y'"
    using Suc.prems(3-5) x y by (intro Suc.IH) simp_all
  ultimately show ?case using x(1) y(1) by simp
qed simp

lemma of_char_list_inject: "map of_char s = map (of_char :: char \<Rightarrow> nat) t \<longleftrightarrow> s = t"
  by (metis inj_of_char inj_map_eq_map)

lemma url_alphabet_distinct: "distinct url_alphabet"
  by code_simp

lemma token_prefix:
  assumes "length b = 4 * k"
  shows "take (4 * k) (RawURLEncoding b) = RawURLEncoding (take (3 * k) b)"
proof -
  let ?x = "map of_char (take (3 * k) b) :: nat list" and ?y = "map of_char (drop (3 * k) b) :: nat list"
  have "map of_char b = ?x @ ?y" by (metis append_take_drop_id map_append)
  moreover have "length ?x = 3 * k" using assms by simp
  from encode_groups_append [OF this, of url_alphabet ?y]
  have "take (4 * k) (concat (encode_groups url_alphabet (?x @ ?y))) = concat (encode_groups url_alphabet ?x)" by simp
  ultimately show ?thesis unfolding RawURLEncoding_def by simp
qed

lemma token_inject:
  assumes "length b = 4 * k" "length b' = 4 * k"
  shows "take (4 * k) (RawURLEncoding b) = take (4 * k) (RawURLEncoding b') \<longleftrightarrow> take (3 * k) b = take (3 * k) b'"
proof
  assume "take (4 * k) (RawURLEncoding b) = take (4 * k) (RawURLEncoding b')"
  then have "concat (encode_groups url_alphabet (map of_char (take (3 * k) b)))
      = concat (encode_groups url_alphabet (map of_char (take (3 * k) b')))"
    unfolding token_prefix [OF assms(1)] token_prefix [OF assms(2)] by (simp add: RawURLEncoding_def)
  then have "map of_char (take (3 * k) b) = map (of_char :: char \<Rightarrow> nat) (take (3 * k) b')"
    using assms by (intro encode_groups_inject [OF _ _ _ _ url_alphabet_distinct])
      (simp_all add: alphabet_lengths list_all_iff del: of_char_of)
  then show "take (3 * k) b = take (3 * k) b'" by (simp only: of_char_list_inject)
qed (simp add: token_prefix [OF assms(1)] token_prefix [OF assms(2)])

text \<open>C28: Tokens and passwords. The slice \<open>[:n]\<close> of the encoding of \<open>n\<close> random bytes is never out of
  range, the result has \<open>n\<close> characters of the URL alphabet, and it loses a quarter of the
  randomness and no more: two results are equal exactly when the first three quarters of the
  random bytes are. So the 32-character tokens carry 192 random bits and the 24-character
  password 144.\<close>

theorem token_bounds:
  assumes "exec (randomToken n) [ERandRead n (Inr b)] (Inr tok)" and "exec (randomPassword n) [ERandRead n (Inr b')] (Inr pw)"
    and "length b = n" "length b' = n" "n mod 4 = 0"
  shows "n \<le> length (RawURLEncoding b) \<and> length tok = n \<and> length pw = n \<and> set (tok @ pw) \<subseteq> set url_alphabet
    \<and> (tok = pw \<longleftrightarrow> take (3 * n div 4) b = take (3 * n div 4) b')"
proof -
  have tok: "tok = take n (RawURLEncoding b)" and pw: "pw = take n (RawURLEncoding b')"
    using assms(1,2) by (simp_all add: randomToken_def randomPassword_def)
  obtain k where n: "n = 4 * k" using assms(5) by (metis mod_0_imp_dvd dvdE)
  have "3 * n div 4 = 3 * k" by (simp add: n)
  then have "tok = pw \<longleftrightarrow> take (3 * n div 4) b = take (3 * n div 4) b'"
    using token_inject [of b k b'] assms(3,4) unfolding tok pw by (simp add: n)
  moreover have "set (tok @ pw) \<subseteq> set url_alphabet"
    unfolding tok pw using RawURLEncoding_set set_take_subset by fastforce
  ultimately show ?thesis
    using RawURLEncoding_length [of b] RawURLEncoding_length [of b'] assms(3,4) by (simp add: tok pw)
qed

theorem token_bounds_witness:
  "length (take 4 (RawURLEncoding ''abcd'')) = 4
   \<and> (take 4 (RawURLEncoding ''abcd'') = take 4 (RawURLEncoding ''abcx'') \<longleftrightarrow> take 3 ''abcd'' = take 3 ''abcx'')"
  using token_bounds [of 4 "''abcd''" "take 4 (RawURLEncoding ''abcd'')" "''abcx''" "take 4 (RawURLEncoding ''abcx'')"]
  by (simp add: randomToken_def randomPassword_def)

subsection \<open>Found again\<close>

text \<open>
  What the API server stores of a Secret sent to it: \<open>stringData\<close> is write-only and ends
  up in \<open>data\<close>, where its keys win.
\<close>

definition stored :: "secret \<Rightarrow> secret" where
  "stored s = s\<lparr>sec_data := sec_stringData s @ sec_data s, sec_stringData := []\<rparr>"

text \<open>
  Laws of the environment: \<open>SetControllerReference\<close> changes the metadata only and makes the
  instance the controller, as \<open>IsControlledBy\<close> then finds; \<open>rand.Read\<close> fills its buffer.
\<close>

definition sets_owner :: "lib \<Rightarrow> Apme \<Rightarrow> bool" where
  "sets_owner L cr \<longleftrightarrow>
     (\<forall>sec ob. SetControllerReference L cr (OSecret sec) = Inr ob \<longrightarrow>
        (\<exists>m. ob = OSecret (sec\<lparr>sec_meta := m\<rparr>) \<and> (\<forall>s. sec_meta s = m \<longrightarrow> IsControlledBy L (OSecret s) cr)))"

definition full_reads :: "event list \<Rightarrow> bool" where
  "full_reads tr \<longleftrightarrow> (\<forall>n b. ERandRead n (Inr b) \<in> set tr \<longrightarrow> length b = n)"

lemma owned_stored:
  assumes "sets_owner L cr" and "SetControllerReference L cr (OSecret sec) = Inr (OSecret s)"
  shows "\<exists>m. s = sec\<lparr>sec_meta := m\<rparr> \<and> IsControlledBy L (OSecret (stored s)) cr"
proof -
  from assms obtain m where m: "OSecret s = OSecret (sec\<lparr>sec_meta := m\<rparr>)"
    "\<And>s. sec_meta s = m \<Longrightarrow> IsControlledBy L (OSecret s) cr"
    unfolding sets_owner_def by blast
  then show ?thesis by (intro exI [of _ m]) (simp add: stored_def)
qed

lemma HasTLSMaterial_stored:
  assumes "exec (NewTLSSecret L d) tr (Inr sec)"
  shows "HasTLSMaterial (Some (stored (sec\<lparr>sec_meta := m\<rparr>)))"
proof -
  from assms obtain ck sk ca der where "encodeTLSSecret L d ck sk ca der = Inr sec"
    by (auto simp: NewTLSSecret_def signCA_def signServer_def Let_def dest: sym)
  then show ?thesis
    by (auto simp: encodeTLSSecret_Inr tlsSecret_def HasTLSMaterial_def data_len_def tls_keys stored_def)
qed

text \<open>The Secret an execution creates, before its owner reference is set.\<close>

lemma reads_create_nothing: "reads_only t \<Longrightarrow> ECreate ob r \<notin> set t"
  by (auto simp: reads_only_def list_all_iff)

lemma created_postgres:
  assumes "exec (ensurePostgresSecret L cr d) tr err" and "ECreate ob r \<in> set tr"
  shows "\<exists>b. SetControllerReference L cr (OSecret (postgresSecret d (take 24 (RawURLEncoding b)))) = Inr ob"
proof -
  have url: "exec (ensurePostgresURLTLS L s) t e \<Longrightarrow> ECreate ob r \<notin> set t" for s t e
    by (drule ensurePostgresURLTLS_exec) (auto simp: url_kept_def)
  have new: "exec (NewSecret d) t x \<Longrightarrow> ECreate ob r \<notin> set t" for t x
    by (rule reads_create_nothing [OF NewSecret_reads])
  show ?thesis
    using assms url new
    by (auto simp: ensurePostgresSecret_def exec_call NewSecret_exec create_owned_exec split: if_splits)
qed

lemma created_tls:
  assumes "exec (ensurePostgresTLS L cr d) tr err" and "ECreate ob r \<in> set tr"
  shows "\<exists>t sec. exec (NewTLSSecret L d) t (Inr sec) \<and> SetControllerReference L cr (OSecret sec) = Inr ob"
  using postgres_tls.create_only_missing [OF assms] by auto

lemma created_admin:
  assumes "exec (ensureProxyAdminToken L cr d) tr err" and "ECreate ob r \<in> set tr"
  shows "\<exists>b. ERandRead 32 (Inr b) \<in> set tr
    \<and> SetControllerReference L cr (OSecret (NewProxyAdminTokenSecret d (take 32 (RawURLEncoding b)))) = Inr ob"
  using assms
  by (auto simp: ensureProxyAdminToken_def exec_call randomToken_def create_owned_exec split: if_splits)

text \<open>C7: What the operator creates, it accepts. If an \<open>ensure\<close> method created a Secret and a later
  reconcile of the same intent finds the Secret as the API server stores it, then the method
  changes nothing and reports no error: the credentials' URL needs no rewriting, the TLS
  material is complete, and the administration token is there and controlled by the
  instance.\<close>

theorem created_secrets_accepted:
  assumes "sets_owner L cr" and "full_reads tr"
    and "list_all dns_char (d_Name d)" and "list_all dns_char (d_Namespace d)"
    and "ensure \<in> {ensurePostgresSecret, ensurePostgresTLS, ensureAbbenayToken, ensureProxyAdminToken}"
    and "exec (ensure L cr d) tr err" and "ECreate (OSecret s) r \<in> set tr"
    and "exec (ensure L cr d) (EGetSecret key (Inr (stored s)) # tr') err'"
  shows "tr' = [] \<and> err' = None"
proof -
  consider "ensure = ensurePostgresSecret" | "ensure = ensurePostgresTLS" | "ensure = ensureAbbenayToken"
    | "ensure = ensureProxyAdminToken" using assms(5) by blast
  then show ?thesis
  proof cases
    case 1
    obtain b m where "s = (postgresSecret d (take 24 (RawURLEncoding b)))\<lparr>sec_meta := m\<rparr>"
      using created_postgres [of L cr d tr err] owned_stored [OF assms(1)] assms(6,7) 1 by blast
    then show ?thesis
      using assms(8) generated_url(2) [OF assms(3,4)]
      by (auto simp: 1 ensurePostgresSecret_def ensurePostgresURLTLS_def stored_def postgresSecret_def split: if_splits)
  next
    case 2
    obtain t sec m where "exec (NewTLSSecret L d) t (Inr sec)" "s = sec\<lparr>sec_meta := m\<rparr>"
      using created_tls [of L cr d tr err] owned_stored [OF assms(1)] assms(6,7) 2 by blast
    then show ?thesis
      using assms(8) HasTLSMaterial_stored by (auto simp: 2 ensurePostgresTLS_def)
  next
    case 3
    then show ?thesis using assms(8) by (auto simp: ensureAbbenayToken_def)
  next
    case 4
    obtain b m where b: "ERandRead 32 (Inr b) \<in> set tr"
      and s: "s = (NewProxyAdminTokenSecret d (take 32 (RawURLEncoding b)))\<lparr>sec_meta := m\<rparr>"
      and owned: "IsControlledBy L (OSecret (stored s)) cr"
      using created_admin [of L cr d tr err] owned_stored [OF assms(1)] assms(6,7) 4 by blast
    have "length (take 32 (RawURLEncoding b)) = 32"
      using RawURLEncoding_length [of b] b assms(2) by (simp add: full_reads_def)
    then have "data_len (stored s) (d_ProxyAdminTokenKey d) = 32"
      by (simp add: s stored_def NewProxyAdminTokenSecret_def data_len_def)
    then show ?thesis using assms(8) owned by (auto simp: 4 ensureProxyAdminToken_def)
  qed
qed

subsection \<open>Database URLs that do not parse\<close>

lemma Cut_before: "fst (Cut s c) = takeWhile (\<lambda>x. x \<noteq> c) s"
  by (induction s) (auto split: prod.split)

lemma Contains_mid: "Contains (a @ s @ b) s"
  unfolding Contains_iff by blast

lemma url_error_quotes: "Contains (Error (url_error u msg)) (concat (map quote_char u))"
proof -
  have "Error (url_error u msg) = (''parse '' @ [CHR 0x22]) @ concat (map quote_char u) @ ([CHR 0x22] @ '': '' @ msg)"
    by (simp add: url_error_def fmt_q_def dq_def)
  then show ?thesis using Contains_mid by metis
qed

lemma Parse_error_quotes:
  assumes "Parse odd_host raw = Inl e"
  shows "Contains (Error e) (concat (map quote_char (takeWhile (\<lambda>c. c \<noteq> CHR ''#'') raw)))"
proof -
  obtain u frag f where cut: "Cut raw (CHR ''#'') = (u, frag, f)" by (cases "Cut raw (CHR ''#'')")
  then have u: "u = takeWhile (\<lambda>c. c \<noteq> CHR ''#'') raw" using Cut_before [of raw "CHR ''#''"] by simp
  from assms cut consider msg where "e = url_error u msg" | msg where "e = url_error raw msg"
    by (auto simp: Parse_def map_sum_def split: sum.splits if_splits)
  then show ?thesis
  proof cases
    case 1
    then show ?thesis using url_error_quotes [of u msg] by (simp add: u del: Contains.simps)
  next
    case 2
    have "raw = u @ dropWhile (\<lambda>c. c \<noteq> CHR ''#'') raw" by (simp add: u)
    then have "concat (map quote_char raw) = concat (map quote_char u)
        @ concat (map quote_char (dropWhile (\<lambda>c. c \<noteq> CHR ''#'') raw))"
      by (metis map_append concat_append)
    with url_error_quotes [of raw msg] show ?thesis
      unfolding 2 u [symmetric] Contains_iff by (metis append.assoc)
  qed
qed



end
