(* ===== verification/Startup.thy ===== *)
theory Startup
  imports Controller
begin

text \<open>
  \<open>cmd/main.go\<close>: the command line, the options of the two TLS servers, and the steps that
  lead to a running manager. The \<open>flag\<close> and \<open>filepath\<close> packages are modelled as far as it
  uses them; flags of other packages and controller-runtime are parameters. Slices are modelled with
  their backing arrays, because the servers' option lists start as one slice.
\<close>

subsection \<open>The command line\<close>

record main_flags =
  metricsAddr :: string
  probeAddr :: string
  enableLeaderElection :: bool
  secureMetrics :: bool
  webhookCertPath :: string
  webhookCertName :: string
  webhookCertKey :: string
  metricsCertPath :: string
  metricsCertName :: string
  metricsCertKey :: string
  enableHTTP2 :: bool

definition default_flags :: main_flags where
  "default_flags =
     \<lparr>metricsAddr = ''0'', probeAddr = '':8081'', enableLeaderElection = False, secureMetrics = True,
      webhookCertPath = [], webhookCertName = ''tls.crt'', webhookCertKey = ''tls.key'',
      metricsCertPath = [], metricsCertName = ''tls.crt'', metricsCertKey = ''tls.key'', enableHTTP2 = False\<rparr>"

text \<open>\<open>strconv.ParseBool\<close>.\<close>

definition ParseBool :: "string \<Rightarrow> bool option" where
  "ParseBool s =
    (if s \<in> set [''1'', ''t'', ''T'', ''TRUE'', ''true'', ''True''] then Some True
     else if s \<in> set [''0'', ''f'', ''F'', ''FALSE'', ''false'', ''False''] then Some False
     else None)"

text \<open>
  A registered flag: how it is set, or that another package registered it, as other and the
  client configuration do. Of those flags the name, whether it is boolean, and which values
  it takes are parameters.
\<close>

datatype flag_value =
    StringVar "string \<Rightarrow> main_flags \<Rightarrow> main_flags"
  | BoolVar "bool \<Rightarrow> main_flags \<Rightarrow> main_flags"
  | OtherVar bool "string \<Rightarrow> bool"

type_synonym other_flags = "(string \<times> bool \<times> (string \<Rightarrow> bool)) list"

definition flag_table :: "(string \<times> flag_value) list" where
  "flag_table =
     [(''metrics-bind-address'', StringVar (\<lambda>v fl. fl\<lparr>metricsAddr := v\<rparr>)),
      (''health-probe-bind-address'', StringVar (\<lambda>v fl. fl\<lparr>probeAddr := v\<rparr>)),
      (''leader-elect'', BoolVar (\<lambda>v fl. fl\<lparr>enableLeaderElection := v\<rparr>)),
      (''metrics-secure'', BoolVar (\<lambda>v fl. fl\<lparr>secureMetrics := v\<rparr>)),
      (''webhook-cert-path'', StringVar (\<lambda>v fl. fl\<lparr>webhookCertPath := v\<rparr>)),
      (''webhook-cert-name'', StringVar (\<lambda>v fl. fl\<lparr>webhookCertName := v\<rparr>)),
      (''webhook-cert-key'', StringVar (\<lambda>v fl. fl\<lparr>webhookCertKey := v\<rparr>)),
      (''metrics-cert-path'', StringVar (\<lambda>v fl. fl\<lparr>metricsCertPath := v\<rparr>)),
      (''metrics-cert-name'', StringVar (\<lambda>v fl. fl\<lparr>metricsCertName := v\<rparr>)),
      (''metrics-cert-key'', StringVar (\<lambda>v fl. fl\<lparr>metricsCertKey := v\<rparr>)),
      (''enable-http2'', BoolVar (\<lambda>v fl. fl\<lparr>enableHTTP2 := v\<rparr>))]"

definition formal :: "other_flags \<Rightarrow> string \<Rightarrow> flag_value option" where
  "formal other = map_of (flag_table @ map (\<lambda>(n, b, ok). (n, OtherVar b ok)) other)"

definition IsBoolFlag :: "flag_value \<Rightarrow> bool" where
  "IsBoolFlag f = (case f of StringVar g \<Rightarrow> False | BoolVar g \<Rightarrow> True | OtherVar b ok \<Rightarrow> b)"

text \<open>\<open>Value.Set\<close>: \<open>None\<close> is an error.\<close>

definition set_flag :: "flag_value \<Rightarrow> string \<Rightarrow> main_flags \<Rightarrow> main_flags option" where
  "set_flag f v fl =
    (case f of
       StringVar g \<Rightarrow> Some (g v fl)
     | BoolVar g \<Rightarrow> (case ParseBool v of Some b \<Rightarrow> Some (g b fl) | None \<Rightarrow> None)
     | OtherVar b ok \<Rightarrow> if ok v then Some fl else None)"

text \<open>The name of a flag argument with its value, split at the first \<open>=\<close> that is not in front.\<close>

definition split_flag :: "string \<Rightarrow> string \<times> string option" where
  "split_flag s =
    (case s of [] \<Rightarrow> ([], None)
     | c # cs \<Rightarrow>
         if CHR ''='' \<in> set cs
         then (c # takeWhile (\<lambda>x. x \<noteq> CHR ''='') cs, Some (tl (dropWhile (\<lambda>x. x \<noteq> CHR ''='') cs)))
         else (s, None))"

text \<open>
  \<open>flag.Parse\<close> under \<open>ExitOnError\<close>: the flags, or the exit code, 0 after \<open>-help\<close>, 2 for
  an argument that is malformed, unknown or out of range. Parsing stops at the first
  argument that is no flag.
\<close>

definition flag_name :: "string \<Rightarrow> string" where
  "flag_name s = (if HasPrefix s ''--'' then drop 2 s else drop 1 s)"

fun flag_Parse :: "other_flags \<Rightarrow> string list \<Rightarrow> main_flags \<Rightarrow> nat + main_flags" where
  "flag_Parse other [] fl = Inr fl"
| "flag_Parse other (s # args) fl =
    (if length s < 2 \<or> \<not> HasPrefix s ''-'' then Inr fl
     else if s = ''--'' then Inr fl
     else
       let name = flag_name s in
       if name = [] \<or> HasPrefix name ''-'' \<or> HasPrefix name ''='' then Inl 2
       else
         (case split_flag name of (name, value) \<Rightarrow>
           (case formal other name of
              None \<Rightarrow> if name = ''help'' \<or> name = ''h'' then Inl 0 else Inl 2
            | Some f \<Rightarrow>
                if IsBoolFlag f then
                  (case set_flag f (case value of Some v \<Rightarrow> v | None \<Rightarrow> ''true'') fl of
                     None \<Rightarrow> Inl 2
                   | Some fl \<Rightarrow> flag_Parse other args fl)
                else
                  (case value of
                     Some v \<Rightarrow> (case set_flag f v fl of None \<Rightarrow> Inl 2 | Some fl \<Rightarrow> flag_Parse other args fl)
                   | None \<Rightarrow>
                      (case args of [] \<Rightarrow> Inl 2
                       | v # args \<Rightarrow> (case set_flag f v fl of None \<Rightarrow> Inl 2 | Some fl \<Rightarrow> flag_Parse other args fl))))))"

subsection \<open>Paths\<close>

fun split_slash :: "string \<Rightarrow> string list" where
  "split_slash [] = [[]]"
| "split_slash (c # cs) =
     (if c = CHR ''/'' then [] # split_slash cs
      else case split_slash cs of p # ps \<Rightarrow> (c # p) # ps | [] \<Rightarrow> [[c]])"

fun join_slash :: "string list \<Rightarrow> string" where
  "join_slash [] = []"
| "join_slash [p] = p"
| "join_slash (p # q # ps) = p @ ''/'' @ join_slash (q # ps)"

text \<open>\<open>filepath.Clean\<close> on Unix: the elements kept so far are in \<open>acc\<close>, last first.\<close>

fun clean_elements :: "bool \<Rightarrow> string list \<Rightarrow> string list \<Rightarrow> string list" where
  "clean_elements rooted acc [] = rev acc"
| "clean_elements rooted acc (p # ps) =
     (if p = [] \<or> p = ''.'' then clean_elements rooted acc ps
      else if p = ''..'' then
        (if acc \<noteq> [] \<and> hd acc \<noteq> ''..'' then clean_elements rooted (tl acc) ps
         else if rooted then clean_elements rooted acc ps
         else clean_elements rooted (p # acc) ps)
      else clean_elements rooted (p # acc) ps)"

definition Clean :: "string \<Rightarrow> string" where
  "Clean path =
    (let rooted = HasPrefix path ''/'';
         out = (if rooted then ''/'' else []) @ join_slash (clean_elements rooted [] (split_slash path))
     in if out = [] then ''.'' else out)"

definition Join :: "string \<Rightarrow> string \<Rightarrow> string" where
  "Join a b =
    (let parts = filter (\<lambda>p. p \<noteq> []) [a, b] in
     if parts = [] then [] else Clean (join_slash parts))"

subsection \<open>TLS options\<close>

datatype watcher = MetricsCertWatcher | WebhookCertWatcher

text \<open>The functions \<open>func(*tls.Config)\<close> of the program, and the part of the configuration they set.\<close>

datatype tls_opt = DisableHTTP2 | GetCertificateOf watcher

record tls_config =
  NextProtos :: "string list"
  GetCertificate :: "watcher option"

fun apply_opt :: "tls_opt \<Rightarrow> tls_config \<Rightarrow> tls_config" where
  "apply_opt DisableHTTP2 c = c\<lparr>NextProtos := [''http/1.1'']\<rparr>"
| "apply_opt (GetCertificateOf w) c = c\<lparr>GetCertificate := Some w\<rparr>"

definition serve_with :: "tls_opt list \<Rightarrow> tls_config \<Rightarrow> tls_config" where
  "serve_with opts c = fold apply_opt opts c"

text \<open>
  Slices: a backing array with its contents up to its capacity, and the length. \<open>append\<close>
  writes into the array when there is room and otherwise moves to a new one, whose
  capacity is up to the runtime (\<open>grow\<close>). The unused elements are nil.
\<close>

type_synonym arrays = "tls_opt option list list"

record slice =
  s_array :: nat
  s_len :: nat

definition nil_slice :: slice where
  "nil_slice = \<lparr>s_array = 0, s_len = 0\<rparr>"

definition elements :: "arrays \<Rightarrow> slice \<Rightarrow> tls_opt option list" where
  "elements h s = take (s_len s) (h ! s_array s)"

definition append_opt :: "(nat \<Rightarrow> nat) \<Rightarrow> tls_opt \<Rightarrow> slice \<Rightarrow> arrays \<Rightarrow> slice \<times> arrays" where
  "append_opt grow x s h =
    (if s_len s < length (h ! s_array s)
     then (s\<lparr>s_len := s_len s + 1\<rparr>, h[s_array s := (h ! s_array s)[s_len s := Some x]])
     else (\<lparr>s_array = length h, s_len = s_len s + 1\<rparr>,
           h @ [elements h s @ [Some x] @ replicate (grow (s_len s + 1) - (s_len s + 1)) None]))"

text \<open>The three slices in the order the program makes them; array 0 is the nil slice's.\<close>

definition append_if :: "bool \<Rightarrow> (nat \<Rightarrow> nat) \<Rightarrow> tls_opt \<Rightarrow> slice \<Rightarrow> arrays \<Rightarrow> slice \<times> arrays" where
  "append_if b grow x s h = (if b then append_opt grow x s h else (s, h))"

definition server_opts :: "(nat \<Rightarrow> nat) \<Rightarrow> main_flags \<Rightarrow> tls_opt option list \<times> tls_opt option list" where
  "server_opts grow fl =
    (let (tlsOpts, h) = append_if (\<not> enableHTTP2 fl) grow DisableHTTP2 nil_slice [[]];
         (webhookTLSOpts, h) =
           append_if (length (webhookCertPath fl) > 0) grow (GetCertificateOf WebhookCertWatcher) tlsOpts h;
         (metricsTLSOpts, h) =
           append_if (length (metricsCertPath fl) > 0) grow (GetCertificateOf MetricsCertWatcher) tlsOpts h
     in (elements h webhookTLSOpts, elements h metricsTLSOpts))"

subsection \<open>Starting the manager\<close>

record metrics_options =
  BindAddress :: string
  SecureServing :: bool
  FilterProvider :: bool
  MetricsTLSOpts :: "tls_opt option list"

record manager_options =
  mo_Metrics :: metrics_options
  mo_WebhookTLSOpts :: "tls_opt option list"
  mo_HealthProbeBindAddress :: string
  mo_LeaderElection :: bool
  mo_LeaderElectionID :: string

datatype step =
    NewCertWatcher watcher string string
  | GetConfig
  | NewManager manager_options
  | SetupController ApmeReconciler
  | AddRunnable watcher
  | AddCheck string
  | StartManager

text \<open>What the steps return, and whether the API server maps \<open>Route\<close> of \<open>route.openshift.io/v1\<close>.\<close>

record main_env =
  fails :: "step \<Rightarrow> bool"
  routeMapped :: bool
  grow_cap :: "nat \<Rightarrow> nat"

text \<open>Steps in sequence; the first that fails ends the process with code 1.\<close>

fun run_steps :: "(step \<Rightarrow> bool) \<Rightarrow> step list \<Rightarrow> step list \<times> nat" where
  "run_steps bad [] = ([], 0)"
| "run_steps bad (s # ss) =
     (if bad s then ([s], 1) else case run_steps bad ss of (done_steps, code) \<Rightarrow> (s # done_steps, code))"

definition managerOptions :: "(nat \<Rightarrow> nat) \<Rightarrow> main_flags \<Rightarrow> manager_options" where
  "managerOptions grow fl =
    (case server_opts grow fl of (webhookTLS, metricsTLS) \<Rightarrow>
       \<lparr>mo_Metrics = \<lparr>BindAddress = metricsAddr fl, SecureServing = secureMetrics fl,
          FilterProvider = secureMetrics fl, MetricsTLSOpts = metricsTLS\<rparr>,
        mo_WebhookTLSOpts = webhookTLS, mo_HealthProbeBindAddress = probeAddr fl,
        mo_LeaderElection = enableLeaderElection fl, mo_LeaderElectionID = ''b760e4bf.ansible.com''\<rparr>)"

definition main_steps :: "main_env \<Rightarrow> main_flags \<Rightarrow> step list" where
  "main_steps E fl =
     (if length (webhookCertPath fl) > 0
      then [NewCertWatcher WebhookCertWatcher (Join (webhookCertPath fl) (webhookCertName fl))
              (Join (webhookCertPath fl) (webhookCertKey fl))] else [])
     @ (if length (metricsCertPath fl) > 0
      then [NewCertWatcher MetricsCertWatcher (Join (metricsCertPath fl) (metricsCertName fl))
              (Join (metricsCertPath fl) (metricsCertKey fl))] else [])
     @ [GetConfig, NewManager (managerOptions (grow_cap E) fl),
        SetupController \<lparr>HasRouteAPI = routeMapped E, HasAPIReader = True\<rparr>]
     @ (if length (metricsCertPath fl) > 0 then [AddRunnable MetricsCertWatcher] else [])
     @ (if length (webhookCertPath fl) > 0 then [AddRunnable WebhookCertWatcher] else [])
     @ [AddCheck ''healthz'', AddCheck ''readyz'', StartManager]"

definition main_run :: "main_env \<Rightarrow> other_flags \<Rightarrow> string list \<Rightarrow> step list \<times> nat" where
  "main_run E other args =
    (case flag_Parse other args default_flags of
       Inl code \<Rightarrow> ([], code)
     | Inr fl \<Rightarrow> run_steps (fails E) (main_steps E fl))"

subsection \<open>Command lines round-trip\<close>

definition FormatFlag :: "bool \<Rightarrow> string" where
  "FormatFlag b = (if b then ''true'' else ''false'')"

definition flag_texts :: "main_flags \<Rightarrow> (string \<times> string) list" where
  "flag_texts fl =
     [(''metrics-bind-address'', metricsAddr fl), (''health-probe-bind-address'', probeAddr fl),
      (''leader-elect'', FormatFlag (enableLeaderElection fl)), (''metrics-secure'', FormatFlag (secureMetrics fl)),
      (''webhook-cert-path'', webhookCertPath fl), (''webhook-cert-name'', webhookCertName fl),
      (''webhook-cert-key'', webhookCertKey fl), (''metrics-cert-path'', metricsCertPath fl),
      (''metrics-cert-name'', metricsCertName fl), (''metrics-cert-key'', metricsCertKey fl),
      (''enable-http2'', FormatFlag (enableHTTP2 fl))]"

definition command_line :: "main_flags \<Rightarrow> string list" where
  "command_line fl = map (\<lambda>(n, v). ''--'' @ n @ ''='' @ v) (flag_texts fl)"

definition plain_name :: "string \<Rightarrow> bool" where
  "plain_name n \<longleftrightarrow> n \<noteq> [] \<and> hd n \<noteq> CHR ''-'' \<and> CHR ''='' \<notin> set n"

lemma split_flag_eq: "plain_name n \<Longrightarrow> split_flag (n @ CHR ''='' # v) = (n, Some v)"
  by (cases n) (auto simp: split_flag_def plain_name_def takeWhile_append dropWhile_append)

lemma flag_Parse_eq:
  assumes "plain_name n" and "map_of flag_table n = Some f"
  shows "flag_Parse other ((''--'' @ n @ ''='' @ v) # args) fl
    = (case set_flag f v fl of None \<Rightarrow> Inl 2 | Some fl \<Rightarrow> flag_Parse other args fl)"
proof -
  obtain c cs where n: "n = c # cs" "c \<noteq> CHR ''-''" "c \<noteq> CHR ''=''" using assms(1) by (cases n) (auto simp: plain_name_def)
  have "formal other n = Some f" using assms(2) by (simp add: formal_def map_add_def)
  then show ?thesis
    using split_flag_eq [OF assms(1), of v] n by (simp add: Let_def flag_name_def split: option.split)
qed

lemma ParseBool_FormatFlag: "ParseBool (FormatFlag b) = Some b"
  by (simp add: ParseBool_def FormatFlag_def)

text \<open>What a list of settings comes to, one after the other.\<close>

fun set_all :: "(string \<times> string) list \<Rightarrow> main_flags \<Rightarrow> main_flags option" where
  "set_all [] fl = Some fl"
| "set_all ((n, v) # kvs) fl =
     (case map_of flag_table n of None \<Rightarrow> None
      | Some f \<Rightarrow> (case set_flag f v fl of None \<Rightarrow> None | Some fl \<Rightarrow> set_all kvs fl))"

lemma flag_Parse_all:
  assumes "set_all kvs fl0 = Some fl" and "list_all (\<lambda>(n, v). plain_name n) kvs"
  shows "flag_Parse other (map (\<lambda>(n, v). ''--'' @ n @ ''='' @ v) kvs) fl0 = Inr fl"
  using assms
proof (induction kvs fl0 rule: set_all.induct)
  case (2 n v kvs fl0)
  then obtain f fl1 where f: "map_of flag_table n = Some f" "set_flag f v fl0 = Some fl1" "set_all kvs fl1 = Some fl"
    by (auto split: option.splits)
  have "flag_Parse other (map (\<lambda>(n, v). ''--'' @ n @ ''='' @ v) kvs) fl1 = Inr fl"
    using 2 f by simp
  moreover have "plain_name n" using 2(3) by simp
  ultimately show ?case using flag_Parse_eq [OF _ f(1)] f(2) by simp
qed simp

text \<open>C31: Every setting of the eleven flags can be given on the command line, whatever strings they hold:
  parsing the command line that spells them all out returns them, from any starting values
  and with any flags of other packages registered beside them.\<close>

theorem command_line_roundtrip: "flag_Parse other (command_line fl) fl0 = Inr fl"
proof -
  have "list_all (\<lambda>(n, v). plain_name n) (flag_texts fl)"
    by (simp add: flag_texts_def plain_name_def)
  moreover have "set_all (flag_texts fl) fl0 = Some fl"
    by (simp add: flag_texts_def flag_table_def set_flag_def ParseBool_FormatFlag)
  ultimately show ?thesis unfolding command_line_def by (intro flag_Parse_all)
qed

subsection \<open>TLS of the two servers\<close>

definition own_opts :: "main_flags \<Rightarrow> watcher \<Rightarrow> tls_opt list" where
  "own_opts fl w =
     (if enableHTTP2 fl then [] else [DisableHTTP2])
     @ (if (case w of MetricsCertWatcher \<Rightarrow> metricsCertPath fl | WebhookCertWatcher \<Rightarrow> webhookCertPath fl) \<noteq> []
        then [GetCertificateOf w] else [])"

lemma slice_simps [simp]: "s_array nil_slice = 0" "s_len nil_slice = 0"
  by (simp_all add: nil_slice_def)

lemmas slice_defs = server_opts_def append_if_def append_opt_def elements_def Let_def

lemma server_opts_exact:
  assumes "grow 1 = 1"
  shows "server_opts grow fl = (map Some (own_opts fl WebhookCertWatcher), map Some (own_opts fl MetricsCertWatcher))"
  using assms by (simp add: slice_defs own_opts_def)

lemma server_opts_shared:
  assumes "grow 1 > 1" and "\<not> enableHTTP2 fl" and "webhookCertPath fl \<noteq> []" and "metricsCertPath fl \<noteq> []"
  shows "server_opts grow fl =
    ([Some DisableHTTP2, Some (GetCertificateOf MetricsCertWatcher)],
     [Some DisableHTTP2, Some (GetCertificateOf MetricsCertWatcher)])"
proof -
  have "grow (Suc 0) = Suc (Suc (grow (Suc 0) - 2))" using assms(1) by simp
  then obtain n where "grow (Suc 0) = Suc (Suc n)" by blast
  then show ?thesis using assms(2-4) by (simp add: slice_defs)
qed

text \<open>C29: The TLS of the webhook and the metrics server. With Go's runtime, where the first \<open>append\<close> to
  a nil slice of functions makes room for one element, each server gets exactly its own
  options: HTTP/1.1 only, unless HTTP/2 was asked for, and the certificate of its own
  directory if one was given; the metrics endpoint asks for authentication exactly when it is
  served securely. The two lists start as one slice: on a runtime that reserves more, giving
  both directories would make the webhook server present the metrics certificate.\<close>

theorem server_tls:
  "(grow 1 = 1 \<longrightarrow>
      mo_WebhookTLSOpts (managerOptions grow fl) = map Some (own_opts fl WebhookCertWatcher)
      \<and> MetricsTLSOpts (mo_Metrics (managerOptions grow fl)) = map Some (own_opts fl MetricsCertWatcher))
   \<and> (\<forall>w c. NextProtos (serve_with (own_opts fl w) c) = (if enableHTTP2 fl then NextProtos c else [''http/1.1'']))
   \<and> (\<forall>w c. GetCertificate (serve_with (own_opts fl w) c) \<in> {GetCertificate c, Some w})
   \<and> (FilterProvider (mo_Metrics (managerOptions grow fl)) \<longleftrightarrow> SecureServing (mo_Metrics (managerOptions grow fl)))
   \<and> (grow 1 > 1 \<and> \<not> enableHTTP2 fl \<and> webhookCertPath fl \<noteq> [] \<and> metricsCertPath fl \<noteq> [] \<longrightarrow>
      mo_WebhookTLSOpts (managerOptions grow fl) = map Some (own_opts fl MetricsCertWatcher))"
proof (intro conjI allI impI)
  assume "grow 1 = 1"
  then show "mo_WebhookTLSOpts (managerOptions grow fl) = map Some (own_opts fl WebhookCertWatcher)"
    "MetricsTLSOpts (mo_Metrics (managerOptions grow fl)) = map Some (own_opts fl MetricsCertWatcher)"
    by (simp_all add: managerOptions_def server_opts_exact)
next
  fix w c
  show "NextProtos (serve_with (own_opts fl w) c) = (if enableHTTP2 fl then NextProtos c else [''http/1.1''])"
    "GetCertificate (serve_with (own_opts fl w) c) \<in> {GetCertificate c, Some w}"
    by (auto simp: own_opts_def serve_with_def)
next
  show "FilterProvider (mo_Metrics (managerOptions grow fl)) = SecureServing (mo_Metrics (managerOptions grow fl))"
    by (simp add: managerOptions_def split: prod.split)
next
  assume "grow 1 > 1 \<and> \<not> enableHTTP2 fl \<and> webhookCertPath fl \<noteq> [] \<and> metricsCertPath fl \<noteq> []"
  then show "mo_WebhookTLSOpts (managerOptions grow fl) = map Some (own_opts fl MetricsCertWatcher)"
    by (simp add: managerOptions_def server_opts_shared own_opts_def)
qed

theorem server_tls_witness:
  "mo_WebhookTLSOpts (managerOptions (\<lambda>n. n) (default_flags\<lparr>webhookCertPath := ''/w'', metricsCertPath := ''/m''\<rparr>))
     = [Some DisableHTTP2, Some (GetCertificateOf WebhookCertWatcher)]
   \<and> mo_WebhookTLSOpts (managerOptions (\<lambda>n. 2 * n) (default_flags\<lparr>webhookCertPath := ''/w'', metricsCertPath := ''/m''\<rparr>))
     = [Some DisableHTTP2, Some (GetCertificateOf MetricsCertWatcher)]"
  using server_tls [of "\<lambda>n. n" "default_flags\<lparr>webhookCertPath := ''/w'', metricsCertPath := ''/m''\<rparr>"]
    server_tls [of "\<lambda>n. 2 * n" "default_flags\<lparr>webhookCertPath := ''/w'', metricsCertPath := ''/m''\<rparr>"]
  by (simp add: own_opts_def default_flags_def)

subsection \<open>Exit codes\<close>

lemma run_steps_spec:
  "run_steps bad ss = (tr, code) \<Longrightarrow>
     \<exists>rest. ss = tr @ rest \<and> list_all (\<lambda>s. \<not> bad s) (butlast tr)
       \<and> (if code = 0 then rest = [] \<and> list_all (\<lambda>s. \<not> bad s) tr else code = 1 \<and> tr \<noteq> [] \<and> bad (last tr))"
proof (induction ss arbitrary: tr)
  case (Cons s ss)
  show ?case
  proof (cases "bad s")
    case True
    then show ?thesis using Cons.prems by auto
  next
    case False
    then obtain tr' where tr: "tr = s # tr'" "run_steps bad ss = (tr', code)"
      using Cons.prems by (auto split: prod.splits)
    from Cons.IH [OF tr(2)] show ?thesis using False by (auto simp: tr(1) split: if_splits)
  qed
qed simp

text \<open>The exit codes of \<open>flag_Parse\<close>.\<close>

definition exits_0_2 :: "nat + main_flags \<Rightarrow> bool" where
  "exits_0_2 r \<longleftrightarrow> (\<forall>c. r = Inl c \<longrightarrow> c \<in> {0, 2})"

lemma exits_simps [simp]: "exits_0_2 (Inr fl)" "exits_0_2 (Inl 0)" "exits_0_2 (Inl 2)"
  by (simp_all add: exits_0_2_def)

lemma exits_option: "(\<And>x. exits_0_2 (f x)) \<Longrightarrow> exits_0_2 (case r of None \<Rightarrow> Inl 2 | Some x \<Rightarrow> f x)"
  by (cases r) simp_all

lemma flag_Parse_exits: "exits_0_2 (flag_Parse other args fl)"
proof (induction "length args" arbitrary: args fl rule: less_induct)
  case less
  show ?case
  proof (cases args)
    case (Cons s rest)
    have rec: "exits_0_2 (flag_Parse other rest fl1)" for fl1 by (rule less) (simp add: Cons)
    have rec2: "exits_0_2 (flag_Parse other rest' fl1)" if "rest = v # rest'" for v rest' fl1
      by (rule less) (simp add: Cons that)
    have set: "exits_0_2 (case set_flag f v fl of None \<Rightarrow> Inl 2 | Some fl \<Rightarrow> flag_Parse other rest fl)" for f v
      by (rule exits_option) (rule rec)
    have list: "exits_0_2 (case rest of [] \<Rightarrow> Inl 2
        | v # rest' \<Rightarrow> (case set_flag f v fl of None \<Rightarrow> Inl 2 | Some fl \<Rightarrow> flag_Parse other rest' fl))" for f
      by (cases rest) (simp_all add: exits_option rec2)
    show ?thesis
      unfolding Cons flag_Parse.simps Let_def
      by (simp add: set list split: prod.split option.split)
  qed simp
qed

lemma main_run_steps:
  assumes "main_run E other args = (tr, code)"
  shows "case flag_Parse other args default_flags of
      Inl c \<Rightarrow> tr = [] \<and> code = c \<and> c \<in> {0, 2}
    | Inr fl \<Rightarrow> \<exists>rest. main_steps E fl = tr @ rest \<and> tr \<noteq> [] \<and> list_all (\<lambda>s. \<not> fails E s) (butlast tr)
        \<and> code = (if fails E (last tr) then 1 else 0)
        \<and> (StartManager \<in> set tr \<longleftrightarrow> rest = []) \<and> (rest = [] \<longrightarrow> last tr = StartManager)
        \<and> (code = 0 \<longrightarrow> rest = [])
        \<and> (\<forall>R. SetupController R \<in> set tr \<longrightarrow> (HasRouteAPI R \<longleftrightarrow> routeMapped E))
        \<and> (\<forall>w. AddRunnable w \<in> set (main_steps E fl) \<longleftrightarrow> (\<exists>crt key. NewCertWatcher w crt key \<in> set (main_steps E fl)))"
proof (cases "flag_Parse other args default_flags")
  case (Inl c)
  then show ?thesis
    using assms flag_Parse_exits [of other args default_flags] by (simp add: main_run_def exits_0_2_def)
next
  case (Inr fl)
  then have "run_steps (fails E) (main_steps E fl) = (tr, code)" using assms by (simp add: main_run_def)
  from run_steps_spec [OF this] obtain rest where rest: "main_steps E fl = tr @ rest"
    "list_all (\<lambda>s. \<not> fails E s) (butlast tr)"
    "if code = 0 then rest = [] \<and> list_all (\<lambda>s. \<not> fails E s) tr else code = 1 \<and> tr \<noteq> [] \<and> fails E (last tr)"
    by blast
  let ?front = "butlast (main_steps E fl)"
  have front: "main_steps E fl = ?front @ [StartManager]" "StartManager \<notin> set ?front"
    by (auto simp: main_steps_def butlast_append)
  have tr: "tr \<noteq> []" using rest(1,3) front(1) by (auto split: if_splits)
  have started: "StartManager \<in> set tr \<longleftrightarrow> rest = []"
  proof (cases "rest = []")
    case False
    then have "tr @ butlast rest = ?front" using rest(1) by (simp add: butlast_append)
    then have "StartManager \<notin> set tr" using front(2) by (metis UnCI set_append)
    then show ?thesis using False by simp
  next
    case True
    then show ?thesis using front(1) rest(1) by (metis append_Nil2 in_set_conv_decomp)
  qed
  have "code = (if fails E (last tr) then 1 else 0)"
    using rest(3) tr by (auto simp: list_all_iff split: if_splits)
  moreover have "rest = [] \<longrightarrow> last tr = StartManager" using rest(1) front(1) by (metis append_Nil2 last_snoc)
  moreover have "code = 0 \<longrightarrow> rest = []" using rest(3) by auto
  moreover have "\<forall>R. SetupController R \<in> set tr \<longrightarrow> (HasRouteAPI R \<longleftrightarrow> routeMapped E)"
  proof (intro allI impI)
    fix R
    assume "SetupController R \<in> set tr"
    then have "SetupController R \<in> set (main_steps E fl)" by (simp add: rest(1))
    then show "HasRouteAPI R \<longleftrightarrow> routeMapped E" by (auto simp: main_steps_def split: if_splits)
  qed
  moreover have "\<forall>w. AddRunnable w \<in> set (main_steps E fl)
      \<longleftrightarrow> (\<exists>crt key. NewCertWatcher w crt key \<in> set (main_steps E fl))"
  proof
    show "AddRunnable w \<in> set (main_steps E fl)
      \<longleftrightarrow> (\<exists>crt key. NewCertWatcher w crt key \<in> set (main_steps E fl))" for w
      by (cases w) (auto simp: main_steps_def)
  qed
  ultimately show ?thesis unfolding Inr sum.case using rest(1,2) tr started
    by (intro exI [of _ rest] conjI)
qed

end
