(* ===== verification/Typed.thy ===== *)
theory Typed
  imports Names
begin

text \<open>
  Typing of what the operator sends. Go's API types do not know their own kind: server-side
  apply rejects an object without \<open>kind\<close> and \<open>apiVersion\<close>, and every builder has to
  fill them in for the type it returns.
\<close>

fun type_of :: "client_object \<Rightarrow> type_meta" where
  "type_of (OServiceAccount x) = sa_type x"
| "type_of (OPVC x) = pvc_type x"
| "type_of (OConfigMap x) = cm_type x"
| "type_of (OSecret x) = sec_typeMeta x"
| "type_of (OStatefulSet x) = sts_type x"
| "type_of (ODeployment x) = dep_type x"
| "type_of (OService x) = svc_typeMeta x"
| "type_of (ONetworkPolicy x) = np_type x"
| "type_of (OIngress x) = ing_type x"
| "type_of (ORoute x) = \<lparr>tm_kind = json_text [''kind''] x, tm_apiVersion = json_text [''apiVersion''] x\<rparr>"

text \<open>The group, version and kind of each Go type, from the scheme of the client library.\<close>

fun api_type :: "client_object \<Rightarrow> type_meta" where
  "api_type (OServiceAccount x) = \<lparr>tm_kind = ''ServiceAccount'', tm_apiVersion = ''v1''\<rparr>"
| "api_type (OPVC x) = \<lparr>tm_kind = ''PersistentVolumeClaim'', tm_apiVersion = ''v1''\<rparr>"
| "api_type (OConfigMap x) = \<lparr>tm_kind = ''ConfigMap'', tm_apiVersion = ''v1''\<rparr>"
| "api_type (OSecret x) = \<lparr>tm_kind = ''Secret'', tm_apiVersion = ''v1''\<rparr>"
| "api_type (OStatefulSet x) = \<lparr>tm_kind = ''StatefulSet'', tm_apiVersion = ''apps/v1''\<rparr>"
| "api_type (ODeployment x) = \<lparr>tm_kind = ''Deployment'', tm_apiVersion = ''apps/v1''\<rparr>"
| "api_type (OService x) = \<lparr>tm_kind = ''Service'', tm_apiVersion = ''v1''\<rparr>"
| "api_type (ONetworkPolicy x) = \<lparr>tm_kind = ''NetworkPolicy'', tm_apiVersion = ''networking.k8s.io/v1''\<rparr>"
| "api_type (OIngress x) = \<lparr>tm_kind = ''Ingress'', tm_apiVersion = ''networking.k8s.io/v1''\<rparr>"
| "api_type (ORoute x) = \<lparr>tm_kind = ''Route'', tm_apiVersion = ''route.openshift.io/v1''\<rparr>"

fun labels_of :: "client_object \<Rightarrow> strmap" where
  "labels_of (OServiceAccount x) = m_labels (sa_meta x)"
| "labels_of (OPVC x) = m_labels (pvc_meta x)"
| "labels_of (OConfigMap x) = m_labels (cm_meta x)"
| "labels_of (OSecret x) = m_labels (sec_meta x)"
| "labels_of (OStatefulSet x) = m_labels (sts_meta x)"
| "labels_of (ODeployment x) = m_labels (dep_meta x)"
| "labels_of (OService x) = m_labels (svc_meta x)"
| "labels_of (ONetworkPolicy x) = m_labels (np_meta x)"
| "labels_of (OIngress x) = m_labels (ing_meta x)"
| "labels_of (ORoute x) =
     (case json_field ''metadata'' x of None \<Rightarrow> []
      | Some m \<Rightarrow> (case json_field ''labels'' m of
          Some (JObject fs) \<Rightarrow> map (\<lambda>(k, j). (k, json_text [] j)) fs | _ \<Rightarrow> []))"

definition well_typed :: "Desired \<Rightarrow> client_object \<Rightarrow> bool" where
  "well_typed d ob \<longleftrightarrow>
     type_of ob = api_type ob \<and> id_namespace (id_of ob) = d_Namespace d \<and> owner_refs ob = []
     \<and> (\<exists>component \<in> {componentEngine, componentGateway, componentUI, componentPostgres, componentAbbenay}.
          set (labels_of ob) = set (labels d component))"

lemma labels_json: "map (\<lambda>(k, j). (k, json_text [] j)) (toUnstructuredStringMap m) = m"
  by (induction m) (auto simp: toUnstructuredStringMap_def json_text_def)

lemma routeUnstructured_type:
  "type_of (ORoute (routeUnstructured n c h svc p d)) = api_type (ORoute (routeUnstructured n c h svc p d))"
  "id_namespace (id_of (ORoute (routeUnstructured n c h svc p d))) = d_Namespace d"
  "owner_refs (ORoute (routeUnstructured n c h svc p d)) = []"
  "labels_of (ORoute (routeUnstructured n c h svc p d)) = labels d c"
proof -
  show "labels_of (ORoute (routeUnstructured n c h svc p d)) = labels d c"
    by (simp add: routeUnstructured_def json_field_def labels_json Let_def)
qed (simp_all add: routeUnstructured_def json_text_def json_field_def Let_def)

lemma well_typedI:
  assumes "type_of ob = api_type ob" and "id_namespace (id_of ob) = d_Namespace d" and "owner_refs ob = []"
    and "set (labels_of ob) = set (labels d component)"
    and "component \<in> {componentEngine, componentGateway, componentUI, componentPostgres, componentAbbenay}"
  shows "well_typed d ob"
  using assms unfolding well_typed_def by blast

lemma meta_facts:
  "m_ownerRefs (meta n ns c d) = []" "m_ownerRefs (postgresMeta d n) = []" "m_labels (postgresMeta d n) = postgresLabels d"
  "m_namespace (postgresMeta d n) = d_Namespace d"
  by (simp_all add: meta_def postgresMeta_def zero_meta_def)

lemmas typed_defs = manifest_defs StatefulSet_def SSLConfigMap_def Let_def meta_id_def typeMeta_def meta_facts
  postgresLabels_labels

lemma typed_engine:
  "well_typed d (OServiceAccount (ServiceAccount d))" "well_typed d (OPVC (SessionsPVC d))"
  "well_typed d (OPVC (ProxyCachePVC d))"
  "well_typed d (OService (EngineService d))"
  "well_typed d (ONetworkPolicy (APMENetworkPolicy d))" "well_typed d (OSecret (NewProxyAdminTokenSecret d tok))"
  by (rule well_typedI [where component = componentEngine]; simp add: typed_defs)+

lemma typed_postgres:
  "well_typed d (OConfigMap (SSLConfigMap d))" "well_typed d (OStatefulSet (StatefulSet d))"
  "well_typed d (OService (PostgresService d))" "well_typed d (ONetworkPolicy (PostgresNetworkPolicy d))"
  "well_typed d (OSecret (postgresSecret d pw))" "well_typed d (OSecret (tlsSecret d a b c e))"
  by (rule well_typedI [where component = componentPostgres];
      simp add: typed_defs postgresSecret_def tlsSecret_def)+

lemma typed_workload: "well_typed d (ODeployment (Deployment d cs))" "well_typed d (OIngress (Ingress d))"
  by (rule well_typedI [where component = componentEngine];
      simp add: typed_defs Deployment_def Ingress_def)+

lemma typed_exposed: "well_typed d (OService (GatewayService d))" "well_typed d (OService (UIService d))"
  by (rule well_typedI [where component = componentGateway], (simp add: typed_defs)+)
    (rule well_typedI [where component = componentUI], (simp add: typed_defs)+)

lemma typed_routes: "well_typed d (ORoute (UIRoute d))" "well_typed d (ORoute (APIRoute d))"
  unfolding UIRoute_def APIRoute_def
  by (rule well_typedI [OF routeUnstructured_type(1-3)], simp only: routeUnstructured_type(4), simp)+

lemma typed_abbenay:
  "well_typed d (OConfigMap (DefaultAbbenayConfigMap d))" "well_typed d (OPVC (AbbenayPVC d))"
  "well_typed d (OSecret (NewAbbenayTokenSecret d tok))"
  by (rule well_typedI [where component = componentAbbenay]; simp add: typed_defs)+

lemmas typed_builders = typed_engine typed_postgres typed_workload typed_exposed typed_routes typed_abbenay

text \<open>C39: Every object a reconcile applies or generates, for every resource, carries the kind and API
  version its Go type has in the scheme, lies in the resource's namespace, brings no owner
  reference of its own for the operator's to clash with, and is labelled with the instance
  and one of its five components.\<close>

theorem objects_well_typed: "list_all (well_typed (From E cr)) (everything (From E cr) checksum tok pem)"
proof -
  let ?d = "From E cr"
  have core: "list_all (well_typed ?d) (coreObjects ?d)"
    by (simp add: coreObjects_def typed_builders)
  have "list_all (well_typed ?d) (databaseObjects ?d)" "list_all (well_typed ?d) (abbenayObjects ?d)"
    "list_all (well_typed ?d) (workloadObjects ?d checksum)" "list_all (well_typed ?d) (routeObjects ?d)"
    "list_all (well_typed ?d) (ownSecrets ?d tok pem)"
    by (simp_all add: databaseObjects_def abbenayObjects_def workloadObjects_def routeObjects_def ownSecrets_def
        typed_builders)
  with core show ?thesis by (simp add: everything_def ownObjects_def appliedObjects_def)
qed

end
