(* ===== verification/Routes_Facts.thy ===== *)
theory Routes_Facts
  imports Guarantees
begin

text \<open>
  Routes and their hosts: which live Routes are recreated, which host an applied Route
  carries, and how errors of Routes are told apart. The accessors of \<open>unstructured\<close> are
  parameters; the laws below are their documentation.
\<close>

subsection \<open>Unstructured access\<close>

text \<open>\<open>NestedString\<close> returns the string at a path of objects and whether there is one.\<close>

definition nested_strings :: "lib \<Rightarrow> bool" where
  "nested_strings L \<longleftrightarrow>
     (\<forall>j path. \<exists>err. NestedString L j path = (json_text path j, json_string path j \<noteq> None, err))"

text \<open>\<open>SetNestedField\<close> sets the field at the path, here below an object that exists.\<close>

definition sets_host :: "lib \<Rightarrow> bool" where
  "sets_host L \<longleftrightarrow>
     (\<forall>j v fs. json_field ''spec'' j = Some (JObject fs) \<longrightarrow>
        fst (SetNestedField L j v [''spec'', ''host'']) = json_set [''spec'', ''host''] v j)"

lemma nested_simps:
  assumes "nested_strings L"
  shows "fst (NestedString L j path) = json_text path j"
    "fst (snd (NestedString L j path)) \<longleftrightarrow> json_string path j \<noteq> None"
proof -
  obtain err where "NestedString L j path = (json_text path j, json_string path j \<noteq> None, err)"
    using assms unfolding nested_strings_def by blast
  then show "fst (NestedString L j path) = json_text path j"
    "fst (snd (NestedString L j path)) \<longleftrightarrow> json_string path j \<noteq> None"
    by simp_all
qed

abbreviation host_path :: "string list" where
  "host_path \<equiv> [''spec'', ''host'']"

abbreviation path_path :: "string list" where
  "path_path \<equiv> [''spec'', ''path'']"

abbreviation intent_path :: "string list" where
  "intent_path \<equiv> [''metadata'', ''annotations'', RouteDesiredHostAnnotation]"

lemma json_field_simps [simp]:
  "json_field k (JObject fs) = map_of fs k"
  by (simp add: json_field_def)

lemma json_set_one: "json_field k (json_set (k # ks) v j) =
    Some (json_set ks v (case json_field k j of Some x \<Rightarrow> x | None \<Rightarrow> JObject []))"
  by (cases j) (simp_all add: json_field_def update_conv')

lemma json_set_get: "json_string [k, l] (json_set [k, l] (JString v) j) = Some v"
  by (simp add: json_set_one del: json_set.simps(2,3))

lemma json_set_other:
  assumes "json_field k j = Some (JObject fs)" and "(k', l') \<noteq> (k, l)"
  shows "json_string (k' # l' # p) (json_set [k, l] v j) = json_string (k' # l' # p) j"
  using assms by (cases j) (auto simp: update_conv' json_field_def split: option.split)

text \<open>What the builders put at these paths.\<close>

lemma routeUnstructured_fields:
  "json_text host_path (routeUnstructured name c host svc path d) = host"
  "json_text path_path (routeUnstructured name c host svc path d) = path"
  "json_string intent_path (routeUnstructured name c host svc path d) = Some host"
  "json_text intent_path (routeUnstructured name c host svc path d) = host"
  "\<exists>fs. json_field ''spec'' (routeUnstructured name c host svc path d) = Some (JObject fs)"
  by (auto simp: routeUnstructured_def json_text_def Let_def RouteDesiredHostAnnotation_def)

lemmas route_fields = UIRoute_def APIRoute_def routeUnstructured_fields

subsection \<open>Recreation\<close>

lemma routeNeedsRecreate_iff:
  assumes "nested_strings L"
  shows "routeNeedsRecreate L existing desired \<longleftrightarrow>
    json_text path_path existing \<noteq> json_text path_path desired
    \<or> (case json_string intent_path existing of
         Some intent \<Rightarrow> intent \<noteq> json_text intent_path desired
       | None \<Rightarrow> json_text host_path desired \<noteq> [] \<and> json_text host_path existing \<noteq> json_text host_path desired)"
proof -
  obtain err where "NestedString L existing intent_path =
      (json_text intent_path existing, json_string intent_path existing \<noteq> None, err)"
    using assms unfolding nested_strings_def by blast
  then show ?thesis
    unfolding routeNeedsRecreate_def Let_def nested_simps [OF assms]
    by (auto simp: json_text_def simp del: json_string.simps split: option.split)
qed

text \<open>
  A live Route that carries the path and the host annotation of an earlier apply for the
  intent \<open>d0\<close>. Its host, status and everything else are up to OpenShift.
\<close>

definition applied_for :: "(Desired \<Rightarrow> json) \<Rightarrow> Desired \<Rightarrow> json \<Rightarrow> bool" where
  "applied_for route d0 live \<longleftrightarrow>
     json_text path_path live = json_text path_path (route d0)
     \<and> json_string intent_path live = json_string intent_path (route d0)"

text \<open>C26: A Route the operator applied for one intent is recreated for another exactly when the host the
  resource asks for changed, or, for the API, when the UI was switched on or off, which moves
  its path. The host OpenShift assigned to it plays no part, so an unchanged resource never
  recreates its Routes. A Route without the operator's annotation is recreated only for its
  path or for a custom host it does not have.\<close>

theorem route_recreate_rule:
  assumes "nested_strings L"
  shows "(applied_for UIRoute d0 live \<longrightarrow>
      (routeNeedsRecreate L live (UIRoute d) \<longleftrightarrow> d_RouteHost d \<noteq> d_RouteHost d0))
    \<and> (applied_for APIRoute d0 live \<longrightarrow>
      (routeNeedsRecreate L live (APIRoute d) \<longleftrightarrow> d_RouteHost d \<noteq> d_RouteHost d0 \<or> d_UI d \<noteq> d_UI d0))
    \<and> (json_string intent_path live = None \<longrightarrow>
      (routeNeedsRecreate L live (UIRoute d) \<longleftrightarrow> json_text path_path live \<noteq> []
        \<or> d_RouteHost d \<noteq> [] \<and> json_text host_path live \<noteq> d_RouteHost d))"
  unfolding routeNeedsRecreate_iff [OF assms] applied_for_def
  by (auto simp: route_fields simp del: json_string.simps)

subsection \<open>Hosts of applied Routes\<close>

lemma preserveHost_fields:
  assumes "nested_strings L" and "sets_host L" and "json_field ''spec'' desired = Some (JObject fs)"
  shows "json_text host_path (preserveHost L existing desired)
      = (if json_text host_path desired \<noteq> [] then json_text host_path desired else json_text host_path existing)"
    and "json_text intent_path (preserveHost L existing desired) = json_text intent_path desired"
    and "json_text path_path (preserveHost L existing desired) = json_text path_path desired"
proof -
  obtain err where nested: "NestedString L existing host_path =
      (json_text host_path existing, json_string host_path existing \<noteq> None, err)"
    using assms(1) unfolding nested_strings_def by blast
  have found: "json_text host_path existing \<noteq> [] \<Longrightarrow> json_string host_path existing \<noteq> None"
    by (cases "json_string host_path existing") (simp_all add: json_text_def del: json_string.simps)
  have preserve: "preserveHost L existing desired =
      (if json_text host_path desired = [] \<and> json_text host_path existing \<noteq> []
       then json_set host_path (JString (json_text host_path existing)) desired else desired)"
    unfolding preserveHost_def nested nested_simps [OF assms(1)]
    using assms(2,3) found by (auto simp: sets_host_def)
  show "json_text host_path (preserveHost L existing desired)
      = (if json_text host_path desired \<noteq> [] then json_text host_path desired else json_text host_path existing)"
    unfolding preserve by (simp add: json_text_def [of host_path "json_set _ _ _"] json_set_get del: json_string.simps)
  show "json_text intent_path (preserveHost L existing desired) = json_text intent_path desired"
    "json_text path_path (preserveHost L existing desired) = json_text path_path desired"
    unfolding preserve using json_set_other [OF assms(3)] by (simp_all add: json_text_def)
qed

text \<open>What the two loops of \<open>ensureRoutes\<close> may write for one Route.\<close>

definition route_applied :: "lib \<Rightarrow> Apme \<Rightarrow> event list \<Rightarrow> json \<Rightarrow> client_object \<Rightarrow> bool" where
  "route_applied L cr tr route ob \<longleftrightarrow> (\<exists>q j. EGetRoute (ObjectKeyFromObject L (ORoute route)) q \<in> set tr
     \<and> SetControllerReference L cr (ORoute j) = Inr ob
     \<and> json_text intent_path j = json_text intent_path route \<and> json_text path_path j = json_text path_path route
     \<and> json_text host_path j =
         (if json_text host_path route \<noteq> [] then json_text host_path route
          else case q of Inr live \<Rightarrow> json_text host_path live | Inl e \<Rightarrow> [])
     \<and> (\<forall>live. q = Inr live \<longrightarrow> DeletionTimestampIsZero L live
          \<and> \<not> (IsControlledBy L (ORoute live) cr \<and> routeNeedsRecreate L live route)))"

definition route_deleted :: "lib \<Rightarrow> Apme \<Rightarrow> event list \<Rightarrow> bool \<Rightarrow> json \<Rightarrow> client_object \<Rightarrow> bool" where
  "route_deleted L cr tr want route ob \<longleftrightarrow> (\<exists>n live. EGetRoute n (Inr live) \<in> set tr \<and> ob = ORoute live
     \<and> IsControlledBy L ob cr \<and> (want \<longrightarrow> routeNeedsRecreate L live route))"

lemma ensureRoute_writes:
  assumes "nested_strings L" and "sets_host L" and "json_field ''spec'' route = Some (JObject fs)"
    and "exec (ensureRoute L cr d want route name) tr err"
  shows "EPatch ob r \<in> set tr \<Longrightarrow> want \<and> route_applied L cr tr route ob"
    and "EDelete ob r \<in> set tr \<Longrightarrow> route_deleted L cr tr want route ob"
proof -
  note host = preserveHost_fields [OF assms(1,2,3)]
  have applied: "route_applied L cr tr route ob"
    if "EPatch ob r \<in> set tr" "exec (applyOrRecreateRoute L cr route) tr e" for e
  proof -
    let ?get = "EGetRoute (ObjectKeyFromObject L (ORoute route))"
    from that consider e' where "?get (Inl e') \<in> set tr" "SetControllerReference L cr (ORoute route) = Inr ob"
      | live where "?get (Inr live) \<in> set tr" "DeletionTimestampIsZero L live"
          "\<not> (IsControlledBy L (ORoute live) cr \<and> routeNeedsRecreate L live route)"
          "SetControllerReference L cr (ORoute (preserveHost L live route)) = Inr ob"
      by (auto simp: applyOrRecreateRoute_def apply_obj_def)
    then show ?thesis
    proof cases
      case 1
      then show ?thesis
        unfolding route_applied_def by (intro exI [of _ "Inl e'"] exI [of _ route]) auto
    next
      case 2
      then show ?thesis
        unfolding route_applied_def using host [of live]
        by (intro exI [of _ "Inr live"] exI [of _ "preserveHost L live route"]) auto
    qed
  qed
  show "EPatch ob r \<in> set tr \<Longrightarrow> want \<and> route_applied L cr tr route ob"
    using assms(4) applied by (auto simp: ensureRoute_def exec_call deleteOwnedRoute_def split: if_splits)
  show "EDelete ob r \<in> set tr \<Longrightarrow> route_deleted L cr tr want route ob"
    using assms(4)
    by (auto simp: ensureRoute_def exec_call deleteOwnedRoute_def applyOrRecreateRoute_def apply_obj_def
        route_deleted_def split: if_splits)
qed


subsection \<open>Errors\<close>

fun Unwrap :: "gerror \<Rightarrow> gerror option" where
  "Unwrap (ApiError r m) = None"
| "Unwrap (ErrorString m) = None"
| "Unwrap (WrapError p e) = Some e"
| "Unwrap (RoutePermissionError e) = Some e"

lemma Error_contains: "Contains s s" "Contains (Error (WrapError p e)) (Error e)"
  "Contains (Error (RoutePermissionError e)) (Error e)"
proof -
  have suffix: "Contains (a @ s) s" for a s :: string unfolding Contains_iff by (metis append_Nil2)
  show "Contains s s" using suffix [of "[]"] by simp
  show "Contains (Error (WrapError p e)) (Error e)" "Contains (Error (RoutePermissionError e)) (Error e)"
    unfolding Error.simps by (rule suffix, simp only: append_assoc [symmetric], rule suffix)
qed

text \<open>C38: An error of a Route is never lost and is told apart once: what \<open>wrapRouteApplyErr\<close> returns is
  the error itself or wraps it, and its text still contains the original text. It is reported
  as missing permission, in Degraded and in Ready, exactly when the API server forbade the
  request and a custom host is involved, asked for by the resource or named in the message.\<close>

theorem route_errors:
  "wrapRouteApplyErr L None host = None
   \<and> (\<exists>w. wrapRouteApplyErr L (Some e) host = Some w \<and> (w = e \<or> Unwrap w = Some e) \<and> Contains (Error w) (Error e)
       \<and> (isRoutePermissionErr (Some w) \<longleftrightarrow> as_routePermission e
            \<or> IsForbidden L e \<and> (host \<noteq> [] \<or> Contains (ToLower (Error e)) ''custom-host''))
       \<and> (fst (snd (degraded False (Some w) imagePull depMsg)) = ''RoutePermissionDenied'' \<longleftrightarrow> isRoutePermissionErr (Some w))
       \<and> (fst (snd (ready False (Some w) depReady dbReady depMsg)) = ''RoutePermissionDenied''
            \<longleftrightarrow> isRoutePermissionErr (Some w)))"
  by (auto simp: wrapRouteApplyErr_def isRoutePermissionErr_def degraded_def ready_def Let_def Error_contains
      simp del: Contains.simps Error.simps)

end
