(* ===== verification/Witnesses.thy ===== *)
theory Witnesses
  imports Steady Tokens Startup Typed Routes_Facts
begin

text \<open>
  The claims on whole reconciles at work: their hypotheses hold of the reconcile of the
  example resource on the settled cluster of theory \<open>Steady\<close>, of one with an external
  database there, and of a reconcile that finds a container waiting for its image.
\<close>

definition example_reconciler :: ApmeReconciler where
  "example_reconciler = \<lparr>HasRouteAPI = True, HasAPIReader = True\<rparr>"

definition example_req :: NamespacedName where
  "example_req = \<lparr>nn_Name = ''apme'', nn_Namespace = ''apps''\<rparr>"

definition example_trace :: "event list" where
  "example_trace = fst (run settled_server (reconcile_cr example_reconciler example_lib example_env example_cr) ())"

lemma example_exec:
  "exec (Reconcile example_reconciler example_lib example_env example_req)
     (EGetApme example_req (Inr example_cr) # example_trace) (\<lparr>RequeueAfter = requeueStatus\<rparr>, None)"
proof -
  let ?p = "reconcile_cr example_reconciler example_lib example_env example_cr"
  have "fst (snd (run settled_server ?p ())) = (\<lparr>RequeueAfter = requeueStatus\<rparr>, None)"
    using smooth_reconcile_cr [OF settled_server_settled] unfolding smooth_def by blast
  then have "exec ?p example_trace (\<lparr>RequeueAfter = requeueStatus\<rparr>, None)"
    using run_exec [of ?p settled_server "()"] by (simp add: example_trace_def)
  then show ?thesis by (simp add: Reconcile_def)
qed

lemma host_keeps_id_example: "host_keeps_id example_lib"
  by (auto simp: host_keeps_id_def example_lib_def std_lib_def json_text_def json_field_def
      AList.update_conv' fun_upd_def split: json.split option.split)


theorem Reconcile_applies_all_witness:
  "\<exists>work routes look st tok ca.
     example_trace = work @ routes @ look @ [EStatusPatch (example_cr\<lparr>apme_Status := st\<rparr>) example_cr None]
    \<and> EGetSecret (key_in (From example_env example_cr) (d_ProxyAdminTokenName (From example_env example_cr))) (Inr tok)
        \<in> set work
    \<and> owned_as example_lib example_cr (appliedObjects (From example_env example_cr)
        (configChecksum (From example_env example_cr) tok ca)) (patched work)
    \<and> exec (ensureRoutes example_reconciler example_lib example_cr (From example_env example_cr)) routes None
    \<and> reads_only look"
  by (rule Reconcile_applies_all [OF example_exec])


theorem Reconcile_writes_justified_witness:
  "justified example_reconciler example_lib example_cr (From example_env example_cr) {} example_trace"
  by (rule Reconcile_writes_justified [OF example_exec host_keeps_id_example])

theorem pod_secrets_present_witness:
  "set (podSecretRefs (deploymentPod (From example_env example_cr) ''0''))
    \<subseteq> {n. present example_lib example_cr (From example_env example_cr) example_trace n}
      \<union> {skr_Name (db_ConnectionSecretRef (spec_Database (apme_Spec example_cr))),
         skr_Name (ab_TokenSecretRef (spec_Abbenay (apme_Spec example_cr)))}"
  by (rule pod_secrets_present [OF example_exec])

theorem instances_apart_witness:
  "set (map id_of (everything (From example_env example_cr) ''0'' ''t'' ''p''))
    \<inter> set (map id_of (everything (From example_env
        (example_cr\<lparr>apme_meta := (apme_meta example_cr)\<lparr>m_name := m_name (apme_meta example_cr) @ ''-ui''\<rparr>\<rparr>))
        ''0'' ''t'' ''p'')) = {}"
  by (rule instances_apart) simp

theorem Reconcile_bounded_witness:
  "length (EGetApme example_req (Inr example_cr) # example_trace) \<le> 46"
  using Reconcile_bounded [of "settled_server" example_reconciler example_lib example_env example_req "()"]
    example_exec by blast

subsection \<open>Status\<close>

lemma documented_conditions_example: "documented_conditions example_lib"
  by (simp add: documented_conditions_def example_lib_def std_lib_def)


theorem status_stable_witness:
  "newStatus example_lib 5 (example_cr\<lparr>apme_Status :=
       newStatus example_lib 0 example_cr (From example_env example_cr) False None [] (True, ''up'') (True, ''up'', False)\<rparr>)
     (From example_env example_cr) False None [] (True, ''up'') (True, ''up'', False)
   = newStatus example_lib 0 example_cr (From example_env example_cr) False None [] (True, ''up'') (True, ''up'', False)"
  by (rule status_stable [OF documented_conditions_example])

text \<open>A reconcile put together from its work and what its status patch looks at.\<close>

definition plain_reconciler :: ApmeReconciler where
  "plain_reconciler = \<lparr>HasRouteAPI = False, HasAPIReader = True\<rparr>"

lemma plain_url: "exec (publicURL plain_reconciler L d) [] (ingressURL d)"
  by (simp add: publicURL_def plain_reconciler_def)

lemma patchStatus_run:
  assumes "exec (databaseReady d) t2 db" and "exec (deploymentReady plain_reconciler d) t3 dep"
  shows "exec (patchStatus plain_reconciler L cr d leftover err) (ENow 0 # t2 @ t3
    @ [EStatusPatch (cr\<lparr>apme_Status := newStatus L 0 cr d leftover err (ingressURL d) db dep\<rparr>) cr r]) r"
proof -
  let ?e = "EStatusPatch (cr\<lparr>apme_Status := newStatus L 0 cr d leftover err (ingressURL d) db dep\<rparr>) cr r"
  have "exec (call (deploymentReady plain_reconciler d) (\<lambda>dep. StatusPatch
      (cr\<lparr>apme_Status := newStatus L 0 cr d leftover err (ingressURL d) db dep\<rparr>) cr Return)) (t3 @ [?e]) r"
    unfolding exec_call using assms(2) by (intro exI [of _ t3] exI [of _ "[?e]"] exI [of _ dep]) simp
  then have "exec (call (databaseReady d) (\<lambda>db. call (deploymentReady plain_reconciler d) (\<lambda>dep. StatusPatch
      (cr\<lparr>apme_Status := newStatus L 0 cr d leftover err (ingressURL d) db dep\<rparr>) cr Return))) (t2 @ t3 @ [?e]) r"
    unfolding exec_call [of "databaseReady d"] using assms(1)
    by (intro exI [of _ t2] exI [of _ "t3 @ [?e]"] exI [of _ db]) simp
  then show ?thesis
    using plain_url unfolding patchStatus_def exec_simps exec_call [of "publicURL plain_reconciler L d"]
    by (intro exI [of _ 0] exI [of _ "t2 @ t3 @ [?e]"] conjI exI [of _ "[]"] exI [of _ "ingressURL d"]) simp_all
qed

lemma reconcile_exec:
  assumes "exec (ensureAll R L cr (From E cr)) work (leftover, None)"
    and "exec (patchStatus R L cr (From E cr) leftover None) status None"
  shows "exec (reconcile_cr R L E cr) (work @ status) (\<lparr>RequeueAfter = requeueStatus\<rparr>, None)"
proof -
  have "exec (call (patchStatus R L cr (From E cr) leftover None) (\<lambda>err. case err of
         Some err \<Rightarrow> Return (\<lparr>RequeueAfter = 0\<rparr>, Some err)
       | None \<Rightarrow> Return (\<lparr>RequeueAfter = requeueStatus\<rparr>, None))) status (\<lparr>RequeueAfter = requeueStatus\<rparr>, None)"
    unfolding exec_call using assms(2) by (intro exI [of _ status] exI [of _ "[]"] exI [of _ None]) simp
  then show ?thesis
    unfolding reconcile_cr_def Let_def exec_call [of "ensureAll R L cr (From E cr)"] using assms(1)
    by (intro exI [of _ work] exI [of _ status] exI [of _ "(leftover, None)"]) simp
qed

lemma settled_reconcile:
  assumes "settled settled_server example_lib cr (From example_env cr)"
    and "exec (databaseReady (From example_env cr)) t2 db"
    and "exec (deploymentReady plain_reconciler (From example_env cr)) t3 dep"
  shows "\<exists>work leftover. (d_DatabaseMode (From example_env cr) = DatabaseManaged \<longrightarrow> \<not> leftover)
    \<and> exec (Reconcile plain_reconciler example_lib example_env example_req)
        (EGetApme example_req (Inr cr) # (work @ ENow 0 # t2 @ t3)
           @ [EStatusPatch (cr\<lparr>apme_Status := newStatus example_lib 0 cr (From example_env cr) leftover None
                (ingressURL (From example_env cr)) db dep\<rparr>) cr None])
        (\<lparr>RequeueAfter = requeueStatus\<rparr>, None)"
proof -
  let ?d = "From example_env cr" and ?p = "ensureAll plain_reconciler example_lib cr (From example_env cr)"
  obtain work leftover workErr w' where run: "run settled_server ?p () = (work, (leftover, workErr), w')"
    by (cases "run settled_server ?p ()") auto
  moreover have "snd (fst (snd (run settled_server ?p ()))) = None"
    using smooth_ensureAll [OF assms(1)] unfolding smooth_def by blast
  ultimately have work: "exec ?p work (leftover, None)" using run_execI [OF run] by simp
  have managed: "d_DatabaseMode ?d = DatabaseManaged \<Longrightarrow> \<not> leftover"
    using work by (auto simp: ensureAll_def ensureDatabase_def exec_call)
  from reconcile_exec [OF work patchStatus_run [OF assms(2,3), of example_lib cr leftover None None]]
  show ?thesis using managed by (intro exI [of _ work] exI [of _ leftover]) (simp add: Reconcile_def)
qed

lemma example_mode: "d_DatabaseMode (From example_env example_cr) = DatabaseManaged"
  by (simp add: resolve_simps externalDB_def example_cr_def zero_apme_def zero_spec_def)

theorem Ready_is_earned_witness:
  "\<exists>tr. exec (Reconcile plain_reconciler example_lib example_env example_req)
      (EGetApme example_req (Inr example_cr) # tr) (\<lparr>RequeueAfter = requeueStatus\<rparr>, None) \<and> no_failure (butlast tr)"
proof -
  let ?d = "From example_env example_cr"
  have db: "exec (databaseReady ?d) [EGetStatefulSet (key_in ?d (d_Name ?d @ ''-postgres'')) (Inr example_sts)]
      (True, ''postgres ready'')"
    by (simp add: databaseReady_def example_mode DatabaseManaged_def DatabaseExternal_def example_sts_def)
  have dep: "exec (deploymentReady plain_reconciler ?d) [EGetDeployment (key_in ?d (d_Name ?d)) (Inr example_dep)]
      (True, ''deployment ready'', False)"
    by (simp add: deploymentReady_def example_dep_def)
  from settled_reconcile [OF settled_server_settled db dep] example_mode obtain tr new where
    exec: "exec (Reconcile plain_reconciler example_lib example_env example_req)
        (EGetApme example_req (Inr example_cr) # tr @ [EStatusPatch new example_cr None]) (\<lparr>RequeueAfter = requeueStatus\<rparr>, None)"
    and new: "apme_Status new = newStatus example_lib 0 example_cr ?d False None (ingressURL ?d)
      (True, ''postgres ready'') (True, ''deployment ready'', False)"
    by fastforce
  have "cond_status condReady (status_Conditions (apme_Status new)) = Some ''True''"
    unfolding new by (simp add: newStatus_cond_status [OF documented_conditions_example] ready_def)
  from Ready_is_earned [OF exec documented_conditions_example this] have "no_failure tr" by blast
  then show ?thesis using exec by (intro exI [of _ "tr @ [EStatusPatch new example_cr None]"]) (simp add: butlast_append)
qed

definition external_cr :: Apme where
  "external_cr = example_cr\<lparr>apme_Spec := (apme_Spec example_cr)\<lparr>spec_Database :=
     (spec_Database (apme_Spec example_cr))\<lparr>db_ConnectionSecretRef := \<lparr>skr_Name = ''db'', skr_Key = []\<rparr>\<rparr>\<rparr>\<rparr>"

lemma external_mode: "d_DatabaseMode (From example_env external_cr) = DatabaseExternal"
  by (simp add: resolve_simps external_cr_def externalDB_def)

lemma settled_external: "settled settled_server example_lib external_cr (From example_env external_cr)"
proof -
  have "settled_secret example_lib external_cr (From example_env external_cr) settled_example"
    using settled_example_secret
    by (simp add: settled_secret_def resolve_simps) (simp add: example_lib_def std_lib_def external_cr_def)
  moreover have "d_GalaxyCAKey (From example_env external_cr) = d_GalaxyCAKey (From example_env example_cr)"
    by (simp add: resolve_simps external_cr_def)
  ultimately show ?thesis
    using settled_example_ca
    by (simp add: settled_def settled_server_def missing_def settled_ca_def) (simp add: example_lib_def std_lib_def)
qed



theorem external_database_untouched_witness:
  "\<exists>tr. exec (Reconcile plain_reconciler example_lib example_env example_req)
      (EGetApme example_req (Inr external_cr) # tr) (\<lparr>RequeueAfter = requeueStatus\<rparr>, None)
    \<and> list_all (spares example_lib external_cr (key_id (From example_env external_cr) ` set postgres_keys)) (butlast tr)"
proof -
  let ?d = "From example_env external_cr"
  have db: "exec (databaseReady ?d) [EGetSecret (key_in ?d (d_DatabaseSecretName ?d)) (Inr settled_example)]
      (True, ''external secret present'')"
    by (simp add: databaseReady_def external_mode)
  have dep: "exec (deploymentReady plain_reconciler ?d) [EGetDeployment (key_in ?d (d_Name ?d)) (Inr example_dep)]
      (True, ''deployment ready'', False)"
    by (simp add: deploymentReady_def example_dep_def)
  from settled_reconcile [OF settled_external db dep] obtain tr new where
    exec: "exec (Reconcile plain_reconciler example_lib example_env example_req)
        (EGetApme example_req (Inr external_cr) # tr @ [EStatusPatch new external_cr None])
        (\<lparr>RequeueAfter = requeueStatus\<rparr>, None)"
    by blast
  have "d_DatabaseMode ?d \<noteq> DatabaseManaged" by (simp add: external_mode DatabaseManaged_def DatabaseExternal_def)
  from external_database_untouched [OF exec this host_keeps_id_example documented_conditions_example]
  have "list_all (spares example_lib external_cr (key_id ?d ` set postgres_keys)) tr" by blast
  then show ?thesis using exec
    by (intro exI [of _ "tr @ [EStatusPatch new external_cr None]"]) (simp add: butlast_append)
qed

text \<open>A Deployment with no ready replica, and its pod waiting for an image.\<close>

definition pulling_dep :: deployment where
  "pulling_dep = example_dep\<lparr>dep_readyReplicas := 0\<rparr>"

definition pulling_pod :: pod where
  "pulling_pod = \<lparr>pod_meta = zero_meta, pod_spec = deploymentPod (From example_env example_cr) ''0'',
     pod_initContainerStatuses = [],
     pod_containerStatuses = [\<lparr>cs_name = ''other'', cs_image = ''img:1'',
       cs_waiting = Some \<lparr>w_reason = ''ErrImagePull'', w_message = []\<rparr>\<rparr>]\<rparr>"

lemma pulling_selector:
  "dep_selector pulling_dep = Some (selectorLabels (From example_env example_cr) componentEngine)"
  "dep_readyReplicas pulling_dep = 0" "selectorLabels d c \<noteq> []"
  by (simp_all add: pulling_dep_def example_dep_def Deployment_def selectorLabels_def Let_def)


subsection \<open>Routes and Secrets\<close>

lemma nested_strings_example: "nested_strings example_lib"
  by (simp add: nested_strings_def example_lib_def std_lib_def)

lemma sets_host_example: "sets_host example_lib"
  by (simp add: sets_host_def example_lib_def std_lib_def)

theorem route_recreate_rule_witness:
  "routeNeedsRecreate example_lib (UIRoute example_d) (UIRoute (example_d\<lparr>d_RouteHost := ''new.example''\<rparr>))
     \<longleftrightarrow> ''new.example'' \<noteq> d_RouteHost example_d"
proof -
  have "applied_for UIRoute example_d (UIRoute example_d)" by (simp add: applied_for_def)
  then show ?thesis
    using route_recreate_rule [OF nested_strings_example, of example_d "UIRoute example_d"
        "example_d\<lparr>d_RouteHost := ''new.example''\<rparr>"] by simp
qed


theorem route_errors_witness:
  "\<exists>w. wrapRouteApplyErr example_lib (Some (ApiError ''Forbidden'' ''denied'')) ''apme.example'' = Some w
    \<and> isRoutePermissionErr (Some w) \<and> Contains (Error w) ''denied''"
proof -
  have "IsForbidden example_lib (ApiError ''Forbidden'' ''denied'')" by (simp add: example_lib_def std_lib_def)
  then show ?thesis
    using route_errors [of example_lib "''apme.example''" "ApiError ''Forbidden'' ''denied''" False "[]" False False]
    unfolding Error.simps by blast
qed

theorem created_secrets_accepted_witness:
  "\<exists>s. exec (ensureProxyAdminToken example_lib example_cr example_d)
     [EGetSecret (key_in example_d (d_ProxyAdminTokenName example_d)) (Inl missing),
      ERandRead 32 (Inr (replicate 32 CHR ''x'')), ECreate (OSecret s) None] None
   \<and> exec (ensureProxyAdminToken example_lib example_cr example_d)
     [EGetSecret (key_in example_d (d_ProxyAdminTokenName example_d)) (Inr (stored s))] None"
proof -
  let ?p = "ensureProxyAdminToken example_lib example_cr example_d"
  let ?key = "key_in example_d (d_ProxyAdminTokenName example_d)"
  let ?sec = "NewProxyAdminTokenSecret example_d (take 32 (RawURLEncoding (replicate 32 CHR ''x'')))"
  let ?s = "?sec\<lparr>sec_meta := (sec_meta ?sec)\<lparr>m_ownerRefs := [owner_of example_cr]\<rparr>\<rparr>"
  let ?tr = "[EGetSecret ?key (Inl missing), ERandRead 32 (Inr (replicate 32 CHR ''x'')), ECreate (OSecret ?s) None]"
  have sets_owner: "sets_owner example_lib example_cr"
    by (auto simp: sets_owner_def example_lib_def std_lib_def owner_of_def)
  have reads: "full_reads ?tr" by (simp add: full_reads_def)
  have first: "exec ?p ?tr None"
    by (simp add: ensureProxyAdminToken_def randomToken_def exec_call create_owned_def missing_def)
      (simp add: example_lib_def std_lib_def)
  have "\<exists>tr' err'. exec ?p (EGetSecret ?key (Inr (stored ?s)) # tr') err'"
    unfolding ensureProxyAdminToken_def exec_simps using run_exec [of _ settled_server "()"] by blast
  then obtain tr' err' where second: "exec ?p (EGetSecret ?key (Inr (stored ?s)) # tr') err'" by blast
  from created_secrets_accepted [where ensure = ensureProxyAdminToken, OF sets_owner reads example_d_dns _ first _ second]
  have "tr' = [] \<and> err' = None" by simp
  then show ?thesis using first second by blast
qed

end
