(* ===== verification/Go_Memory.thy ===== *)
theory Go_Memory
  imports Main "HOL-Library.Sublist" "HOL-Library.Monad_Syntax" Prelude
begin

text \<open>
  Memory as Go has it, as far as deep copies depend on it: cells at addresses, pointers that
  may be nil, slices as windows on backing arrays, and maps as references. A Go type is
  described by when a value of it is sound in a memory, the value a reader of it sees, and
  the cells a reader reaches. Their laws, and the contract of a deep copy, are in theory \<open>Go_Types\<close>.
\<close>

subsection \<open>Memory\<close>

type_synonym addr = nat
type_synonym 'c memory = "'c list"

definition alloc :: "'c \<Rightarrow> 'c memory \<Rightarrow> addr \<times> 'c memory" where
  "alloc c h = (length h, h @ [c])"

text \<open>
  A cell is read at the type of the pointer: \<open>cast\<close> is defined on the cells of that type.
  \<open>None\<close> is a read or write through an address that is not allocated at that type.
\<close>

definition load :: "('c \<Rightarrow> 'a option) \<Rightarrow> addr \<Rightarrow> 'c memory \<Rightarrow> 'a option" where
  "load cast p h = (if p < length h then cast (h ! p) else None)"

definition store :: "addr \<Rightarrow> 'c \<Rightarrow> 'c memory \<Rightarrow> 'c memory option" where
  "store p c h = (if p < length h then Some (h[p := c]) else None)"

text \<open>A slice that is not nil: its backing array, offset, length and capacity.\<close>

record slice_header =
  sl_array :: addr
  sl_off :: nat
  sl_len :: nat
  sl_cap :: nat

type_synonym slice_ref = "slice_header option"

definition slice_elems :: "('c \<Rightarrow> 'a list option) \<Rightarrow> slice_header \<Rightarrow> 'c memory \<Rightarrow> 'a list option" where
  "slice_elems cast s h =
    (case load cast (sl_array s) h of
       None \<Rightarrow> None
     | Some xs \<Rightarrow> if sl_off s + sl_len s \<le> length xs then Some (take (sl_len s) (drop (sl_off s) xs)) else None)"

text \<open>\<open>s[i]\<close> and \<open>s[i] = x\<close>; an index out of range is \<open>None\<close>.\<close>

definition get_elem :: "('c \<Rightarrow> 'a list option) \<Rightarrow> slice_header \<Rightarrow> nat \<Rightarrow> 'c memory \<Rightarrow> 'a option" where
  "get_elem cast s i h =
     do { xs \<leftarrow> slice_elems cast s h; if i < length xs then Some (xs ! i) else None }"

definition set_elem ::
  "('c \<Rightarrow> 'a list option) \<Rightarrow> ('a list \<Rightarrow> 'c) \<Rightarrow> slice_header \<Rightarrow> nat \<Rightarrow> 'a \<Rightarrow> 'c memory \<Rightarrow> 'c memory option" where
  "set_elem cast cell s i x h =
     do { xs \<leftarrow> load cast (sl_array s) h;
          if i < sl_len s then store (sl_array s) (cell (xs[sl_off s + i := x])) h else None }"

text \<open>\<open>make([]T, n)\<close> and \<open>copy(dst, src)\<close>.\<close>

definition make_slice :: "('a list \<Rightarrow> 'c) \<Rightarrow> 'a \<Rightarrow> nat \<Rightarrow> 'c memory \<Rightarrow> slice_header \<times> 'c memory" where
  "make_slice cell zero n h =
     (case alloc (cell (replicate n zero)) h of
        (p, h) \<Rightarrow> (\<lparr>sl_array = p, sl_off = 0, sl_len = n, sl_cap = n\<rparr>, h))"

definition copy_slice ::
  "('c \<Rightarrow> 'a list option) \<Rightarrow> ('a list \<Rightarrow> 'c) \<Rightarrow> slice_header \<Rightarrow> slice_header \<Rightarrow> 'c memory \<Rightarrow> 'c memory option" where
  "copy_slice cast cell dst src h =
     do { xs \<leftarrow> slice_elems cast src h;
          ys \<leftarrow> load cast (sl_array dst) h;
          let n = min (sl_len dst) (length xs);
          store (sl_array dst) (cell (take (sl_off dst) ys @ take n xs @ drop (sl_off dst + n) ys)) h }"

subsection \<open>Types\<close>

record ('c, 'a, 'v) gotype =
  sound :: "'c memory \<Rightarrow> 'a \<Rightarrow> bool"
  view :: "'c memory \<Rightarrow> 'a \<Rightarrow> 'v"
  reach :: "'c memory \<Rightarrow> 'a \<Rightarrow> addr set"

text \<open>Types without references: booleans, numbers, strings, structs of them.\<close>

definition plain :: "('c, 'a, 'a) gotype" where
  "plain = \<lparr>sound = (\<lambda>h a. True), view = (\<lambda>h a. a), reach = (\<lambda>h a. {})\<rparr>"

definition pair :: "('c, 'a, 'v) gotype \<Rightarrow> ('c, 'b, 'w) gotype \<Rightarrow> ('c, 'a \<times> 'b, 'v \<times> 'w) gotype" where
  "pair T U =
     \<lparr>sound = (\<lambda>h (a, b). sound T h a \<and> sound U h b),
      view = (\<lambda>h (a, b). (view T h a, view U h b)),
      reach = (\<lambda>h (a, b). reach T h a \<union> reach U h b)\<rparr>"

text \<open>A struct has the fields \<open>to s\<close>; \<open>mk\<close> makes the value out of theirs.\<close>

definition struct :: "('s \<Rightarrow> 'a) \<Rightarrow> ('v \<Rightarrow> 'w) \<Rightarrow> ('c, 'a, 'v) gotype \<Rightarrow> ('c, 's, 'w) gotype" where
  "struct to mk T =
     \<lparr>sound = (\<lambda>h s. sound T h (to s)),
      view = (\<lambda>h s. mk (view T h (to s))),
      reach = (\<lambda>h s. reach T h (to s))\<rparr>"

definition pointer :: "('c \<Rightarrow> 'a option) \<Rightarrow> ('c, 'a, 'v) gotype \<Rightarrow> ('c, addr option, 'v option) gotype" where
  "pointer cast T =
     \<lparr>sound = (\<lambda>h p. case p of None \<Rightarrow> True
        | Some p \<Rightarrow> (case load cast p h of None \<Rightarrow> False | Some a \<Rightarrow> sound T h a)),
      view = (\<lambda>h p. map_option (\<lambda>p. view T h (the (load cast p h))) p),
      reach = (\<lambda>h p. case p of None \<Rightarrow> {}
        | Some p \<Rightarrow> insert p (case load cast p h of None \<Rightarrow> {} | Some a \<Rightarrow> reach T h a))\<rparr>"

text \<open>The value of a slice is the list of its elements, of nil the empty list.\<close>

definition slice :: "('c \<Rightarrow> 'a list option) \<Rightarrow> ('c, 'a, 'v) gotype \<Rightarrow> ('c, slice_ref, 'v list) gotype" where
  "slice cast T =
     \<lparr>sound = (\<lambda>h s. case s of None \<Rightarrow> True
        | Some s \<Rightarrow> (case slice_elems cast s h of None \<Rightarrow> False | Some xs \<Rightarrow> list_all (sound T h) xs)),
      view = (\<lambda>h s. case s of None \<Rightarrow> [] | Some s \<Rightarrow> map (view T h) (the (slice_elems cast s h))),
      reach = (\<lambda>h s. case s of None \<Rightarrow> {}
        | Some s \<Rightarrow> insert (sl_array s)
            (case slice_elems cast s h of None \<Rightarrow> {} | Some xs \<Rightarrow> \<Union> (reach T h ` set xs)))\<rparr>"

text \<open>
  A map with string keys is a reference to a cell that holds its entries, in order of the
  keys; its value is that list, of nil the empty list.
\<close>

definition map_ref ::
  "('c \<Rightarrow> (string \<times> string) list option) \<Rightarrow> ('c, addr option, (string \<times> string) list) gotype" where
  "map_ref cast =
     \<lparr>sound = (\<lambda>h p. case p of None \<Rightarrow> True
        | Some p \<Rightarrow> (case load cast p h of None \<Rightarrow> False
            | Some m \<Rightarrow> sorted (map fst m) \<and> distinct (map fst m))),
      view = (\<lambda>h p. case p of None \<Rightarrow> [] | Some p \<Rightarrow> the (load cast p h)),
      reach = (\<lambda>h p. set_option p)\<rparr>"

subsection \<open>Copies\<close>

definition keep :: "'a \<Rightarrow> 'c memory \<Rightarrow> ('a \<times> 'c memory) option" where
  "keep a h = Some (a, h)"

definition copy_pair ::
  "('a \<Rightarrow> 'c memory \<Rightarrow> ('a \<times> 'c memory) option) \<Rightarrow> ('b \<Rightarrow> 'c memory \<Rightarrow> ('b \<times> 'c memory) option)
   \<Rightarrow> 'a \<times> 'b \<Rightarrow> 'c memory \<Rightarrow> (('a \<times> 'b) \<times> 'c memory) option" where
  "copy_pair f g ab h =
     do { (a, h) \<leftarrow> f (fst ab) h; (b, h) \<leftarrow> g (snd ab) h; Some ((a, b), h) }"

text \<open>
  \<open>out := new(T); in.DeepCopyInto(out); return out\<close> for a struct at a place that is not nil,
  and the same behind the test for nil.
\<close>

definition new_copy ::
  "('a \<Rightarrow> 'c) \<Rightarrow> 'a \<Rightarrow> ('a \<Rightarrow> 'c memory \<Rightarrow> ('a \<times> 'c memory) option) \<Rightarrow> 'a \<Rightarrow> 'c memory
   \<Rightarrow> (addr \<times> 'c memory) option" where
  "new_copy cell zero into a h =
    (case alloc (cell zero) h of (out, h) \<Rightarrow>
       do { (b, h) \<leftarrow> into a h; h \<leftarrow> store out (cell b) h; Some (out, h) })"

definition copy_pointer ::
  "('c \<Rightarrow> 'a option) \<Rightarrow> ('a \<Rightarrow> 'c) \<Rightarrow> 'a \<Rightarrow> ('a \<Rightarrow> 'c memory \<Rightarrow> ('a \<times> 'c memory) option)
   \<Rightarrow> addr option \<Rightarrow> 'c memory \<Rightarrow> (addr option \<times> 'c memory) option" where
  "copy_pointer cast cell zero into p h =
    (case p of
       None \<Rightarrow> Some (None, h)
     | Some p \<Rightarrow> do { a \<leftarrow> load cast p h; (out, h) \<leftarrow> new_copy cell zero into a h; Some (Some out, h) })"

text \<open>\<open>*out = make([]T, len(*in)); copy(*out, *in)\<close>.\<close>

definition copy_plain_slice ::
  "('c \<Rightarrow> 'a list option) \<Rightarrow> ('a list \<Rightarrow> 'c) \<Rightarrow> 'a \<Rightarrow> slice_ref \<Rightarrow> 'c memory \<Rightarrow> (slice_ref \<times> 'c memory) option" where
  "copy_plain_slice cast cell zero s h =
    (case s of
       None \<Rightarrow> Some (None, h)
     | Some s \<Rightarrow>
         (case make_slice cell zero (sl_len s) h of (out, h) \<Rightarrow>
           do { h \<leftarrow> copy_slice cast cell out s h; Some (Some out, h) }))"

text \<open>\<open>*out = make([]T, len(*in)); for i := range *in { (*in)[i].DeepCopyInto(&(*out)[i]) }\<close>.\<close>

fun copy_elems ::
  "('c \<Rightarrow> 'a list option) \<Rightarrow> ('a list \<Rightarrow> 'c) \<Rightarrow> ('a \<Rightarrow> 'c memory \<Rightarrow> ('a \<times> 'c memory) option)
   \<Rightarrow> slice_header \<Rightarrow> slice_header \<Rightarrow> nat list \<Rightarrow> 'c memory \<Rightarrow> 'c memory option" where
  "copy_elems cast cell into src out [] h = Some h"
| "copy_elems cast cell into src out (i # is) h =
     do { a \<leftarrow> get_elem cast src i h;
          (b, h) \<leftarrow> into a h;
          h \<leftarrow> set_elem cast cell out i b h;
          copy_elems cast cell into src out is h }"

definition copy_slice_with ::
  "('c \<Rightarrow> 'a list option) \<Rightarrow> ('a list \<Rightarrow> 'c) \<Rightarrow> 'a \<Rightarrow> ('a \<Rightarrow> 'c memory \<Rightarrow> ('a \<times> 'c memory) option)
   \<Rightarrow> slice_ref \<Rightarrow> 'c memory \<Rightarrow> (slice_ref \<times> 'c memory) option" where
  "copy_slice_with cast cell zero into s h =
    (case s of
       None \<Rightarrow> Some (None, h)
     | Some s \<Rightarrow>
         (case make_slice cell zero (sl_len s) h of (out, h) \<Rightarrow>
           do { h \<leftarrow> copy_elems cast cell into s out [0..<sl_len s] h; Some (Some out, h) }))"

text \<open>
  \<open>*out = make(map[string]string, len(*in)); for key, val := range *in { (*out)[key] = val }\<close>,
  where \<open>range\<close> takes the entries in an order of the runtime's.
\<close>

definition map_assign :: "string \<times> string \<Rightarrow> (string \<times> string) list \<Rightarrow> (string \<times> string) list" where
  "map_assign kv m = insort_key fst kv (filter (\<lambda>e. fst e \<noteq> fst kv) m)"

definition copy_map ::
  "('c \<Rightarrow> (string \<times> string) list option) \<Rightarrow> ((string \<times> string) list \<Rightarrow> 'c)
   \<Rightarrow> ((string \<times> string) list \<Rightarrow> (string \<times> string) list)
   \<Rightarrow> addr option \<Rightarrow> 'c memory \<Rightarrow> (addr option \<times> 'c memory) option" where
  "copy_map cast cell range_order p h =
    (case p of
       None \<Rightarrow> Some (None, h)
     | Some p \<Rightarrow>
         (case alloc (cell []) h of (out, h) \<Rightarrow>
           do { m \<leftarrow> load cast p h;
                h \<leftarrow> store out (cell (fold map_assign (range_order m) [])) h;
                Some (Some out, h) }))"

end
