(* ===== verification/Deep_Copy.thy ===== *)
theory Deep_Copy
  imports Apme_Types Go_Memory
begin

text \<open>
  The generated deep copies (\<open>api/v1alpha1/zz_generated.deepcopy.go\<close>). The structs of
  \<open>apme_types.go\<close> as they lie in memory, a pointer, slice or map being a reference; the
  structs without references are those of theory \<open>Apme_Types\<close>. A value of the library types
  \<open>resource.Quantity\<close>, \<open>ResourceRequirements\<close>, \<open>ObjectMeta\<close> and \<open>ListMeta\<close> is of the
  parameter type \<open>'x\<close>, their deep copies are fields of \<open>machinery\<close>. \<open>T_DeepCopyInto\<close> takes the
  struct \<open>*in\<close> and returns the struct it leaves in \<open>*out\<close>: \<open>in\<close> and \<open>out\<close> are never the same
  place, so reads of \<open>in\<close> are not affected by the writes to \<open>out\<close>.
\<close>

subsection \<open>Structs\<close>

record LocalObjectRef =
  lor_Name :: string

record PostgresTLSSpec =
  pt_SecretName :: string

record ImageSpec_mem =
  mimg_Registry :: string
  mimg_PullPolicy :: string
  mimg_PullSecrets :: slice_ref

record ComponentsSpec_mem =
  mcmp_Gitleaks :: "addr option"
  mcmp_CollectionHealth :: "addr option"
  mcmp_DepAudit :: "addr option"
  mcmp_UI :: "addr option"

record 'x PVCSpec_mem =
  mpv_Size :: 'x
  mpv_StorageClass :: string

record 'x PostgresSpec_mem =
  mpg_Image :: string
  mpg_Storage :: "'x PVCSpec_mem"
  mpg_Resources :: 'x
  mpg_TLS :: PostgresTLSSpec

record 'x DatabaseSpec_mem =
  mdb_ConnectionSecretRef :: SecretKeyRef
  mdb_Postgres :: "'x PostgresSpec_mem"

record 'x StorageSpec_mem =
  mst_Sessions :: "'x PVCSpec_mem"
  mst_ProxyCache :: "'x PVCSpec_mem"

record RouteSpec_mem =
  mro_Enabled :: "addr option"
  mro_Host :: string
  mro_TLS :: RouteTLSSpec

record IngressSpec_mem =
  min_Enabled :: bool
  min_ClassName :: string
  min_Host :: string
  min_Annotations :: "addr option"
  min_TLSSecretName :: string

record ExposureSpec_mem =
  mex_Route :: RouteSpec_mem
  mex_Ingress :: IngressSpec_mem

record 'x AbbenayPersistenceSpec_mem =
  map_Enabled :: "addr option"
  map_Size :: 'x
  map_StorageClass :: string

record 'x AbbenaySpec_mem =
  mab_Enabled :: bool
  mab_Image :: string
  mab_TokenSecretRef :: SecretKeyRef
  mab_ConfigMapRef :: LocalObjectRef
  mab_Persistence :: "'x AbbenayPersistenceSpec_mem"

record NetworkPolicySpec_mem =
  mnp_Enabled :: "addr option"

record GalaxyProxyTLSSpec_mem =
  mgt_Verify :: "addr option"
  mgt_CABundleConfigMapRef :: "addr option"

record GalaxyProxySpec_mem =
  mgp_TLS :: GalaxyProxyTLSSpec_mem

record 'x ApmeSpec_mem =
  msp_Version :: string
  msp_Image :: ImageSpec_mem
  msp_Replicas :: int
  msp_Components :: ComponentsSpec_mem
  msp_Plugins :: slice_ref
  msp_Database :: "'x DatabaseSpec_mem"
  msp_Storage :: "'x StorageSpec_mem"
  msp_GalaxyProxy :: GalaxyProxySpec_mem
  msp_Exposure :: ExposureSpec_mem
  msp_Abbenay :: "'x AbbenaySpec_mem"
  msp_Resources :: 'x
  msp_NetworkPolicy :: NetworkPolicySpec_mem

record ApmeStatus_mem =
  msu_Conditions :: slice_ref
  msu_URL :: string
  msu_ObservedGeneration :: int
  msu_Topology :: string
  msu_Database :: string

record 'x Apme_mem =
  mcr_TypeMeta :: type_meta
  mcr_ObjectMeta :: 'x
  mcr_Spec :: "'x ApmeSpec_mem"
  mcr_Status :: ApmeStatus_mem

record 'x ApmeList_mem =
  mls_TypeMeta :: type_meta
  mls_ListMeta :: 'x
  mls_Items :: slice_ref

text \<open>The cells of memory: what \<open>new\<close> or \<open>make\<close> allocates, and cells of the library types.\<close>

datatype 'x cell =
    Bool_cell bool
  | StringMap_cell strmap
  | LocalObjectReferences_cell "string list"
  | PluginSpecs_cell "PluginSpec list"
  | Conditions_cell "Condition list"
  | SecretKeyRef_cell SecretKeyRef
  | ConfigMapKeyRef_cell ConfigMapKeyRef
  | LocalObjectRef_cell LocalObjectRef
  | PluginSpec_cell PluginSpec
  | PostgresTLSSpec_cell PostgresTLSSpec
  | RouteTLSSpec_cell RouteTLSSpec
  | ImageSpec_cell ImageSpec_mem
  | ComponentsSpec_cell ComponentsSpec_mem
  | PVCSpec_cell "'x PVCSpec_mem"
  | PostgresSpec_cell "'x PostgresSpec_mem"
  | DatabaseSpec_cell "'x DatabaseSpec_mem"
  | StorageSpec_cell "'x StorageSpec_mem"
  | RouteSpec_cell RouteSpec_mem
  | IngressSpec_cell IngressSpec_mem
  | ExposureSpec_cell ExposureSpec_mem
  | AbbenayPersistenceSpec_cell "'x AbbenayPersistenceSpec_mem"
  | AbbenaySpec_cell "'x AbbenaySpec_mem"
  | NetworkPolicySpec_cell NetworkPolicySpec_mem
  | GalaxyProxyTLSSpec_cell GalaxyProxyTLSSpec_mem
  | GalaxyProxySpec_cell GalaxyProxySpec_mem
  | ApmeSpec_cell "'x ApmeSpec_mem"
  | ApmeStatus_cell ApmeStatus_mem
  | Apme_cell "'x Apme_mem"
  | ApmeList_cell "'x ApmeList_mem"
  | Apmes_cell "'x Apme_mem list"
  | Library_cell 'x

definition as_Bool :: "'x cell \<Rightarrow> bool option" where
  "as_Bool c = (case c of Bool_cell x \<Rightarrow> Some x | _ \<Rightarrow> None)"

definition as_StringMap :: "'x cell \<Rightarrow> strmap option" where
  "as_StringMap c = (case c of StringMap_cell x \<Rightarrow> Some x | _ \<Rightarrow> None)"

definition as_LocalObjectReferences :: "'x cell \<Rightarrow> string list option" where
  "as_LocalObjectReferences c = (case c of LocalObjectReferences_cell x \<Rightarrow> Some x | _ \<Rightarrow> None)"

definition as_PluginSpecs :: "'x cell \<Rightarrow> PluginSpec list option" where
  "as_PluginSpecs c = (case c of PluginSpecs_cell x \<Rightarrow> Some x | _ \<Rightarrow> None)"

definition as_Conditions :: "'x cell \<Rightarrow> Condition list option" where
  "as_Conditions c = (case c of Conditions_cell x \<Rightarrow> Some x | _ \<Rightarrow> None)"

definition as_SecretKeyRef :: "'x cell \<Rightarrow> SecretKeyRef option" where
  "as_SecretKeyRef c = (case c of SecretKeyRef_cell x \<Rightarrow> Some x | _ \<Rightarrow> None)"

definition as_ConfigMapKeyRef :: "'x cell \<Rightarrow> ConfigMapKeyRef option" where
  "as_ConfigMapKeyRef c = (case c of ConfigMapKeyRef_cell x \<Rightarrow> Some x | _ \<Rightarrow> None)"

definition as_LocalObjectRef :: "'x cell \<Rightarrow> LocalObjectRef option" where
  "as_LocalObjectRef c = (case c of LocalObjectRef_cell x \<Rightarrow> Some x | _ \<Rightarrow> None)"

definition as_PluginSpec :: "'x cell \<Rightarrow> PluginSpec option" where
  "as_PluginSpec c = (case c of PluginSpec_cell x \<Rightarrow> Some x | _ \<Rightarrow> None)"

definition as_PostgresTLSSpec :: "'x cell \<Rightarrow> PostgresTLSSpec option" where
  "as_PostgresTLSSpec c = (case c of PostgresTLSSpec_cell x \<Rightarrow> Some x | _ \<Rightarrow> None)"

definition as_RouteTLSSpec :: "'x cell \<Rightarrow> RouteTLSSpec option" where
  "as_RouteTLSSpec c = (case c of RouteTLSSpec_cell x \<Rightarrow> Some x | _ \<Rightarrow> None)"

definition as_ImageSpec :: "'x cell \<Rightarrow> ImageSpec_mem option" where
  "as_ImageSpec c = (case c of ImageSpec_cell x \<Rightarrow> Some x | _ \<Rightarrow> None)"

definition as_ComponentsSpec :: "'x cell \<Rightarrow> ComponentsSpec_mem option" where
  "as_ComponentsSpec c = (case c of ComponentsSpec_cell x \<Rightarrow> Some x | _ \<Rightarrow> None)"

definition as_PVCSpec :: "'x cell \<Rightarrow> ('x PVCSpec_mem) option" where
  "as_PVCSpec c = (case c of PVCSpec_cell x \<Rightarrow> Some x | _ \<Rightarrow> None)"

definition as_PostgresSpec :: "'x cell \<Rightarrow> ('x PostgresSpec_mem) option" where
  "as_PostgresSpec c = (case c of PostgresSpec_cell x \<Rightarrow> Some x | _ \<Rightarrow> None)"

definition as_DatabaseSpec :: "'x cell \<Rightarrow> ('x DatabaseSpec_mem) option" where
  "as_DatabaseSpec c = (case c of DatabaseSpec_cell x \<Rightarrow> Some x | _ \<Rightarrow> None)"

definition as_StorageSpec :: "'x cell \<Rightarrow> ('x StorageSpec_mem) option" where
  "as_StorageSpec c = (case c of StorageSpec_cell x \<Rightarrow> Some x | _ \<Rightarrow> None)"

definition as_RouteSpec :: "'x cell \<Rightarrow> RouteSpec_mem option" where
  "as_RouteSpec c = (case c of RouteSpec_cell x \<Rightarrow> Some x | _ \<Rightarrow> None)"

definition as_IngressSpec :: "'x cell \<Rightarrow> IngressSpec_mem option" where
  "as_IngressSpec c = (case c of IngressSpec_cell x \<Rightarrow> Some x | _ \<Rightarrow> None)"

definition as_ExposureSpec :: "'x cell \<Rightarrow> ExposureSpec_mem option" where
  "as_ExposureSpec c = (case c of ExposureSpec_cell x \<Rightarrow> Some x | _ \<Rightarrow> None)"

definition as_AbbenayPersistenceSpec :: "'x cell \<Rightarrow> ('x AbbenayPersistenceSpec_mem) option" where
  "as_AbbenayPersistenceSpec c = (case c of AbbenayPersistenceSpec_cell x \<Rightarrow> Some x | _ \<Rightarrow> None)"

definition as_AbbenaySpec :: "'x cell \<Rightarrow> ('x AbbenaySpec_mem) option" where
  "as_AbbenaySpec c = (case c of AbbenaySpec_cell x \<Rightarrow> Some x | _ \<Rightarrow> None)"

definition as_NetworkPolicySpec :: "'x cell \<Rightarrow> NetworkPolicySpec_mem option" where
  "as_NetworkPolicySpec c = (case c of NetworkPolicySpec_cell x \<Rightarrow> Some x | _ \<Rightarrow> None)"

definition as_GalaxyProxyTLSSpec :: "'x cell \<Rightarrow> GalaxyProxyTLSSpec_mem option" where
  "as_GalaxyProxyTLSSpec c = (case c of GalaxyProxyTLSSpec_cell x \<Rightarrow> Some x | _ \<Rightarrow> None)"

definition as_GalaxyProxySpec :: "'x cell \<Rightarrow> GalaxyProxySpec_mem option" where
  "as_GalaxyProxySpec c = (case c of GalaxyProxySpec_cell x \<Rightarrow> Some x | _ \<Rightarrow> None)"

definition as_ApmeSpec :: "'x cell \<Rightarrow> ('x ApmeSpec_mem) option" where
  "as_ApmeSpec c = (case c of ApmeSpec_cell x \<Rightarrow> Some x | _ \<Rightarrow> None)"

definition as_ApmeStatus :: "'x cell \<Rightarrow> ApmeStatus_mem option" where
  "as_ApmeStatus c = (case c of ApmeStatus_cell x \<Rightarrow> Some x | _ \<Rightarrow> None)"

definition as_Apme :: "'x cell \<Rightarrow> ('x Apme_mem) option" where
  "as_Apme c = (case c of Apme_cell x \<Rightarrow> Some x | _ \<Rightarrow> None)"

definition as_ApmeList :: "'x cell \<Rightarrow> ('x ApmeList_mem) option" where
  "as_ApmeList c = (case c of ApmeList_cell x \<Rightarrow> Some x | _ \<Rightarrow> None)"

definition as_Apmes :: "'x cell \<Rightarrow> 'x Apme_mem list option" where
  "as_Apmes c = (case c of Apmes_cell x \<Rightarrow> Some x | _ \<Rightarrow> None)"

text \<open>The deep copies of other packages, their zero values, and the order of \<open>range\<close> on a map.\<close>

type_synonym ('x, 'a) copier = "'a \<Rightarrow> 'x cell memory \<Rightarrow> ('a \<times> 'x cell memory) option"

record 'x machinery =
  Quantity_DeepCopy :: "('x, 'x) copier"
  ResourceRequirements_DeepCopyInto :: "('x, 'x) copier"
  ObjectMeta_DeepCopyInto :: "('x, 'x) copier"
  ListMeta_DeepCopyInto :: "('x, 'x) copier"
  Condition_DeepCopyInto :: "('x, Condition) copier"
  zero_Quantity :: 'x
  zero_ResourceRequirements :: 'x
  zero_ObjectMeta :: 'x
  zero_ListMeta :: 'x
  range_order :: "strmap \<Rightarrow> strmap"

subsection \<open>Zero values\<close>

definition zero_TypeMeta :: type_meta where
  "zero_TypeMeta = \<lparr>tm_kind = [], tm_apiVersion = []\<rparr>"

definition zero_Condition :: Condition where
  "zero_Condition = \<lparr>cond_Type = [], cond_Status = [], cond_Reason = [], cond_Message = [],
     cond_LastTransitionTime = 0, cond_ObservedGeneration = 0\<rparr>"

definition zero_SecretKeyRef :: SecretKeyRef where
  "zero_SecretKeyRef = \<lparr>skr_Name = [], skr_Key = []\<rparr>"

definition zero_ConfigMapKeyRef :: ConfigMapKeyRef where
  "zero_ConfigMapKeyRef = \<lparr>cmk_Name = [], cmk_Key = []\<rparr>"

definition zero_LocalObjectRef :: LocalObjectRef where
  "zero_LocalObjectRef = \<lparr>lor_Name = []\<rparr>"

definition zero_PluginSpec :: PluginSpec where
  "zero_PluginSpec = \<lparr>pl_Name = [], pl_Image = [], pl_Port = 0, pl_ConfigMapRef = []\<rparr>"

definition zero_PostgresTLSSpec :: PostgresTLSSpec where
  "zero_PostgresTLSSpec = \<lparr>pt_SecretName = []\<rparr>"

definition zero_RouteTLSSpec :: RouteTLSSpec where
  "zero_RouteTLSSpec = \<lparr>rt_Termination = [], rt_InsecureEdgeTerminationPolicy = []\<rparr>"

definition zero_ImageSpec :: ImageSpec_mem where
  "zero_ImageSpec = \<lparr>mimg_Registry = [], mimg_PullPolicy = [], mimg_PullSecrets = None\<rparr>"

definition zero_ComponentsSpec :: ComponentsSpec_mem where
  "zero_ComponentsSpec = \<lparr>mcmp_Gitleaks = None, mcmp_CollectionHealth = None, mcmp_DepAudit = None, mcmp_UI = None\<rparr>"

definition zero_PVCSpec :: "'x machinery \<Rightarrow> 'x PVCSpec_mem" where
  "zero_PVCSpec M = \<lparr>mpv_Size = zero_Quantity M, mpv_StorageClass = []\<rparr>"

definition zero_PostgresSpec :: "'x machinery \<Rightarrow> 'x PostgresSpec_mem" where
  "zero_PostgresSpec M = \<lparr>mpg_Image = [], mpg_Storage = zero_PVCSpec M, mpg_Resources = zero_ResourceRequirements M, mpg_TLS = zero_PostgresTLSSpec\<rparr>"

definition zero_DatabaseSpec :: "'x machinery \<Rightarrow> 'x DatabaseSpec_mem" where
  "zero_DatabaseSpec M = \<lparr>mdb_ConnectionSecretRef = zero_SecretKeyRef, mdb_Postgres = zero_PostgresSpec M\<rparr>"

definition zero_StorageSpec :: "'x machinery \<Rightarrow> 'x StorageSpec_mem" where
  "zero_StorageSpec M = \<lparr>mst_Sessions = zero_PVCSpec M, mst_ProxyCache = zero_PVCSpec M\<rparr>"

definition zero_RouteSpec :: RouteSpec_mem where
  "zero_RouteSpec = \<lparr>mro_Enabled = None, mro_Host = [], mro_TLS = zero_RouteTLSSpec\<rparr>"

definition zero_IngressSpec :: IngressSpec_mem where
  "zero_IngressSpec = \<lparr>min_Enabled = False, min_ClassName = [], min_Host = [], min_Annotations = None, min_TLSSecretName = []\<rparr>"

definition zero_ExposureSpec :: ExposureSpec_mem where
  "zero_ExposureSpec = \<lparr>mex_Route = zero_RouteSpec, mex_Ingress = zero_IngressSpec\<rparr>"

definition zero_AbbenayPersistenceSpec :: "'x machinery \<Rightarrow> 'x AbbenayPersistenceSpec_mem" where
  "zero_AbbenayPersistenceSpec M = \<lparr>map_Enabled = None, map_Size = zero_Quantity M, map_StorageClass = []\<rparr>"

definition zero_AbbenaySpec :: "'x machinery \<Rightarrow> 'x AbbenaySpec_mem" where
  "zero_AbbenaySpec M = \<lparr>mab_Enabled = False, mab_Image = [], mab_TokenSecretRef = zero_SecretKeyRef, mab_ConfigMapRef = zero_LocalObjectRef, mab_Persistence = zero_AbbenayPersistenceSpec M\<rparr>"

definition zero_NetworkPolicySpec :: NetworkPolicySpec_mem where
  "zero_NetworkPolicySpec = \<lparr>mnp_Enabled = None\<rparr>"

definition zero_GalaxyProxyTLSSpec :: GalaxyProxyTLSSpec_mem where
  "zero_GalaxyProxyTLSSpec = \<lparr>mgt_Verify = None, mgt_CABundleConfigMapRef = None\<rparr>"

definition zero_GalaxyProxySpec :: GalaxyProxySpec_mem where
  "zero_GalaxyProxySpec = \<lparr>mgp_TLS = zero_GalaxyProxyTLSSpec\<rparr>"

definition zero_ApmeSpec :: "'x machinery \<Rightarrow> 'x ApmeSpec_mem" where
  "zero_ApmeSpec M = \<lparr>msp_Version = [], msp_Image = zero_ImageSpec, msp_Replicas = 0, msp_Components = zero_ComponentsSpec, msp_Plugins = None, msp_Database = zero_DatabaseSpec M, msp_Storage = zero_StorageSpec M, msp_GalaxyProxy = zero_GalaxyProxySpec, msp_Exposure = zero_ExposureSpec, msp_Abbenay = zero_AbbenaySpec M, msp_Resources = zero_ResourceRequirements M, msp_NetworkPolicy = zero_NetworkPolicySpec\<rparr>"

definition zero_ApmeStatus :: ApmeStatus_mem where
  "zero_ApmeStatus = \<lparr>msu_Conditions = None, msu_URL = [], msu_ObservedGeneration = 0, msu_Topology = [], msu_Database = []\<rparr>"

definition zero_Apme :: "'x machinery \<Rightarrow> 'x Apme_mem" where
  "zero_Apme M = \<lparr>mcr_TypeMeta = zero_TypeMeta, mcr_ObjectMeta = zero_ObjectMeta M, mcr_Spec = zero_ApmeSpec M, mcr_Status = zero_ApmeStatus\<rparr>"

definition zero_ApmeList :: "'x machinery \<Rightarrow> 'x ApmeList_mem" where
  "zero_ApmeList M = \<lparr>mls_TypeMeta = zero_TypeMeta, mls_ListMeta = zero_ListMeta M, mls_Items = None\<rparr>"

subsection \<open>Copies\<close>

definition SecretKeyRef_DeepCopyInto :: "('x, SecretKeyRef) copier" where
  "SecretKeyRef_DeepCopyInto s h = Some (s, h)"

definition SecretKeyRef_DeepCopy :: "('x, addr option) copier" where
  "SecretKeyRef_DeepCopy = copy_pointer as_SecretKeyRef SecretKeyRef_cell zero_SecretKeyRef SecretKeyRef_DeepCopyInto"

definition ConfigMapKeyRef_DeepCopyInto :: "('x, ConfigMapKeyRef) copier" where
  "ConfigMapKeyRef_DeepCopyInto s h = Some (s, h)"

definition ConfigMapKeyRef_DeepCopy :: "('x, addr option) copier" where
  "ConfigMapKeyRef_DeepCopy = copy_pointer as_ConfigMapKeyRef ConfigMapKeyRef_cell zero_ConfigMapKeyRef ConfigMapKeyRef_DeepCopyInto"

definition LocalObjectRef_DeepCopyInto :: "('x, LocalObjectRef) copier" where
  "LocalObjectRef_DeepCopyInto s h = Some (s, h)"

definition LocalObjectRef_DeepCopy :: "('x, addr option) copier" where
  "LocalObjectRef_DeepCopy = copy_pointer as_LocalObjectRef LocalObjectRef_cell zero_LocalObjectRef LocalObjectRef_DeepCopyInto"

definition PluginSpec_DeepCopyInto :: "('x, PluginSpec) copier" where
  "PluginSpec_DeepCopyInto s h = Some (s\<lparr>pl_ConfigMapRef := pl_ConfigMapRef s\<rparr>, h)"

definition PluginSpec_DeepCopy :: "('x, addr option) copier" where
  "PluginSpec_DeepCopy = copy_pointer as_PluginSpec PluginSpec_cell zero_PluginSpec PluginSpec_DeepCopyInto"

definition PostgresTLSSpec_DeepCopyInto :: "('x, PostgresTLSSpec) copier" where
  "PostgresTLSSpec_DeepCopyInto s h = Some (s, h)"

definition PostgresTLSSpec_DeepCopy :: "('x, addr option) copier" where
  "PostgresTLSSpec_DeepCopy = copy_pointer as_PostgresTLSSpec PostgresTLSSpec_cell zero_PostgresTLSSpec PostgresTLSSpec_DeepCopyInto"

definition RouteTLSSpec_DeepCopyInto :: "('x, RouteTLSSpec) copier" where
  "RouteTLSSpec_DeepCopyInto s h = Some (s, h)"

definition RouteTLSSpec_DeepCopy :: "('x, addr option) copier" where
  "RouteTLSSpec_DeepCopy = copy_pointer as_RouteTLSSpec RouteTLSSpec_cell zero_RouteTLSSpec RouteTLSSpec_DeepCopyInto"

definition ImageSpec_DeepCopyInto :: "('x, ImageSpec_mem) copier" where
  "ImageSpec_DeepCopyInto s h =
     do { (v, h) \<leftarrow> copy_plain_slice as_LocalObjectReferences LocalObjectReferences_cell [] (mimg_PullSecrets s) h;
          Some (s\<lparr>mimg_PullSecrets := v\<rparr>, h) }"

definition ImageSpec_DeepCopy :: "('x, addr option) copier" where
  "ImageSpec_DeepCopy = copy_pointer as_ImageSpec ImageSpec_cell zero_ImageSpec ImageSpec_DeepCopyInto"

definition ComponentsSpec_DeepCopyInto :: "('x, ComponentsSpec_mem) copier" where
  "ComponentsSpec_DeepCopyInto s h =
     do { (v1, h) \<leftarrow> copy_pointer as_Bool Bool_cell False keep (mcmp_Gitleaks s) h;
          (v2, h) \<leftarrow> copy_pointer as_Bool Bool_cell False keep (mcmp_CollectionHealth s) h;
          (v3, h) \<leftarrow> copy_pointer as_Bool Bool_cell False keep (mcmp_DepAudit s) h;
          (v4, h) \<leftarrow> copy_pointer as_Bool Bool_cell False keep (mcmp_UI s) h;
          Some (s\<lparr>mcmp_Gitleaks := v1, mcmp_CollectionHealth := v2, mcmp_DepAudit := v3, mcmp_UI := v4\<rparr>, h) }"

definition ComponentsSpec_DeepCopy :: "('x, addr option) copier" where
  "ComponentsSpec_DeepCopy = copy_pointer as_ComponentsSpec ComponentsSpec_cell zero_ComponentsSpec ComponentsSpec_DeepCopyInto"

definition PVCSpec_DeepCopyInto :: "'x machinery \<Rightarrow> ('x, 'x PVCSpec_mem) copier" where
  "PVCSpec_DeepCopyInto M s h =
     do { (v, h) \<leftarrow> Quantity_DeepCopy M (mpv_Size s) h;
          Some (s\<lparr>mpv_Size := v\<rparr>, h) }"

definition PVCSpec_DeepCopy :: "'x machinery \<Rightarrow> ('x, addr option) copier" where
  "PVCSpec_DeepCopy M = copy_pointer as_PVCSpec PVCSpec_cell (zero_PVCSpec M) (PVCSpec_DeepCopyInto M)"

definition PostgresSpec_DeepCopyInto :: "'x machinery \<Rightarrow> ('x, 'x PostgresSpec_mem) copier" where
  "PostgresSpec_DeepCopyInto M s h =
     do { (v1, h) \<leftarrow> PVCSpec_DeepCopyInto M (mpg_Storage s) h;
          (v2, h) \<leftarrow> ResourceRequirements_DeepCopyInto M (mpg_Resources s) h;
          Some (s\<lparr>mpg_Storage := v1, mpg_Resources := v2, mpg_TLS := mpg_TLS s\<rparr>, h) }"

definition PostgresSpec_DeepCopy :: "'x machinery \<Rightarrow> ('x, addr option) copier" where
  "PostgresSpec_DeepCopy M = copy_pointer as_PostgresSpec PostgresSpec_cell (zero_PostgresSpec M) (PostgresSpec_DeepCopyInto M)"

definition DatabaseSpec_DeepCopyInto :: "'x machinery \<Rightarrow> ('x, 'x DatabaseSpec_mem) copier" where
  "DatabaseSpec_DeepCopyInto M s h =
     do { (v, h) \<leftarrow> PostgresSpec_DeepCopyInto M (mdb_Postgres s) h;
          Some (s\<lparr>mdb_ConnectionSecretRef := mdb_ConnectionSecretRef s, mdb_Postgres := v\<rparr>, h) }"

definition DatabaseSpec_DeepCopy :: "'x machinery \<Rightarrow> ('x, addr option) copier" where
  "DatabaseSpec_DeepCopy M = copy_pointer as_DatabaseSpec DatabaseSpec_cell (zero_DatabaseSpec M) (DatabaseSpec_DeepCopyInto M)"

definition StorageSpec_DeepCopyInto :: "'x machinery \<Rightarrow> ('x, 'x StorageSpec_mem) copier" where
  "StorageSpec_DeepCopyInto M s h =
     do { (v1, h) \<leftarrow> PVCSpec_DeepCopyInto M (mst_Sessions s) h;
          (v2, h) \<leftarrow> PVCSpec_DeepCopyInto M (mst_ProxyCache s) h;
          Some (s\<lparr>mst_Sessions := v1, mst_ProxyCache := v2\<rparr>, h) }"

definition StorageSpec_DeepCopy :: "'x machinery \<Rightarrow> ('x, addr option) copier" where
  "StorageSpec_DeepCopy M = copy_pointer as_StorageSpec StorageSpec_cell (zero_StorageSpec M) (StorageSpec_DeepCopyInto M)"

definition RouteSpec_DeepCopyInto :: "('x, RouteSpec_mem) copier" where
  "RouteSpec_DeepCopyInto s h =
     do { (v, h) \<leftarrow> copy_pointer as_Bool Bool_cell False keep (mro_Enabled s) h;
          Some (s\<lparr>mro_Enabled := v, mro_TLS := mro_TLS s\<rparr>, h) }"

definition RouteSpec_DeepCopy :: "('x, addr option) copier" where
  "RouteSpec_DeepCopy = copy_pointer as_RouteSpec RouteSpec_cell zero_RouteSpec RouteSpec_DeepCopyInto"

definition IngressSpec_DeepCopyInto :: "'x machinery \<Rightarrow> ('x, IngressSpec_mem) copier" where
  "IngressSpec_DeepCopyInto M s h =
     do { (v, h) \<leftarrow> copy_map as_StringMap StringMap_cell (range_order M) (min_Annotations s) h;
          Some (s\<lparr>min_Annotations := v\<rparr>, h) }"

definition IngressSpec_DeepCopy :: "'x machinery \<Rightarrow> ('x, addr option) copier" where
  "IngressSpec_DeepCopy M = copy_pointer as_IngressSpec IngressSpec_cell zero_IngressSpec (IngressSpec_DeepCopyInto M)"

definition ExposureSpec_DeepCopyInto :: "'x machinery \<Rightarrow> ('x, ExposureSpec_mem) copier" where
  "ExposureSpec_DeepCopyInto M s h =
     do { (v1, h) \<leftarrow> RouteSpec_DeepCopyInto (mex_Route s) h;
          (v2, h) \<leftarrow> IngressSpec_DeepCopyInto M (mex_Ingress s) h;
          Some (s\<lparr>mex_Route := v1, mex_Ingress := v2\<rparr>, h) }"

definition ExposureSpec_DeepCopy :: "'x machinery \<Rightarrow> ('x, addr option) copier" where
  "ExposureSpec_DeepCopy M = copy_pointer as_ExposureSpec ExposureSpec_cell zero_ExposureSpec (ExposureSpec_DeepCopyInto M)"

definition AbbenayPersistenceSpec_DeepCopyInto :: "'x machinery \<Rightarrow> ('x, 'x AbbenayPersistenceSpec_mem) copier" where
  "AbbenayPersistenceSpec_DeepCopyInto M s h =
     do { (v1, h) \<leftarrow> copy_pointer as_Bool Bool_cell False keep (map_Enabled s) h;
          (v2, h) \<leftarrow> Quantity_DeepCopy M (map_Size s) h;
          Some (s\<lparr>map_Enabled := v1, map_Size := v2\<rparr>, h) }"

definition AbbenayPersistenceSpec_DeepCopy :: "'x machinery \<Rightarrow> ('x, addr option) copier" where
  "AbbenayPersistenceSpec_DeepCopy M = copy_pointer as_AbbenayPersistenceSpec AbbenayPersistenceSpec_cell (zero_AbbenayPersistenceSpec M) (AbbenayPersistenceSpec_DeepCopyInto M)"

definition AbbenaySpec_DeepCopyInto :: "'x machinery \<Rightarrow> ('x, 'x AbbenaySpec_mem) copier" where
  "AbbenaySpec_DeepCopyInto M s h =
     do { (v, h) \<leftarrow> AbbenayPersistenceSpec_DeepCopyInto M (mab_Persistence s) h;
          Some (s\<lparr>mab_TokenSecretRef := mab_TokenSecretRef s, mab_ConfigMapRef := mab_ConfigMapRef s, mab_Persistence := v\<rparr>, h) }"

definition AbbenaySpec_DeepCopy :: "'x machinery \<Rightarrow> ('x, addr option) copier" where
  "AbbenaySpec_DeepCopy M = copy_pointer as_AbbenaySpec AbbenaySpec_cell (zero_AbbenaySpec M) (AbbenaySpec_DeepCopyInto M)"

definition NetworkPolicySpec_DeepCopyInto :: "('x, NetworkPolicySpec_mem) copier" where
  "NetworkPolicySpec_DeepCopyInto s h =
     do { (v, h) \<leftarrow> copy_pointer as_Bool Bool_cell False keep (mnp_Enabled s) h;
          Some (s\<lparr>mnp_Enabled := v\<rparr>, h) }"

definition NetworkPolicySpec_DeepCopy :: "('x, addr option) copier" where
  "NetworkPolicySpec_DeepCopy = copy_pointer as_NetworkPolicySpec NetworkPolicySpec_cell zero_NetworkPolicySpec NetworkPolicySpec_DeepCopyInto"

definition GalaxyProxyTLSSpec_DeepCopyInto :: "('x, GalaxyProxyTLSSpec_mem) copier" where
  "GalaxyProxyTLSSpec_DeepCopyInto s h =
     do { (v1, h) \<leftarrow> copy_pointer as_Bool Bool_cell False keep (mgt_Verify s) h;
          (v2, h) \<leftarrow> copy_pointer as_ConfigMapKeyRef ConfigMapKeyRef_cell zero_ConfigMapKeyRef keep (mgt_CABundleConfigMapRef s) h;
          Some (s\<lparr>mgt_Verify := v1, mgt_CABundleConfigMapRef := v2\<rparr>, h) }"

definition GalaxyProxyTLSSpec_DeepCopy :: "('x, addr option) copier" where
  "GalaxyProxyTLSSpec_DeepCopy = copy_pointer as_GalaxyProxyTLSSpec GalaxyProxyTLSSpec_cell zero_GalaxyProxyTLSSpec GalaxyProxyTLSSpec_DeepCopyInto"

definition GalaxyProxySpec_DeepCopyInto :: "('x, GalaxyProxySpec_mem) copier" where
  "GalaxyProxySpec_DeepCopyInto s h =
     do { (v, h) \<leftarrow> GalaxyProxyTLSSpec_DeepCopyInto (mgp_TLS s) h;
          Some (s\<lparr>mgp_TLS := v\<rparr>, h) }"

definition GalaxyProxySpec_DeepCopy :: "('x, addr option) copier" where
  "GalaxyProxySpec_DeepCopy = copy_pointer as_GalaxyProxySpec GalaxyProxySpec_cell zero_GalaxyProxySpec GalaxyProxySpec_DeepCopyInto"

definition ApmeSpec_DeepCopyInto :: "'x machinery \<Rightarrow> ('x, 'x ApmeSpec_mem) copier" where
  "ApmeSpec_DeepCopyInto M s h =
     do { (v1, h) \<leftarrow> ImageSpec_DeepCopyInto (msp_Image s) h;
          (v2, h) \<leftarrow> ComponentsSpec_DeepCopyInto (msp_Components s) h;
          (v3, h) \<leftarrow> copy_plain_slice as_PluginSpecs PluginSpecs_cell zero_PluginSpec (msp_Plugins s) h;
          (v4, h) \<leftarrow> DatabaseSpec_DeepCopyInto M (msp_Database s) h;
          (v5, h) \<leftarrow> StorageSpec_DeepCopyInto M (msp_Storage s) h;
          (v6, h) \<leftarrow> GalaxyProxySpec_DeepCopyInto (msp_GalaxyProxy s) h;
          (v7, h) \<leftarrow> ExposureSpec_DeepCopyInto M (msp_Exposure s) h;
          (v8, h) \<leftarrow> AbbenaySpec_DeepCopyInto M (msp_Abbenay s) h;
          (v9, h) \<leftarrow> ResourceRequirements_DeepCopyInto M (msp_Resources s) h;
          (v10, h) \<leftarrow> NetworkPolicySpec_DeepCopyInto (msp_NetworkPolicy s) h;
          Some (s\<lparr>msp_Image := v1, msp_Components := v2, msp_Plugins := v3, msp_Database := v4, msp_Storage := v5, msp_GalaxyProxy := v6, msp_Exposure := v7, msp_Abbenay := v8, msp_Resources := v9, msp_NetworkPolicy := v10\<rparr>, h) }"

definition ApmeSpec_DeepCopy :: "'x machinery \<Rightarrow> ('x, addr option) copier" where
  "ApmeSpec_DeepCopy M = copy_pointer as_ApmeSpec ApmeSpec_cell (zero_ApmeSpec M) (ApmeSpec_DeepCopyInto M)"

definition ApmeStatus_DeepCopyInto :: "'x machinery \<Rightarrow> ('x, ApmeStatus_mem) copier" where
  "ApmeStatus_DeepCopyInto M s h =
     do { (v, h) \<leftarrow> copy_slice_with as_Conditions Conditions_cell zero_Condition (Condition_DeepCopyInto M) (msu_Conditions s) h;
          Some (s\<lparr>msu_Conditions := v\<rparr>, h) }"

definition ApmeStatus_DeepCopy :: "'x machinery \<Rightarrow> ('x, addr option) copier" where
  "ApmeStatus_DeepCopy M = copy_pointer as_ApmeStatus ApmeStatus_cell zero_ApmeStatus (ApmeStatus_DeepCopyInto M)"

definition Apme_DeepCopyInto :: "'x machinery \<Rightarrow> ('x, 'x Apme_mem) copier" where
  "Apme_DeepCopyInto M s h =
     do { (v1, h) \<leftarrow> ObjectMeta_DeepCopyInto M (mcr_ObjectMeta s) h;
          (v2, h) \<leftarrow> ApmeSpec_DeepCopyInto M (mcr_Spec s) h;
          (v3, h) \<leftarrow> ApmeStatus_DeepCopyInto M (mcr_Status s) h;
          Some (s\<lparr>mcr_TypeMeta := mcr_TypeMeta s, mcr_ObjectMeta := v1, mcr_Spec := v2, mcr_Status := v3\<rparr>, h) }"

definition Apme_DeepCopy :: "'x machinery \<Rightarrow> ('x, addr option) copier" where
  "Apme_DeepCopy M = copy_pointer as_Apme Apme_cell (zero_Apme M) (Apme_DeepCopyInto M)"

definition ApmeList_DeepCopyInto :: "'x machinery \<Rightarrow> ('x, 'x ApmeList_mem) copier" where
  "ApmeList_DeepCopyInto M s h =
     do { (v1, h) \<leftarrow> ListMeta_DeepCopyInto M (mls_ListMeta s) h;
          (v2, h) \<leftarrow> copy_slice_with as_Apmes Apmes_cell (zero_Apme M) (Apme_DeepCopyInto M) (mls_Items s) h;
          Some (s\<lparr>mls_TypeMeta := mls_TypeMeta s, mls_ListMeta := v1, mls_Items := v2\<rparr>, h) }"

definition ApmeList_DeepCopy :: "'x machinery \<Rightarrow> ('x, addr option) copier" where
  "ApmeList_DeepCopy M = copy_pointer as_ApmeList ApmeList_cell (zero_ApmeList M) (ApmeList_DeepCopyInto M)"

text \<open>A \<open>runtime.Object\<close> is nil or holds one of the two kinds.\<close>

datatype runtime_object = ApmeObject addr | ApmeListObject addr

definition Apme_DeepCopyObject ::
  "'x machinery \<Rightarrow> addr option \<Rightarrow> 'x cell memory \<Rightarrow> (runtime_object option \<times> 'x cell memory) option" where
  "Apme_DeepCopyObject M p h =
     do { (c, h) \<leftarrow> Apme_DeepCopy M p h;
          Some (case c of Some c \<Rightarrow> Some (ApmeObject c) | None \<Rightarrow> None, h) }"

definition ApmeList_DeepCopyObject ::
  "'x machinery \<Rightarrow> addr option \<Rightarrow> 'x cell memory \<Rightarrow> (runtime_object option \<times> 'x cell memory) option" where
  "ApmeList_DeepCopyObject M p h =
     do { (c, h) \<leftarrow> ApmeList_DeepCopy M p h;
          Some (case c of Some c \<Rightarrow> Some (ApmeListObject c) | None \<Rightarrow> None, h) }"

end
