(* ===== verification/Go_Types.thy ===== *)
theory Go_Types
  imports Go_Memory "HOL-Library.Multiset"
begin

text \<open>
  The laws of Go types in memory and the contract of deep copies. A type depends on the
  cells its values reach only (locale \<open>go_type\<close>); a deep copy changes no cell there was,
  reads as the original, and reaches new cells only (locale \<open>deep_copier\<close>), from which it
  follows that original and copy are independent. Every form of type and of copy of theory
  \<open>Go_Memory\<close> keeps the contract.
\<close>

subsection \<open>Cells\<close>

lemma load_some: "load cast p h = Some a \<Longrightarrow> p < length h"
  by (simp add: load_def split: if_splits)

definition same_cells :: "addr set \<Rightarrow> 'c memory \<Rightarrow> 'c memory \<Rightarrow> bool" where
  "same_cells A h h' \<longleftrightarrow> (\<forall>p \<in> A. p < length h \<and> p < length h' \<and> h' ! p = h ! p)"

lemma same_cells_mono: "same_cells B h h' \<Longrightarrow> A \<subseteq> B \<Longrightarrow> same_cells A h h'"
  by (auto simp: same_cells_def)

lemma same_cells_un [simp]: "same_cells (A \<union> B) h h' \<longleftrightarrow> same_cells A h h' \<and> same_cells B h h'"
  by (auto simp: same_cells_def)

lemma same_cells_union [simp]: "same_cells (\<Union> (f ` S)) h h' \<longleftrightarrow> (\<forall>x \<in> S. same_cells (f x) h h')"
  by (auto simp: same_cells_def)

lemma same_cells_empty [simp]: "same_cells {} h h'"
  by (simp add: same_cells_def)

lemma same_cells_load: "same_cells (insert p A) h h' \<Longrightarrow> load cast p h' = load cast p h \<and> same_cells A h h'"
  by (auto simp: same_cells_def load_def)

lemma same_cells_prefix: "prefix h h' \<Longrightarrow> A \<subseteq> {..<length h} \<Longrightarrow> same_cells A h h'"
  by (auto simp: same_cells_def prefix_def nth_append)

lemma same_cells_update: "A \<subseteq> {..<length h} \<Longrightarrow> p \<notin> A \<Longrightarrow> same_cells A h (h[p := c])"
  by (auto simp: same_cells_def) (metis nth_list_update_neq)

lemma same_slice: "same_cells (insert (sl_array s) A) h h' \<Longrightarrow>
    slice_elems cast s h' = slice_elems cast s h \<and> same_cells A h h'"
  using same_cells_load [of "sl_array s" A h h' cast] by (simp add: slice_elems_def)

subsection \<open>Types\<close>

locale go_type =
  fixes T :: "('c, 'a, 'v) gotype"
  assumes reach_in: "sound T h a \<Longrightarrow> reach T h a \<subseteq> {..<length h}"
    and local: "sound T h a \<Longrightarrow> same_cells (reach T h a) h h' \<Longrightarrow>
      sound T h' a \<and> view T h' a = view T h a \<and> reach T h' a = reach T h a"
begin

lemma extend:
  assumes "sound T h a" "prefix h h'"
  shows "sound T h' a \<and> view T h' a = view T h a \<and> reach T h' a = reach T h a"
  using local [OF assms(1) same_cells_prefix [OF assms(2) reach_in [OF assms(1)]]] .

lemma append:
  assumes "sound T h a"
  shows "sound T (h @ zs) a" "view T (h @ zs) a = view T h a" "reach T (h @ zs) a = reach T h a"
  using extend [OF assms, of "h @ zs"] by auto

text \<open>Writes to other cells do not show.\<close>

lemma unaffected:
  assumes "sound T h a" "p \<notin> reach T h a"
  shows "sound T (h[p := c]) a \<and> view T (h[p := c]) a = view T h a \<and> reach T (h[p := c]) a = reach T h a"
  using local [OF assms(1) same_cells_update [OF reach_in [OF assms(1)] assms(2)]] .

end

lemma go_type_plain: "go_type plain"
  by unfold_locales (simp_all add: plain_def)

lemma go_type_pair:
  assumes T: "go_type T" and U: "go_type U"
  shows "go_type (pair T U)"
proof
  show "reach (pair T U) h ab \<subseteq> {..<length h}" if "sound (pair T U) h ab" for h ab
    using that go_type.reach_in [OF T, of h "fst ab"] go_type.reach_in [OF U, of h "snd ab"]
    by (cases ab) (simp add: pair_def)
  show "sound (pair T U) h' ab \<and> view (pair T U) h' ab = view (pair T U) h ab \<and> reach (pair T U) h' ab = reach (pair T U) h ab"
    if "sound (pair T U) h ab" "same_cells (reach (pair T U) h ab) h h'" for h ab h'
    using that go_type.local [OF T, of h "fst ab" h'] go_type.local [OF U, of h "snd ab" h']
    by (cases ab) (simp add: pair_def)
qed

lemma go_type_struct:
  assumes T: "go_type T"
  shows "go_type (struct to mk T)"
proof
  show "reach (struct to mk T) h s \<subseteq> {..<length h}" if "sound (struct to mk T) h s" for h s
    using that go_type.reach_in [OF T] by (simp add: struct_def)
  show "sound (struct to mk T) h' s \<and> view (struct to mk T) h' s = view (struct to mk T) h s
      \<and> reach (struct to mk T) h' s = reach (struct to mk T) h s"
    if "sound (struct to mk T) h s" "same_cells (reach (struct to mk T) h s) h h'" for h s h'
    using that go_type.local [OF T, of h "to s" h'] by (simp add: struct_def)
qed

lemma pointer_nil [simp]:
  "sound (pointer cast T) h None" "view (pointer cast T) h None = None" "reach (pointer cast T) h None = {}"
  by (simp_all add: pointer_def)

lemma pointer_some:
  assumes "load cast p h = Some a"
  shows "sound (pointer cast T) h (Some p) \<longleftrightarrow> sound T h a"
    and "view (pointer cast T) h (Some p) = Some (view T h a)"
    and "reach (pointer cast T) h (Some p) = insert p (reach T h a)"
  using assms by (simp_all add: pointer_def)

lemma sound_pointerE:
  assumes "sound (pointer cast T) h p" "p \<noteq> None"
  obtains q a where "p = Some q" "load cast q h = Some a" "sound T h a"
  using assms by (auto simp: pointer_def split: option.splits)

lemma go_type_pointer:
  assumes T: "go_type T"
  shows "go_type (pointer cast T)"
proof
  show "reach (pointer cast T) h p \<subseteq> {..<length h}" if ok: "sound (pointer cast T) h p" for h p
  proof (cases "p = None")
    case False
    with ok obtain q a where "p = Some q" "load cast q h = Some a" "sound T h a" by (rule sound_pointerE)
    then show ?thesis using go_type.reach_in [OF T, of h a] by (simp add: pointer_some load_some)
  qed simp
  show "sound (pointer cast T) h' p \<and> view (pointer cast T) h' p = view (pointer cast T) h p
      \<and> reach (pointer cast T) h' p = reach (pointer cast T) h p"
    if ok: "sound (pointer cast T) h p" and same: "same_cells (reach (pointer cast T) h p) h h'" for h p h'
  proof (cases "p = None")
    case False
    with ok obtain q a where a: "p = Some q" "load cast q h = Some a" "sound T h a" by (rule sound_pointerE)
    with same have "load cast q h' = Some a \<and> same_cells (reach T h a) h h'"
      using same_cells_load [of q "reach T h a" h h' cast] by (simp add: pointer_some)
    then show ?thesis using go_type.local [OF T a(3)] a by (simp add: pointer_some)
  qed simp
qed

lemma slice_nil [simp]:
  "sound (slice cast T) h None" "view (slice cast T) h None = []" "reach (slice cast T) h None = {}"
  by (simp_all add: slice_def)

lemma slice_some:
  assumes "slice_elems cast s h = Some xs"
  shows "sound (slice cast T) h (Some s) \<longleftrightarrow> (\<forall>x \<in> set xs. sound T h x)"
    and "view (slice cast T) h (Some s) = map (view T h) xs"
    and "reach (slice cast T) h (Some s) = insert (sl_array s) (\<Union> (reach T h ` set xs))"
  using assms by (simp_all add: slice_def list_all_iff)

lemma slice_array: "slice_elems cast s h = Some xs \<Longrightarrow> sl_array s < length h"
  by (auto simp: slice_elems_def split: option.splits dest: load_some)

lemma sound_sliceE:
  assumes "sound (slice cast T) h s" "s \<noteq> None"
  obtains t xs where "s = Some t" "slice_elems cast t h = Some xs" "\<forall>x \<in> set xs. sound T h x"
  using assms by (auto simp: slice_def list_all_iff split: option.splits)

lemma go_type_slice:
  assumes T: "go_type T"
  shows "go_type (slice cast T)"
proof
  show "reach (slice cast T) h s \<subseteq> {..<length h}" if ok: "sound (slice cast T) h s" for h s
  proof (cases "s = None")
    case False
    with ok obtain t xs where "s = Some t" "slice_elems cast t h = Some xs" "\<forall>x \<in> set xs. sound T h x"
      by (rule sound_sliceE)
    then show ?thesis using go_type.reach_in [OF T] by (simp add: slice_some slice_array UN_least)
  qed simp
  show "sound (slice cast T) h' s \<and> view (slice cast T) h' s = view (slice cast T) h s
      \<and> reach (slice cast T) h' s = reach (slice cast T) h s"
    if ok: "sound (slice cast T) h s" and same: "same_cells (reach (slice cast T) h s) h h'" for h s h'
  proof (cases "s = None")
    case False
    with ok obtain t xs where xs: "s = Some t" "slice_elems cast t h = Some xs" "\<forall>x \<in> set xs. sound T h x"
      by (rule sound_sliceE)
    with same have *: "slice_elems cast t h' = Some xs \<and> (\<forall>x \<in> set xs. same_cells (reach T h x) h h')"
      using same_slice [of t "\<Union> (reach T h ` set xs)" h h' cast] by (simp add: slice_some)
    then have "\<forall>x \<in> set xs. sound T h' x \<and> view T h' x = view T h x \<and> reach T h' x = reach T h x"
      using go_type.local [OF T] xs(3) by blast
    then show ?thesis using xs * by (simp add: slice_some)
  qed simp
qed

lemma go_type_map_ref: "go_type (map_ref cast)"
proof
  show "reach (map_ref cast) h p \<subseteq> {..<length h}" if "sound (map_ref cast) h p" for h p
    using that by (auto simp: map_ref_def split: option.splits dest!: load_some)
  show "sound (map_ref cast) h' p \<and> view (map_ref cast) h' p = view (map_ref cast) h p
      \<and> reach (map_ref cast) h' p = reach (map_ref cast) h p"
    if "sound (map_ref cast) h p" "same_cells (reach (map_ref cast) h p) h h'" for h p h'
    using that same_cells_load [of _ "{}" h h' cast] by (cases p) (auto simp: map_ref_def)
qed

subsection \<open>Deep copies\<close>

definition copied :: "('c, 'a, 'v) gotype \<Rightarrow> 'c memory \<Rightarrow> 'a \<Rightarrow> 'c memory \<Rightarrow> 'a \<Rightarrow> bool" where
  "copied T h a h' b \<longleftrightarrow>
     prefix h h' \<and> sound T h' b \<and> view T h' b = view T h a \<and> reach T h' b \<subseteq> {length h..<length h'}"

locale deep_copier = go_type T for T :: "('c, 'a, 'v) gotype" +
  fixes f :: "'a \<Rightarrow> 'c memory \<Rightarrow> ('a \<times> 'c memory) option"
  assumes copies: "sound T h a \<Longrightarrow> \<exists>b h'. f a h = Some (b, h') \<and> copied T h a h' b"
begin

lemma copyE:
  assumes "sound T h a"
  obtains b zs where "f a h = Some (b, h @ zs)" "sound T (h @ zs) b" "view T (h @ zs) b = view T h a"
    "reach T (h @ zs) b \<subseteq> {length h..<length (h @ zs)}"
  using copies [OF assms] by (auto simp: copied_def prefix_def)

text \<open>A copy keeps its value whatever is written to the cells that were there before it.\<close>

lemma isolated:
  assumes "f a h = Some (b, h')" "sound T h a" "length h'' = length h'"
    "\<forall>p. length h \<le> p \<and> p < length h' \<longrightarrow> h'' ! p = h' ! p"
  shows "sound T h'' b \<and> view T h'' b = view T h a"
proof -
  have *: "copied T h a h' b" using copies [OF assms(2)] assms(1) by auto
  then have "same_cells (reach T h' b) h' h''"
    using assms(3,4) unfolding copied_def same_cells_def by (metis atLeastLessThan_iff subsetD)
  then show ?thesis using local * unfolding copied_def by metis
qed

end

text \<open>
  What a caller of a deep copy relies on: it returns, old cells are as before, the copy has
  the value of the original; from then on the original keeps its value whatever is
  written to the new cells, and the copy keeps it whatever is written to the old ones.
\<close>

definition independent_copy ::
  "('c, 'a, 'v) gotype \<Rightarrow> ('a \<Rightarrow> 'c memory \<Rightarrow> ('a \<times> 'c memory) option) \<Rightarrow> bool" where
  "independent_copy T f \<longleftrightarrow>
     (\<forall>h a. sound T h a \<longrightarrow>
        (\<exists>b h'. f a h = Some (b, h') \<and> prefix h h' \<and> sound T h' b \<and> view T h' b = view T h a
           \<and> (\<forall>h''. same_cells {..<length h} h' h'' \<longrightarrow> sound T h'' a \<and> view T h'' a = view T h a)
           \<and> (\<forall>h''. same_cells {length h..<length h'} h' h'' \<longrightarrow> sound T h'' b \<and> view T h'' b = view T h a)))"

lemma deep_copier_go_type: "deep_copier T f \<Longrightarrow> go_type T"
  by (simp add: deep_copier_def)

lemma deep_copier_independent:
  assumes T: "deep_copier T f"
  shows "independent_copy T f"
  unfolding independent_copy_def
proof (intro allI impI)
  fix h a
  assume ok: "sound T h a"
  note type = deep_copier_go_type [OF T]
  from deep_copier.copyE [OF T ok] obtain b zs where b: "f a h = Some (b, h @ zs)" "sound T (h @ zs) b"
    "view T (h @ zs) b = view T h a" "reach T (h @ zs) b \<subseteq> {length h..<length (h @ zs)}" .
  have "sound T h'' a \<and> view T h'' a = view T h a" if "same_cells {..<length h} (h @ zs) h''" for h''
  proof -
    have "same_cells {..<length h} h h''" using that by (simp add: same_cells_def nth_append)
    then show ?thesis
      using go_type.local [OF type ok] same_cells_mono go_type.reach_in [OF type ok] by blast
  qed
  moreover have "sound T h'' b \<and> view T h'' b = view T h a"
    if "same_cells {length h..<length (h @ zs)} (h @ zs) h''" for h''
    using go_type.local [OF type b(2) same_cells_mono [OF that b(4)]] b(3) by simp
  ultimately show "\<exists>b h'. f a h = Some (b, h') \<and> prefix h h' \<and> sound T h' b \<and> view T h' b = view T h a
      \<and> (\<forall>h''. same_cells {..<length h} h' h'' \<longrightarrow> sound T h'' a \<and> view T h'' a = view T h a)
      \<and> (\<forall>h''. same_cells {length h..<length h'} h' h'' \<longrightarrow> sound T h'' b \<and> view T h'' b = view T h a)"
    using b(1-3) by (intro exI [of _ b] exI [of _ "h @ zs"]) simp
qed

lemma deep_copier_plain: "deep_copier plain keep"
  using go_type_plain by (simp add: deep_copier_def deep_copier_axioms_def keep_def copied_def plain_def)

lemma deep_copier_pair:
  assumes T: "deep_copier T f" and U: "deep_copier U g"
  shows "deep_copier (pair T U) (copy_pair f g)"
proof (intro deep_copier.intro deep_copier_axioms.intro go_type_pair deep_copier_go_type [OF T] deep_copier_go_type [OF U])
  fix h and ab :: "'b \<times> 'd"
  assume "sound (pair T U) h ab"
  then have ok: "sound T h (fst ab)" "sound U h (snd ab)" by (auto simp: pair_def split: prod.splits)
  from deep_copier.copyE [OF T ok(1)] obtain a ys where a: "f (fst ab) h = Some (a, h @ ys)" "sound T (h @ ys) a"
    "view T (h @ ys) a = view T h (fst ab)" "reach T (h @ ys) a \<subseteq> {length h..<length (h @ ys)}" .
  note b_ok = go_type.append [OF deep_copier_go_type [OF U] ok(2)]
  from deep_copier.copyE [OF U b_ok(1)] obtain b zs where b: "g (snd ab) (h @ ys) = Some (b, (h @ ys) @ zs)"
    "sound U ((h @ ys) @ zs) b" "view U ((h @ ys) @ zs) b = view U (h @ ys) (snd ab)"
    "reach U ((h @ ys) @ zs) b \<subseteq> {length (h @ ys)..<length ((h @ ys) @ zs)}" .
  note a' = go_type.append [OF deep_copier_go_type [OF T] a(2), of zs]
  have "reach T (h @ ys @ zs) a \<subseteq> {length h..<length (h @ ys @ zs)}"
    "reach U (h @ ys @ zs) b \<subseteq> {length h..<length (h @ ys @ zs)}"
    using a(4) a'(3) b(4) by (auto simp: subset_eq)
  then have "copied (pair T U) h ab (h @ ys @ zs) (a, b)"
    using a(3) a'(1,2) b(2,3) b_ok(2) by (cases ab) (simp add: copied_def pair_def)
  moreover have "copy_pair f g ab h = Some ((a, b), h @ ys @ zs)" using a(1) b(1) by (simp add: copy_pair_def)
  ultimately show "\<exists>b h'. copy_pair f g ab h = Some (b, h') \<and> copied (pair T U) h ab h' b" by blast
qed

text \<open>A struct is copied by copying its fields, in the order \<open>to\<close> lists them.\<close>

lemma deep_copier_struct:
  assumes T: "deep_copier T f"
    and fields: "\<And>s h. F s h = do { (t, h) \<leftarrow> f (to s) h; Some (build t, h) }"
    and inverse: "\<And>t. to (build t) = t"
  shows "deep_copier (struct to mk T) F"
proof (intro deep_copier.intro deep_copier_axioms.intro go_type_struct deep_copier_go_type [OF T])
  fix h s
  assume "sound (struct to mk T) h s"
  then have "sound T h (to s)" by (simp add: struct_def)
  from deep_copier.copies [OF T this] obtain t h' where "f (to s) h = Some (t, h')" "copied T h (to s) h' t" by blast
  then show "\<exists>b h'. F s h = Some (b, h') \<and> copied (struct to mk T) h s h' b"
    by (simp add: fields copied_def struct_def inverse)
qed

lemma copy_into_new:
  assumes T: "deep_copier T f" and cast: "\<And>x. cast (cell x) = Some x" and ok: "sound T h a"
  obtains b zs where "new_copy cell zero f a h = Some (length h, h @ cell b # zs)"
    "copied T h a (h @ cell b # zs) b" "load cast (length h) (h @ cell b # zs) = Some b"
    "length h \<notin> reach T (h @ cell b # zs) b"
proof -
  let ?h = "h @ [cell zero]"
  note a = go_type.append [OF deep_copier_go_type [OF T] ok]
  from deep_copier.copyE [OF T a(1)] obtain b zs where b: "f a ?h = Some (b, ?h @ zs)" "sound T (?h @ zs) b"
    "view T (?h @ zs) b = view T ?h a" "reach T (?h @ zs) b \<subseteq> {length ?h..<length (?h @ zs)}" .
  from b(4) have fresh: "length h \<notin> reach T (?h @ zs) b" by auto
  have eq: "(?h @ zs)[length h := cell b] = h @ cell b # zs" by simp
  note new = go_type.unaffected [OF deep_copier_go_type [OF T] b(2) fresh, of "cell b", unfolded eq]
  then have "copied T h a (h @ cell b # zs) b" using a(2) b(3,4) by (auto simp: copied_def subset_eq)
  moreover have "new_copy cell zero f a h = Some (length h, h @ cell b # zs)"
    using b(1) by (simp add: new_copy_def alloc_def store_def)
  moreover have "load cast (length h) (h @ cell b # zs) = Some b" by (simp add: load_def cast)
  moreover have "length h \<notin> reach T (h @ cell b # zs) b" using new fresh by simp
  ultimately show ?thesis using that by blast
qed

lemma deep_copier_pointer:
  assumes T: "deep_copier T f" and cast: "\<And>x. cast (cell x) = Some x"
  shows "deep_copier (pointer cast T) (copy_pointer cast cell zero f)"
proof (intro deep_copier.intro deep_copier_axioms.intro go_type_pointer deep_copier_go_type [OF T])
  fix h p
  assume ok: "sound (pointer cast T) h p"
  show "\<exists>b h'. copy_pointer cast cell zero f p h = Some (b, h') \<and> copied (pointer cast T) h p h' b"
  proof (cases "p = None")
    case False
    with ok obtain q a where a: "p = Some q" "load cast q h = Some a" "sound T h a" by (rule sound_pointerE)
    from copy_into_new [OF T cast a(3)] obtain b zs where b: "new_copy cell zero f a h = Some (length h, h @ cell b # zs)"
      "copied T h a (h @ cell b # zs) b" "load cast (length h) (h @ cell b # zs) = Some b"
      "length h \<notin> reach T (h @ cell b # zs) b" .
    then have "copied (pointer cast T) h p (h @ cell b # zs) (Some (length h))"
      using a by (auto simp: copied_def pointer_some)
    then show ?thesis using a b(1) by (simp add: copy_pointer_def)
  qed (simp add: copy_pointer_def copied_def)
qed

subsection \<open>Copies of slices and maps\<close>

text \<open>The array of a slice that \<open>make\<close> returned is the first new cell.\<close>

abbreviation made :: "addr \<Rightarrow> nat \<Rightarrow> slice_header" where
  "made p n \<equiv> \<lparr>sl_array = p, sl_off = 0, sl_len = n, sl_cap = n\<rparr>"

lemma make_slice_eq: "make_slice cell zero n h = (made (length h) n, h @ [cell (replicate n zero)])"
  by (simp add: make_slice_def alloc_def)

lemma slice_elems_append: "slice_elems cast s h = Some xs \<Longrightarrow> slice_elems cast s (h @ zs) = Some xs"
  by (auto simp: slice_elems_def load_def nth_append split: option.splits if_splits)

lemma slice_elems_length: "slice_elems cast s h = Some xs \<Longrightarrow> length xs = sl_len s"
  by (auto simp: slice_elems_def split: option.splits if_splits)

lemma slice_elems_made:
  "(\<And>xs. cast (cell xs) = Some xs) \<Longrightarrow> length ys = n \<Longrightarrow>
    slice_elems cast (made (length h) n) (h @ cell ys # zs) = Some ys"
  by (simp add: slice_elems_def load_def)

lemma deep_copier_plain_slice:
  assumes cast: "\<And>xs. cast (cell xs) = Some xs"
  shows "deep_copier (slice cast plain) (copy_plain_slice cast cell zero)"
proof (intro deep_copier.intro deep_copier_axioms.intro go_type_slice go_type_plain)
  fix h s
  assume ok: "sound (slice cast plain) h s"
  show "\<exists>b h'. copy_plain_slice cast cell zero s h = Some (b, h') \<and> copied (slice cast plain) h s h' b"
  proof (cases "s = None")
    case False
    with ok obtain t xs where xs: "s = Some t" "slice_elems cast t h = Some xs" by (rule sound_sliceE)
    note len = slice_elems_length [OF xs(2)]
    have "copy_slice cast cell (made (length h) (sl_len t)) t (h @ [cell (replicate (sl_len t) zero)]) = Some (h @ [cell xs])"
      using slice_elems_append [OF xs(2)] len by (simp add: copy_slice_def load_def store_def cast Let_def)
    moreover have "copied (slice cast plain) h s (h @ [cell xs]) (Some (made (length h) (sl_len t)))"
      using xs slice_elems_made [where cast = cast and cell = cell, OF cast len, of h "[]"]
      by (simp add: copied_def slice_some) (simp add: plain_def)
    ultimately show ?thesis using xs by (simp add: copy_plain_slice_def make_slice_eq)
  qed (simp add: copy_plain_slice_def copied_def)
qed

text \<open>The loop over the elements, from index \<open>k\<close> on, where the first \<open>k\<close> are copied.\<close>

definition copied_upto ::
  "('c, 'a, 'v) gotype \<Rightarrow> 'c memory \<Rightarrow> 'a list \<Rightarrow> nat \<Rightarrow> 'c memory \<Rightarrow> 'a list \<Rightarrow> bool" where
  "copied_upto T h0 xs k h ys \<longleftrightarrow>
     (\<forall>j < k. sound T h (ys ! j) \<and> view T h (ys ! j) = view T h0 (xs ! j)
        \<and> reach T h (ys ! j) \<subseteq> {length h0<..<length h})"

lemma copied_upto_step:
  assumes T: "go_type T" and h: "h = h0 @ cell ys # zs" and len: "k < length ys"
    and upto: "copied_upto T h0 xs k h ys"
    and b: "sound T (h @ ws) b" "view T (h @ ws) b = view T h0 (xs ! k)"
      "reach T (h @ ws) b \<subseteq> {length h..<length (h @ ws)}"
  shows "copied_upto T h0 xs (Suc k) (h0 @ cell (ys[k := b]) # zs @ ws) (ys[k := b])"
  unfolding copied_upto_def
proof (intro allI impI)
  fix j
  assume j: "j < Suc k"
  let ?y = "ys[k := b] ! j"
  have y: "sound T (h @ ws) ?y" "view T (h @ ws) ?y = view T h0 (xs ! j)"
    "reach T (h @ ws) ?y \<subseteq> {length h0<..<length (h @ ws)}"
  proof -
    have "sound T (h @ ws) ?y \<and> view T (h @ ws) ?y = view T h0 (xs ! j)
        \<and> reach T (h @ ws) ?y \<subseteq> {length h0<..<length (h @ ws)}"
    proof (cases "j = k")
      case True
      then show ?thesis using b len h by (auto simp: subset_eq)
    next
      case False
      then have old: "sound T h (ys ! j)" "view T h (ys ! j) = view T h0 (xs ! j)"
        "reach T h (ys ! j) \<subseteq> {length h0<..<length h}"
        using upto j by (auto simp: copied_upto_def)
      then show ?thesis using go_type.append [OF T old(1), of ws] False by (auto simp: subset_eq)
    qed
    then show "sound T (h @ ws) ?y" "view T (h @ ws) ?y = view T h0 (xs ! j)"
      "reach T (h @ ws) ?y \<subseteq> {length h0<..<length (h @ ws)}" by auto
  qed
  have "length h0 \<notin> reach T (h @ ws) ?y" using y(3) by auto
  from go_type.unaffected [OF T y(1) this, of "cell (ys[k := b])"]
  show "sound T (h0 @ cell (ys[k := b]) # zs @ ws) ?y
      \<and> view T (h0 @ cell (ys[k := b]) # zs @ ws) ?y = view T h0 (xs ! j)
      \<and> reach T (h0 @ cell (ys[k := b]) # zs @ ws) ?y \<subseteq> {length h0<..<length (h0 @ cell (ys[k := b]) # zs @ ws)}"
    using y(2,3) by (simp add: h)
qed

lemma copy_elems_spec:
  assumes T: "deep_copier T f" and cast: "\<And>xs. cast (cell xs) = Some xs"
    and src: "slice_elems cast s h0 = Some xs" "\<forall>x \<in> set xs. sound T h0 x"
    and len: "length ys = length xs" and k: "k \<le> length xs"
    and upto: "copied_upto T h0 xs k (h0 @ cell ys # zs) ys"
  shows "\<exists>ys' zs'. copy_elems cast cell f s (made (length h0) (length xs)) [k..<length xs] (h0 @ cell ys # zs)
        = Some (h0 @ cell ys' # zs')
      \<and> length ys' = length xs \<and> copied_upto T h0 xs (length xs) (h0 @ cell ys' # zs') ys'"
  using len k upto
proof (induction "length xs - k" arbitrary: k ys zs)
  case 0
  then show ?case by auto
next
  case (Suc n)
  let ?h = "h0 @ cell ys # zs" and ?out = "made (length h0) (length xs)"
  note type = deep_copier_go_type [OF T]
  from Suc.hyps(2) have k: "k < length xs" by simp
  then have x: "sound T h0 (xs ! k)" using src(2) by simp
  note x' = go_type.append [OF type x, of "cell ys # zs"]
  from deep_copier.copyE [OF T x'(1)] obtain b ws where b: "f (xs ! k) ?h = Some (b, ?h @ ws)"
    "sound T (?h @ ws) b" "view T (?h @ ws) b = view T ?h (xs ! k)" "reach T (?h @ ws) b \<subseteq> {length ?h..<length (?h @ ws)}" .
  let ?ys = "ys[k := b]"
  have step: "copied_upto T h0 xs (Suc k) (h0 @ cell ?ys # zs @ ws) ?ys"
    by (rule copied_upto_step [where h = ?h and zs = zs and ys = ys, OF type])
      (use Suc.prems k b x'(2) in simp_all)
  have get: "get_elem cast s k ?h = Some (xs ! k)"
    using slice_elems_append [OF src(1), of "cell ys # zs"] k by (simp add: get_elem_def)
  have put: "set_elem cast cell ?out k b (?h @ ws) = Some (h0 @ cell ?ys # zs @ ws)"
    using k by (simp add: set_elem_def load_def store_def cast)
  have "n = length xs - Suc k" "Suc k \<le> length xs" "length ?ys = length xs" using Suc k by auto
  from Suc.hyps(1) [OF this(1) this(3) this(2) step] show ?case
    using get b(1) put k by (simp add: upt_conv_Cons)
qed

lemma deep_copier_slice:
  assumes T: "deep_copier T f" and cast: "\<And>xs. cast (cell xs) = Some xs"
  shows "deep_copier (slice cast T) (copy_slice_with cast cell zero f)"
proof (intro deep_copier.intro deep_copier_axioms.intro go_type_slice deep_copier_go_type [OF T])
  fix h s
  assume ok: "sound (slice cast T) h s"
  show "\<exists>b h'. copy_slice_with cast cell zero f s h = Some (b, h') \<and> copied (slice cast T) h s h' b"
  proof (cases "s = None")
    case False
    with ok obtain t xs where xs: "s = Some t" "slice_elems cast t h = Some xs" "\<forall>x \<in> set xs. sound T h x"
      by (rule sound_sliceE)
    note len = slice_elems_length [OF xs(2)]
    have "copied_upto T h xs 0 (h @ cell (replicate (length xs) zero) # []) (replicate (length xs) zero)"
      by (simp add: copied_upto_def)
    from copy_elems_spec [OF T cast xs(2,3) _ _ this] obtain ys zs where
      loop: "copy_elems cast cell f t (made (length h) (length xs)) [0..<length xs] (h @ [cell (replicate (length xs) zero)])
        = Some (h @ cell ys # zs)" and ys: "length ys = length xs" "copied_upto T h xs (length xs) (h @ cell ys # zs) ys"
      by auto
    have out: "slice_elems cast (made (length h) (length xs)) (h @ cell ys # zs) = Some ys"
      using slice_elems_made [where cast = cast and cell = cell, OF cast ys(1)] .
    have "copied (slice cast T) h s (h @ cell ys # zs) (Some (made (length h) (length xs)))"
      using ys xs(1,2) out
      by (auto simp: copied_def slice_some copied_upto_def in_set_conv_nth subset_eq intro!: nth_equalityI)
        (meson less_imp_le)+
    then show ?thesis using xs(1) loop len by (simp add: copy_slice_with_def make_slice_eq)
  qed (simp add: copy_slice_with_def copied_def)
qed

lemma keys_insort: "map fst (insort_key fst e m) = insort (fst e) (map fst m)"
  by (induction m) simp_all

lemma map_assign_fold:
  assumes "distinct (map fst es)" "sorted (map fst m)" "distinct (map fst m)" "fst ` set es \<inter> fst ` set m = {}"
  shows "sorted (map fst (fold map_assign es m)) \<and> distinct (map fst (fold map_assign es m))
    \<and> set (fold map_assign es m) = set es \<union> set m"
  using assms
proof (induction es arbitrary: m)
  case (Cons e es)
  have new: "fst e \<notin> fst ` set m" using Cons.prems(4) by auto
  then have filter: "filter (\<lambda>x. fst x \<noteq> fst e) m = m" by (intro filter_True) (auto simp: image_iff)
  let ?m = "map_assign e m"
  have m: "?m = insort_key fst e m" by (simp add: map_assign_def filter)
  have "set ?m = insert e (set m)" by (simp add: m set_insort_key)
  moreover have "sorted (map fst ?m)" using Cons.prems(2) by (simp add: m sorted_insort_key)
  moreover have "distinct (map fst ?m)"
    using Cons.prems(3) new by (simp add: m keys_insort distinct_insort)
  moreover have "fst ` set es \<inter> fst ` set ?m = {}"
    using Cons.prems(1,4) by (simp add: m set_insort_key)
  ultimately show ?case using Cons.IH [of ?m] Cons.prems(1) by auto
qed simp

lemma map_assign_all:
  assumes "sorted (map fst m)" "distinct (map fst m)" "mset es = mset m"
  shows "fold map_assign es [] = m"
proof -
  have "distinct (map fst es)" using assms(2,3) by (metis mset_eq_imp_distinct_iff mset_map)
  then have "sorted (map fst (fold map_assign es [])) \<and> distinct (map fst (fold map_assign es []))
      \<and> set (fold map_assign es []) = set m"
    using map_assign_fold [of es "[]"] mset_eq_setD [OF assms(3)] by simp
  then show ?thesis
    using assms(1,2) by (auto intro!: map_sorted_distinct_set_unique [where f = fst] simp: distinct_map)
qed

lemma deep_copier_map:
  assumes cast: "\<And>m. cast (cell m) = Some m" and order: "\<And>m. mset (range_order m) = mset m"
  shows "deep_copier (map_ref cast) (copy_map cast cell range_order)"
proof (intro deep_copier.intro deep_copier_axioms.intro go_type_map_ref)
  fix h p
  assume ok: "sound (map_ref cast) h p"
  show "\<exists>b h'. copy_map cast cell range_order p h = Some (b, h') \<and> copied (map_ref cast) h p h' b"
  proof (cases p)
    case (Some q)
    with ok obtain m where m: "load cast q h = Some m" "sorted (map fst m)" "distinct (map fst m)"
      by (auto simp: map_ref_def split: option.splits)
    have "load cast q (h @ [cell []]) = Some m" using m(1) by (auto simp: load_def nth_append split: if_splits)
    then have "copy_map cast cell range_order p h = Some (Some (length h), h @ [cell m])"
      using Some map_assign_all [OF m(2,3) order] by (simp add: copy_map_def alloc_def store_def)
    moreover have "load cast (length h) (h @ [cell m]) = Some m" by (simp add: load_def cast)
    ultimately show ?thesis using Some m by (auto simp: copied_def map_ref_def)
  qed (simp add: copy_map_def copied_def map_ref_def)
qed

end
