(* ===== verification/Deep_Copy_Facts.thy ===== *)
theory Deep_Copy_Facts
  imports Deep_Copy Go_Types
begin

text \<open>
  The generated deep copies keep the contract of deep copies, at every type: the copy reads as
  the same value of theory \<open>Apme_Types\<close>, and shares no cell with what was there before. This
  is why the rest of the development can treat an \<open>Apme\<close> as a value.
\<close>

subsection \<open>The types\<close>

text \<open>
  How values of the library types are read, which values of \<open>ObjectMeta\<close> matter (the last
  component is the generation), and those of a list.
\<close>

record list_meta =
  lm_resourceVersion :: string
  lm_continue :: string
  lm_remainingItemCount :: "int option"

record 'x machinery_types =
  Quantity_type :: "('x cell, 'x, quantity) gotype"
  ResourceRequirements_type :: "('x cell, 'x, resource_requirements) gotype"
  ObjectMeta_type :: "('x cell, 'x, object_meta \<times> int) gotype"
  ListMeta_type :: "('x cell, 'x, list_meta) gotype"

text \<open>The deep copies of the other packages do what they are documented to do.\<close>

definition documented_copies :: "'x machinery \<Rightarrow> 'x machinery_types \<Rightarrow> bool" where
  "documented_copies M V \<longleftrightarrow>
     deep_copier (Quantity_type V) (Quantity_DeepCopy M)
     \<and> deep_copier (ResourceRequirements_type V) (ResourceRequirements_DeepCopyInto M)
     \<and> deep_copier (ObjectMeta_type V) (ObjectMeta_DeepCopyInto M)
     \<and> deep_copier (ListMeta_type V) (ListMeta_DeepCopyInto M)
     \<and> deep_copier plain (Condition_DeepCopyInto M)
     \<and> (\<forall>m. mset (range_order M m) = mset m)"

definition ImageSpec_type :: "('x cell, ImageSpec_mem, ImageSpec) gotype" where
  "ImageSpec_type =
     struct (\<lambda>s. (mimg_Registry s, mimg_PullPolicy s, mimg_PullSecrets s))
       (\<lambda>(v1, v2, v3). \<lparr>img_Registry = v1, img_PullPolicy = v2, img_PullSecrets = v3\<rparr>)
       (pair plain (pair plain (slice as_LocalObjectReferences plain)))"

definition ComponentsSpec_type :: "('x cell, ComponentsSpec_mem, ComponentsSpec) gotype" where
  "ComponentsSpec_type =
     struct (\<lambda>s. (mcmp_Gitleaks s, mcmp_CollectionHealth s, mcmp_DepAudit s, mcmp_UI s))
       (\<lambda>(v1, v2, v3, v4). \<lparr>cmp_Gitleaks = v1, cmp_CollectionHealth = v2, cmp_DepAudit = v3, cmp_UI = v4\<rparr>)
       (pair (pointer as_Bool plain) (pair (pointer as_Bool plain) (pair (pointer as_Bool plain) (pointer as_Bool plain))))"

definition PVCSpec_type :: "'x machinery_types \<Rightarrow> ('x cell, 'x PVCSpec_mem, PVCSpec) gotype" where
  "PVCSpec_type V =
     struct (\<lambda>s. (mpv_Size s, mpv_StorageClass s))
       (\<lambda>(v1, v2). \<lparr>pv_Size = v1, pv_StorageClass = v2\<rparr>)
       (pair (Quantity_type V) plain)"

definition PostgresSpec_type :: "'x machinery_types \<Rightarrow> ('x cell, 'x PostgresSpec_mem, PostgresSpec) gotype" where
  "PostgresSpec_type V =
     struct (\<lambda>s. (mpg_Image s, mpg_Storage s, mpg_Resources s, mpg_TLS s))
       (\<lambda>(v1, v2, v3, v4). \<lparr>pg_Image = v1, pg_Storage = v2, pg_Resources = v3, pg_TLSSecretName = pt_SecretName v4\<rparr>)
       (pair plain (pair (PVCSpec_type V) (pair (ResourceRequirements_type V) plain)))"

definition DatabaseSpec_type :: "'x machinery_types \<Rightarrow> ('x cell, 'x DatabaseSpec_mem, DatabaseSpec) gotype" where
  "DatabaseSpec_type V =
     struct (\<lambda>s. (mdb_ConnectionSecretRef s, mdb_Postgres s))
       (\<lambda>(v1, v2). \<lparr>db_ConnectionSecretRef = v1, db_Postgres = v2\<rparr>)
       (pair plain (PostgresSpec_type V))"

definition StorageSpec_type :: "'x machinery_types \<Rightarrow> ('x cell, 'x StorageSpec_mem, StorageSpec) gotype" where
  "StorageSpec_type V =
     struct (\<lambda>s. (mst_Sessions s, mst_ProxyCache s))
       (\<lambda>(v1, v2). \<lparr>st_Sessions = v1, st_ProxyCache = v2\<rparr>)
       (pair (PVCSpec_type V) (PVCSpec_type V))"

definition RouteSpec_type :: "('x cell, RouteSpec_mem, RouteSpec) gotype" where
  "RouteSpec_type =
     struct (\<lambda>s. (mro_Enabled s, mro_Host s, mro_TLS s))
       (\<lambda>(v1, v2, v3). \<lparr>ro_Enabled = v1, ro_Host = v2, ro_TLS = v3\<rparr>)
       (pair (pointer as_Bool plain) (pair plain plain))"

definition IngressSpec_type :: "('x cell, IngressSpec_mem, IngressSpec) gotype" where
  "IngressSpec_type =
     struct (\<lambda>s. (min_Enabled s, min_ClassName s, min_Host s, min_Annotations s, min_TLSSecretName s))
       (\<lambda>(v1, v2, v3, v4, v5). \<lparr>in_Enabled = v1, in_ClassName = v2, in_Host = v3, in_Annotations = v4, in_TLSSecretName = v5\<rparr>)
       (pair plain (pair plain (pair plain (pair (map_ref as_StringMap) plain))))"

definition ExposureSpec_type :: "('x cell, ExposureSpec_mem, ExposureSpec) gotype" where
  "ExposureSpec_type =
     struct (\<lambda>s. (mex_Route s, mex_Ingress s))
       (\<lambda>(v1, v2). \<lparr>ex_Route = v1, ex_Ingress = v2\<rparr>)
       (pair RouteSpec_type IngressSpec_type)"

definition AbbenayPersistenceSpec_type :: "'x machinery_types \<Rightarrow> ('x cell, 'x AbbenayPersistenceSpec_mem, AbbenayPersistenceSpec) gotype" where
  "AbbenayPersistenceSpec_type V =
     struct (\<lambda>s. (map_Enabled s, map_Size s, map_StorageClass s))
       (\<lambda>(v1, v2, v3). \<lparr>ap_Enabled = v1, ap_Size = v2, ap_StorageClass = v3\<rparr>)
       (pair (pointer as_Bool plain) (pair (Quantity_type V) plain))"

definition AbbenaySpec_type :: "'x machinery_types \<Rightarrow> ('x cell, 'x AbbenaySpec_mem, AbbenaySpec) gotype" where
  "AbbenaySpec_type V =
     struct (\<lambda>s. (mab_Enabled s, mab_Image s, mab_TokenSecretRef s, mab_ConfigMapRef s, mab_Persistence s))
       (\<lambda>(v1, v2, v3, v4, v5). \<lparr>ab_Enabled = v1, ab_Image = v2, ab_TokenSecretRef = v3, ab_ConfigMapRef = lor_Name v4, ab_Persistence = v5\<rparr>)
       (pair plain (pair plain (pair plain (pair plain (AbbenayPersistenceSpec_type V)))))"

definition NetworkPolicySpec_type :: "('x cell, NetworkPolicySpec_mem, NetworkPolicySpec) gotype" where
  "NetworkPolicySpec_type =
     struct (\<lambda>s. (mnp_Enabled s))
       (\<lambda>v1. \<lparr>npol_Enabled = v1\<rparr>)
       (pointer as_Bool plain)"

definition GalaxyProxyTLSSpec_type :: "('x cell, GalaxyProxyTLSSpec_mem, GalaxyProxyTLSSpec) gotype" where
  "GalaxyProxyTLSSpec_type =
     struct (\<lambda>s. (mgt_Verify s, mgt_CABundleConfigMapRef s))
       (\<lambda>(v1, v2). \<lparr>gt_Verify = v1, gt_CABundleConfigMapRef = v2\<rparr>)
       (pair (pointer as_Bool plain) (pointer as_ConfigMapKeyRef plain))"

definition GalaxyProxySpec_type :: "('x cell, GalaxyProxySpec_mem, GalaxyProxyTLSSpec) gotype" where
  "GalaxyProxySpec_type =
     struct (\<lambda>s. (mgp_TLS s))
       (\<lambda>v. v)
       GalaxyProxyTLSSpec_type"

definition ApmeSpec_type :: "'x machinery_types \<Rightarrow> ('x cell, 'x ApmeSpec_mem, ApmeSpec) gotype" where
  "ApmeSpec_type V =
     struct (\<lambda>s. (msp_Version s, msp_Image s, msp_Replicas s, msp_Components s, msp_Plugins s, msp_Database s, msp_Storage s, msp_GalaxyProxy s, msp_Exposure s, msp_Abbenay s, msp_Resources s, msp_NetworkPolicy s))
       (\<lambda>(v1, v2, v3, v4, v5, v6, v7, v8, v9, v10, v11, v12). \<lparr>spec_Version = v1, spec_Image = v2, spec_Replicas = v3, spec_Components = v4, spec_Plugins = v5, spec_Database = v6, spec_Storage = v7, spec_GalaxyProxyTLS = v8, spec_Exposure = v9, spec_Abbenay = v10, spec_Resources = v11, spec_NetworkPolicy = v12\<rparr>)
       (pair plain (pair ImageSpec_type (pair plain (pair ComponentsSpec_type (pair (slice as_PluginSpecs plain) (pair (DatabaseSpec_type V) (pair (StorageSpec_type V) (pair GalaxyProxySpec_type (pair ExposureSpec_type (pair (AbbenaySpec_type V) (pair (ResourceRequirements_type V) NetworkPolicySpec_type)))))))))))"

definition ApmeStatus_type :: "('x cell, ApmeStatus_mem, ApmeStatus) gotype" where
  "ApmeStatus_type =
     struct (\<lambda>s. (msu_Conditions s, msu_URL s, msu_ObservedGeneration s, msu_Topology s, msu_Database s))
       (\<lambda>(v1, v2, v3, v4, v5). \<lparr>status_Conditions = v1, status_URL = v2, status_ObservedGeneration = v3, status_Topology = v4, status_Database = v5\<rparr>)
       (pair (slice as_Conditions plain) (pair plain (pair plain (pair plain plain))))"

definition Apme_type :: "'x machinery_types \<Rightarrow> ('x cell, 'x Apme_mem, type_meta \<times> Apme) gotype" where
  "Apme_type V =
     struct (\<lambda>s. (mcr_TypeMeta s, mcr_ObjectMeta s, mcr_Spec s, mcr_Status s))
       (\<lambda>(t, (m, g), sp, st). (t, \<lparr>apme_meta = m, apme_Generation = g, apme_Spec = sp, apme_Status = st\<rparr>))
       (pair plain (pair (ObjectMeta_type V) (pair (ApmeSpec_type V) ApmeStatus_type)))"

definition ApmeList_type :: "'x machinery_types \<Rightarrow> ('x cell, 'x ApmeList_mem, type_meta \<times> list_meta \<times> (type_meta \<times> Apme) list) gotype" where
  "ApmeList_type V =
     struct (\<lambda>s. (mls_TypeMeta s, mls_ListMeta s, mls_Items s))
       (\<lambda>v. v)
       (pair plain (pair (ListMeta_type V) (slice as_Apmes (Apme_type V))))"

subsection \<open>The contract\<close>

lemma casts [simp]:
  "as_Bool (Bool_cell x0) = Some x0"
  "as_StringMap (StringMap_cell x1) = Some x1"
  "as_LocalObjectReferences (LocalObjectReferences_cell x2) = Some x2"
  "as_PluginSpecs (PluginSpecs_cell x3) = Some x3"
  "as_Conditions (Conditions_cell x4) = Some x4"
  "as_SecretKeyRef (SecretKeyRef_cell x5) = Some x5"
  "as_ConfigMapKeyRef (ConfigMapKeyRef_cell x6) = Some x6"
  "as_LocalObjectRef (LocalObjectRef_cell x7) = Some x7"
  "as_PluginSpec (PluginSpec_cell x8) = Some x8"
  "as_PostgresTLSSpec (PostgresTLSSpec_cell x9) = Some x9"
  "as_RouteTLSSpec (RouteTLSSpec_cell x10) = Some x10"
  "as_ImageSpec (ImageSpec_cell x11) = Some x11"
  "as_ComponentsSpec (ComponentsSpec_cell x12) = Some x12"
  "as_PVCSpec (PVCSpec_cell x13) = Some x13"
  "as_PostgresSpec (PostgresSpec_cell x14) = Some x14"
  "as_DatabaseSpec (DatabaseSpec_cell x15) = Some x15"
  "as_StorageSpec (StorageSpec_cell x16) = Some x16"
  "as_RouteSpec (RouteSpec_cell x17) = Some x17"
  "as_IngressSpec (IngressSpec_cell x18) = Some x18"
  "as_ExposureSpec (ExposureSpec_cell x19) = Some x19"
  "as_AbbenayPersistenceSpec (AbbenayPersistenceSpec_cell x20) = Some x20"
  "as_AbbenaySpec (AbbenaySpec_cell x21) = Some x21"
  "as_NetworkPolicySpec (NetworkPolicySpec_cell x22) = Some x22"
  "as_GalaxyProxyTLSSpec (GalaxyProxyTLSSpec_cell x23) = Some x23"
  "as_GalaxyProxySpec (GalaxyProxySpec_cell x24) = Some x24"
  "as_ApmeSpec (ApmeSpec_cell x25) = Some x25"
  "as_ApmeStatus (ApmeStatus_cell x26) = Some x26"
  "as_Apme (Apme_cell x27) = Some x27"
  "as_ApmeList (ApmeList_cell x28) = Some x28"
  "as_Apmes (Apmes_cell x29) = Some x29"
  by (simp_all add: as_Bool_def as_StringMap_def as_LocalObjectReferences_def as_PluginSpecs_def as_Conditions_def as_SecretKeyRef_def as_ConfigMapKeyRef_def as_LocalObjectRef_def as_PluginSpec_def as_PostgresTLSSpec_def as_RouteTLSSpec_def as_ImageSpec_def as_ComponentsSpec_def as_PVCSpec_def as_PostgresSpec_def as_DatabaseSpec_def as_StorageSpec_def as_RouteSpec_def as_IngressSpec_def as_ExposureSpec_def as_AbbenayPersistenceSpec_def as_AbbenaySpec_def as_NetworkPolicySpec_def as_GalaxyProxyTLSSpec_def as_GalaxyProxySpec_def as_ApmeSpec_def as_ApmeStatus_def as_Apme_def as_ApmeList_def as_Apmes_def)

named_theorems copiers "deep copies that keep the contract"

lemma copy_forms [copiers]:
  "deep_copier plain keep"
  "deep_copier (pointer as_Bool plain) (copy_pointer as_Bool Bool_cell False keep)"
  "deep_copier (pointer as_ConfigMapKeyRef plain) (copy_pointer as_ConfigMapKeyRef ConfigMapKeyRef_cell zero_ConfigMapKeyRef keep)"
  "deep_copier (slice as_LocalObjectReferences plain) (copy_plain_slice as_LocalObjectReferences LocalObjectReferences_cell [])"
  "deep_copier (slice as_PluginSpecs plain) (copy_plain_slice as_PluginSpecs PluginSpecs_cell zero_PluginSpec)"
  by (auto intro!: deep_copier_plain deep_copier_pointer deep_copier_plain_slice)

lemma copy_library [copiers]:
  assumes "documented_copies M V"
  shows "deep_copier (Quantity_type V) (Quantity_DeepCopy M)"
    and "deep_copier (ResourceRequirements_type V) (ResourceRequirements_DeepCopyInto M)"
    and "deep_copier (ObjectMeta_type V) (ObjectMeta_DeepCopyInto M)"
    and "deep_copier (ListMeta_type V) (ListMeta_DeepCopyInto M)"
    and "deep_copier (map_ref as_StringMap) (copy_map as_StringMap StringMap_cell (range_order M))"
    and "deep_copier (slice as_Conditions plain)
      (copy_slice_with as_Conditions Conditions_cell zero_Condition (Condition_DeepCopyInto M))"
  using assms unfolding documented_copies_def by (simp_all add: deep_copier_map deep_copier_slice)

lemmas copy_defs = copy_pair_def keep_def split_def

lemma ImageSpec_copier [copiers]:
  "deep_copier ImageSpec_type ImageSpec_DeepCopyInto"
  unfolding ImageSpec_type_def
  apply (rule deep_copier_struct [where build = "\<lambda>(v1, v2, v3). \<lparr>mimg_Registry = v1, mimg_PullPolicy = v2, mimg_PullSecrets = v3\<rparr>"],
    (rule deep_copier_pair copiers)+)
  subgoal for s by (cases s) (simp add: ImageSpec_DeepCopyInto_def copy_defs)
  by (simp add: split_def)

lemma ComponentsSpec_copier [copiers]:
  "deep_copier ComponentsSpec_type ComponentsSpec_DeepCopyInto"
  unfolding ComponentsSpec_type_def
  apply (rule deep_copier_struct [where build = "\<lambda>(v1, v2, v3, v4). \<lparr>mcmp_Gitleaks = v1, mcmp_CollectionHealth = v2, mcmp_DepAudit = v3, mcmp_UI = v4\<rparr>"],
    (rule deep_copier_pair copiers)+)
  subgoal for s by (cases s) (simp add: ComponentsSpec_DeepCopyInto_def copy_defs)
  by (simp add: split_def)

lemma PVCSpec_copier [copiers]:
  assumes "documented_copies M V"
  shows "deep_copier (PVCSpec_type V) (PVCSpec_DeepCopyInto M)"
  unfolding PVCSpec_type_def
  apply (rule deep_copier_struct [where build = "\<lambda>(v1, v2). \<lparr>mpv_Size = v1, mpv_StorageClass = v2\<rparr>"],
    (rule deep_copier_pair copiers assms)+)
  subgoal for s by (cases s) (simp add: PVCSpec_DeepCopyInto_def copy_defs)
  by (simp add: split_def)

lemma PostgresSpec_copier [copiers]:
  assumes "documented_copies M V"
  shows "deep_copier (PostgresSpec_type V) (PostgresSpec_DeepCopyInto M)"
  unfolding PostgresSpec_type_def
  apply (rule deep_copier_struct [where build = "\<lambda>(v1, v2, v3, v4). \<lparr>mpg_Image = v1, mpg_Storage = v2, mpg_Resources = v3, mpg_TLS = v4\<rparr>"],
    (rule deep_copier_pair copiers assms)+)
  subgoal for s by (cases s) (simp add: PostgresSpec_DeepCopyInto_def copy_defs)
  by (simp add: split_def)

lemma DatabaseSpec_copier [copiers]:
  assumes "documented_copies M V"
  shows "deep_copier (DatabaseSpec_type V) (DatabaseSpec_DeepCopyInto M)"
  unfolding DatabaseSpec_type_def
  apply (rule deep_copier_struct [where build = "\<lambda>(v1, v2). \<lparr>mdb_ConnectionSecretRef = v1, mdb_Postgres = v2\<rparr>"],
    (rule deep_copier_pair copiers assms)+)
  subgoal for s by (cases s) (simp add: DatabaseSpec_DeepCopyInto_def copy_defs)
  by (simp add: split_def)

lemma StorageSpec_copier [copiers]:
  assumes "documented_copies M V"
  shows "deep_copier (StorageSpec_type V) (StorageSpec_DeepCopyInto M)"
  unfolding StorageSpec_type_def
  apply (rule deep_copier_struct [where build = "\<lambda>(v1, v2). \<lparr>mst_Sessions = v1, mst_ProxyCache = v2\<rparr>"],
    (rule deep_copier_pair copiers assms)+)
  subgoal for s by (cases s) (simp add: StorageSpec_DeepCopyInto_def copy_defs)
  by (simp add: split_def)

lemma RouteSpec_copier [copiers]:
  "deep_copier RouteSpec_type RouteSpec_DeepCopyInto"
  unfolding RouteSpec_type_def
  apply (rule deep_copier_struct [where build = "\<lambda>(v1, v2, v3). \<lparr>mro_Enabled = v1, mro_Host = v2, mro_TLS = v3\<rparr>"],
    (rule deep_copier_pair copiers)+)
  subgoal for s by (cases s) (simp add: RouteSpec_DeepCopyInto_def copy_defs)
  by (simp add: split_def)

lemma IngressSpec_copier [copiers]:
  assumes "documented_copies M V"
  shows "deep_copier IngressSpec_type (IngressSpec_DeepCopyInto M)"
  unfolding IngressSpec_type_def
  apply (rule deep_copier_struct [where build = "\<lambda>(v1, v2, v3, v4, v5). \<lparr>min_Enabled = v1, min_ClassName = v2, min_Host = v3, min_Annotations = v4, min_TLSSecretName = v5\<rparr>"],
    (rule deep_copier_pair copiers assms)+)
  subgoal for s by (cases s) (simp add: IngressSpec_DeepCopyInto_def copy_defs)
  by (simp add: split_def)

lemma ExposureSpec_copier [copiers]:
  assumes "documented_copies M V"
  shows "deep_copier ExposureSpec_type (ExposureSpec_DeepCopyInto M)"
  unfolding ExposureSpec_type_def
  apply (rule deep_copier_struct [where build = "\<lambda>(v1, v2). \<lparr>mex_Route = v1, mex_Ingress = v2\<rparr>"],
    (rule deep_copier_pair copiers assms)+)
  subgoal for s by (cases s) (simp add: ExposureSpec_DeepCopyInto_def copy_defs)
  by (simp add: split_def)

lemma AbbenayPersistenceSpec_copier [copiers]:
  assumes "documented_copies M V"
  shows "deep_copier (AbbenayPersistenceSpec_type V) (AbbenayPersistenceSpec_DeepCopyInto M)"
  unfolding AbbenayPersistenceSpec_type_def
  apply (rule deep_copier_struct [where build = "\<lambda>(v1, v2, v3). \<lparr>map_Enabled = v1, map_Size = v2, map_StorageClass = v3\<rparr>"],
    (rule deep_copier_pair copiers assms)+)
  subgoal for s by (cases s) (simp add: AbbenayPersistenceSpec_DeepCopyInto_def copy_defs)
  by (simp add: split_def)

lemma AbbenaySpec_copier [copiers]:
  assumes "documented_copies M V"
  shows "deep_copier (AbbenaySpec_type V) (AbbenaySpec_DeepCopyInto M)"
  unfolding AbbenaySpec_type_def
  apply (rule deep_copier_struct [where build = "\<lambda>(v1, v2, v3, v4, v5). \<lparr>mab_Enabled = v1, mab_Image = v2, mab_TokenSecretRef = v3, mab_ConfigMapRef = v4, mab_Persistence = v5\<rparr>"],
    (rule deep_copier_pair copiers assms)+)
  subgoal for s by (cases s) (simp add: AbbenaySpec_DeepCopyInto_def copy_defs)
  by (simp add: split_def)

lemma NetworkPolicySpec_copier [copiers]:
  "deep_copier NetworkPolicySpec_type NetworkPolicySpec_DeepCopyInto"
  unfolding NetworkPolicySpec_type_def
  apply (rule deep_copier_struct [where build = "\<lambda>v1. \<lparr>mnp_Enabled = v1\<rparr>"],
    (rule deep_copier_pair copiers)+)
  subgoal for s by (cases s) (simp add: NetworkPolicySpec_DeepCopyInto_def copy_defs)
  by (simp add: split_def)

lemma GalaxyProxyTLSSpec_copier [copiers]:
  "deep_copier GalaxyProxyTLSSpec_type GalaxyProxyTLSSpec_DeepCopyInto"
  unfolding GalaxyProxyTLSSpec_type_def
  apply (rule deep_copier_struct [where build = "\<lambda>(v1, v2). \<lparr>mgt_Verify = v1, mgt_CABundleConfigMapRef = v2\<rparr>"],
    (rule deep_copier_pair copiers)+)
  subgoal for s by (cases s) (simp add: GalaxyProxyTLSSpec_DeepCopyInto_def copy_defs)
  by (simp add: split_def)

lemma GalaxyProxySpec_copier [copiers]:
  "deep_copier GalaxyProxySpec_type GalaxyProxySpec_DeepCopyInto"
  unfolding GalaxyProxySpec_type_def
  apply (rule deep_copier_struct [where build = "\<lambda>v1. \<lparr>mgp_TLS = v1\<rparr>"],
    (rule deep_copier_pair copiers)+)
  subgoal for s by (cases s) (simp add: GalaxyProxySpec_DeepCopyInto_def copy_defs)
  by (simp add: split_def)

lemma ApmeSpec_copier [copiers]:
  assumes "documented_copies M V"
  shows "deep_copier (ApmeSpec_type V) (ApmeSpec_DeepCopyInto M)"
  unfolding ApmeSpec_type_def
  apply (rule deep_copier_struct [where build = "\<lambda>(v1, v2, v3, v4, v5, v6, v7, v8, v9, v10, v11, v12). \<lparr>msp_Version = v1, msp_Image = v2, msp_Replicas = v3, msp_Components = v4, msp_Plugins = v5, msp_Database = v6, msp_Storage = v7, msp_GalaxyProxy = v8, msp_Exposure = v9, msp_Abbenay = v10, msp_Resources = v11, msp_NetworkPolicy = v12\<rparr>"],
    (rule deep_copier_pair copiers assms)+)
  subgoal for s by (cases s) (simp add: ApmeSpec_DeepCopyInto_def copy_defs)
  by (simp add: split_def)

lemma ApmeStatus_copier [copiers]:
  assumes "documented_copies M V"
  shows "deep_copier ApmeStatus_type (ApmeStatus_DeepCopyInto M)"
  unfolding ApmeStatus_type_def
  apply (rule deep_copier_struct [where build = "\<lambda>(v1, v2, v3, v4, v5). \<lparr>msu_Conditions = v1, msu_URL = v2, msu_ObservedGeneration = v3, msu_Topology = v4, msu_Database = v5\<rparr>"],
    (rule deep_copier_pair copiers assms)+)
  subgoal for s by (cases s) (simp add: ApmeStatus_DeepCopyInto_def copy_defs)
  by (simp add: split_def)

lemma Apme_copier [copiers]:
  assumes "documented_copies M V"
  shows "deep_copier (Apme_type V) (Apme_DeepCopyInto M)"
  unfolding Apme_type_def
  apply (rule deep_copier_struct [where build = "\<lambda>(v1, v2, v3, v4). \<lparr>mcr_TypeMeta = v1, mcr_ObjectMeta = v2, mcr_Spec = v3, mcr_Status = v4\<rparr>"],
    (rule deep_copier_pair copiers assms)+)
  subgoal for s by (cases s) (simp add: Apme_DeepCopyInto_def copy_defs)
  by (simp add: split_def)

lemma Apmes_copier [copiers]:
  assumes "documented_copies M V"
  shows "deep_copier (slice as_Apmes (Apme_type V))
    (copy_slice_with as_Apmes Apmes_cell (zero_Apme M) (Apme_DeepCopyInto M))"
  by (rule deep_copier_slice) (simp_all add: Apme_copier [OF assms])

lemma ApmeList_copier [copiers]:
  assumes "documented_copies M V"
  shows "deep_copier (ApmeList_type V) (ApmeList_DeepCopyInto M)"
  unfolding ApmeList_type_def
  apply (rule deep_copier_struct [where build = "\<lambda>(v1, v2, v3). \<lparr>mls_TypeMeta = v1, mls_ListMeta = v2, mls_Items = v3\<rparr>"],
    (rule deep_copier_pair copiers assms)+)
  subgoal for s by (cases s) (simp add: ApmeList_DeepCopyInto_def copy_defs)
  by (simp add: split_def)

subsection \<open>Pointers to the structs\<close>

lemma flat_copiers [copiers]:
  "deep_copier plain SecretKeyRef_DeepCopyInto" "deep_copier plain ConfigMapKeyRef_DeepCopyInto"
  "deep_copier plain LocalObjectRef_DeepCopyInto" "deep_copier plain PluginSpec_DeepCopyInto"
  "deep_copier plain PostgresTLSSpec_DeepCopyInto" "deep_copier plain RouteTLSSpec_DeepCopyInto"
  using deep_copier_plain
  by (simp_all add: SecretKeyRef_DeepCopyInto_def [abs_def] ConfigMapKeyRef_DeepCopyInto_def [abs_def]
    LocalObjectRef_DeepCopyInto_def [abs_def] PluginSpec_DeepCopyInto_def [abs_def]
    PostgresTLSSpec_DeepCopyInto_def [abs_def] RouteTLSSpec_DeepCopyInto_def [abs_def] keep_def [abs_def])

lemmas DeepCopy_defs =
  SecretKeyRef_DeepCopy_def ConfigMapKeyRef_DeepCopy_def LocalObjectRef_DeepCopy_def
  PluginSpec_DeepCopy_def PostgresTLSSpec_DeepCopy_def RouteTLSSpec_DeepCopy_def
  ImageSpec_DeepCopy_def ComponentsSpec_DeepCopy_def PVCSpec_DeepCopy_def
  PostgresSpec_DeepCopy_def DatabaseSpec_DeepCopy_def StorageSpec_DeepCopy_def
  RouteSpec_DeepCopy_def IngressSpec_DeepCopy_def ExposureSpec_DeepCopy_def
  AbbenayPersistenceSpec_DeepCopy_def AbbenaySpec_DeepCopy_def NetworkPolicySpec_DeepCopy_def
  GalaxyProxyTLSSpec_DeepCopy_def GalaxyProxySpec_DeepCopy_def ApmeSpec_DeepCopy_def
  ApmeStatus_DeepCopy_def Apme_DeepCopy_def ApmeList_DeepCopy_def

text \<open>C15: Every generated \<open>DeepCopy\<close> returns an independent copy: at each of the 24 types, for every sound
  value in memory it returns, changes no cell that was there, and the copy reads as the same
  value; later writes to the cells the copy is made of do not change the original, and later
  writes to the cells that were there before do not change the copy. This rests on the deep copies
  of \<open>Quantity\<close>, \<open>ResourceRequirements\<close>, \<open>ObjectMeta\<close>, \<open>ListMeta\<close> and \<open>Condition\<close> of the Kubernetes
  packages doing the same.\<close>

theorem DeepCopy_independent:
  assumes "documented_copies M V"
  shows "independent_copy (pointer as_SecretKeyRef plain) SecretKeyRef_DeepCopy
     \<and> independent_copy (pointer as_ConfigMapKeyRef plain) ConfigMapKeyRef_DeepCopy
     \<and> independent_copy (pointer as_LocalObjectRef plain) LocalObjectRef_DeepCopy
     \<and> independent_copy (pointer as_PluginSpec plain) PluginSpec_DeepCopy
     \<and> independent_copy (pointer as_PostgresTLSSpec plain) PostgresTLSSpec_DeepCopy
     \<and> independent_copy (pointer as_RouteTLSSpec plain) RouteTLSSpec_DeepCopy
     \<and> independent_copy (pointer as_ImageSpec ImageSpec_type) ImageSpec_DeepCopy
     \<and> independent_copy (pointer as_ComponentsSpec ComponentsSpec_type) ComponentsSpec_DeepCopy
     \<and> independent_copy (pointer as_PVCSpec (PVCSpec_type V)) (PVCSpec_DeepCopy M)
     \<and> independent_copy (pointer as_PostgresSpec (PostgresSpec_type V)) (PostgresSpec_DeepCopy M)
     \<and> independent_copy (pointer as_DatabaseSpec (DatabaseSpec_type V)) (DatabaseSpec_DeepCopy M)
     \<and> independent_copy (pointer as_StorageSpec (StorageSpec_type V)) (StorageSpec_DeepCopy M)
     \<and> independent_copy (pointer as_RouteSpec RouteSpec_type) RouteSpec_DeepCopy
     \<and> independent_copy (pointer as_IngressSpec IngressSpec_type) (IngressSpec_DeepCopy M)
     \<and> independent_copy (pointer as_ExposureSpec ExposureSpec_type) (ExposureSpec_DeepCopy M)
     \<and> independent_copy (pointer as_AbbenayPersistenceSpec (AbbenayPersistenceSpec_type V)) (AbbenayPersistenceSpec_DeepCopy M)
     \<and> independent_copy (pointer as_AbbenaySpec (AbbenaySpec_type V)) (AbbenaySpec_DeepCopy M)
     \<and> independent_copy (pointer as_NetworkPolicySpec NetworkPolicySpec_type) NetworkPolicySpec_DeepCopy
     \<and> independent_copy (pointer as_GalaxyProxyTLSSpec GalaxyProxyTLSSpec_type) GalaxyProxyTLSSpec_DeepCopy
     \<and> independent_copy (pointer as_GalaxyProxySpec GalaxyProxySpec_type) GalaxyProxySpec_DeepCopy
     \<and> independent_copy (pointer as_ApmeSpec (ApmeSpec_type V)) (ApmeSpec_DeepCopy M)
     \<and> independent_copy (pointer as_ApmeStatus ApmeStatus_type) (ApmeStatus_DeepCopy M)
     \<and> independent_copy (pointer as_Apme (Apme_type V)) (Apme_DeepCopy M)
     \<and> independent_copy (pointer as_ApmeList (ApmeList_type V)) (ApmeList_DeepCopy M)"
  unfolding DeepCopy_defs
  by (intro conjI deep_copier_independent; rule deep_copier_pointer; (rule copiers assms | simp)+)

text \<open>\<open>DeepCopyObject\<close> of nil is the nil interface, not an interface that holds a nil pointer.\<close>

lemma DeepCopyObject_cases:
  assumes "documented_copies M V" "sound (pointer as_Apme (Apme_type V)) h p"
  shows "\<exists>q h'. Apme_DeepCopy M p h = Some (q, h') \<and> Apme_DeepCopyObject M p h = Some (map_option ApmeObject q, h')
    \<and> (q = None \<longleftrightarrow> p = None)"
proof -
  have "deep_copier (pointer as_Apme (Apme_type V)) (Apme_DeepCopy M)"
    unfolding Apme_DeepCopy_def by (rule deep_copier_pointer) (simp_all add: Apme_copier [OF assms(1)])
  from deep_copier.copies [OF this assms(2)] obtain q h' where q: "Apme_DeepCopy M p h = Some (q, h')"
    "view (pointer as_Apme (Apme_type V)) h' q = view (pointer as_Apme (Apme_type V)) h p"
    by (auto simp: copied_def)
  have "q = None \<longleftrightarrow> p = None" using q(2) by (cases q; cases p) (auto simp: pointer_def)
  then show ?thesis using q(1) by (cases q) (auto simp: Apme_DeepCopyObject_def)
qed

subsection \<open>The locales at the types without library values\<close>

interpretation ComponentsSpec: deep_copier ComponentsSpec_type ComponentsSpec_DeepCopyInto
  by (rule ComponentsSpec_copier)

interpretation ImageSpec: deep_copier ImageSpec_type ImageSpec_DeepCopyInto
  by (rule ImageSpec_copier)

interpretation RouteSpec: deep_copier RouteSpec_type RouteSpec_DeepCopyInto
  by (rule RouteSpec_copier)

interpretation NetworkPolicySpec: deep_copier NetworkPolicySpec_type NetworkPolicySpec_DeepCopyInto
  by (rule NetworkPolicySpec_copier)

interpretation GalaxyProxySpec: deep_copier GalaxyProxySpec_type GalaxyProxySpec_DeepCopyInto
  by (rule GalaxyProxySpec_copier)

interpretation conditions: go_type "slice as_Conditions plain"
  by (intro go_type_slice go_type_plain)

subsection \<open>An instance\<close>

text \<open>
  Library values as Go has them: a quantity is a short text or a pointer to a big decimal,
  which its deep copy clones; the other types are taken without references. \<open>range\<close> goes
  backwards.
\<close>

datatype library_value =
    QuantityText string
  | QuantityBig addr
  | Requirements resource_requirements
  | Meta object_meta int
  | ListMeta list_meta

definition as_Big :: "library_value cell \<Rightarrow> string option" where
  "as_Big c = (case c of Library_cell (QuantityText s) \<Rightarrow> Some s | _ \<Rightarrow> None)"

definition example_quantity :: "(library_value cell, library_value, quantity) gotype" where
  "example_quantity =
     \<lparr>sound = (\<lambda>h v. case v of QuantityText s \<Rightarrow> True | QuantityBig p \<Rightarrow> load as_Big p h \<noteq> None | _ \<Rightarrow> False),
      view = (\<lambda>h v. case v of QuantityText s \<Rightarrow> s | QuantityBig p \<Rightarrow> the (load as_Big p h) | _ \<Rightarrow> []),
      reach = (\<lambda>h v. case v of QuantityBig p \<Rightarrow> {p} | _ \<Rightarrow> {})\<rparr>"

definition example_flat :: "(library_value \<Rightarrow> 'v option) \<Rightarrow> (library_value cell, library_value, 'v) gotype" where
  "example_flat get = \<lparr>sound = (\<lambda>h v. get v \<noteq> None), view = (\<lambda>h v. the (get v)), reach = (\<lambda>h v. {})\<rparr>"

definition example_types :: "library_value machinery_types" where
  "example_types =
     \<lparr>Quantity_type = example_quantity,
      ResourceRequirements_type = example_flat (\<lambda>v. case v of Requirements r \<Rightarrow> Some r | _ \<Rightarrow> None),
      ObjectMeta_type = example_flat (\<lambda>v. case v of Meta m g \<Rightarrow> Some (m, g) | _ \<Rightarrow> None),
      ListMeta_type = example_flat (\<lambda>v. case v of ListMeta m \<Rightarrow> Some m | _ \<Rightarrow> None)\<rparr>"

definition example_quantity_copy :: "(library_value, library_value) copier" where
  "example_quantity_copy v h =
    (case v of
       QuantityBig p \<Rightarrow> do { s \<leftarrow> load as_Big p h; Some (QuantityBig (length h), h @ [Library_cell (QuantityText s)]) }
     | _ \<Rightarrow> Some (v, h))"

definition example_machinery :: "library_value machinery" where
  "example_machinery =
     \<lparr>Quantity_DeepCopy = example_quantity_copy, ResourceRequirements_DeepCopyInto = keep,
      ObjectMeta_DeepCopyInto = keep, ListMeta_DeepCopyInto = keep, Condition_DeepCopyInto = keep,
      zero_Quantity = QuantityText ''0'', zero_ResourceRequirements = Requirements zero_resources,
      zero_ObjectMeta = Meta zero_meta 0,
      zero_ListMeta = ListMeta \<lparr>lm_resourceVersion = [], lm_continue = [], lm_remainingItemCount = None\<rparr>,
      range_order = rev\<rparr>"

lemma example_flat_copier: "deep_copier (example_flat get) keep"
  by unfold_locales (simp_all add: example_flat_def keep_def copied_def)

lemma example_quantity_type: "go_type example_quantity"
proof
  show "reach example_quantity h v \<subseteq> {..<length h}" if "sound example_quantity h v" for h v
    using that by (auto simp: example_quantity_def load_some split: library_value.splits)
  show "sound example_quantity h' v \<and> view example_quantity h' v = view example_quantity h v
      \<and> reach example_quantity h' v = reach example_quantity h v"
    if "sound example_quantity h v" "same_cells (reach example_quantity h v) h h'" for h v h'
    using that same_cells_load [of _ "{}" h h' as_Big] by (cases v) (auto simp: example_quantity_def)
qed

lemma example_quantity_copier: "deep_copier example_quantity example_quantity_copy"
proof (intro deep_copier.intro deep_copier_axioms.intro example_quantity_type)
  show "\<exists>b h'. example_quantity_copy v h = Some (b, h') \<and> copied example_quantity h v h' b"
    if "sound example_quantity h v" for h v
  proof (cases v)
    case (QuantityBig p)
    with that obtain s where "load as_Big p h = Some s" by (auto simp: example_quantity_def)
    then show ?thesis using QuantityBig
      by (simp add: example_quantity_copy_def copied_def example_quantity_def load_def as_Big_def)
  qed (use that in \<open>simp_all add: example_quantity_copy_def copied_def example_quantity_def\<close>)
qed

lemma example_copies: "documented_copies example_machinery example_types"
  by (simp add: documented_copies_def example_machinery_def example_types_def example_flat_copier
    example_quantity_copier deep_copier_plain)

end
