(* ===== verification/Status_Memory.thy ===== *)
theory Status_Memory
  imports Status Deep_Copy_Facts
begin

text \<open>
  \<open>patchStatus\<close> over memory. It keeps a deep copy of the resource as the base of the patch,
  builds the new status in a second copy, whose conditions \<open>SetStatusCondition\<close> changes in place,
  and puts it into the resource. The result refines \<open>newStatus\<close> and the request of theory
  \<open>Controller\<close>, which are about values: the base of the patch still reads as the resource
  did, and nothing but the resource itself was written.
\<close>

subsection \<open>The memory operations of \<open>patchStatus\<close>\<close>

text \<open>
  \<open>meta.SetStatusCondition(&st.Conditions, c)\<close>: takes the slice, returns what it leaves in its
  place. It may write to the slice's array and allocate.
\<close>

type_synonym 'x condition_setter =
  "slice_ref \<Rightarrow> Condition \<Rightarrow> 'x cell memory \<Rightarrow> (slice_ref \<times> 'x cell memory) option"

definition set_status_cond ::
  "'x condition_setter \<Rightarrow> int \<Rightarrow> int \<Rightarrow> addr \<Rightarrow> string \<Rightarrow> string \<times> string \<times> string \<Rightarrow> 'x cell memory
   \<Rightarrow> 'x cell memory option" where
  "set_status_cond setter now gen st typ srm h =
    (case srm of (status, reason, msg) \<Rightarrow>
       do { s \<leftarrow> load as_ApmeStatus st h;
            (conds, h) \<leftarrow> setter (msu_Conditions s)
              \<lparr>cond_Type = typ, cond_Status = status, cond_Reason = reason, cond_Message = msg,
               cond_LastTransitionTime = now, cond_ObservedGeneration = gen\<rparr> h;
            store st (ApmeStatus_cell (s\<lparr>msu_Conditions := conds\<rparr>)) h })"

text \<open>The four conditions, in the order of the source.\<close>

definition set_conditions ::
  "'x condition_setter \<Rightarrow> int \<Rightarrow> int \<Rightarrow> addr \<Rightarrow> bool \<Rightarrow> gerror option
   \<Rightarrow> bool \<times> string \<Rightarrow> bool \<times> string \<times> bool \<Rightarrow> 'x cell memory \<Rightarrow> 'x cell memory option" where
  "set_conditions setter now gen st leftoverPG recErr db dep h =
    (case db of (dbReady, dbMsg) \<Rightarrow> case dep of (depReady, depMsg, imagePull) \<Rightarrow>
       do { h \<leftarrow> set_status_cond setter now gen st condDatabaseReady
                  (if dbReady then (''True'', ''Available'', dbMsg) else (''False'', ''Pending'', dbMsg)) h;
            h \<leftarrow> set_status_cond setter now gen st condDegraded (degraded leftoverPG recErr imagePull depMsg) h;
            h \<leftarrow> set_status_cond setter now gen st condProgressing
                  (progressing leftoverPG recErr depReady dbReady depMsg) h;
            set_status_cond setter now gen st condReady (ready leftoverPG recErr depReady dbReady depMsg) h })"

definition patchStatus_memory ::
  "'x machinery \<Rightarrow> ('x \<Rightarrow> int) \<Rightarrow> 'x condition_setter \<Rightarrow> int \<Rightarrow> Desired \<Rightarrow> bool \<Rightarrow> gerror option
   \<Rightarrow> string \<Rightarrow> bool \<times> string \<Rightarrow> bool \<times> string \<times> bool \<Rightarrow> addr \<Rightarrow> 'x cell memory
   \<Rightarrow> (addr option \<times> 'x cell memory) option" where
  "patchStatus_memory M generation setter now d leftoverPG recErr url db dep p h =
     do { (orig, h) \<leftarrow> Apme_DeepCopy M (Some p) h;
          cr \<leftarrow> load as_Apme p h;
          (st, h) \<leftarrow> new_copy ApmeStatus_cell zero_ApmeStatus (ApmeStatus_DeepCopyInto M) (mcr_Status cr) h;
          let gen = generation (mcr_ObjectMeta cr);
          s \<leftarrow> load as_ApmeStatus st h;
          h \<leftarrow> store st (ApmeStatus_cell (s
                \<lparr>msu_ObservedGeneration := gen, msu_Topology := TopologySimple,
                 msu_Database := d_DatabaseMode d, msu_URL := url\<rparr>)) h;
          h \<leftarrow> set_conditions setter now gen st leftoverPG recErr db dep h;
          s \<leftarrow> load as_ApmeStatus st h;
          cr \<leftarrow> load as_Apme p h;
          h \<leftarrow> store p (Apme_cell (cr\<lparr>mcr_Status := s\<rparr>)) h;
          Some (orig, h) }"

subsection \<open>What the library does\<close>

text \<open>
  \<open>SetStatusCondition\<close> computes the conditions that theory \<open>Library\<close> says, writes to the array of the
  slice and to new cells only, and its result lies in these.
\<close>

definition documented_setter :: "lib \<Rightarrow> 'x condition_setter \<Rightarrow> bool" where
  "documented_setter L setter \<longleftrightarrow>
     (\<forall>h s c. sound (slice as_Conditions plain) h s \<longrightarrow>
        (\<exists>s' h'. setter s c h = Some (s', h') \<and> length h \<le> length h'
           \<and> sound (slice as_Conditions plain) h' s'
           \<and> view (slice as_Conditions plain) h' s' = SetStatusCondition L (view (slice as_Conditions plain) h s) c
           \<and> reach (slice as_Conditions plain) h' s' \<subseteq> reach (slice as_Conditions plain) h s \<union> {length h..<length h'}
           \<and> same_cells ({..<length h} - reach (slice as_Conditions plain) h s) h h'))"

text \<open>The field \<open>Generation\<close> of \<open>ObjectMeta\<close> is a number.\<close>

definition reads_generation :: "'x machinery_types \<Rightarrow> ('x \<Rightarrow> int) \<Rightarrow> bool" where
  "reads_generation V generation \<longleftrightarrow>
     (\<forall>h m. sound (ObjectMeta_type V) h m \<longrightarrow> generation m = snd (view (ObjectMeta_type V) h m))"

subsection \<open>The status under construction\<close>

lemma status_type [simp]:
  "sound ApmeStatus_type h s \<longleftrightarrow> sound (slice as_Conditions plain) h (msu_Conditions s)"
  "reach ApmeStatus_type h s = reach (slice as_Conditions plain) h (msu_Conditions s)"
  "view ApmeStatus_type h s =
     \<lparr>status_Conditions = view (slice as_Conditions plain) h (msu_Conditions s), status_URL = msu_URL s,
      status_ObservedGeneration = msu_ObservedGeneration s, status_Topology = msu_Topology s,
      status_Database = msu_Database s\<rparr>"
  by (simp_all add: ApmeStatus_type_def struct_def pair_def plain_def)

text \<open>The cell \<open>st\<close> holds the status \<open>v\<close>, and its conditions are in cells from \<open>base\<close> on.\<close>

definition status_at :: "nat \<Rightarrow> addr \<Rightarrow> 'x cell memory \<Rightarrow> ApmeStatus \<Rightarrow> bool" where
  "status_at base st h v \<longleftrightarrow>
     base \<le> st \<and> (\<exists>s. load as_ApmeStatus st h = Some s \<and> sound ApmeStatus_type h s \<and> view ApmeStatus_type h s = v
        \<and> reach ApmeStatus_type h s \<subseteq> {base..<length h} - {st})"

lemma status_at_mono:
  assumes "status_at base st h v" "n \<le> base"
  shows "status_at n st h v"
proof -
  have "{base..<length h} - {st} \<subseteq> {n..<length h} - {st}" using assms(2) by auto
  moreover obtain s where "load as_ApmeStatus st h = Some s" "sound ApmeStatus_type h s" "view ApmeStatus_type h s = v"
    "reach ApmeStatus_type h s \<subseteq> {base..<length h} - {st}" "base \<le> st"
    using assms(1) unfolding status_at_def by blast
  ultimately show ?thesis
    using assms(2) unfolding status_at_def by (intro conjI exI [of _ s]) (simp_all del: status_type)
qed

lemma load_store [simp]: "p < length h \<Longrightarrow> load cast p (h[p := c]) = cast c"
  by (simp add: load_def)

lemma status_at_store:
  assumes "sound (slice as_Conditions plain) h (msu_Conditions s)"
    and "reach (slice as_Conditions plain) h (msu_Conditions s) \<subseteq> {base..<length h} - {st}"
    and "base \<le> st" "st < length h" "view ApmeStatus_type h s = v"
  shows "store st (ApmeStatus_cell s) h = Some (h[st := ApmeStatus_cell s])"
    and "status_at base st (h[st := ApmeStatus_cell s]) v"
    and "same_cells {..<base} h (h[st := ApmeStatus_cell s])"
proof -
  have "st \<notin> reach (slice as_Conditions plain) h (msu_Conditions s)" using assms(2) by blast
  from conditions.unaffected [OF assms(1) this]
  show "status_at base st (h[st := ApmeStatus_cell s]) v" using assms by (simp add: status_at_def)
  show "store st (ApmeStatus_cell s) h = Some (h[st := ApmeStatus_cell s])" using assms(4) by (simp add: store_def)
  show "same_cells {..<base} h (h[st := ApmeStatus_cell s])" using assms(3,4) by (simp add: same_cells_def)
qed

lemma set_status_cond_step:
  assumes setter: "documented_setter L setter" and st: "status_at base st h v"
  shows "\<exists>h'. set_status_cond setter now gen st typ srm h = Some h'
    \<and> status_at base st h' (v\<lparr>status_Conditions :=
        (case srm of (status, reason, msg) \<Rightarrow> set_cond L now gen typ status reason msg (status_Conditions v))\<rparr>)
    \<and> same_cells {..<base} h h'"
proof -
  obtain status reason msg where srm: "srm = (status, reason, msg)" by (cases srm) auto
  from st obtain s where s: "load as_ApmeStatus st h = Some s" "sound (slice as_Conditions plain) h (msu_Conditions s)"
    "view ApmeStatus_type h s = v" "reach (slice as_Conditions plain) h (msu_Conditions s) \<subseteq> {base..<length h} - {st}"
    and base: "base \<le> st" by (auto simp: status_at_def)
  note len = load_some [OF s(1)]
  let ?c = "\<lparr>cond_Type = typ, cond_Status = status, cond_Reason = reason, cond_Message = msg,
     cond_LastTransitionTime = now, cond_ObservedGeneration = gen\<rparr>"
  from setter s(2) obtain cs h1 where h1: "setter (msu_Conditions s) ?c h = Some (cs, h1)" "length h \<le> length h1"
    "sound (slice as_Conditions plain) h1 cs"
    "view (slice as_Conditions plain) h1 cs = SetStatusCondition L (view (slice as_Conditions plain) h (msu_Conditions s)) ?c"
    "reach (slice as_Conditions plain) h1 cs \<subseteq> reach (slice as_Conditions plain) h (msu_Conditions s) \<union> {length h..<length h1}"
    "same_cells ({..<length h} - reach (slice as_Conditions plain) h (msu_Conditions s)) h h1"
    unfolding documented_setter_def by blast
  let ?s = "s\<lparr>msu_Conditions := cs\<rparr>" and ?v = "v\<lparr>status_Conditions := set_cond L now gen typ status reason msg (status_Conditions v)\<rparr>"
  have reach: "reach (slice as_Conditions plain) h1 (msu_Conditions ?s) \<subseteq> {base..<length h1} - {st}"
  proof
    fix a
    assume "a \<in> reach (slice as_Conditions plain) h1 (msu_Conditions ?s)"
    then have "a \<in> reach (slice as_Conditions plain) h (msu_Conditions s) \<or> length h \<le> a \<and> a < length h1"
      using h1(5) by auto
    then show "a \<in> {base..<length h1} - {st}"
      using s(4) len base h1(2) by auto
  qed
  have old: "same_cells {..<base} h h1"
    using h1(6) by (rule same_cells_mono) (use s(4) len base in \<open>auto simp: subset_eq\<close>)
  have st1: "st < length h1" using len h1(2) by simp
  have "st \<in> {..<length h} - reach (slice as_Conditions plain) h (msu_Conditions s)" using len s(4) by auto
  then have same: "h1 ! st = h ! st" using h1(6) unfolding same_cells_def by blast
  have view: "view ApmeStatus_type h1 ?s = ?v" using h1(4) s(3) by (auto simp: set_cond_def)
  have sound: "sound (slice as_Conditions plain) h1 (msu_Conditions ?s)" using h1(3) by simp
  note store = status_at_store [OF sound reach base st1 view]
  have "set_status_cond setter now gen st typ srm h = Some (h1[st := ApmeStatus_cell ?s])"
    using h1(1) s(1) store(1) by (simp add: srm set_status_cond_def)
  moreover have "same_cells {..<base} h (h1[st := ApmeStatus_cell ?s])"
    using old store(3) by (simp add: same_cells_def)
  ultimately show ?thesis using store(2) by (simp add: srm)
qed

subsection \<open>Refinement\<close>

lemma apme_type:
  "sound (Apme_type V) h c \<longleftrightarrow>
     sound (ObjectMeta_type V) h (mcr_ObjectMeta c) \<and> sound (ApmeSpec_type V) h (mcr_Spec c)
     \<and> sound ApmeStatus_type h (mcr_Status c)"
  "reach (Apme_type V) h c =
     reach (ObjectMeta_type V) h (mcr_ObjectMeta c) \<union> reach (ApmeSpec_type V) h (mcr_Spec c)
     \<union> reach ApmeStatus_type h (mcr_Status c)"
  "view (Apme_type V) h c =
     (mcr_TypeMeta c,
      \<lparr>apme_meta = fst (view (ObjectMeta_type V) h (mcr_ObjectMeta c)),
       apme_Generation = snd (view (ObjectMeta_type V) h (mcr_ObjectMeta c)),
       apme_Spec = view (ApmeSpec_type V) h (mcr_Spec c), apme_Status = view ApmeStatus_type h (mcr_Status c)\<rparr>)"
  by (simp_all add: Apme_type_def struct_def pair_def plain_def split_def Un_assoc del: status_type)

text \<open>The resource with its status replaced by one that lies elsewhere.\<close>

lemma replace_status:
  assumes types: "go_type (ObjectMeta_type V)" "go_type (ApmeSpec_type V)"
    and c: "sound (Apme_type V) h c" "p \<notin> reach (Apme_type V) h c" "view (Apme_type V) h c = (t, cr)"
    and p: "p < length h" and same: "same_cells {..<length h} h h1" and st: "status_at (length h) st h1 v"
    and s: "load as_ApmeStatus st h1 = Some s"
  shows "view (Apme_type V) (h1[p := Apme_cell (c\<lparr>mcr_Status := s\<rparr>)]) (c\<lparr>mcr_Status := s\<rparr>) = (t, cr\<lparr>apme_Status := v\<rparr>)"
proof -
  let ?h = "h1[p := Apme_cell (c\<lparr>mcr_Status := s\<rparr>)]"
  have parts: "sound (ObjectMeta_type V) h (mcr_ObjectMeta c)" "sound (ApmeSpec_type V) h (mcr_Spec c)"
    using c(1) by (simp_all add: apme_type)
  have cells: "same_cells ({..<length h} - {p}) h ?h" using same by (simp add: same_cells_def)
  have meta: "same_cells (reach (ObjectMeta_type V) h (mcr_ObjectMeta c)) h ?h"
    using go_type.reach_in [OF types(1) parts(1)] c(2) by (intro same_cells_mono [OF cells]) (auto simp: apme_type)
  have spec: "same_cells (reach (ApmeSpec_type V) h (mcr_Spec c)) h ?h"
    using go_type.reach_in [OF types(2) parts(2)] c(2) by (intro same_cells_mono [OF cells]) (auto simp: apme_type)
  from st s have status: "sound (slice as_Conditions plain) h1 (msu_Conditions s)" "view ApmeStatus_type h1 s = v"
    "reach (slice as_Conditions plain) h1 (msu_Conditions s) \<subseteq> {length h..<length h1}"
    by (auto simp: status_at_def)
  have "p \<notin> reach (slice as_Conditions plain) h1 (msu_Conditions s)" using status(3) p by auto
  from conditions.unaffected [OF status(1) this, of "Apme_cell (c\<lparr>mcr_Status := s\<rparr>)"]
  have "view ApmeStatus_type ?h s = v" using status(2) by simp
  then show ?thesis
    using go_type.local [OF types(1) parts(1) meta] go_type.local [OF types(2) parts(2) spec] c(3)
    by (cases cr) (auto simp: apme_type simp del: status_type)
qed

lemma same_cells_trans:
  "same_cells A h h1 \<Longrightarrow> same_cells B h1 h2 \<Longrightarrow> A \<subseteq> B \<Longrightarrow> same_cells A h h2"
  unfolding same_cells_def by (metis subsetD)

text \<open>The four calls of \<open>set\<close>, and what they leave.\<close>

lemma set_status_conds:
  assumes setter: "documented_setter L setter" and st: "status_at base st h v"
  shows "\<exists>h'. do { h \<leftarrow> set_status_cond setter now gen st t1 c1 h; h \<leftarrow> set_status_cond setter now gen st t2 c2 h;
        h \<leftarrow> set_status_cond setter now gen st t3 c3 h; set_status_cond setter now gen st t4 c4 h } = Some h'
    \<and> status_at base st h' (v\<lparr>status_Conditions :=
        (let set = (\<lambda>typ (status, reason, msg). set_cond L now gen typ status reason msg)
         in set t4 c4 (set t3 c3 (set t2 c2 (set t1 c1 (status_Conditions v)))))\<rparr>)
    \<and> same_cells {..<base} h h'"
proof -
  from set_status_cond_step [OF setter st, of now gen t1 c1] obtain h1 where
    h1: "set_status_cond setter now gen st t1 c1 h = Some h1" "same_cells {..<base} h h1"
    and s1: "status_at base st h1 (v\<lparr>status_Conditions :=
      (case c1 of (status, reason, msg) \<Rightarrow> set_cond L now gen t1 status reason msg (status_Conditions v))\<rparr>)" by blast
  from set_status_cond_step [OF setter s1, of now gen t2 c2] obtain h2 where
    h2: "set_status_cond setter now gen st t2 c2 h1 = Some h2" "same_cells {..<base} h1 h2"
    and s2: "status_at base st h2 (v\<lparr>status_Conditions := (case c2 of (status, reason, msg) \<Rightarrow> set_cond L now gen t2 status reason msg
      (case c1 of (status, reason, msg) \<Rightarrow> set_cond L now gen t1 status reason msg (status_Conditions v)))\<rparr>)" by auto
  from set_status_cond_step [OF setter s2, of now gen t3 c3] obtain h3 where
    h3: "set_status_cond setter now gen st t3 c3 h2 = Some h3" "same_cells {..<base} h2 h3"
    and s3: "status_at base st h3 (v\<lparr>status_Conditions := (case c3 of (status, reason, msg) \<Rightarrow> set_cond L now gen t3 status reason msg
      (case c2 of (status, reason, msg) \<Rightarrow> set_cond L now gen t2 status reason msg
      (case c1 of (status, reason, msg) \<Rightarrow> set_cond L now gen t1 status reason msg (status_Conditions v))))\<rparr>)" by auto
  from set_status_cond_step [OF setter s3, of now gen t4 c4] obtain h4 where
    h4: "set_status_cond setter now gen st t4 c4 h3 = Some h4" "same_cells {..<base} h3 h4"
    and s4: "status_at base st h4 (v\<lparr>status_Conditions := (case c4 of (status, reason, msg) \<Rightarrow> set_cond L now gen t4 status reason msg
      (case c3 of (status, reason, msg) \<Rightarrow> set_cond L now gen t3 status reason msg
      (case c2 of (status, reason, msg) \<Rightarrow> set_cond L now gen t2 status reason msg
      (case c1 of (status, reason, msg) \<Rightarrow> set_cond L now gen t1 status reason msg (status_Conditions v)))))\<rparr>)" by auto
  have "same_cells {..<base} h h4"
    using h1(2) h2(2) h3(2) h4(2) by (blast intro: same_cells_trans)
  then show ?thesis using h1(1) h2(1) h3(1) h4(1) s4
    by (cases c1; cases c2; cases c3; cases c4) (simp add: Let_def)
qed

text \<open>The start of \<open>patchStatus\<close>: both copies are made and the plain fields are set.\<close>

lemma status_started:
  assumes M: "documented_copies M V" and c: "load as_Apme p h = Some c" "sound (Apme_type V) h c"
  obtains q zs st h2 s where
    "Apme_DeepCopy M (Some p) h = Some (Some q, h @ zs)"
    "view (pointer as_Apme (Apme_type V)) (h @ zs) (Some q) = Some (view (Apme_type V) h c)"
    "sound (pointer as_Apme (Apme_type V)) (h @ zs) (Some q)"
    "reach (pointer as_Apme (Apme_type V)) (h @ zs) (Some q) \<subseteq> {length h..<length (h @ zs)}"
    "load as_Apme p (h @ zs) = Some c"
    "new_copy ApmeStatus_cell zero_ApmeStatus (ApmeStatus_DeepCopyInto M) (mcr_Status c) (h @ zs) = Some (st, h2)"
    "same_cells {..<length (h @ zs)} (h @ zs) h2"
    "status_at (length (h @ zs)) st h2 (apme_Status (snd (view (Apme_type V) h c)))"
proof -
  have apme: "deep_copier (pointer as_Apme (Apme_type V)) (Apme_DeepCopy M)"
    unfolding Apme_DeepCopy_def by (rule deep_copier_pointer) (simp_all add: Apme_copier [OF M])
  have "sound (pointer as_Apme (Apme_type V)) h (Some p)" using c by (simp add: pointer_some)
  from deep_copier.copyE [OF apme this] obtain b zs where b: "Apme_DeepCopy M (Some p) h = Some (b, h @ zs)"
    "sound (pointer as_Apme (Apme_type V)) (h @ zs) b"
    "view (pointer as_Apme (Apme_type V)) (h @ zs) b = view (pointer as_Apme (Apme_type V)) h (Some p)"
    "reach (pointer as_Apme (Apme_type V)) (h @ zs) b \<subseteq> {length h..<length (h @ zs)}" .
  have view: "view (pointer as_Apme (Apme_type V)) h (Some p) = Some (view (Apme_type V) h c)"
    using c(1) by (simp add: pointer_some)
  with b(3) obtain q where q: "b = Some q" by (cases b) auto
  have c': "load as_Apme p (h @ zs) = Some c" using c(1) by (auto simp: load_def nth_append split: if_splits)
  note here = go_type.append [OF deep_copier_go_type [OF Apme_copier [OF M]] c(2), of zs]
  then have status: "sound ApmeStatus_type (h @ zs) (mcr_Status c)" by (simp add: apme_type)
  from copy_into_new [OF ApmeStatus_copier [OF M] _ status, of as_ApmeStatus ApmeStatus_cell zero_ApmeStatus]
  obtain s ws where s: "new_copy ApmeStatus_cell zero_ApmeStatus (ApmeStatus_DeepCopyInto M) (mcr_Status c) (h @ zs)
      = Some (length (h @ zs), (h @ zs) @ ApmeStatus_cell s # ws)"
    "copied ApmeStatus_type (h @ zs) (mcr_Status c) ((h @ zs) @ ApmeStatus_cell s # ws) s"
    "load as_ApmeStatus (length (h @ zs)) ((h @ zs) @ ApmeStatus_cell s # ws) = Some s"
    "length (h @ zs) \<notin> reach ApmeStatus_type ((h @ zs) @ ApmeStatus_cell s # ws) s" by auto
  show ?thesis
  proof (rule that [OF b(1) [unfolded q] _ b(2) [unfolded q] b(4) [unfolded q] c' s(1)])
    show "view (pointer as_Apme (Apme_type V)) (h @ zs) (Some q) = Some (view (Apme_type V) h c)"
      using b(3) view q by simp
    show "same_cells {..<length (h @ zs)} (h @ zs) ((h @ zs) @ ApmeStatus_cell s # ws)"
      by (rule same_cells_prefix) (simp_all del: append_assoc)
    have "view ApmeStatus_type (h @ zs) (mcr_Status c) = apme_Status (snd (view (Apme_type V) h c))"
      using here(2) by (simp add: apme_type del: status_type)
    then show "status_at (length (h @ zs)) (length (h @ zs)) ((h @ zs) @ ApmeStatus_cell s # ws)
        (apme_Status (snd (view (Apme_type V) h c)))"
      using s(2-4) unfolding status_at_def copied_def by auto
  qed
qed

lemma same_load: "same_cells {..<n} h h' \<Longrightarrow> p < n \<Longrightarrow> load cast p h' = load cast p h"
  by (auto simp: same_cells_def load_def)

text \<open>C14: What \<open>patchStatus\<close> does to memory refines what theory \<open>Controller\<close> says of values. For a resource
  in memory, it returns; the resource then reads as before with the status \<open>newStatus\<close> computes, and the
  base of the merge patch reads as the resource did at the start, although \<open>SetStatusCondition\<close>
  changes conditions in place: so the patch carries exactly the difference of the two.
  Of the cells there were, only the one of the resource is written, which leaves every object that shares
  parts with it, as those of the informer's cache do, as it was. The deep copies of the Kubernetes
  packages and \<open>SetStatusCondition\<close> are assumed to do what they document.\<close>

theorem patchStatus_memory_refines:
  assumes M: "documented_copies M V" and setter: "documented_setter L setter"
    and generation: "reads_generation V generation"
    and c: "load as_Apme p h = Some c" "sound (Apme_type V) h c" "p \<notin> reach (Apme_type V) h c"
    and cr: "view (Apme_type V) h c = (t, cr)"
  shows "\<exists>q h' c'. patchStatus_memory M generation setter now d leftover recErr url db dep p h = Some (Some q, h')
    \<and> load as_Apme p h' = Some c'
    \<and> view (Apme_type V) h' c' = (t, cr\<lparr>apme_Status := newStatus L now cr d leftover recErr url db dep\<rparr>)
    \<and> view (pointer as_Apme (Apme_type V)) h' (Some q) = Some (t, cr)
    \<and> same_cells ({..<length h} - {p}) h h'"
proof -
  obtain dbReady dbMsg where db: "db = (dbReady, dbMsg)" by (cases db)
  obtain depReady depMsg imagePull where dep: "dep = (depReady, depMsg, imagePull)" by (cases dep)
  obtain q zs st h2 where start: "Apme_DeepCopy M (Some p) h = Some (Some q, h @ zs)"
    "view (pointer as_Apme (Apme_type V)) (h @ zs) (Some q) = Some (view (Apme_type V) h c)"
    "sound (pointer as_Apme (Apme_type V)) (h @ zs) (Some q)"
    "reach (pointer as_Apme (Apme_type V)) (h @ zs) (Some q) \<subseteq> {length h..<length (h @ zs)}"
    "load as_Apme p (h @ zs) = Some c"
    "new_copy ApmeStatus_cell zero_ApmeStatus (ApmeStatus_DeepCopyInto M) (mcr_Status c) (h @ zs) = Some (st, h2)"
    and same2: "same_cells {..<length (h @ zs)} (h @ zs) h2"
    and st: "status_at (length (h @ zs)) st h2 (apme_Status cr)"
    using status_started [OF M c(1,2)] cr by (metis snd_conv)
  let ?base = "length (h @ zs)" and ?gen = "generation (mcr_ObjectMeta c)"
  have gen: "?gen = apme_Generation cr"
    using generation c(2) cr by (auto simp: reads_generation_def apme_type simp del: status_type)
  from st obtain s where s: "load as_ApmeStatus st h2 = Some s" "sound (slice as_Conditions plain) h2 (msu_Conditions s)"
    "view ApmeStatus_type h2 s = apme_Status cr" "reach (slice as_Conditions plain) h2 (msu_Conditions s) \<subseteq> {?base..<length h2} - {st}"
    and base: "?base \<le> st" by (auto simp: status_at_def)
  let ?s = "s\<lparr>msu_ObservedGeneration := ?gen, msu_Topology := TopologySimple, msu_Database := d_DatabaseMode d, msu_URL := url\<rparr>"
  let ?v = "(apme_Status cr)\<lparr>status_ObservedGeneration := apme_Generation cr, status_Topology := TopologySimple,
    status_Database := d_DatabaseMode d, status_URL := url\<rparr>"
  have view: "view ApmeStatus_type h2 ?s = ?v" by (simp add: gen s(3) [symmetric])
  have sound: "sound (slice as_Conditions plain) h2 (msu_Conditions ?s)"
    and reach: "reach (slice as_Conditions plain) h2 (msu_Conditions ?s) \<subseteq> {?base..<length h2} - {st}"
    using s(2,4) by simp_all
  note filled = status_at_store [OF sound reach base load_some [OF s(1)] view]
  let ?h3 = "h2[st := ApmeStatus_cell ?s]"
  obtain h4 where set: "set_conditions setter now ?gen st leftover recErr db dep ?h3 = Some h4" "same_cells {..<?base} ?h3 h4"
    and at4: "status_at ?base st h4 (newStatus L now cr d leftover recErr url db dep)"
    using set_status_conds [OF setter filled(2), of now ?gen condDatabaseReady
      "if dbReady then (''True'', ''Available'', dbMsg) else (''False'', ''Pending'', dbMsg)"
      condDegraded "degraded leftover recErr imagePull depMsg"
      condProgressing "progressing leftover recErr depReady dbReady depMsg"
      condReady "ready leftover recErr depReady dbReady depMsg"]
    by (auto simp: newStatus_def set_conditions_def db dep gen Let_def)
  have same4: "same_cells {..<?base} (h @ zs) h4"
    using same2 filled(3) set(2) by (blast intro: same_cells_trans)
  have p: "p < length h" using c(1) by (rule load_some)
  have load4: "load as_Apme p h4 = Some c" using same_load [OF same4, of p as_Apme] p start(5) by simp
  from at4 obtain s4 where s4: "load as_ApmeStatus st h4 = Some s4" by (auto simp: status_at_def)
  let ?c = "c\<lparr>mcr_Status := s4\<rparr>"
  let ?h = "h4[p := Apme_cell ?c]"
  have old4: "same_cells {..<length h} h h4"
    using same4 by (auto simp: same_cells_def nth_append)
  have at4': "status_at (length h) st h4 (newStatus L now cr d leftover recErr url db dep)"
    using status_at_mono [OF at4] by simp
  have types: "go_type (ObjectMeta_type V)" "go_type (ApmeSpec_type V)"
    using copiers(8) [OF M] deep_copier_go_type ApmeSpec_copier [OF M] M by (auto simp: documented_copies_def)
  have new: "view (Apme_type V) ?h ?c = (t, cr\<lparr>apme_Status := newStatus L now cr d leftover recErr url db dep\<rparr>)"
    by (rule replace_status [OF types c(2,3) cr p old4 at4' s4])
  have "same_cells (reach (pointer as_Apme (Apme_type V)) (h @ zs) (Some q)) (h @ zs) ?h"
    using same4 start(4) p by (auto simp: same_cells_def subset_eq)
  then have orig: "view (pointer as_Apme (Apme_type V)) ?h (Some q) = Some (t, cr)"
    using go_type.local [OF go_type_pointer [OF deep_copier_go_type [OF Apme_copier [OF M]]] start(3)] start(2) cr by metis
  have "patchStatus_memory M generation setter now d leftover recErr url db dep p h = Some (Some q, ?h)"
    using set(1) start(1,5,6) s(1) filled(1) s4 load4 p load_some [OF load4]
    by (simp add: patchStatus_memory_def Let_def store_def)
  moreover have "same_cells ({..<length h} - {p}) h ?h" using old4 by (simp add: same_cells_def)
  moreover have "load as_Apme p ?h = Some ?c" using load_some [OF load4] by simp
  ultimately show ?thesis using new orig by blast
qed

subsection \<open>An instance\<close>

text \<open>
  \<open>SetStatusCondition\<close> as the library has it: a condition of the type is overwritten in the array, a new one
  appended, here always to a new array.
\<close>

definition std_setter :: "'x condition_setter" where
  "std_setter s c h =
    (case s of
       None \<Rightarrow> Some (Some (made (length h) 1), h @ [Conditions_cell [c]])
     | Some t \<Rightarrow>
         do { xs \<leftarrow> slice_elems as_Conditions t h;
              if list_ex (\<lambda>x. cond_Type x = cond_Type c) xs then
                do { arr \<leftarrow> load as_Conditions (sl_array t) h;
                     h \<leftarrow> store (sl_array t) (Conditions_cell (take (sl_off t) arr @ std_SetStatusCondition xs c
                           @ drop (sl_off t + sl_len t) arr)) h;
                     Some (Some t, h) }
              else Some (Some (made (length h) (Suc (length xs))), h @ [Conditions_cell (xs @ [c])]) })"

lemma std_set_length: "list_ex (\<lambda>x. cond_Type x = cond_Type c) xs \<Longrightarrow> length (std_SetStatusCondition xs c) = length xs"
  by (induction xs) auto

lemma std_set_append: "\<not> list_ex (\<lambda>x. cond_Type x = cond_Type c) xs \<Longrightarrow> std_SetStatusCondition xs c = xs @ [c]"
  by (induction xs) auto

lemma view_plain [simp]: "view plain h = (\<lambda>a. a)" "sound plain h a" "reach plain h a = {}"
  by (simp_all add: plain_def fun_eq_iff)

lemma std_setter_appends:
  assumes "xs = view (slice as_Conditions plain) h s" "std_SetStatusCondition xs c = ys"
    "std_setter s c h = Some (Some (made (length h) (length ys)), h @ [Conditions_cell ys])"
  shows "\<exists>s' h'. std_setter s c h = Some (s', h') \<and> length h \<le> length h' \<and> sound (slice as_Conditions plain) h' s'
    \<and> view (slice as_Conditions plain) h' s' = std_SetStatusCondition (view (slice as_Conditions plain) h s) c
    \<and> reach (slice as_Conditions plain) h' s' \<subseteq> reach (slice as_Conditions plain) h s \<union> {length h..<length h'}
    \<and> same_cells ({..<length h} - reach (slice as_Conditions plain) h s) h h'"
proof -
  have "slice_elems as_Conditions (made (length h) (length ys)) (h @ [Conditions_cell ys]) = Some ys"
    using slice_elems_made [of as_Conditions Conditions_cell ys "length ys" h "[]"] by simp
  then show ?thesis using assms by (auto simp: slice_some same_cells_def nth_append)
qed

lemma std_setter_documented: "documented_setter std_lib std_setter"
  unfolding documented_setter_def
proof (intro allI impI)
  fix h :: "'x cell memory" and s :: slice_ref and c
  assume ok: "sound (slice as_Conditions plain) h s"
  have lib: "SetStatusCondition std_lib = std_SetStatusCondition" by (simp add: std_lib_def)
  show "\<exists>s' h'. std_setter s c h = Some (s', h') \<and> length h \<le> length h' \<and> sound (slice as_Conditions plain) h' s'
    \<and> view (slice as_Conditions plain) h' s' = SetStatusCondition std_lib (view (slice as_Conditions plain) h s) c
    \<and> reach (slice as_Conditions plain) h' s' \<subseteq> reach (slice as_Conditions plain) h s \<union> {length h..<length h'}
    \<and> same_cells ({..<length h} - reach (slice as_Conditions plain) h s) h h'"
  proof (cases "s = None")
    case True
    then show ?thesis using std_setter_appends [of "[]" h s c "[c]"] unfolding lib by (simp add: std_setter_def)
  next
    case False
    with ok obtain t xs where t: "s = Some t" "slice_elems as_Conditions t h = Some xs" by (rule sound_sliceE)
    show ?thesis
    proof (cases "list_ex (\<lambda>x. cond_Type x = cond_Type c) xs")
      case False
      then show ?thesis
        using std_setter_appends [of xs h s c "xs @ [c]"] t unfolding lib
        by (simp add: std_setter_def std_set_append slice_some)
    next
      case True
      from t(2) obtain arr where arr: "load as_Conditions (sl_array t) h = Some arr" "sl_off t + sl_len t \<le> length arr"
        "xs = take (sl_len t) (drop (sl_off t) arr)"
        by (auto simp: slice_elems_def split: option.splits if_splits)
      let ?ys = "std_SetStatusCondition xs c"
      let ?arr = "take (sl_off t) arr @ ?ys @ drop (sl_off t + sl_len t) arr"
      let ?h = "h[sl_array t := Conditions_cell ?arr]"
      have len: "length ?ys = sl_len t" using std_set_length [OF True] arr(2,3) by simp
      note p = load_some [OF arr(1)]
      have elems: "slice_elems as_Conditions t ?h = Some ?ys"
        using p arr(2) len by (simp add: slice_elems_def)
      have "std_setter s c h = Some (Some t, ?h)"
        using t arr(1) True p by (simp add: std_setter_def store_def)
      then show ?thesis
        using t elems p unfolding lib
        by (intro exI [of _ "Some t"] exI [of _ ?h]) (auto simp: slice_some same_cells_def)
    qed
  qed
qed

text \<open>A resource in memory: a pointer to a bool, a big quantity, and a condition that will change in place.\<close>

definition old_condition :: Condition where
  "old_condition = \<lparr>cond_Type = ''Ready'', cond_Status = ''False'', cond_Reason = ''Waiting'', cond_Message = [],
     cond_LastTransitionTime = 1, cond_ObservedGeneration = 1\<rparr>"

definition memory_cr :: "library_value Apme_mem" where
  "memory_cr = (zero_Apme example_machinery)
     \<lparr>mcr_ObjectMeta := Meta (zero_meta\<lparr>m_name := ''apme'', m_namespace := ''apps''\<rparr>) 2,
      mcr_Spec := (zero_ApmeSpec example_machinery)
        \<lparr>msp_NetworkPolicy := \<lparr>mnp_Enabled = Some 1\<rparr>,
         msp_Storage := \<lparr>mst_Sessions = \<lparr>mpv_Size = QuantityBig 2, mpv_StorageClass = []\<rparr>,
           mst_ProxyCache = zero_PVCSpec example_machinery\<rparr>\<rparr>,
      mcr_Status := zero_ApmeStatus
        \<lparr>msu_Conditions := Some \<lparr>sl_array = 0, sl_off = 0, sl_len = 1, sl_cap = 1\<rparr>\<rparr>\<rparr>"

definition example_memory :: "library_value cell memory" where
  "example_memory = [Conditions_cell [old_condition], Bool_cell False, Library_cell (QuantityText ''1e30''),
     Apme_cell memory_cr]"

definition example_generation :: "library_value \<Rightarrow> int" where
  "example_generation v = (case v of Meta m g \<Rightarrow> g | _ \<Rightarrow> 0)"

lemma example_generation: "reads_generation example_types example_generation"
  by (auto simp: reads_generation_def example_types_def example_flat_def example_generation_def split: library_value.splits)

lemmas memory_types =
  Apme_type_def ApmeSpec_type_def ImageSpec_type_def ComponentsSpec_type_def DatabaseSpec_type_def PostgresSpec_type_def
  PVCSpec_type_def StorageSpec_type_def GalaxyProxySpec_type_def GalaxyProxyTLSSpec_type_def ExposureSpec_type_def
  RouteSpec_type_def IngressSpec_type_def AbbenaySpec_type_def AbbenayPersistenceSpec_type_def
  NetworkPolicySpec_type_def

lemmas memory_zeros =
  zero_Apme_def zero_ApmeSpec_def zero_ImageSpec_def zero_ComponentsSpec_def zero_DatabaseSpec_def
  zero_PostgresSpec_def zero_PVCSpec_def zero_StorageSpec_def zero_GalaxyProxySpec_def zero_GalaxyProxyTLSSpec_def
  zero_ExposureSpec_def zero_RouteSpec_def zero_IngressSpec_def zero_AbbenaySpec_def
  zero_AbbenayPersistenceSpec_def zero_NetworkPolicySpec_def zero_ApmeStatus_def

lemma memory_cr_sound:
  "load as_Apme 3 example_memory = Some memory_cr"
  "sound (Apme_type example_types) example_memory memory_cr"
  "3 \<notin> reach (Apme_type example_types) example_memory memory_cr"
  by (simp_all add: memory_types memory_zeros struct_def pair_def example_memory_def memory_cr_def load_def
    pointer_def slice_def map_ref_def slice_elems_def example_types_def example_quantity_def example_flat_def
    example_machinery_def as_Big_def as_Conditions_def)

text \<open>The value \<open>memory_cr\<close> has, with its one condition.\<close>

lemma memory_cr_status:
  "apme_Status (snd (view (Apme_type example_types) example_memory memory_cr)) =
     \<lparr>status_Conditions = [old_condition], status_URL = [], status_ObservedGeneration = 0, status_Topology = [],
      status_Database = []\<rparr>"
  "apme_Generation (snd (view (Apme_type example_types) example_memory memory_cr)) = 2"
  by (simp_all add: apme_type memory_cr_def example_memory_def slice_def slice_elems_def load_def memory_zeros
    example_types_def example_flat_def as_Conditions_def)

theorem patchStatus_memory_refines_witness:
  "\<exists>q h' c'. patchStatus_memory example_machinery example_generation std_setter 7 (From example_env example_cr)
        False None [] (True, []) (True, [], False) 3 example_memory = Some (Some q, h')
    \<and> load as_Apme 3 h' = Some c'
    \<and> says (status_Conditions (apme_Status (snd (view (Apme_type example_types) h' c')))) 2 condReady
        (''True'', ''Available'', ''APME Simple topology is ready'')
    \<and> map_option (\<lambda>v. status_Conditions (apme_Status (snd v))) (view (pointer as_Apme (Apme_type example_types)) h' (Some q))
        = Some [old_condition]
    \<and> example_memory ! 0 = h' ! 0"
proof -
  let ?new = "newStatus std_lib 7 (snd (view (Apme_type example_types) example_memory memory_cr)) (From example_env example_cr)
    False None [] (True, []) (True, [], False)"
  have lib: "documented_conditions std_lib" by (simp add: documented_conditions_def std_lib_def)
  have "says (status_Conditions ?new) 2 condReady (''True'', ''Available'', ''APME Simple topology is ready'')"
    using newStatus_says [OF lib, of 7 _ _ False None "[]" "(True, [])" "(True, [], False)" 2 condReady]
    by (simp add: memory_cr_status ready_def)
  moreover obtain q h' c' where *: "patchStatus_memory example_machinery example_generation std_setter 7 (From example_env example_cr)
        False None [] (True, []) (True, [], False) 3 example_memory = Some (Some q, h')"
    "load as_Apme 3 h' = Some c'" "apme_Status (snd (view (Apme_type example_types) h' c')) = ?new"
    "view (pointer as_Apme (Apme_type example_types)) h' (Some q) = Some (view (Apme_type example_types) example_memory memory_cr)"
    "same_cells ({..<length example_memory} - {3}) example_memory h'"
    using patchStatus_memory_refines [OF example_copies std_setter_documented example_generation memory_cr_sound prod.collapse [symmetric],
      of 7 "From example_env example_cr" False None "[]" "(True, [])" "(True, [], False)"]
    by auto
  moreover have "0 \<in> {..<length example_memory} - {3}" by (simp add: example_memory_def)
  then have "example_memory ! 0 = h' ! 0" using *(5) unfolding same_cells_def by metis
  ultimately show ?thesis by (intro exI conjI) (assumption | simp add: memory_cr_status)+
qed

theorem DeepCopy_independent_witness:
  "\<exists>b h'. Apme_DeepCopy example_machinery (Some 3) example_memory = Some (b, h')
    \<and> view (pointer as_Apme (Apme_type example_types)) (h'[0 := Conditions_cell []]) b
      = view (pointer as_Apme (Apme_type example_types)) example_memory (Some 3)
    \<and> view (pointer as_Apme (Apme_type example_types)) (h'[length example_memory := Bool_cell True]) (Some 3)
      = view (pointer as_Apme (Apme_type example_types)) example_memory (Some 3)"
proof -
  let ?T = "pointer as_Apme (Apme_type example_types)"
  have "sound ?T example_memory (Some 3)" using memory_cr_sound(1,2) by (simp add: pointer_some)
  moreover have "independent_copy ?T (Apme_DeepCopy example_machinery)"
    using DeepCopy_independent [OF example_copies] by blast
  ultimately obtain b h' where b: "Apme_DeepCopy example_machinery (Some 3) example_memory = Some (b, h')" "prefix example_memory h'"
    "\<forall>h''. same_cells {..<length example_memory} h' h'' \<longrightarrow> view ?T h'' (Some 3) = view ?T example_memory (Some 3)"
    "\<forall>h''. same_cells {length example_memory..<length h'} h' h'' \<longrightarrow> view ?T h'' b = view ?T example_memory (Some 3)"
    unfolding independent_copy_def by metis
  have "same_cells {length example_memory..<length h'} h' (h'[0 := Conditions_cell []])"
    by (simp add: same_cells_def example_memory_def)
  moreover have "same_cells {..<length example_memory} h' (h'[length example_memory := Bool_cell True])"
    using prefix_length_le [OF b(2)] by (simp add: same_cells_def)
  ultimately show ?thesis using b(1,3,4) by blast
qed

end
