(* ===== verification/Route_Convergence.thy ===== *)
theory Route_Convergence
  imports Routes_Facts Steady
begin

text \<open>
  Routes over several reconciles. A Route whose host changed is deleted by one reconcile and
  applied by the next, once the API server has removed it. Against an API server that stores
  what it is sent, this settles: after two reconciles the wanted Routes stand, the others are
  gone, and no later reconcile deletes one.
\<close>

subsection \<open>The API server\<close>

definition route_key :: "json \<Rightarrow> NamespacedName" where
  "route_key j = \<lparr>nn_Name = json_text [''metadata'', ''name''] j, nn_Namespace = json_text [''metadata'', ''namespace''] j\<rparr>"

text \<open>Two Routes agree on what the operator compares: path and annotation of the requested host.\<close>

definition same_intent :: "json \<Rightarrow> json \<Rightarrow> bool" where
  "same_intent j j' \<longleftrightarrow>
     json_text path_path j' = json_text path_path j \<and> json_string intent_path j' = json_string intent_path j"

text \<open>
  A server that knows Routes: \<open>live w n\<close> is the Route under a name. It answers lookups from it and keeps
  what is applied, to which it may add, with the owner. A deleted Route is gone at once or is terminating,
  until the server removes it (\<open>tick\<close>), as it does between two reconciles.
\<close>

definition route_server ::
  "lib \<Rightarrow> Apme \<Rightarrow> 'w server \<Rightarrow> ('w \<Rightarrow> NamespacedName \<Rightarrow> json option) \<Rightarrow> ('w \<Rightarrow> 'w) \<Rightarrow> bool" where
  "route_server L cr S live tick \<longleftrightarrow>
     (\<forall>w n. case live w n of
          Some j \<Rightarrow> sv_GetRoute S n w = Inr j \<and> route_key j = n
        | None \<Rightarrow> (\<exists>e. sv_GetRoute S n w = Inl e \<and> IsNotFound L e))
     \<and> (\<forall>w j. fst (sv_Patch S (ORoute j) w) = None
        \<and> (\<exists>j'. live (snd (sv_Patch S (ORoute j) w)) = (live w)(route_key j \<mapsto> j') \<and> same_intent j j'
             \<and> (IsControlledBy L (ORoute j) cr \<longrightarrow> IsControlledBy L (ORoute j') cr)
             \<and> (DeletionTimestampIsZero L j \<longrightarrow> DeletionTimestampIsZero L j')))
     \<and> (\<forall>w j. fst (sv_Delete S (ORoute j) w) = None
        \<and> (\<exists>r. live (snd (sv_Delete S (ORoute j) w)) = (live w)(route_key j := r)
             \<and> (\<forall>j'. r = Some j' \<longrightarrow> \<not> DeletionTimestampIsZero L j' \<and> IsControlledBy L (ORoute j') cr)))
     \<and> (\<forall>w n. live (tick w) n = (case live w n of
          Some j \<Rightarrow> if DeletionTimestampIsZero L j then Some j else None | None \<Rightarrow> None))"

text \<open>\<open>SetControllerReference\<close> on a Route without owners adds the instance and changes nothing else.\<close>

definition owns_routes :: "lib \<Rightarrow> Apme \<Rightarrow> bool" where
  "owns_routes L cr \<longleftrightarrow>
     (\<forall>j fs. json_field ''metadata'' j = Some (JObject fs) \<and> map_of fs ''ownerReferences'' = None \<longrightarrow>
        (\<exists>j'. SetControllerReference L cr (ORoute j) = Inr (ORoute j') \<and> route_key j' = route_key j
           \<and> same_intent j j' \<and> IsControlledBy L (ORoute j') cr
           \<and> (DeletionTimestampIsZero L j \<longrightarrow> DeletionTimestampIsZero L j')))"

text \<open>An object that no server has touched has no deletion timestamp.\<close>

definition no_deletion :: "lib \<Rightarrow> bool" where
  "no_deletion L \<longleftrightarrow>
     (\<forall>j fs. json_field ''metadata'' j = Some (JObject fs) \<and> map_of fs ''deletionTimestamp'' = None
        \<longrightarrow> DeletionTimestampIsZero L j)"

definition keys_of_routes :: "lib \<Rightarrow> bool" where
  "keys_of_routes L \<longleftrightarrow> (\<forall>j. ObjectKeyFromObject L (ORoute j) = route_key j)"

subsection \<open>The phases of a Route\<close>

text \<open>The Route stands as the operator wants it.\<close>

definition standing :: "lib \<Rightarrow> Apme \<Rightarrow> json \<Rightarrow> json \<Rightarrow> bool" where
  "standing L cr route j \<longleftrightarrow>
     same_intent route j \<and> IsControlledBy L (ORoute j) cr \<and> DeletionTimestampIsZero L j"

definition ours :: "lib \<Rightarrow> Apme \<Rightarrow> json option \<Rightarrow> bool" where
  "ours L cr r \<longleftrightarrow> (\<forall>j. r = Some j \<longrightarrow> IsControlledBy L (ORoute j) cr)"

definition cleared :: "lib \<Rightarrow> Apme \<Rightarrow> bool \<Rightarrow> json \<Rightarrow> json option \<Rightarrow> bool" where
  "cleared L cr want route r \<longleftrightarrow> r = None \<or> want \<and> (\<exists>j. r = Some j \<and> standing L cr route j)"

definition settled_route :: "lib \<Rightarrow> Apme \<Rightarrow> bool \<Rightarrow> json \<Rightarrow> json option \<Rightarrow> bool" where
  "settled_route L cr want route r \<longleftrightarrow>
     (if want then \<exists>j. r = Some j \<and> standing L cr route j else r = None)"

definition ticked :: "lib \<Rightarrow> json option \<Rightarrow> json option" where
  "ticked L r = (case r of Some j \<Rightarrow> if DeletionTimestampIsZero L j then Some j else None | None \<Rightarrow> None)"

lemma ticked_phases:
  "cleared L cr want route r \<Longrightarrow> cleared L cr want route (ticked L r)"
  "settled_route L cr want route r \<Longrightarrow> settled_route L cr want route (ticked L r)"
  by (auto simp: cleared_def settled_route_def ticked_def standing_def split: if_splits)

lemma settled_cleared: "settled_route L cr want route r \<Longrightarrow> cleared L cr want route r"
  by (auto simp: settled_route_def cleared_def split: if_splits)

lemma cleared_ours: "cleared L cr want route r \<Longrightarrow> ours L cr r"
  by (auto simp: cleared_def ours_def standing_def)

lemma same_intent_trans: "same_intent a b \<Longrightarrow> same_intent b c \<Longrightarrow> same_intent a c"
  by (simp add: same_intent_def)

subsection \<open>One Route, one reconcile\<close>

text \<open>The builder's Routes have no owner, and taking over the live host leaves it that way.\<close>

lemma routeUnstructured_meta:
  "\<exists>fs. json_field ''metadata'' (routeUnstructured name c host svc path d) = Some (JObject fs)
     \<and> map_of fs ''ownerReferences'' = None \<and> map_of fs ''deletionTimestamp'' = None"
  "route_key (routeUnstructured name c host svc path d) = \<lparr>nn_Name = name, nn_Namespace = d_Namespace d\<rparr>"
  by (auto simp: routeUnstructured_def route_key_def json_text_def Let_def)

lemma preserveHost_meta:
  assumes "nested_strings L" "sets_host L" and route: "route = routeUnstructured name c host svc path d"
  shows "json_field ''metadata'' (preserveHost L live route) = json_field ''metadata'' route"
    and "route_key (preserveHost L live route) = route_key route"
    and "same_intent route (preserveHost L live route)"
proof -
  obtain fs where spec: "json_field ''spec'' route = Some (JObject fs)"
    unfolding route using routeUnstructured_fields(5) by blast
  obtain gs where ob: "route = JObject gs" unfolding route by (auto simp: routeUnstructured_def Let_def)
  have set: "fst (SetNestedField L route v host_path) = json_set host_path v route" for v
    using assms(2) spec unfolding sets_host_def by blast
  have other: "json_field ''metadata'' (json_set host_path v route) = json_field ''metadata'' route" for v
    by (simp add: ob update_conv')
  show meta: "json_field ''metadata'' (preserveHost L live route) = json_field ''metadata'' route"
    by (simp add: preserveHost_def set other split: prod.split)
  show "route_key (preserveHost L live route) = route_key route"
    by (simp add: route_key_def json_text_def meta)
  have "json_string intent_path (preserveHost L live route) = json_string intent_path route"
    by (simp add: meta)
  then show "same_intent route (preserveHost L live route)"
    using preserveHost_fields(3) [OF assms(1,2) spec] by (simp add: same_intent_def)
qed

lemma standing_kept:
  assumes "nested_strings L" "standing L cr (routeUnstructured name c host svc path d) j"
  shows "\<not> routeNeedsRecreate L j (routeUnstructured name c host svc path d)"
  using assms(2) routeUnstructured_fields(3) [of name c host svc path d] routeUnstructured_fields(4) [of name c host svc path d]
  unfolding routeNeedsRecreate_iff [OF assms(1)] standing_def same_intent_def
  by (simp del: json_string.simps)

text \<open>What the theorem needs of the library and the server.\<close>

definition route_world ::
  "lib \<Rightarrow> Apme \<Rightarrow> 'w server \<Rightarrow> ('w \<Rightarrow> NamespacedName \<Rightarrow> json option) \<Rightarrow> ('w \<Rightarrow> 'w) \<Rightarrow> bool" where
  "route_world L cr S live tick \<longleftrightarrow>
     nested_strings L \<and> sets_host L \<and> owns_routes L cr \<and> keys_of_routes L \<and> no_deletion L
     \<and> IgnoreNotFound L None = None \<and> route_server L cr S live tick"

lemma world_get:
  assumes "route_world L cr S live tick"
  shows "live w n = Some j \<Longrightarrow> sv_GetRoute S n w = Inr j \<and> route_key j = n"
    and "live w n = None \<Longrightarrow> \<exists>e. sv_GetRoute S n w = Inl e \<and> IsNotFound L e"
proof -
  have *: "case live w n of Some j \<Rightarrow> sv_GetRoute S n w = Inr j \<and> route_key j = n
      | None \<Rightarrow> (\<exists>e. sv_GetRoute S n w = Inl e \<and> IsNotFound L e)"
    using assms unfolding route_world_def route_server_def by blast
  show "live w n = Some j \<Longrightarrow> sv_GetRoute S n w = Inr j \<and> route_key j = n"
    "live w n = None \<Longrightarrow> \<exists>e. sv_GetRoute S n w = Inl e \<and> IsNotFound L e" using * by simp_all
qed

lemma world_tick: "route_world L cr S live tick \<Longrightarrow> live (tick w) n = ticked L (live w n)"
  unfolding route_world_def route_server_def ticked_def by blast

text \<open>Applying a Route of the builder makes it stand and touches no other.\<close>

lemma apply_stands:
  assumes W: "route_world L cr S live tick"
    and j: "json_field ''metadata'' j = Some (JObject fs)" "map_of fs ''ownerReferences'' = None"
      "map_of fs ''deletionTimestamp'' = None" "route_key j = route_key route" "same_intent route j"
  shows "\<exists>tr w' j'. run S (apply_obj L cr (ORoute j)) w = (tr, None, w') \<and> (\<forall>ob r. EDelete ob r \<notin> set tr)
    \<and> live w' = (live w)(route_key route \<mapsto> j') \<and> standing L cr route j'"
proof -
  obtain j1 where j1: "SetControllerReference L cr (ORoute j) = Inr (ORoute j1)" "route_key j1 = route_key j"
    "same_intent j j1" "IsControlledBy L (ORoute j1) cr" "DeletionTimestampIsZero L j1"
    using W j(1-3) unfolding route_world_def owns_routes_def no_deletion_def by blast
  obtain j2 where j2: "fst (sv_Patch S (ORoute j1) w) = None" "live (snd (sv_Patch S (ORoute j1) w)) = (live w)(route_key j1 \<mapsto> j2)"
    "same_intent j1 j2" "IsControlledBy L (ORoute j2) cr" "DeletionTimestampIsZero L j2"
    using W j1(4,5) unfolding route_world_def route_server_def by blast
  have "standing L cr route j2"
    using j2(3-5) same_intent_trans [OF same_intent_trans [OF j(5) j1(3)]] by (simp add: standing_def)
  moreover have "sv_Patch S (ORoute j1) w = (None, snd (sv_Patch S (ORoute j1) w))" using j2(1) by (simp add: prod_eq_iff)
  ultimately show ?thesis using j1(1,2) j2(1,2) j(4)
    by (intro exI [of _ "[EPatch (ORoute j1) None]"] exI [of _ "snd (sv_Patch S (ORoute j1) w)"] exI [of _ j2])
      (simp add: apply_obj_def Let_def emit_def)
qed

lemma delete_clears:
  assumes W: "route_world L cr S live tick"
  shows "\<exists>w' r. sv_Delete S (ORoute j) w = (None, w') \<and> live w' = (live w)(route_key j := r) \<and> ours L cr r \<and> ticked L r = None"
proof -
  obtain r where r: "fst (sv_Delete S (ORoute j) w) = None" "live (snd (sv_Delete S (ORoute j) w)) = (live w)(route_key j := r)"
    "\<forall>j'. r = Some j' \<longrightarrow> \<not> DeletionTimestampIsZero L j' \<and> IsControlledBy L (ORoute j') cr"
    using W unfolding route_world_def route_server_def by meson
  then show ?thesis
    by (intro exI [of _ "snd (sv_Delete S (ORoute j) w)"] exI [of _ r])
      (auto simp: ours_def ticked_def prod_eq_iff split: option.split)
qed

text \<open>
  One of the two Routes: after the reconcile and the server's work a Route of ours is cleared, a
  cleared one is settled, and a settled one stays so without a deletion.
\<close>

definition route_step ::
  "lib \<Rightarrow> Apme \<Rightarrow> bool \<Rightarrow> json \<Rightarrow> json option \<Rightarrow> event list \<Rightarrow> json option \<Rightarrow> bool" where
  "route_step L cr want route r tr r' \<longleftrightarrow>
     (ours L cr r \<longrightarrow> cleared L cr want route (ticked L r'))
     \<and> (cleared L cr want route r \<longrightarrow> settled_route L cr want route (ticked L r'))
     \<and> (settled_route L cr want route r \<longrightarrow> (\<forall>ob q. EDelete ob q \<notin> set tr))"

lemma ensureRoute_step:
  assumes W: "route_world L cr S live tick"
    and route: "route = routeUnstructured name c host svc path d" and k: "k = \<lparr>nn_Name = name, nn_Namespace = d_Namespace d\<rparr>"
    and ours: "ours L cr (live w k)"
  shows "\<exists>tr w'. run S (ensureRoute L cr d want route name) w = (tr, None, w')
    \<and> (\<forall>n. n \<noteq> k \<longrightarrow> live w' n = live w n) \<and> route_step L cr want route (live w k) tr (live w' k)"
proof (cases want)
  case True
  have laws: "nested_strings L" "sets_host L" using W by (simp_all add: route_world_def)
  have key: "ObjectKeyFromObject L (ORoute route) = k" "route_key route = k"
    using W unfolding route_world_def keys_of_routes_def by (simp_all add: route k routeUnstructured_meta(2))
  obtain fs where fs: "json_field ''metadata'' route = Some (JObject fs)" "map_of fs ''ownerReferences'' = None"
    "map_of fs ''deletionTimestamp'' = None" unfolding route using routeUnstructured_meta(1) by blast
  have self: "same_intent route route" by (simp add: same_intent_def)
  have wrap: "wrapRouteApplyErr L None h = None" for h by (simp add: wrapRouteApplyErr_def)
  have finish: "\<exists>tr w'. run S (ensureRoute L cr d want route name) w = (tr, None, w')
      \<and> (\<forall>n. n \<noteq> k \<longrightarrow> live w' n = live w n) \<and> route_step L cr want route (live w k) tr (live w' k)"
    if "run S (applyOrRecreateRoute L cr route) w = (tr, None, w')" "\<forall>n. n \<noteq> k \<longrightarrow> live w' n = live w n"
      "route_step L cr want route (live w k) tr (live w' k)" for tr w'
    using that True by (simp add: ensureRoute_def run_call wrap)
  have stands: "route_step L cr want route r tr (Some j)"
    if "standing L cr route j" "\<forall>ob q. EDelete ob q \<notin> set tr" for r tr j
    using that True by (auto simp: route_step_def cleared_def settled_route_def ticked_def standing_def)
  show ?thesis
  proof (cases "live w k")
    case None
    then obtain e where e: "sv_GetRoute S k w = Inl e" "IsNotFound L e" using world_get(2) [OF W] by blast
    from apply_stands [OF W fs refl self, of w] obtain tr w' j' where
      *: "run S (apply_obj L cr (ORoute route)) w = (tr, None, w')" "\<forall>ob r. EDelete ob r \<notin> set tr"
        "live w' = (live w)(k \<mapsto> j')" "standing L cr route j'" unfolding key by blast
    show ?thesis
      by (rule finish [of "EGetRoute k (Inl e) # tr" w'])
        (use * e key stands [OF *(4)] in \<open>simp_all add: applyOrRecreateRoute_def Let_def emit_def\<close>)
  next
    case (Some j)
    note get = world_get(1) [OF W Some]
    have ctl: "IsControlledBy L (ORoute j) cr" using ours Some by (simp add: ours_def)
    consider (terminating) "\<not> DeletionTimestampIsZero L j"
      | (recreate) "DeletionTimestampIsZero L j" "routeNeedsRecreate L j route"
      | (reapply) "DeletionTimestampIsZero L j" "\<not> routeNeedsRecreate L j route" by blast
    then show ?thesis
    proof cases
      case terminating
      have "route_step L cr want route (live w k) [EGetRoute k (Inr j)] (live w k)"
        using terminating Some True by (auto simp: route_step_def cleared_def settled_route_def standing_def ticked_def)
      then show ?thesis
        by (intro finish [of "[EGetRoute k (Inr j)]" w])
          (use terminating get key in \<open>simp_all add: applyOrRecreateRoute_def Let_def emit_def\<close>)
    next
      case recreate
      from delete_clears [OF W, of j w] obtain w' r where r: "sv_Delete S (ORoute j) w = (None, w')"
        "live w' = (live w)(k := r)" "ours L cr r" "ticked L r = None" using get by auto
      have "\<not> standing L cr route j" using standing_kept [OF laws(1)] recreate(2) unfolding route by blast
      then have "route_step L cr want route (live w k) [EGetRoute k (Inr j), EDelete (ORoute j) None] r"
        using Some r(4) True by (auto simp: route_step_def cleared_def settled_route_def)
      then show ?thesis
        by (intro finish [of "[EGetRoute k (Inr j), EDelete (ORoute j) None]" w'])
          (use recreate ctl get key r in \<open>simp_all add: applyOrRecreateRoute_def Let_def emit_def\<close>)
    next
      case reapply
      note pres = preserveHost_meta [OF laws route, of j]
      from apply_stands [OF W pres(1) [unfolded fs(1)] fs(2,3) pres(2,3), of w] obtain tr w' j' where
        *: "run S (apply_obj L cr (ORoute (preserveHost L j route))) w = (tr, None, w')" "\<forall>ob r. EDelete ob r \<notin> set tr"
          "live w' = (live w)(k \<mapsto> j')" "standing L cr route j'" unfolding key by blast
      show ?thesis
        by (rule finish [of "EGetRoute k (Inr j) # tr" w'])
          (use * reapply get key stands [OF *(4)] in \<open>simp_all add: applyOrRecreateRoute_def Let_def emit_def\<close>)
    qed
  qed
next
  case False
  show ?thesis
  proof (cases "live w k")
    case None
    then obtain e where e: "sv_GetRoute S k w = Inl e" "IsNotFound L e" using world_get(2) [OF W] by blast
    then show ?thesis using False None
      by (simp add: ensureRoute_def deleteOwnedRoute_def k [symmetric] Let_def emit_def route_step_def cleared_def
          settled_route_def ticked_def)
  next
    case (Some j)
    note get = world_get(1) [OF W Some]
    have ctl: "IsControlledBy L (ORoute j) cr" using ours Some by (simp add: ours_def)
    from delete_clears [OF W, of j w] obtain w' r where r: "sv_Delete S (ORoute j) w = (None, w')"
      "live w' = (live w)(k := r)" "ours L cr r" "ticked L r = None" using get by auto
    moreover have "IgnoreNotFound L None = None" using W by (simp add: route_world_def)
    ultimately show ?thesis using False Some get ctl
      by (simp add: ensureRoute_def deleteOwnedRoute_def k [symmetric] Let_def emit_def route_step_def cleared_def
          settled_route_def)
  qed
qed

subsection \<open>Both Routes, many reconciles\<close>

abbreviation ui_key :: "Desired \<Rightarrow> NamespacedName" where
  "ui_key d \<equiv> \<lparr>nn_Name = d_Name d @ ''-ui'', nn_Namespace = d_Namespace d\<rparr>"

abbreviation api_key :: "Desired \<Rightarrow> NamespacedName" where
  "api_key d \<equiv> \<lparr>nn_Name = d_Name d @ ''-api'', nn_Namespace = d_Namespace d\<rparr>"

text \<open>A predicate on both Routes of the instance.\<close>

definition both :: "(bool \<Rightarrow> json \<Rightarrow> json option \<Rightarrow> bool) \<Rightarrow> Desired \<Rightarrow> (NamespacedName \<Rightarrow> json option) \<Rightarrow> bool" where
  "both P d m \<longleftrightarrow> P (d_RouteEnabled d \<and> d_UI d) (UIRoute d) (m (ui_key d)) \<and> P (d_RouteEnabled d) (APIRoute d) (m (api_key d))"

lemma ensureRoutes_step:
  assumes W: "route_world L cr S live tick" and api: "HasRouteAPI R"
    and ours: "both (\<lambda>want route. ours L cr) d (live w)"
  shows "\<exists>tr w'. run S (ensureRoutes R L cr d) w = (tr, None, w')
    \<and> both (cleared L cr) d (live (tick w'))
    \<and> (both (cleared L cr) d (live w) \<longrightarrow> both (settled_route L cr) d (live (tick w')))
    \<and> (both (settled_route L cr) d (live w) \<longrightarrow> (\<forall>ob q. EDelete ob q \<notin> set tr))"
proof -
  have ne: "ui_key d \<noteq> api_key d" by simp
  have ui: "ours L cr (live w (ui_key d))" and api_ours: "ours L cr (live w (api_key d))" using ours by (simp_all add: both_def)
  from ensureRoute_step [where want = "d_RouteEnabled d \<and> d_UI d", OF W UIRoute_def refl ui] obtain t1 w1 where
    1: "run S (ensureRoute L cr d (d_RouteEnabled d \<and> d_UI d) (UIRoute d) (d_Name d @ ''-ui'')) w = (t1, None, w1)"
      "\<forall>n. n \<noteq> ui_key d \<longrightarrow> live w1 n = live w n"
      "route_step L cr (d_RouteEnabled d \<and> d_UI d) (UIRoute d) (live w (ui_key d)) t1 (live w1 (ui_key d))" by blast
  have same: "live w1 (api_key d) = live w (api_key d)" using 1(2) ne by metis
  have api1: "ours L cr (live w1 (api_key d))" using api_ours same by simp
  from ensureRoute_step [where want = "d_RouteEnabled d", OF W APIRoute_def refl api1] same obtain t2 w2 where
    2: "run S (ensureRoute L cr d (d_RouteEnabled d) (APIRoute d) (d_Name d @ ''-api'')) w1 = (t2, None, w2)"
      "\<forall>n. n \<noteq> api_key d \<longrightarrow> live w2 n = live w1 n"
      "route_step L cr (d_RouteEnabled d) (APIRoute d) (live w (api_key d)) t2 (live w2 (api_key d))" by auto
  have same2: "live w2 (ui_key d) = live w1 (ui_key d)" using 2(2) ne by metis
  have "run S (ensureRoutes R L cr d) w = (t1 @ t2, None, w2)"
    using 1(1) 2(1) api by (simp add: ensureRoutes_def attempt_def run_call)
  then show ?thesis
    using 1(3) 2(3) same2 ui api_ours world_tick [OF W]
    by (intro exI [of _ "t1 @ t2"] exI [of _ w2]) (auto simp: both_def route_step_def)
qed

text \<open>A reconcile's work on Routes, followed by the server's.\<close>

definition round ::
  "ApmeReconciler \<Rightarrow> lib \<Rightarrow> Apme \<Rightarrow> Desired \<Rightarrow> 'w server \<Rightarrow> ('w \<Rightarrow> 'w) \<Rightarrow> 'w \<Rightarrow> 'w" where
  "round R L cr d S tick w = tick (snd (snd (run S (ensureRoutes R L cr d) w)))"

lemma both_cleared_ours: "both (cleared L cr) d m \<Longrightarrow> both (\<lambda>want route. ours L cr) d m"
  unfolding both_def by (blast intro: cleared_ours)

lemma both_settled_cleared: "both (settled_route L cr) d m \<Longrightarrow> both (cleared L cr) d m"
  unfolding both_def by (blast intro: settled_cleared)

lemma round_phases:
  assumes W: "route_world L cr S live tick" and api: "HasRouteAPI R"
  shows "both (\<lambda>want route. ours L cr) d (live w) \<Longrightarrow> both (cleared L cr) d (live (round R L cr d S tick w))"
    and "both (cleared L cr) d (live w) \<Longrightarrow> both (settled_route L cr) d (live (round R L cr d S tick w))"
proof -
  show "both (cleared L cr) d (live (round R L cr d S tick w))" if "both (\<lambda>want route. ours L cr) d (live w)"
    using ensureRoutes_step [OF W api that] by (auto simp: round_def)
  show "both (settled_route L cr) d (live (round R L cr d S tick w))" if c: "both (cleared L cr) d (live w)"
    using ensureRoutes_step [OF W api both_cleared_ours [OF c]] c by (auto simp: round_def)
qed


subsection \<open>An instance\<close>

text \<open>A server whose state are the Routes; a deleted one is gone at once.\<close>

type_synonym route_state = "NamespacedName \<Rightarrow> json option"

definition example_live :: "route_state \<Rightarrow> NamespacedName \<Rightarrow> json option" where
  "example_live w n = (case w n of Some j \<Rightarrow> if route_key j = n then Some j else None | None \<Rightarrow> None)"

definition example_patch :: "client_object \<Rightarrow> route_state \<Rightarrow> gerror option \<times> route_state" where
  "example_patch ob w = (None, case ob of ORoute j \<Rightarrow> w(route_key j \<mapsto> j) | _ \<Rightarrow> w)"

definition example_delete :: "client_object \<Rightarrow> route_state \<Rightarrow> gerror option \<times> route_state" where
  "example_delete ob w = (None, case ob of ORoute j \<Rightarrow> w(route_key j := None) | _ \<Rightarrow> w)"

definition example_tick :: "route_state \<Rightarrow> route_state" where
  "example_tick w n = (case example_live w n of
     Some j \<Rightarrow> if DeletionTimestampIsZero example_lib j then Some j else None | None \<Rightarrow> None)"

definition example_routes :: "route_state server" where
  "example_routes =
     \<lparr>sv_GetApme = (\<lambda>n w. Inl missing), sv_GetSecret = (\<lambda>n w. Inl missing), sv_GetConfigMap = (\<lambda>n w. Inl missing),
      sv_GetStatefulSet = (\<lambda>n w. Inl missing), sv_GetDeployment = (\<lambda>n w. Inl missing),
      sv_GetRoute = (\<lambda>n w. case example_live w n of Some j \<Rightarrow> Inr j | None \<Rightarrow> Inl missing),
      sv_ListPods = (\<lambda>rd ns sel w. Inr []),
      sv_Patch = example_patch, sv_Create = (\<lambda>ob w. (None, w)), sv_Update = (\<lambda>ob w. (None, w)),
      sv_Delete = example_delete, sv_StatusPatch = (\<lambda>a b w. (None, w)),
      sv_RandRead = (\<lambda>n w. Inr []), sv_RandInt = (\<lambda>m w. Inr 0), sv_GenerateKey = (\<lambda>w. Inr 1),
      sv_CreateCertificate = (\<lambda>tpl parent pub priv w. Inr []), sv_Now = (\<lambda>w. 0)\<rparr>"

lemma example_live_upd:
  "example_live (w(route_key j \<mapsto> j)) = (example_live w)(route_key j \<mapsto> j)"
  "example_live (w(k := None)) = (example_live w)(k := None)"
  by (auto simp: example_live_def fun_eq_iff)

lemma example_route_server: "route_server example_lib cr example_routes example_live example_tick"
  unfolding route_server_def
proof (intro conjI allI)
  show "case example_live w n of Some j \<Rightarrow> sv_GetRoute example_routes n w = Inr j \<and> route_key j = n
      | None \<Rightarrow> \<exists>e. sv_GetRoute example_routes n w = Inl e \<and> IsNotFound example_lib e" for w n
    by (auto simp: example_routes_def example_live_def example_lib_def std_lib_def missing_def split: option.split)
  show "fst (sv_Patch example_routes (ORoute j) w) = None" "fst (sv_Delete example_routes (ORoute j) w) = None" for w j
    by (simp_all add: example_routes_def example_patch_def example_delete_def)
  show "\<exists>j'. example_live (snd (sv_Patch example_routes (ORoute j) w)) = (example_live w)(route_key j \<mapsto> j') \<and> same_intent j j'
      \<and> (IsControlledBy example_lib (ORoute j) cr \<longrightarrow> IsControlledBy example_lib (ORoute j') cr)
      \<and> (DeletionTimestampIsZero example_lib j \<longrightarrow> DeletionTimestampIsZero example_lib j')" for w j
    by (intro exI [of _ j]) (simp add: example_routes_def example_patch_def example_live_upd same_intent_def)
  show "\<exists>r. example_live (snd (sv_Delete example_routes (ORoute j) w)) = (example_live w)(route_key j := r)
      \<and> (\<forall>j'. r = Some j' \<longrightarrow> \<not> DeletionTimestampIsZero example_lib j' \<and> IsControlledBy example_lib (ORoute j') cr)" for w j
    by (intro exI [of _ None]) (simp add: example_routes_def example_delete_def example_live_upd)
  show "example_live (example_tick w) n = (case example_live w n of
      Some j \<Rightarrow> if DeletionTimestampIsZero example_lib j then Some j else None | None \<Rightarrow> None)" for w n
    by (auto simp: example_tick_def example_live_def split: option.splits)
qed

lemma example_owns_routes: "owns_routes example_lib cr"
  unfolding owns_routes_def
proof (intro allI impI)
  fix j fs
  assume j: "json_field ''metadata'' j = Some (JObject fs) \<and> map_of fs ''ownerReferences'' = None"
  let ?j = "json_set [''metadata'', ''ownerReferences''] (JArray [owner_json cr]) j"
  have other: "json_string (''metadata'' # l # p) ?j = json_string (''metadata'' # l # p) j" if "l \<noteq> ''ownerReferences''" for l p
    using json_set_other [of "''metadata''" j fs "''metadata''" l] j that by auto
  have spec: "json_field ''spec'' ?j = json_field ''spec'' j"
    using j by (cases j) (auto simp: update_conv' json_field_def)
  have "json_string intent_path ?j = json_string intent_path j" by (rule other) simp
  moreover have "json_text path_path ?j = json_text path_path j" by (simp add: json_text_def spec)
  ultimately have "same_intent j ?j" unfolding same_intent_def by blast
  then show "\<exists>j'. SetControllerReference example_lib cr (ORoute j) = Inr (ORoute j') \<and> route_key j' = route_key j
      \<and> same_intent j j' \<and> IsControlledBy example_lib (ORoute j') cr
      \<and> (DeletionTimestampIsZero example_lib j \<longrightarrow> DeletionTimestampIsZero example_lib j')"
    using j
    by (intro exI [of _ ?j])
      (simp add: example_lib_def std_lib_def route_key_def json_text_def json_set_one owner_json_def update_conv')
qed

lemma example_route_world: "route_world example_lib cr example_routes example_live example_tick"
  unfolding route_world_def
proof (intro conjI example_owns_routes example_route_server)
  show "nested_strings example_lib" by (simp add: nested_strings_def example_lib_def std_lib_def)
  show "sets_host example_lib" by (simp add: sets_host_def example_lib_def std_lib_def)
  show "keys_of_routes example_lib"
    by (simp add: keys_of_routes_def example_lib_def std_lib_def route_key_def)
  show "no_deletion example_lib" by (auto simp: no_deletion_def example_lib_def std_lib_def)
  show "IgnoreNotFound example_lib None = None" by (simp add: example_lib_def std_lib_def)
qed

text \<open>The host of the example resource changed, the Routes are still those of the old one.\<close>

definition example_wanted :: Desired where
  "example_wanted = (From example_env example_cr)\<lparr>d_RouteEnabled := True, d_UI := True, d_RouteHost := ''new.example''\<rparr>"

definition route_reconciler :: ApmeReconciler where
  "route_reconciler = \<lparr>HasRouteAPI = True, HasAPIReader = True\<rparr>"

definition owned_route :: "json \<Rightarrow> json" where
  "owned_route j = json_set [''metadata'', ''ownerReferences''] (JArray [owner_json example_cr]) j"

definition old_routes :: route_state where
  "old_routes = (\<lambda>n. None)
     (ui_key example_wanted \<mapsto> owned_route (UIRoute (example_wanted\<lparr>d_RouteHost := ''old.example''\<rparr>)))"

lemma old_routes_live:
  "example_live old_routes (ui_key example_wanted) = Some (owned_route (UIRoute (example_wanted\<lparr>d_RouteHost := ''old.example''\<rparr>)))"
  "example_live old_routes (api_key example_wanted) = None"
  "IsControlledBy example_lib (ORoute (owned_route (UIRoute (example_wanted\<lparr>d_RouteHost := ''old.example''\<rparr>)))) example_cr"
  by (simp_all add: example_live_def old_routes_def owned_route_def route_key_def UIRoute_def routeUnstructured_def Let_def
    json_text_def example_lib_def std_lib_def owner_json_def example_wanted_def)


end
