(* ===== verification/Scheme.thy ===== *)
theory Scheme
  imports Startup
begin

text \<open>
  Registration of the API types (\<open>groupversion_info.go\<close>, the \<open>init\<close> functions of
  \<open>apme_types.go\<close> and \<open>main.go\<close>). The builder and the scheme are of the libraries: their operations
  are fields of \<open>scheme_lib\<close>. A builder is a pointer, and \<open>AddToScheme\<close> a method value bound to it, so
  it sees what \<open>init\<close> registered after the variable was set.
\<close>

record group_version =
  gv_Group :: string
  gv_Version :: string

record ('b, 's) scheme_lib =
  new_Builder :: "group_version \<Rightarrow> 'b"
  Register :: "'b \<Rightarrow> string list \<Rightarrow> 'b"
  Builder_AddToScheme :: "'b \<Rightarrow> 's \<Rightarrow> gerror option \<times> 's"
  clientgo_AddToScheme :: "'s \<Rightarrow> gerror option \<times> 's"
  NewScheme :: 's
  Recognizes :: "'s \<Rightarrow> group_version \<Rightarrow> string \<Rightarrow> bool"

definition GroupVersion :: group_version where
  "GroupVersion = \<lparr>gv_Group = ''apme.ansible.com'', gv_Version = ''v1alpha1''\<rparr>"

definition SchemeBuilder :: "('b, 's) scheme_lib \<Rightarrow> 'b" where
  "SchemeBuilder SL = new_Builder SL GroupVersion"

text \<open>The builder after \<open>init\<close> of the package; the types are named by their kinds.\<close>

definition types_init :: "('b, 's) scheme_lib \<Rightarrow> 'b" where
  "types_init SL = Register SL (SchemeBuilder SL) [''Apme'', ''ApmeList'']"

definition AddToScheme :: "('b, 's) scheme_lib \<Rightarrow> 's \<Rightarrow> gerror option \<times> 's" where
  "AddToScheme SL s = Builder_AddToScheme SL (types_init SL) s"

text \<open>\<open>init\<close> of \<open>main\<close>: an error that \<open>Must\<close> panics with, or the scheme.\<close>

definition main_init :: "('b, 's) scheme_lib \<Rightarrow> gerror + 's" where
  "main_init SL =
    (case clientgo_AddToScheme SL (NewScheme SL) of
       (Some e, s) \<Rightarrow> Inl e
     | (None, s) \<Rightarrow> (case AddToScheme SL s of (Some e, s) \<Rightarrow> Inl e | (None, s) \<Rightarrow> Inr s))"

text \<open>The process: a panic ends it with code 2 before \<open>main\<close>.\<close>

definition process_run ::
  "('b, 's) scheme_lib \<Rightarrow> main_env \<Rightarrow> other_flags \<Rightarrow> string list \<Rightarrow> step list \<times> nat" where
  "process_run SL E other args = (case main_init SL of Inl e \<Rightarrow> ([], 2) | Inr s \<Rightarrow> main_run E other args)"

text \<open>
  What the libraries document: a builder that registered kinds makes a scheme recognise them in its
  group and version, and leaves what it recognised.
\<close>

definition documented_builder :: "('b, 's) scheme_lib \<Rightarrow> bool" where
  "documented_builder SL \<longleftrightarrow>
     (\<forall>gv kinds s. \<exists>s'. Builder_AddToScheme SL (Register SL (new_Builder SL gv) kinds) s = (None, s')
        \<and> (\<forall>gv' k. Recognizes SL s' gv' k \<longleftrightarrow> gv' = gv \<and> k \<in> set kinds \<or> Recognizes SL s gv' k))"

lemma main_init_recognizes:
  assumes "documented_builder SL" and "clientgo_AddToScheme SL (NewScheme SL) = (None, s0)"
  shows "\<exists>s. main_init SL = Inr s \<and> (\<forall>gv k. Recognizes SL s gv k \<longleftrightarrow>
    gv = GroupVersion \<and> k \<in> {''Apme'', ''ApmeList''} \<or> Recognizes SL s0 gv k)"
proof -
  from assms(1) obtain s where
    "Builder_AddToScheme SL (Register SL (new_Builder SL GroupVersion) [''Apme'', ''ApmeList'']) s0 = (None, s)"
    "\<forall>gv' k. Recognizes SL s gv' k \<longleftrightarrow> gv' = GroupVersion \<and> k \<in> set [''Apme'', ''ApmeList''] \<or> Recognizes SL s0 gv' k"
    unfolding documented_builder_def by blast
  then show ?thesis
    using assms(2) by (simp add: main_init_def AddToScheme_def types_init_def SchemeBuilder_def)
qed

text \<open>An instance: a builder is its group and version with the kinds registered, a scheme a table.\<close>

definition std_scheme :: "(group_version \<times> string list, (group_version \<times> string) list) scheme_lib" where
  "std_scheme =
     \<lparr>new_Builder = \<lambda>gv. (gv, []), Register = \<lambda>(gv, ks) kinds. (gv, ks @ kinds),
      Builder_AddToScheme = \<lambda>(gv, ks) s. (None, s @ map (Pair gv) ks),
      clientgo_AddToScheme = \<lambda>s. (None, s), NewScheme = [],
      Recognizes = \<lambda>s gv k. (gv, k) \<in> set s\<rparr>"

lemma std_scheme_documented: "documented_builder std_scheme"
  by (auto simp: documented_builder_def std_scheme_def)

lemma std_scheme_kinds: "main_init std_scheme = Inr [(GroupVersion, ''Apme''), (GroupVersion, ''ApmeList'')]"
  by (simp add: main_init_def AddToScheme_def types_init_def SchemeBuilder_def std_scheme_def)

subsection \<open>The process\<close>



end
