(* ===== verification/Spec2Isabelle.thy ===== *)
theory Spec2Isabelle
  imports Witnesses Status_Memory Route_Convergence Scheme
begin

text \<open>
  A model of the APME operator, a Kubernetes operator in Go, and proofs about it.

  The program. The operator reconciles \<open>Apme\<close> resources (\<open>api/v1alpha1/apme_types.go\<close>). A
  reconcile (\<open>internal/controller/apme_controller.go\<close>) resolves the resource into an intent
  (\<open>internal/resolve/desired.go\<close>), creates the Secrets that are missing, applies the objects
  that \<open>internal/manifests\<close> builds from the intent, keeps Routes in line (\<open>routes.go\<close>), and
  writes a status. \<open>cmd/main.go\<close> starts it. Everything but \<open>main\<close> is a function of the
  resource, the environment variables of the process, and the answers of the API server.

  Theories and what they model:

  Prelude: Go strings as byte lists (HasPrefix, Contains, TrimSpace, ToLower, decimal
  printing) and general lemmas. Kube_Types, Apme_Types: the structs of the Kubernetes API and
  of the resource as records, with the admission rules of the CRD for plugins.

  Go_Memory, Go_Types: memory as Go has it (cells, pointers, slices, maps); Go types in it and
  the contract of deep copies, locales \<open>go_type\<close> and \<open>deep_copier\<close>, kept by every form of type.
  Deep_Copy, Deep_Copy_Facts: the structs of the resource as they lie in memory, the methods of
  \<open>zz_generated.deepcopy.go\<close>, each an interpretation of \<open>deep_copier\<close>: the copy reads as the same
  record of Apme_Types and shares no cell with the original. It is this that lets the other
  theories treat a resource as a value.

  Sort_Slice, Resolve: \<open>From\<close> in the steps of its source, and \<open>resolvePlugins\<close> over a
  \<open>sort.Slice\<close> that is a parameter, of which locale \<open>slice_sort\<close> states the documented
  contract and an insertion sort is the instance. Plugin_Ports: its specification, ports and
  permutations. Resolve_Facts: the invariant \<open>resolved\<close> of intents.

  Labels, Containers, Manifests, Engine_Pod: the builders of \<open>internal/manifests\<close>, the
  checksum (FNV-1a on 64-bit words), and the wiring of the engine pod. The sidecars share
  the locale \<open>sidecar\<close>, an extension of the locale \<open>builder\<close> of the init containers; each is
  interpreted for every container.

  Base64, Net_Url: the parts of \<open>encoding/base64\<close> and \<open>net/url\<close> that
  \<open>internal/manifests/postgres\<close> relies on. Postgres, Postgres_Facts: certificates,
  credentials, the URL rewriting, and the managed database.

  Effects: Go errors, programs over the requests to the API server, the clock and the random
  source, and their executions. A program branches over every answer, so what holds of all
  executions holds whatever other clients and the API server do in between. Library: the
  functions of other packages as fields of a record \<open>lib\<close>, and an instance \<open>std_lib\<close> with
  their documented behaviour on which witnesses evaluate. Controller: the reconciler, method
  by method.

  Startup: \<open>cmd/main.go\<close>: command line, TLS options over slices with their backing arrays,
  steps and exit codes. Scheme: \<open>groupversion_info.go\<close> and the \<open>init\<close> functions, which register
  the types the manager needs, and the process as a whole.

  What is shown of the reconciler. Secrets: the contract \<open>get_or_create\<close> of the four
  \<open>ensure\<close> methods, a locale interpreted on each. Names: identities of the objects, distinct
  within an instance and between instances. Safety: every write is justified by what was read
  before. Pipeline, Guarantees: the objects a successful run applies, in order, and the stop
  at the first failed write; the Secrets the pod needs exist afterwards. Requests: every
  reconcile ends after at most 46 requests. Status, Reports: the conditions as a table, that
  reporting is idempotent, that Ready is earned, that image pull failures surface, and that
  an external database is left alone. Status_Memory: \<open>patchStatus\<close> over memory, where the status is
  built in place in deep copies; it refines the version on values, and the base of the patch is
  not changed under it. Routes_Facts: recreation, hosts and errors of Routes. Route_Convergence:
  two reconciles settle the Routes against a server that stores what it is sent.
  Tokens: strength of tokens and passwords, created Secrets are accepted later, database URLs
  that do not parse. Typed: kind, version and labels of every object. Steady: on a settled
  cluster a reconcile succeeds and touches no Secret. Witnesses: the claims at work on
  example resources.

  Correspondence. A definition has the name of its Go function; where a function is split, the
  parts are named after what they hold (\<open>NewTLSSecret\<close> into \<open>signCA\<close>, \<open>signServer\<close>,
  \<open>encodeTLSSecret\<close>; \<open>applyWorkload\<close> into \<open>loadCABundle\<close>, \<open>configChecksum\<close>,
  \<open>workloadObjects\<close>; \<open>patchStatus\<close> into \<open>newStatus\<close> and its tables). \<open>fail\<close> is \<open>fail_with\<close>,
  \<open>apply\<close> is \<open>apply_obj\<close>, \<open>set\<close> is \<open>set_cond\<close>. A returned error is \<open>Inl\<close>, or \<open>Some\<close> where only an error is
  returned. Integers are unbounded: the only arithmetic is on ports up to 50200, 32-bit counts
  that are copied, and times; the checksum is on words. Maps are association lists. Every
  loop is structural recursion except \<open>nextFreePort\<close> and two parsers, which have measures;
  no fuel is used.

  Assumptions. Quantities, the environment variables and \<open>MustParse\<close> are parameters of
  \<open>resolve_env\<close>. Theorems that need a law of the library name it: \<open>host_keeps_id\<close>,
  \<open>documented_conditions\<close>, \<open>nested_strings\<close>, \<open>sets_host\<close>, \<open>sets_owner\<close>, \<open>full_reads\<close>,
  \<open>route_world\<close>, \<open>documented_copies\<close> and \<open>documented_setter\<close> (the library's deep copies and
  \<open>SetStatusCondition\<close> over memory), \<open>reads_generation\<close>, \<open>documented_builder\<close>; each is shown of
  an example instance. Postgres certificates are the fields of the templates, the DER
  encodings are answers of \<open>x509.CreateCertificate\<close>. Hosts of URLs with brackets or
  several colons, which Go releases treat differently, are parsed by a parameter.

  Not modelled. Logging; the JSON that \<open>applyPatch\<close> sends for an object; the merge the API
  server performs on it and the work queue of controller-runtime; aliasing in functions other
  than the deep copies, \<open>patchStatus\<close> and the TLS options; tests; YAML.
\<close>

end
